(* ===== verification/Prelude.thy ===== *)
theory Prelude
  imports Main
begin

text \<open>
  What every theory of the development shares: the collections of rewrite rules, the
  Python string operations the program calls, decimal numbers as text, and the result
  type of the operations that can raise.

  A Python \<open>str\<close> is a HOL \<open>string\<close> whose characters are the code points 0 to 255
  (Latin-1).  Code points above 255 are outside the model: the classes below
  (\<open>str.isspace\<close>, \<open>str.isalnum\<close>, \<open>str.lower\<close>, the line boundaries of
  \<open>str.splitlines\<close>) agree with Python on every code point the model has, with the
  three characters whose upper case leaves the range (micro sign, sharp s, y with
  diaeresis) left unchanged by \<open>py_upper\<close>.
\<close>

named_theorems pystr \<open>rewrite rules for the Python string operations\<close>
named_theorems chars \<open>the character classes, unfolded to ranges of code points\<close>
named_theorems model_defs \<open>definitions of the model that the automation may unfold\<close>
named_theorems inv_intros \<open>preservation of the components' invariants\<close>

section \<open>Characters\<close>

abbreviation code :: "char \<Rightarrow> nat" where
  "code c \<equiv> of_char c"

definition newline :: char where
  "newline = CHR 0x0A"

definition is_space :: "char \<Rightarrow> bool" where
  "is_space c \<longleftrightarrow> (9 \<le> code c \<and> code c \<le> 13) \<or> (28 \<le> code c \<and> code c \<le> 32)
     \<or> code c = 133 \<or> code c = 160"

definition is_linebreak :: "char \<Rightarrow> bool" where
  "is_linebreak c \<longleftrightarrow> (10 \<le> code c \<and> code c \<le> 13) \<or> (28 \<le> code c \<and> code c \<le> 30)
     \<or> code c = 133"

definition is_digit :: "char \<Rightarrow> bool" where
  "is_digit c \<longleftrightarrow> 48 \<le> code c \<and> code c \<le> 57"

definition is_upper :: "char \<Rightarrow> bool" where
  "is_upper c \<longleftrightarrow> 65 \<le> code c \<and> code c \<le> 90"

definition is_lower :: "char \<Rightarrow> bool" where
  "is_lower c \<longleftrightarrow> 97 \<le> code c \<and> code c \<le> 122"

definition is_alpha :: "char \<Rightarrow> bool" where
  "is_alpha c \<longleftrightarrow> is_upper c \<or> is_lower c"

definition is_alnum :: "char \<Rightarrow> bool" where
  "is_alnum c \<longleftrightarrow> is_alpha c \<or> is_digit c"

definition is_hex :: "char \<Rightarrow> bool" where
  "is_hex c \<longleftrightarrow> is_digit c \<or> (65 \<le> code c \<and> code c \<le> 70) \<or> (97 \<le> code c \<and> code c \<le> 102)"

definition is_ascii :: "char \<Rightarrow> bool" where
  "is_ascii c \<longleftrightarrow> code c < 128"

text \<open>\<open>str.isalnum\<close> on one character: letters, decimals, digits and numerics of Latin-1.\<close>

definition uni_alpha :: "char \<Rightarrow> bool" where
  "uni_alpha c \<longleftrightarrow> is_alpha c \<or> code c = 170 \<or> code c = 181 \<or> code c = 186
     \<or> (192 \<le> code c \<and> code c \<noteq> 215 \<and> code c \<noteq> 247)"

definition uni_alnum :: "char \<Rightarrow> bool" where
  "uni_alnum c \<longleftrightarrow> uni_alpha c \<or> is_digit c \<or> code c = 178 \<or> code c = 179 \<or> code c = 185
     \<or> (188 \<le> code c \<and> code c \<le> 190)"

text \<open>The class \<open>\w\<close> of Python's \<open>re\<close> on \<open>str\<close> patterns.\<close>

definition is_word :: "char \<Rightarrow> bool" where
  "is_word c \<longleftrightarrow> uni_alnum c \<or> c = CHR ''_''"

definition lower_char :: "char \<Rightarrow> char" where
  "lower_char c = (if is_upper c \<or> (192 \<le> code c \<and> code c \<le> 222 \<and> code c \<noteq> 215)
                   then char_of (code c + 32) else c)"

definition upper_char :: "char \<Rightarrow> char" where
  "upper_char c = (if is_lower c \<or> (224 \<le> code c \<and> code c \<le> 254 \<and> code c \<noteq> 247)
                   then char_of (code c - 32) else c)"

lemmas char_class_defs [chars] =
  is_space_def is_linebreak_def is_digit_def is_upper_def is_lower_def is_alpha_def
  is_alnum_def is_hex_def is_ascii_def uni_alpha_def uni_alnum_def is_word_def newline_def

section \<open>Python string operations\<close>

definition lstrip :: "string \<Rightarrow> string" where
  "lstrip s = dropWhile is_space s"

definition rstrip :: "string \<Rightarrow> string" where
  "rstrip s = rev (dropWhile is_space (rev s))"

definition strip :: "string \<Rightarrow> string" where
  "strip s = rstrip (lstrip s)"

definition py_lower :: "string \<Rightarrow> string" where
  "py_lower s = map lower_char s"

definition py_upper :: "string \<Rightarrow> string" where
  "py_upper s = map upper_char s"

definition starts_with :: "string \<Rightarrow> string \<Rightarrow> bool" where
  "starts_with p s \<longleftrightarrow> take (length p) s = p"

definition ends_with :: "string \<Rightarrow> string \<Rightarrow> bool" where
  "ends_with p s \<longleftrightarrow> drop (length s - length p) s = p"

text \<open>\<open>needle in s\<close>.\<close>

fun contains :: "string \<Rightarrow> string \<Rightarrow> bool" where
  "contains p [] = (p = [])"
| "contains p (x # xs) = (starts_with p (x # xs) \<or> contains p xs)"

text \<open>\<open>s.split(c)\<close> for a one-character separator, and \<open>sep.join(parts)\<close>.\<close>

fun split_on :: "char \<Rightarrow> string \<Rightarrow> string list" where
  "split_on c [] = [[]]"
| "split_on c (x # xs) =
     (if x = c then [] # split_on c xs
      else case split_on c xs of [] \<Rightarrow> [[x]] | w # ws \<Rightarrow> (x # w) # ws)"

fun join :: "string \<Rightarrow> string list \<Rightarrow> string" where
  "join sep [] = []"
| "join sep [w] = w"
| "join sep (w # ws) = w @ sep @ join sep ws"

text \<open>\<open>s.splitlines()\<close>: every line boundary ends a line, a carriage return with a line
  feed behind it is one boundary, and text after the last boundary is a line only when it
  is not empty.\<close>

fun splitlines_from :: "string \<Rightarrow> string \<Rightarrow> string list" where
  "splitlines_from cur [] = (if cur = [] then [] else [rev cur])"
| "splitlines_from cur (x # xs) =
     (if is_linebreak x
      then rev cur # splitlines_from []
             (if x = CHR 0x0D \<and> xs \<noteq> [] \<and> hd xs = CHR 0x0A then tl xs else xs)
      else splitlines_from (x # cur) xs)"

definition splitlines :: "string \<Rightarrow> string list" where
  "splitlines s = splitlines_from [] s"

definition replace_char :: "char \<Rightarrow> string \<Rightarrow> string \<Rightarrow> string" where
  "replace_char c r s = concat (map (\<lambda>x. if x = c then r else [x]) s)"

definition count_char :: "char \<Rightarrow> string \<Rightarrow> nat" where
  "count_char c s = length (filter (\<lambda>x. x = c) s)"

text \<open>The first word of \<open>s.split(maxsplit=1)\<close>, for a string that is not blank.\<close>

definition first_word :: "string \<Rightarrow> string" where
  "first_word s = takeWhile (\<lambda>c. \<not> is_space c) (lstrip s)"

subsection \<open>Decimal numbers\<close>

definition digit_char :: "nat \<Rightarrow> char" where
  "digit_char d = char_of (48 + d)"

fun show_nat :: "nat \<Rightarrow> string" where
  "show_nat n = (if n < 10 then [digit_char n] else show_nat (n div 10) @ [digit_char (n mod 10)])"

declare show_nat.simps [simp del]

definition show_int :: "int \<Rightarrow> string" where
  "show_int i = (if i < 0 then CHR ''-'' # show_nat (nat (- i)) else show_nat (nat i))"

definition digits_val :: "string \<Rightarrow> nat" where
  "digits_val s = foldl (\<lambda>n c. 10 * n + (code c - 48)) 0 s"

text \<open>The digits of an \<open>int\<close> literal: at least one, single underscores between digits.\<close>

fun int_digits :: "string \<Rightarrow> string option" where
  "int_digits [] = None"
| "int_digits [c] = (if is_digit c then Some [c] else None)"
| "int_digits (c # d # cs) =
     (if \<not> is_digit c then None
      else if d = CHR ''_'' then map_option (Cons c) (int_digits cs)
      else map_option (Cons c) (int_digits (d # cs)))"

text \<open>
  \<open>int(s)\<close> for a string argument; \<open>None\<close> is the \<open>ValueError\<close>, which the interpreter
  also raises for literals of more than 4300 digits (its default conversion limit).
\<close>

definition int_limit :: nat where
  "int_limit = 4300"

definition parse_digits :: "string \<Rightarrow> nat option" where
  "parse_digits cs = (case int_digits cs of
      None \<Rightarrow> None
    | Some d \<Rightarrow> if length d \<le> int_limit then Some (digits_val d) else None)"

definition py_int :: "string \<Rightarrow> int option" where
  "py_int s = (case strip s of
      [] \<Rightarrow> None
    | c # cs \<Rightarrow>
        if c = CHR ''-'' then map_option (\<lambda>n. - int n) (parse_digits cs)
        else if c = CHR ''+'' then map_option int (parse_digits cs)
        else map_option int (parse_digits (c # cs)))"

text \<open>The same value as an \<open>int\<close>, which evaluates with binary numerals.\<close>

definition digits_int :: "string \<Rightarrow> int" where
  "digits_int s = foldl (\<lambda>n c. 10 * n + int (code c - 48)) 0 s"

lemma digits_int_val: "digits_int s = int (digits_val s)"
proof (induction s rule: rev_induct)
  case (snoc c s)
  then show ?case by (simp add: digits_int_def digits_val_def)
qed (simp add: digits_int_def digits_val_def)

definition parse_digits_int :: "string \<Rightarrow> int option" where
  "parse_digits_int cs = (case int_digits cs of
      None \<Rightarrow> None
    | Some d \<Rightarrow> if length d \<le> int_limit then Some (digits_int d) else None)"

lemma parse_digits_int: "map_option int (parse_digits cs) = parse_digits_int cs"
  by (auto simp: parse_digits_def parse_digits_int_def digits_int_val split: option.splits)

lemma py_int_code [code]:
  "py_int s = (case strip s of
      [] \<Rightarrow> None
    | c # cs \<Rightarrow>
        if c = CHR ''-'' then map_option uminus (parse_digits_int cs)
        else if c = CHR ''+'' then parse_digits_int cs
        else parse_digits_int (c # cs))"
  by (auto simp: py_int_def parse_digits_int [symmetric] option.map_comp comp_def split: list.splits)

subsection \<open>Lemmas on the string operations\<close>

lemma set_lstrip: "set (lstrip s) \<subseteq> set s"
  by (auto simp: lstrip_def dest: set_dropWhileD)

lemma set_rstrip: "set (rstrip s) \<subseteq> set s"
  by (auto simp: rstrip_def dest: set_dropWhileD)

lemma set_strip: "set (strip s) \<subseteq> set s"
  using set_lstrip set_rstrip by (fastforce simp: strip_def)

lemma rstrip_last: "rstrip s \<noteq> [] \<Longrightarrow> \<not> is_space (last (rstrip s))"
  by (simp add: rstrip_def last_rev hd_dropWhile)

lemma rstrip_append_drop: "\<exists>t. s = rstrip s @ t \<and> (\<forall>c\<in>set t. is_space c)"
proof -
  have "rev s = takeWhile is_space (rev s) @ dropWhile is_space (rev s)" by simp
  then have "s = rstrip s @ rev (takeWhile is_space (rev s))"
    unfolding rstrip_def by (metis rev_append rev_rev_ident)
  moreover have "\<forall>c\<in>set (rev (takeWhile is_space (rev s))). is_space c"
    by (auto dest: set_takeWhileD)
  ultimately show ?thesis by blast
qed

lemma rstrip_id: "s = [] \<or> \<not> is_space (last s) \<Longrightarrow> rstrip s = s"
  by (cases s rule: rev_cases) (auto simp: rstrip_def)

lemma lstrip_id: "s = [] \<or> \<not> is_space (hd s) \<Longrightarrow> lstrip s = s"
  by (cases s) (auto simp: lstrip_def)

lemma strip_hd: "strip s \<noteq> [] \<Longrightarrow> \<not> is_space (hd (strip s))"
proof -
  assume ne: "strip s \<noteq> []"
  obtain t where t: "lstrip s = strip s @ t"
    using rstrip_append_drop [of "lstrip s"] by (auto simp: strip_def)
  with ne have "hd (strip s) = hd (lstrip s)" "lstrip s \<noteq> []" by (auto simp: hd_append)
  then show ?thesis by (simp add: lstrip_def hd_dropWhile)
qed

lemma strip_last: "strip s \<noteq> [] \<Longrightarrow> \<not> is_space (last (strip s))"
  by (simp add: strip_def rstrip_last)

lemma strip_id: "s = [] \<or> (\<not> is_space (hd s) \<and> \<not> is_space (last s)) \<Longrightarrow> strip s = s"
  by (auto simp: strip_def lstrip_id rstrip_id)

lemma strip_idem [simp]: "strip (strip s) = strip s"
  by (rule strip_id) (use strip_hd strip_last in blast)

lemma strip_no_space: "\<forall>c\<in>set s. \<not> is_space c \<Longrightarrow> strip s = s"
  by (rule strip_id) (cases s; cases s rule: rev_cases; auto)

lemma starts_with_iff: "starts_with p s \<longleftrightarrow> (\<exists>t. s = p @ t)"
  by (auto simp: starts_with_def) (metis append_take_drop_id)

lemma contains_iff: "contains p s \<longleftrightarrow> (\<exists>a b. s = a @ p @ b)"
proof (induction s)
  case Nil
  then show ?case by auto
next
  case (Cons x xs)
  have "(\<exists>a b. x # xs = a @ p @ b) \<longleftrightarrow> (\<exists>b. x # xs = p @ b) \<or> (\<exists>a b. xs = a @ p @ b)"
    by (metis append_Cons append_Nil neq_Nil_conv list.inject)
  with Cons show ?case by (simp add: starts_with_iff)
qed

lemma split_on_ne [simp]: "split_on c s \<noteq> []"
  by (induction s) (auto split: list.splits)

lemma split_on_no_sep: "w \<in> set (split_on c s) \<Longrightarrow> c \<notin> set w"
  by (induction s arbitrary: w) (auto split: list.splits if_splits)

lemma split_on_set: "w \<in> set (split_on c s) \<Longrightarrow> set w \<subseteq> set s"
  by (induction s arbitrary: w) (fastforce split: list.splits if_splits)+

lemma join_Cons: "ws \<noteq> [] \<Longrightarrow> join sep (w # ws) = w @ sep @ join sep ws"
  by (cases ws) auto

lemma join_split_on: "join [c] (split_on c s) = s"
proof (induction s)
  case (Cons x xs)
  obtain w ws where "split_on c xs = w # ws" by (meson neq_Nil_conv split_on_ne)
  with Cons show ?case by (cases ws) auto
qed simp

lemma split_on_append_sep:
  "c \<notin> set w \<Longrightarrow> split_on c (w @ c # s) = w # split_on c s"
  by (induction w) auto

lemma split_on_none: "c \<notin> set w \<Longrightarrow> split_on c w = [w]"
  by (induction w) auto

lemma split_on_join:
  "ws \<noteq> [] \<Longrightarrow> \<forall>w\<in>set ws. c \<notin> set w \<Longrightarrow> split_on c (join [c] ws) = ws"
  by (induction "[c]" ws rule: join.induct) (auto simp: split_on_none split_on_append_sep)

lemma set_join: "set (join sep ws) \<subseteq> (\<Union>w\<in>set ws. set w) \<union> set sep"
  by (induction sep ws rule: join.induct) auto

lemma splitlines_from_no_break:
  "l \<in> set (splitlines_from cur s) \<Longrightarrow> \<forall>c\<in>set cur. \<not> is_linebreak c
     \<Longrightarrow> \<forall>c\<in>set l. \<not> is_linebreak c"
  by (induction cur s rule: splitlines_from.induct) (auto split: if_splits)

lemma splitlines_no_break: "l \<in> set (splitlines s) \<Longrightarrow> c \<in> set l \<Longrightarrow> \<not> is_linebreak c"
  using splitlines_from_no_break [of l "[]" s] by (simp add: splitlines_def)

lemma splitlines_from_set:
  "l \<in> set (splitlines_from cur s) \<Longrightarrow> set l \<subseteq> set cur \<union> set s"
  by (induction cur s rule: splitlines_from.induct)
     (auto split: if_splits dest: list.set_sel(2))

lemma splitlines_set: "l \<in> set (splitlines s) \<Longrightarrow> set l \<subseteq> set s"
  using splitlines_from_set [of l "[]" s] by (simp add: splitlines_def)

lemma replace_char_set: "set (replace_char c r s) \<subseteq> (set s - {c}) \<union> set r"
  by (auto simp: replace_char_def split: if_splits)

lemma replace_char_absent: "c \<notin> set s \<Longrightarrow> replace_char c r s = s"
  by (induction s) (auto simp: replace_char_def)

lemma is_space_digit_char: "d < 10 \<Longrightarrow> is_digit (digit_char d) \<and> \<not> is_space (digit_char d)"
  by (simp add: digit_char_def chars)

lemma code_digit_char: "d < 10 \<Longrightarrow> code (digit_char d) = 48 + d"
  by (simp add: digit_char_def)

lemma show_nat_ne [simp]: "show_nat n \<noteq> []"
  by (subst show_nat.simps) simp

lemma show_nat_digits: "c \<in> set (show_nat n) \<Longrightarrow> is_digit c"
proof (induction n rule: show_nat.induct)
  case (1 n)
  then show ?case
    by (subst (asm) show_nat.simps) (auto split: if_splits simp: is_space_digit_char)
qed

lemma digits_val_snoc: "digits_val (s @ [c]) = 10 * digits_val s + (code c - 48)"
  by (simp add: digits_val_def)

lemma digits_val_show_nat [simp]: "digits_val (show_nat n) = n"
proof (induction n rule: show_nat.induct)
  case (1 n)
  show ?case
  proof (cases "n < 10")
    case True
    then show ?thesis by (subst show_nat.simps) (simp add: digits_val_def code_digit_char)
  next
    case False
    with 1 show ?thesis
      by (subst show_nat.simps) (simp add: digits_val_snoc code_digit_char)
  qed
qed

lemma int_digits_all: "s \<noteq> [] \<Longrightarrow> \<forall>c\<in>set s. is_digit c \<Longrightarrow> int_digits s = Some s"
  by (induction s rule: int_digits.induct) (auto simp: is_digit_def)

lemma digit_not_space: "is_digit c \<Longrightarrow> \<not> is_space c"
  by (auto simp: chars)

lemma digit_facts: "is_digit c \<Longrightarrow> c \<noteq> CHR ''-'' \<and> c \<noteq> CHR ''+'' \<and> c \<noteq> CHR ''_''"
  by (auto simp: is_digit_def)

lemma parse_digits_all:
  "s \<noteq> [] \<Longrightarrow> \<forall>c\<in>set s. is_digit c \<Longrightarrow> length s \<le> int_limit
     \<Longrightarrow> parse_digits s = Some (digits_val s)"
  by (simp add: parse_digits_def int_digits_all)

lemma parse_digits_too_long:
  "s \<noteq> [] \<Longrightarrow> \<forall>c\<in>set s. is_digit c \<Longrightarrow> int_limit < length s \<Longrightarrow> parse_digits s = None"
  by (simp add: parse_digits_def int_digits_all)

lemma py_int_digits:
  assumes "s \<noteq> []" "\<forall>c\<in>set s. is_digit c"
  shows "py_int s = map_option int (parse_digits s)"
proof -
  have "strip s = s" using assms by (auto intro!: strip_no_space digit_not_space)
  moreover obtain c cs where "s = c # cs" using assms by (cases s) auto
  ultimately show ?thesis using assms digit_facts [of c] by (simp add: py_int_def)
qed

lemma py_int_digits_val:
  "s \<noteq> [] \<Longrightarrow> \<forall>c\<in>set s. is_digit c \<Longrightarrow> length s \<le> int_limit
     \<Longrightarrow> py_int s = Some (int (digits_val s))"
  by (simp add: py_int_digits parse_digits_all)

lemma digits_val_bound: "\<forall>c\<in>set s. is_digit c \<Longrightarrow> digits_val s < 10 ^ length s"
proof (induction s rule: rev_induct)
  case (snoc c s)
  then have "code c - 48 < 10" "digits_val s < 10 ^ length s" by (auto simp: is_digit_def)
  moreover have "digits_val (s @ [c]) = 10 * digits_val s + (code c - 48)"
    by (rule digits_val_snoc)
  ultimately have "digits_val (s @ [c]) < 10 * 10 ^ length s" by linarith
  then show ?case by simp
qed (simp add: digits_val_def)

lemma length_show_nat: "n < 10 ^ k \<Longrightarrow> 0 < k \<Longrightarrow> length (show_nat n) \<le> k"
proof (induction n arbitrary: k rule: show_nat.induct)
  case (1 n)
  show ?case
  proof (cases "n < 10")
    case True
    with 1 show ?thesis by (subst show_nat.simps) simp
  next
    case False
    with 1 obtain j where j: "k = Suc j" "0 < j" by (cases k; cases "k - 1") auto
    then have "n div 10 < 10 ^ j" using 1 by (simp add: less_mult_imp_div_less mult.commute)
    then have "length (show_nat (n div 10)) \<le> j" using 1 j False by simp
    with False j show ?thesis by (subst show_nat.simps) simp
  qed
qed

text \<open>Printing a number and reading it back is the identity, within the digit limit.\<close>

lemma py_int_show_nat: "length (show_nat n) \<le> int_limit \<Longrightarrow> py_int (show_nat n) = Some (int n)"
  by (simp add: py_int_digits_val show_nat_digits)

lemma py_int_show_int:
  assumes "length (show_nat (nat \<bar>i\<bar>)) \<le> int_limit"
  shows "py_int (show_int i) = Some i"
proof (cases "i < 0")
  case True
  have "\<not> is_space (CHR ''-'')" by (simp add: is_space_def)
  then have "strip (show_int i) = show_int i"
    using True digit_not_space show_nat_digits
    by (intro strip_no_space) (auto simp: show_int_def)
  with True assms show ?thesis
    by (simp add: py_int_def show_int_def parse_digits_all show_nat_digits)
next
  case False
  with assms show ?thesis by (simp add: show_int_def py_int_show_nat)
qed

lemma show_nat_inj: "show_nat a = show_nat b \<Longrightarrow> a = b"
  by (metis digits_val_show_nat)

lemma length_replace_char1: "length r = 1 \<Longrightarrow> length (replace_char c r s) = length s"
  by (induction s) (auto simp: replace_char_def)


section \<open>Operations that raise and change state\<close>

text \<open>
  An operation takes the state and gives a result, or the exception it raises, and the
  state it leaves: what was changed before the exception stays changed.
\<close>

datatype py_exn = ValueError | IndexError | KeyError | TypeError | AttributeError
  | FileNotFoundError | TimeoutExpired | OSError | SQLAlchemyError | IntegrityError | OverflowError | RuntimeError
  | JSONDecodeError | EncryptionNotConfigured | LLMError | HTTPError
  | BadRequest | Forbidden | NotFound

type_synonym ('s, 'a) op = "'s \<Rightarrow> (py_exn + 'a) \<times> 's"

definition ret :: "'a \<Rightarrow> ('s, 'a) op" where
  "ret x s = (Inr x, s)"

definition raise :: "py_exn \<Rightarrow> ('s, 'a) op" where
  "raise e s = (Inl e, s)"

definition bind :: "('s, 'a) op \<Rightarrow> ('a \<Rightarrow> ('s, 'b) op) \<Rightarrow> ('s, 'b) op" where
  "bind m f s = (case m s of (Inl e, s') \<Rightarrow> (Inl e, s') | (Inr x, s') \<Rightarrow> f x s')"

definition modify :: "('s \<Rightarrow> 's) \<Rightarrow> ('s, unit) op" where
  "modify f s = (Inr (), f s)"

definition fetch :: "('s \<Rightarrow> 'a) \<Rightarrow> ('s, 'a) op" where
  "fetch f s = (Inr (f s), s)"

text \<open>\<open>try: m except ...\<close>: the handler sees the exception and the state it was raised in.\<close>

definition catch :: "('s, 'a) op \<Rightarrow> (py_exn \<Rightarrow> ('s, 'a) op) \<Rightarrow> ('s, 'a) op" where
  "catch m h s = (case m s of (Inl e, s') \<Rightarrow> h e s' | (Inr x, s') \<Rightarrow> (Inr x, s'))"

fun run_all :: "('s, 'a) op list \<Rightarrow> ('s, 'a list) op" where
  "run_all [] = ret []"
| "run_all (m # ms) = bind m (\<lambda>x. bind (run_all ms) (\<lambda>xs. ret (x # xs)))"

fun iterate :: "('a \<Rightarrow> ('s, unit) op) \<Rightarrow> 'a list \<Rightarrow> ('s, unit) op" where
  "iterate f [] = ret ()"
| "iterate f (x # xs) = bind (f x) (\<lambda>_. iterate f xs)"

fun fold_op :: "('a \<Rightarrow> 'b \<Rightarrow> ('s, 'b) op) \<Rightarrow> 'a list \<Rightarrow> 'b \<Rightarrow> ('s, 'b) op" where
  "fold_op f [] acc = ret acc"
| "fold_op f (x # xs) acc = bind (f x acc) (\<lambda>acc'. fold_op f xs acc')"

lemmas op_defs = ret_def raise_def bind_def modify_def fetch_def catch_def

lemma ret_app [simp]: "ret x s = (Inr x, s)" "raise e s = (Inl e, s)"
  "modify f s = (Inr (), f s)" "fetch g s = (Inr (g s), s)"
  by (simp_all add: op_defs)

lemma bind_ret [simp]: "bind (ret x) f = f x" "bind (raise e) g = raise e"
  by (auto simp: op_defs)

lemma bind_Inr: "m s = (Inr x, s') \<Longrightarrow> bind m f s = f x s'"
  by (simp add: bind_def)

lemma bind_Inl: "m s = (Inl e, s') \<Longrightarrow> bind m f s = (Inl e, s')"
  by (simp add: bind_def)

lemma bind_assoc: "bind (bind m f) g = bind m (\<lambda>x. bind (f x) g)"
  by (rule ext) (auto simp: bind_def split: prod.splits sum.splits)

lemma bind_eq_Inr:
  "bind m f s = (Inr y, s'') \<longleftrightarrow> (\<exists>x s'. m s = (Inr x, s') \<and> f x s' = (Inr y, s''))"
  by (auto simp: bind_def split: prod.splits sum.splits)

text \<open>
  Computations that raise without touching a state: composition, and a loop that may skip
  its element (\<open>continue\<close>) or append to the result.
\<close>

definition rbind :: "py_exn + 'a \<Rightarrow> ('a \<Rightarrow> py_exn + 'b) \<Rightarrow> py_exn + 'b" where
  "rbind m f = (case m of Inl x \<Rightarrow> Inl x | Inr a \<Rightarrow> f a)"

fun collect :: "('a \<Rightarrow> py_exn + 'b option) \<Rightarrow> 'a list \<Rightarrow> py_exn + 'b list" where
  "collect f [] = Inr []"
| "collect f (x # xs) =
     rbind (f x) (\<lambda>y. rbind (collect f xs) (\<lambda>ys. Inr (case y of None \<Rightarrow> ys | Some z \<Rightarrow> z # ys)))"

definition lift :: "py_exn + 'a \<Rightarrow> ('s, 'a) op" where
  "lift r = (case r of Inl x \<Rightarrow> raise x | Inr a \<Rightarrow> ret a)"

lemma rbind_simps [simp]: "rbind (Inr a) f = f a" "rbind (Inl x) f = Inl x"
  by (simp_all add: rbind_def)

lemma rbind_eq_Inr: "rbind m f = Inr b \<longleftrightarrow> (\<exists>a. m = Inr a \<and> f a = Inr b)"
  by (cases m) auto

lemma lift_simps [simp]: "lift (Inr a) = ret a" "lift (Inl x) = raise x"
  by (simp_all add: lift_def)

lemma collect_eq_Inr:
  "collect f xs = Inr ys \<Longrightarrow> length ys \<le> length xs \<and> list_all (\<lambda>y. list_ex (\<lambda>x. f x = Inr (Some y)) xs) ys"
proof (induction xs arbitrary: ys)
  case (Cons x xs)
  then obtain y zs where f: "f x = Inr y" "collect f xs = Inr zs"
    "ys = (case y of None \<Rightarrow> zs | Some z \<Rightarrow> z # zs)"
    by (auto simp: rbind_eq_Inr)
  with Cons.IH [OF f(2)] show ?case by (auto simp: list_all_iff split: option.splits)
qed simp

lemma collect_raises: "collect f xs = Inl x \<Longrightarrow> list_ex (\<lambda>a. f a = Inl x) xs"
proof (induction xs)
  case (Cons a xs)
  then show ?case by (cases "f a"; cases "collect f xs") auto
qed simp

text \<open>
  \<open>moves R m\<close>: every run of \<open>m\<close>, an exception included, relates the state before to the
  state after by \<open>R\<close>.  For a reflexive and transitive \<open>R\<close> the compound operations move
  as their parts do.
\<close>

definition moves :: "('s \<Rightarrow> 's \<Rightarrow> bool) \<Rightarrow> ('s, 'a) op \<Rightarrow> bool" where
  "moves R m \<longleftrightarrow> (\<forall>s. R s (snd (m s)))"

lemma movesI: "(\<And>s. R s (snd (m s))) \<Longrightarrow> moves R m"
  by (simp add: moves_def)

lemma movesD: "moves R m \<Longrightarrow> m s = (r, s') \<Longrightarrow> R s s'"
  by (metis moves_def snd_conv)

lemma moves_ret: "reflp R \<Longrightarrow> moves R (ret x)" "reflp R \<Longrightarrow> moves R (raise e)"
  "reflp R \<Longrightarrow> moves R (fetch f)"
  by (simp_all add: moves_def reflpD)

lemma moves_bind:
  assumes "transp R" "moves R m" "\<And>x. moves R (f x)"
  shows "moves R (bind m f)"
proof (rule movesI)
  fix s
  obtain r s' where m: "m s = (r, s')" by (cases "m s")
  have "R s s'" using movesD [OF assms(2) m] .
  then show "R s (snd (bind m f s))"
    using m assms(1,3) by (cases r) (auto simp: bind_def moves_def elim: transpE)
qed

lemma moves_catch:
  assumes "transp R" "moves R m" "\<And>e. moves R (h e)"
  shows "moves R (catch m h)"
proof (rule movesI)
  fix s
  obtain r s' where m: "m s = (r, s')" by (cases "m s")
  have "R s s'" using movesD [OF assms(2) m] .
  then show "R s (snd (catch m h s))"
    using m assms(1,3) by (cases r) (auto simp: catch_def moves_def elim: transpE)
qed

lemma moves_iterate:
  "reflp R \<Longrightarrow> transp R \<Longrightarrow> (\<And>x. x \<in> set xs \<Longrightarrow> moves R (f x)) \<Longrightarrow> moves R (iterate f xs)"
  by (induction xs) (auto intro!: moves_bind moves_ret)

lemma moves_run_all:
  "reflp R \<Longrightarrow> transp R \<Longrightarrow> (\<And>m. m \<in> set ms \<Longrightarrow> moves R m) \<Longrightarrow> moves R (run_all ms)"
  by (induction ms) (auto intro!: moves_bind moves_ret)

lemma moves_fold_op:
  "reflp R \<Longrightarrow> transp R \<Longrightarrow> (\<And>x acc. x \<in> set xs \<Longrightarrow> moves R (f x acc)) \<Longrightarrow> moves R (fold_op f xs acc)"
  by (induction xs arbitrary: acc) (auto intro!: moves_bind moves_ret)

text \<open>Control structures move as their branches do.\<close>

lemma moves_if: "(b \<Longrightarrow> moves R m) \<Longrightarrow> (\<not> b \<Longrightarrow> moves R m') \<Longrightarrow> moves R (if b then m else m')"
  by simp

lemma moves_let: "moves R (f x) \<Longrightarrow> moves R (let y = x in f y)"
  by simp

lemma moves_option:
  "(x = None \<Longrightarrow> moves R m) \<Longrightarrow> (\<And>y. x = Some y \<Longrightarrow> moves R (f y))
     \<Longrightarrow> moves R (case x of None \<Rightarrow> m | Some y \<Rightarrow> f y)"
  by (cases x) auto

lemma moves_sum:
  "(\<And>y. x = Inl y \<Longrightarrow> moves R (f y)) \<Longrightarrow> (\<And>y. x = Inr y \<Longrightarrow> moves R (g y))
     \<Longrightarrow> moves R (case x of Inl y \<Rightarrow> f y | Inr y \<Rightarrow> g y)"
  by (cases x) auto

lemma moves_prod: "(\<And>a b. x = (a, b) \<Longrightarrow> moves R (f a b)) \<Longrightarrow> moves R (case x of (a, b) \<Rightarrow> f a b)"
  by (cases x) auto

lemmas moves_control = moves_if moves_let moves_option moves_sum moves_prod

text \<open>The exceptions an operation can raise.\<close>

definition raises_in :: "py_exn set \<Rightarrow> ('s, 'a) op \<Rightarrow> bool" where
  "raises_in X m \<longleftrightarrow> (\<forall>s x s'. m s = (Inl x, s') \<longrightarrow> x \<in> X)"

lemma raises_in_basic [simp]: "raises_in X (ret x)" "raises_in X (fetch f)" "raises_in X (modify g)"
  by (simp_all add: raises_in_def)

lemma raises_in_bind: "raises_in X m \<Longrightarrow> (\<And>x. raises_in X (f x)) \<Longrightarrow> raises_in X (bind m f)"
  by (fastforce simp: raises_in_def bind_def split: prod.splits sum.splits)

lemma raises_in_if: "raises_in X m \<Longrightarrow> raises_in X m' \<Longrightarrow> raises_in X (if b then m else m')"
  by simp

lemma raises_in_option: "raises_in X m \<Longrightarrow> (\<And>y. raises_in X (f y)) \<Longrightarrow> raises_in X (case x of None \<Rightarrow> m | Some y \<Rightarrow> f y)"
  by (cases x) auto

lemma raises_in_prod: "(\<And>a b. raises_in X (f a b)) \<Longrightarrow> raises_in X (case x of (a, b) \<Rightarrow> f a b)"
  by (cases x) auto

end
