(* ===== verification/PyRegex.thy ===== *)
theory PyRegex
  imports Prelude
begin

text \<open>
  The part of Python's \<open>re\<close> the program uses: a backtracking matcher over a small syntax
  of patterns.  A position is the text already read (reversed, for look-behind and word
  boundaries), the text still to read and the groups captured so far; running a pattern
  gives every position it can end in, in the order in which the backtracking engine tries
  them, so that the first element is the match Python reports.

  The lemmas say what a match consumes: a piece of the text whose characters all lie in
  the pattern's alphabet (for every pattern), and exactly a word of the pattern's language
  (for patterns without assertions).  \<open>anchored\<close> is the form \<open>^...$\<close> used with
  \<open>match\<close>; as in Python, \<open>$\<close> also accepts the position before a final line feed.
\<close>

section \<open>Patterns and positions\<close>

datatype rx =
    Eps
  | Cls "char \<Rightarrow> bool"
  | Cat rx rx
  | Alt rx rx
  | Star rx
  | Bos
  | Eos
  | WordB
  | NLook rx
  | Look rx
  | NBehind "char \<Rightarrow> bool"
  | Cap nat rx

type_synonym pos = "string \<times> string \<times> (nat \<times> string) list"

text \<open>Iterations of a star that read nothing are cut, so the rest of the text bounds them.\<close>

fun star_iter :: "(pos \<Rightarrow> pos list) \<Rightarrow> nat \<Rightarrow> pos \<Rightarrow> pos list" where
  "star_iter f 0 p = [p]"
| "star_iter f (Suc n) p =
     concat (map (\<lambda>q. if length (fst (snd q)) < length (fst (snd p))
                      then star_iter f n q else []) (f p)) @ [p]"

definition at_word_boundary :: "string \<Rightarrow> string \<Rightarrow> bool" where
  "at_word_boundary b s \<longleftrightarrow>
     (b \<noteq> [] \<and> is_word (hd b)) \<noteq> (s \<noteq> [] \<and> is_word (hd s))"

fun rx_run :: "rx \<Rightarrow> pos \<Rightarrow> pos list" where
  "rx_run Eps p = [p]"
| "rx_run (Cls P) (b, s, g) =
     (case s of [] \<Rightarrow> [] | c # cs \<Rightarrow> if P c then [(c # b, cs, g)] else [])"
| "rx_run (Cat r1 r2) p = concat (map (rx_run r2) (rx_run r1 p))"
| "rx_run (Alt r1 r2) p = rx_run r1 p @ rx_run r2 p"
| "rx_run (Star r) p = star_iter (\<lambda>q. rx_run r q) (length (fst (snd p))) p"
| "rx_run Bos (b, s, g) = (if b = [] then [(b, s, g)] else [])"
| "rx_run Eos (b, s, g) = (if s = [] \<or> s = [newline] then [(b, s, g)] else [])"
| "rx_run WordB (b, s, g) = (if at_word_boundary b s then [(b, s, g)] else [])"
| "rx_run (NLook r) p = (if rx_run r p = [] then [p] else [])"
| "rx_run (Look r) p = (if rx_run r p = [] then [] else [p])"
| "rx_run (NBehind P) (b, s, g) = (if b \<noteq> [] \<and> P (hd b) then [] else [(b, s, g)])"
| "rx_run (Cap i r) (b, s, g) =
     map (\<lambda>(b', s', g'). (b', s', (i, take (length s - length s') s) # g')) (rx_run r (b, s, g))"

lemma run_Cat: "q \<in> set (rx_run (Cat r1 r2) p) \<longleftrightarrow>
    (\<exists>m. m \<in> set (rx_run r1 p) \<and> q \<in> set (rx_run r2 m))"
  by auto

lemma run_Look: "q \<in> set (rx_run (Look r) p) \<longleftrightarrow> q = p \<and> rx_run (Look r) p \<noteq> []"
  by auto

lemma run_Bos: "q \<in> set (rx_run Bos p) \<longleftrightarrow> fst p = [] \<and> q = p"
  by (cases p) auto

subsection \<open>Derived forms\<close>

definition anychar :: rx where
  "anychar = Cls (\<lambda>c. c \<noteq> newline)"

definition lit_char :: "char \<Rightarrow> rx" where
  "lit_char c = Cls (\<lambda>x. x = c)"

definition lit_char_ci :: "char \<Rightarrow> rx" where
  "lit_char_ci c = Cls (\<lambda>x. lower_char x = lower_char c)"

fun lit :: "string \<Rightarrow> rx" where
  "lit [] = Eps"
| "lit (c # cs) = Cat (lit_char c) (lit cs)"

fun lit_ci :: "string \<Rightarrow> rx" where
  "lit_ci [] = Eps"
| "lit_ci (c # cs) = Cat (lit_char_ci c) (lit_ci cs)"

definition opt :: "rx \<Rightarrow> rx" where
  "opt r = Alt r Eps"

definition plus :: "rx \<Rightarrow> rx" where
  "plus r = Cat r (Star r)"

fun rep_exact :: "nat \<Rightarrow> rx \<Rightarrow> rx" where
  "rep_exact 0 r = Eps"
| "rep_exact (Suc n) r = Cat r (rep_exact n r)"

fun rep_upto :: "nat \<Rightarrow> rx \<Rightarrow> rx" where
  "rep_upto 0 r = Eps"
| "rep_upto (Suc n) r = Alt (Cat r (rep_upto n r)) Eps"

definition rep :: "nat \<Rightarrow> nat \<Rightarrow> rx \<Rightarrow> rx" where
  "rep m n r = Cat (rep_exact m r) (rep_upto (n - m) r)"

definition anchored :: "rx \<Rightarrow> rx" where
  "anchored r = Cat Bos (Cat r Eos)"

section \<open>Matching and searching\<close>

definition rx_match :: "rx \<Rightarrow> string \<Rightarrow> pos option" where
  "rx_match r s = (case rx_run r ([], s, []) of [] \<Rightarrow> None | p # _ \<Rightarrow> Some p)"

definition matches :: "rx \<Rightarrow> string \<Rightarrow> bool" where
  "matches r s \<longleftrightarrow> rx_run r ([], s, []) \<noteq> []"

fun rx_search_from :: "rx \<Rightarrow> string \<Rightarrow> string \<Rightarrow> pos option" where
  "rx_search_from r b [] = (case rx_run r (b, [], []) of [] \<Rightarrow> None | p # _ \<Rightarrow> Some p)"
| "rx_search_from r b (x # xs) =
     (case rx_run r (b, x # xs, []) of
        [] \<Rightarrow> rx_search_from r (x # b) xs
      | p # _ \<Rightarrow> Some p)"

definition rx_search :: "rx \<Rightarrow> string \<Rightarrow> pos option" where
  "rx_search r s = rx_search_from r [] s"

text \<open>The matches of \<open>finditer\<close>: after a match the search goes on behind it, one character
  further when the match was empty.\<close>

function rx_finditer :: "rx \<Rightarrow> string \<Rightarrow> string \<Rightarrow> pos list" where
  "rx_finditer r b s =
     (case rx_run r (b, s, []) of
        [] \<Rightarrow> (case s of [] \<Rightarrow> [] | x # xs \<Rightarrow> rx_finditer r (x # b) xs)
      | p # _ \<Rightarrow>
          p # (if length (fst (snd p)) < length s then rx_finditer r (fst p) (fst (snd p))
               else case s of [] \<Rightarrow> [] | x # xs \<Rightarrow> rx_finditer r (x # b) xs))"
  by pat_completeness auto
termination
  by (relation "measure (\<lambda>(r, b, s). length s)") auto

declare rx_finditer.simps [simp del]

definition group :: "nat \<Rightarrow> pos \<Rightarrow> string option" where
  "group i p = map_of (snd (snd p)) i"

section \<open>What a match consumes\<close>

fun rx_alpha :: "rx \<Rightarrow> char \<Rightarrow> bool" where
  "rx_alpha (Cls P) c = P c"
| "rx_alpha (Cat r1 r2) c = (rx_alpha r1 c \<or> rx_alpha r2 c)"
| "rx_alpha (Alt r1 r2) c = (rx_alpha r1 c \<or> rx_alpha r2 c)"
| "rx_alpha (Star r) c = rx_alpha r c"
| "rx_alpha (Cap i r) c = rx_alpha r c"
| "rx_alpha _ c = False"

text \<open>\<open>consumed P p q\<close>: from \<open>p\<close> to \<open>q\<close> the matcher read a text of \<open>P\<close> characters.\<close>

definition consumed :: "(char \<Rightarrow> bool) \<Rightarrow> pos \<Rightarrow> pos \<Rightarrow> bool" where
  "consumed P p q \<longleftrightarrow> (\<exists>w. fst (snd p) = w @ fst (snd q) \<and> fst q = rev w @ fst p
                           \<and> (\<forall>c\<in>set w. P c))"

lemma consumed_refl [simp]: "consumed P p p"
  by (auto simp: consumed_def)

lemma consumedI: "s = w @ s' \<Longrightarrow> \<forall>c\<in>set w. P c \<Longrightarrow> consumed P (b, s, g) (rev w @ b, s', g')"
  by (auto simp: consumed_def)

lemma consumedE:
  assumes "consumed P p q"
  obtains w where "fst (snd p) = w @ fst (snd q)" "fst q = rev w @ fst p" "\<forall>c\<in>set w. P c"
  using assms by (auto simp: consumed_def)

lemma consumed_trans:
  assumes "consumed P p q" "consumed P q t"
  shows "consumed P p t"
proof -
  obtain w where w: "fst (snd p) = w @ fst (snd q)" "fst q = rev w @ fst p" "\<forall>c\<in>set w. P c"
    using assms(1) by (rule consumedE)
  obtain v where v: "fst (snd q) = v @ fst (snd t)" "fst t = rev v @ fst q" "\<forall>c\<in>set v. P c"
    using assms(2) by (rule consumedE)
  have "fst (snd p) = (w @ v) @ fst (snd t) \<and> fst t = rev (w @ v) @ fst p
      \<and> (\<forall>c\<in>set (w @ v). P c)"
    using w v by auto
  then show ?thesis unfolding consumed_def by blast
qed

lemma consumed_mono: "consumed P p q \<Longrightarrow> (\<And>c. P c \<Longrightarrow> Q c) \<Longrightarrow> consumed Q p q"
  by (auto simp: consumed_def)

lemma star_iter_consumed:
  assumes "\<And>p q. q \<in> set (f p) \<Longrightarrow> consumed P p q"
  shows "q \<in> set (star_iter f n p) \<Longrightarrow> consumed P p q"
proof (induction n arbitrary: p)
  case (Suc n)
  consider "q = p" | m where "m \<in> set (f p)" "q \<in> set (star_iter f n m)"
    using Suc.prems by (auto split: if_splits)
  then show ?case
  proof cases
    case 2
    then show ?thesis using assms Suc.IH consumed_trans by blast
  qed simp
qed simp

lemma rx_run_consumed: "q \<in> set (rx_run r p) \<Longrightarrow> consumed (rx_alpha r) p q"
proof (induction r arbitrary: p q)
  case (Cls P)
  obtain b s g where "p = (b, s, g)" by (cases p)
  with Cls show ?case by (cases s) (auto simp: consumed_def split: if_splits)
next
  case (Cat r1 r2)
  then obtain m where "m \<in> set (rx_run r1 p)" "q \<in> set (rx_run r2 m)" by auto
  then have "consumed (rx_alpha (Cat r1 r2)) p m" "consumed (rx_alpha (Cat r1 r2)) m q"
    using Cat.IH consumed_mono by (metis rx_alpha.simps(2))+
  then show ?case by (rule consumed_trans)
next
  case (Alt r1 r2)
  from Alt.prems have "q \<in> set (rx_run r1 p) \<or> q \<in> set (rx_run r2 p)" by simp
  then have "consumed (rx_alpha r1) p q \<or> consumed (rx_alpha r2) p q" using Alt.IH by blast
  then show ?case by (auto elim: consumed_mono)
next
  case (Star r)
  have "rx_alpha (Star r) = rx_alpha r" by (rule ext) simp
  then show ?case
    using Star star_iter_consumed [where f = "rx_run r" and P = "rx_alpha r" and p = p and q = q] by simp
next
  case (Cap i r)
  obtain b s g where p: "p = (b, s, g)" by (cases p)
  with Cap.prems obtain b' s' g' where q: "q = (b', s', (i, take (length s - length s') s) # g')"
    and "(b', s', g') \<in> set (rx_run r (b, s, g))" by auto
  with Cap.IH have "consumed (rx_alpha r) (b, s, g) (b', s', g')" by blast
  then show ?case by (simp add: p q consumed_def)
next
  case Bos then show ?case by (cases p) (simp split: if_splits)
next
  case Eos then show ?case by (cases p) (simp split: if_splits)
next
  case WordB then show ?case by (cases p) (simp split: if_splits)
next
  case (NBehind P) then show ?case by (cases p) (simp split: if_splits)
qed (simp_all split: if_splits)

text \<open>
  The whole text of a match whose pattern ends in \<open>$\<close>, up to the final line feed, is in
  the pattern's alphabet.
\<close>

fun ends_eos :: "rx \<Rightarrow> bool" where
  "ends_eos Eos = True"
| "ends_eos (Cat r1 r2) = ends_eos r2"
| "ends_eos _ = False"

lemma ends_eos_rest:
  "ends_eos r \<Longrightarrow> q \<in> set (rx_run r p) \<Longrightarrow> fst (snd q) = [] \<or> fst (snd q) = [newline]"
proof (induction r arbitrary: p q)
  case Eos
  then show ?case by (cases p) (auto split: if_splits)
next
  case (Cat r1 r2)
  then obtain m where "q \<in> set (rx_run r2 m)" by auto
  with Cat show ?case by simp
qed auto

lemma matches_eos_alpha:
  assumes "ends_eos r" "matches r s"
  shows "\<exists>w. (s = w \<or> s = w @ [newline]) \<and> (\<forall>c\<in>set w. rx_alpha r c)"
proof -
  obtain q where q: "q \<in> set (rx_run r ([], s, []))"
    using assms(2) unfolding matches_def by (meson list.set_sel(1))
  obtain w where "s = w @ fst (snd q)" "\<forall>c\<in>set w. rx_alpha r c"
    using rx_run_consumed [OF q] by (auto elim!: consumedE)
  with ends_eos_rest [OF assms(1) q] show ?thesis by auto
qed

lemma matches_eos_chars:
  "ends_eos r \<Longrightarrow> matches r s \<Longrightarrow> c \<in> set s \<Longrightarrow> rx_alpha r c \<or> c = newline"
  using matches_eos_alpha [of r s] by auto

corollary matches_anchored_chars:
  "matches (anchored r) s \<Longrightarrow> c \<in> set s \<Longrightarrow> rx_alpha r c \<or> c = newline"
  using matches_eos_chars [of "anchored r" s c] by (auto simp: anchored_def)

section \<open>The language a pattern reads\<close>

text \<open>
  \<open>reads r L\<close>: wherever it is started, \<open>r\<close> can read exactly the words of \<open>L\<close>.  The
  operators of the pattern syntax are the operators on languages; a pattern without
  assertions reads \<open>rx_word\<close>, and a pattern with assertions can be shown to read a
  language of its own.
\<close>

definition reads :: "rx \<Rightarrow> (string \<Rightarrow> bool) \<Rightarrow> bool" where
  "reads r L \<longleftrightarrow>
     (\<forall>b s g q. q \<in> set (rx_run r (b, s, g)) \<longrightarrow>
        (\<exists>w g'. s = w @ fst (snd q) \<and> q = (rev w @ b, fst (snd q), g') \<and> L w)) \<and>
     (\<forall>w b s g. L w \<longrightarrow> (\<exists>g'. (rev w @ b, s, g') \<in> set (rx_run r (b, w @ s, g))))"

definition cat_of :: "(string \<Rightarrow> bool) \<Rightarrow> (string \<Rightarrow> bool) \<Rightarrow> string \<Rightarrow> bool" where
  "cat_of L M w \<longleftrightarrow> (\<exists>v u. w = v @ u \<and> L v \<and> M u)"

inductive star_of :: "(string \<Rightarrow> bool) \<Rightarrow> string \<Rightarrow> bool" for L where
  star_Nil: "star_of L []"
| star_Cons: "L v \<Longrightarrow> v \<noteq> [] \<Longrightarrow> star_of L w \<Longrightarrow> star_of L (v @ w)"

inductive_cases star_ofE: "star_of L w"

lemma star_of_split:
  assumes "star_of L w" "w \<noteq> []"
  shows "\<exists>v u. w = v @ u \<and> L v \<and> v \<noteq> [] \<and> star_of L u"
  using assms(1)
proof (rule star_ofE)
  assume "w = []" with assms(2) show ?thesis by simp
next
  fix v u assume "w = v @ u" "L v" "v \<noteq> []" "star_of L u"
  then show ?thesis by blast
qed

lemma readsI:
  assumes "\<And>b s g q. q \<in> set (rx_run r (b, s, g)) \<Longrightarrow>
      \<exists>w g'. s = w @ fst (snd q) \<and> q = (rev w @ b, fst (snd q), g') \<and> L w"
    and "\<And>w b s g. L w \<Longrightarrow> \<exists>g'. (rev w @ b, s, g') \<in> set (rx_run r (b, w @ s, g))"
  shows "reads r L"
  using assms by (simp add: reads_def)

lemma reads_sound:
  assumes "reads r L" "q \<in> set (rx_run r (b, s, g))"
  obtains w g' where "s = w @ fst (snd q)" "q = (rev w @ b, fst (snd q), g')" "L w"
  using assms unfolding reads_def by blast

lemma reads_complete:
  assumes "reads r L" "L w"
  obtains g' where "(rev w @ b, s, g') \<in> set (rx_run r (b, w @ s, g))"
  using assms unfolding reads_def by blast

lemma reads_cong: "reads r L \<Longrightarrow> (\<And>w. L w = M w) \<Longrightarrow> reads r M"
  by (simp add: reads_def)

lemma reads_Eps: "reads Eps (\<lambda>w. w = [])"
  by (rule readsI) auto

lemma reads_Cls: "reads (Cls P) (\<lambda>w. \<exists>c. w = [c] \<and> P c)"
proof (rule readsI)
  fix b s g q
  assume "q \<in> set (rx_run (Cls P) (b, s, g))"
  then show "\<exists>w g'. s = w @ fst (snd q) \<and> q = (rev w @ b, fst (snd q), g') \<and> (\<exists>c. w = [c] \<and> P c)"
    by (cases s) (auto split: if_splits)
qed auto

lemma reads_Cat:
  assumes "reads r1 L" "reads r2 M"
  shows "reads (Cat r1 r2) (cat_of L M)"
proof (rule readsI)
  fix b s g q
  assume "q \<in> set (rx_run (Cat r1 r2) (b, s, g))"
  then obtain m where m: "m \<in> set (rx_run r1 (b, s, g))" "q \<in> set (rx_run r2 m)" by auto
  obtain v g1 where v: "s = v @ fst (snd m)" "m = (rev v @ b, fst (snd m), g1)" "L v"
    using reads_sound [OF assms(1) m(1)] by blast
  have m2: "q \<in> set (rx_run r2 (rev v @ b, fst (snd m), g1))" using m(2) v(2) by metis
  obtain u g2 where u: "fst (snd m) = u @ fst (snd q)" "q = (rev u @ rev v @ b, fst (snd q), g2)" "M u"
    using reads_sound [OF assms(2) m2] by blast
  have "s = (v @ u) @ fst (snd q)" "q = (rev (v @ u) @ b, fst (snd q), g2)"
    using v(1) u(1,2) by simp_all
  moreover have "cat_of L M (v @ u)" using v(3) u(3) by (auto simp: cat_of_def)
  ultimately show "\<exists>w g'. s = w @ fst (snd q) \<and> q = (rev w @ b, fst (snd q), g') \<and> cat_of L M w"
    by blast
next
  fix w b s g
  assume "cat_of L M w"
  then obtain v u where w: "w = v @ u" "L v" "M u" by (auto simp: cat_of_def)
  obtain g1 where m: "(rev v @ b, u @ s, g1) \<in> set (rx_run r1 (b, v @ u @ s, g))"
    using reads_complete [OF assms(1) w(2)] by blast
  obtain g2 where "(rev u @ rev v @ b, s, g2) \<in> set (rx_run r2 (rev v @ b, u @ s, g1))"
    using reads_complete [OF assms(2) w(3)] by blast
  with m w(1) show "\<exists>g'. (rev w @ b, s, g') \<in> set (rx_run (Cat r1 r2) (b, w @ s, g))"
    by (auto intro!: exI bexI)
qed

lemma reads_Alt:
  assumes "reads r1 L" "reads r2 M"
  shows "reads (Alt r1 r2) (\<lambda>w. L w \<or> M w)"
proof (rule readsI)
  fix b s g q
  assume "q \<in> set (rx_run (Alt r1 r2) (b, s, g))"
  then have "q \<in> set (rx_run r1 (b, s, g)) \<or> q \<in> set (rx_run r2 (b, s, g))" by simp
  then show "\<exists>w g'. s = w @ fst (snd q) \<and> q = (rev w @ b, fst (snd q), g') \<and> (L w \<or> M w)"
    using reads_sound [OF assms(1)] reads_sound [OF assms(2)] by metis
next
  fix w b s g
  assume "L w \<or> M w"
  then have "(\<exists>g'. (rev w @ b, s, g') \<in> set (rx_run r1 (b, w @ s, g)))
           \<or> (\<exists>g'. (rev w @ b, s, g') \<in> set (rx_run r2 (b, w @ s, g)))"
    using assms unfolding reads_def by blast
  then show "\<exists>g'. (rev w @ b, s, g') \<in> set (rx_run (Alt r1 r2) (b, w @ s, g))" by auto
qed

lemma reads_Cap:
  assumes "reads r L"
  shows "reads (Cap i r) L"
proof (rule readsI)
  fix b s g q
  assume "q \<in> set (rx_run (Cap i r) (b, s, g))"
  then obtain b' s' g' where m: "(b', s', g') \<in> set (rx_run r (b, s, g))"
    and q: "q = (b', s', (i, take (length s - length s') s) # g')" by auto
  obtain w g1 where "s = w @ s'" "b' = rev w @ b" "L w"
    using reads_sound [OF assms m] by auto
  with q show "\<exists>w g'. s = w @ fst (snd q) \<and> q = (rev w @ b, fst (snd q), g') \<and> L w" by simp
next
  fix w b s g
  assume "L w"
  then obtain g' where "(rev w @ b, s, g') \<in> set (rx_run r (b, w @ s, g))"
    using reads_complete [OF assms] by blast
  then show "\<exists>g'. (rev w @ b, s, g') \<in> set (rx_run (Cap i r) (b, w @ s, g))"
    by (auto intro!: exI image_eqI [rotated])
qed

lemma star_iter_sound:
  assumes "reads r L"
  shows "q \<in> set (star_iter (rx_run r) n (b, s, g)) \<Longrightarrow>
      \<exists>w g'. s = w @ fst (snd q) \<and> q = (rev w @ b, fst (snd q), g') \<and> star_of L w"
proof (induction n arbitrary: b s g)
  case 0
  then show ?case by (auto intro: star_Nil)
next
  case (Suc n)
  consider "q = (b, s, g)"
    | m where "m \<in> set (rx_run r (b, s, g))" "length (fst (snd m)) < length s"
        "q \<in> set (star_iter (rx_run r) n m)"
    using Suc.prems by (auto split: if_splits)
  then show ?case
  proof cases
    case 1
    then show ?thesis by (auto intro: star_Nil)
  next
    case 2
    obtain v g1 where v: "s = v @ fst (snd m)" "m = (rev v @ b, fst (snd m), g1)" "L v"
      using reads_sound [OF assms 2(1)] by blast
    with 2(2) have "v \<noteq> []" by auto
    obtain w g2 where w: "fst (snd m) = w @ fst (snd q)"
      "q = (rev w @ rev v @ b, fst (snd q), g2)" "star_of L w"
      using Suc.IH [of "rev v @ b" "fst (snd m)" g1] 2(3) v(2) by auto
    have "star_of L (v @ w)" using v(3) \<open>v \<noteq> []\<close> w(3) by (rule star_Cons)
    moreover have "s = (v @ w) @ fst (snd q)" "q = (rev (v @ w) @ b, fst (snd q), g2)"
      using v(1) w(1,2) by simp_all
    ultimately show ?thesis by blast
  qed
qed

lemma star_iter_complete:
  assumes "reads r L"
  shows "star_of L w \<Longrightarrow> length w \<le> n \<Longrightarrow>
      \<exists>g'. (rev w @ b, s, g') \<in> set (star_iter (rx_run r) n (b, w @ s, g))"
proof (induction n arbitrary: w b g)
  case 0
  then show ?case by simp
next
  case (Suc n)
  show ?case
  proof (cases "w = []")
    case True
    then show ?thesis by auto
  next
    case False
    obtain v u where vu: "w = v @ u" "L v" "v \<noteq> []" "star_of L u"
      using star_of_split [OF Suc.prems(1) False] by blast
    obtain g1 where m: "(rev v @ b, u @ s, g1) \<in> set (rx_run r (b, v @ u @ s, g))"
      using reads_complete [OF assms vu(2)] by blast
    have "length u \<le> n" using Suc.prems(2) vu by (cases v) auto
    then obtain g2 where
      "(rev u @ rev v @ b, s, g2) \<in> set (star_iter (rx_run r) n (rev v @ b, u @ s, g1))"
      using Suc.IH [of u "rev v @ b" g1] vu by auto
    then have "(rev w @ b, s, g2) \<in> set (star_iter (rx_run r) (Suc n) (b, w @ s, g))"
      using m vu(1,3) by (auto intro!: bexI [OF _ m])
    then show ?thesis by blast
  qed
qed

lemma reads_Star: "reads r L \<Longrightarrow> reads (Star r) (star_of L)"
  by (rule readsI) (use star_iter_sound star_iter_complete in force)+

text \<open>Patterns without assertions.\<close>

fun plain :: "rx \<Rightarrow> bool" where
  "plain Eps = True"
| "plain (Cls P) = True"
| "plain (Cat r1 r2) = (plain r1 \<and> plain r2)"
| "plain (Alt r1 r2) = (plain r1 \<and> plain r2)"
| "plain (Star r) = plain r"
| "plain (Cap i r) = plain r"
| "plain _ = False"

fun rx_word :: "rx \<Rightarrow> string \<Rightarrow> bool" where
  "rx_word Eps = (\<lambda>w. w = [])"
| "rx_word (Cls P) = (\<lambda>w. \<exists>c. w = [c] \<and> P c)"
| "rx_word (Cat r1 r2) = cat_of (rx_word r1) (rx_word r2)"
| "rx_word (Alt r1 r2) = (\<lambda>w. rx_word r1 w \<or> rx_word r2 w)"
| "rx_word (Star r) = star_of (rx_word r)"
| "rx_word (Cap i r) = rx_word r"
| "rx_word _ = (\<lambda>w. False)"

declare rx_word.simps(3) [simp del]

theorem plain_reads: "plain r \<Longrightarrow> reads r (rx_word r)"
  by (induction r) (simp_all add: rx_word.simps(3) reads_Eps reads_Cls reads_Cat reads_Alt reads_Star reads_Cap)

text \<open>
  The meaning of the anchored form: the text, or the text without a final line feed, is a
  word the pattern reads.
\<close>

lemma matches_iff: "matches r s \<longleftrightarrow> (\<exists>q. q \<in> set (rx_run r ([], s, [])))"
  by (cases "rx_run r ([], s, [])") (auto simp: matches_def)

theorem matches_anchored_reads:
  assumes "reads r L"
  shows "matches (anchored r) s \<longleftrightarrow> L s \<or> (\<exists>w. s = w @ [newline] \<and> L w)"
proof
  assume "matches (anchored r) s"
  then obtain b s' g where m: "(b, s', g) \<in> set (rx_run r ([], s, []))"
    and e: "s' = [] \<or> s' = [newline]"
    by (auto simp: matches_iff anchored_def split: if_splits)
  obtain w where "s = w @ s'" "L w" using reads_sound [OF assms m] by auto
  with e show "L s \<or> (\<exists>w. s = w @ [newline] \<and> L w)" by auto
next
  assume "L s \<or> (\<exists>w. s = w @ [newline] \<and> L w)"
  then obtain w s' where w: "s = w @ s'" "s' = [] \<or> s' = [newline]" "L w" by auto
  obtain g where "(rev w @ [], s', g) \<in> set (rx_run r ([], w @ s', []))"
    using reads_complete [OF assms w(3)] by blast
  moreover have "(rev w @ [], s', g) \<in> set (rx_run Eos (rev w @ [], s', g))" using w(2) by auto
  ultimately have "\<exists>m\<in>set (rx_run r ([], s, [])). \<exists>q. q \<in> set (rx_run Eos m)"
    using w(1) by blast
  then show "matches (anchored r) s"
    by (simp add: matches_iff anchored_def) blast
qed

lemmas matches_anchored_iff = matches_anchored_reads [OF plain_reads]

section \<open>Languages of the common shapes\<close>

named_theorems rx_words \<open>the languages of the derived patterns\<close>

lemma plain_shapes [simp]:
  "plain (lit s)" "plain (lit_ci s)" "plain (lit_char c)" "plain (lit_char_ci c)" "plain anychar"
  by (induction s) (auto simp: lit_char_def lit_char_ci_def anychar_def)

lemma plain_opt [simp]: "plain (opt r) = plain r" "plain (plus r) = plain r"
  by (auto simp: opt_def plus_def)

lemma plain_rep [simp]: "plain r \<Longrightarrow> plain (rep_exact n r)" "plain r \<Longrightarrow> plain (rep_upto n r)"
  "plain r \<Longrightarrow> plain (rep m n r)"
proof -
  show e: "plain (rep_exact n r)" if "plain r" for n using that by (induction n) auto
  show u: "plain (rep_upto n r)" if "plain r" for n using that by (induction n) auto
  show "plain (rep m n r)" if "plain r" using e u that by (simp add: rep_def)
qed

lemma rx_word_Cat: "rx_word (Cat r1 r2) w \<longleftrightarrow> (\<exists>v u. w = v @ u \<and> rx_word r1 v \<and> rx_word r2 u)"
  by (simp add: rx_word.simps(3) cat_of_def)

lemma rx_word_Cat_Cls: "rx_word (Cat (Cls P) r) w \<longleftrightarrow> (\<exists>c v. w = c # v \<and> P c \<and> rx_word r v)"
  by (auto simp: rx_word_Cat) (metis append_Cons append_Nil)

lemma star_of_alpha: "star_of L w \<Longrightarrow> (\<And>v c. L v \<Longrightarrow> c \<in> set v \<Longrightarrow> P c) \<Longrightarrow> c \<in> set w \<Longrightarrow> P c"
  by (induction rule: star_of.induct) auto

lemma rx_word_alpha: "rx_word r w \<Longrightarrow> c \<in> set w \<Longrightarrow> rx_alpha r c"
proof (induction r arbitrary: w c)
  case (Star r)
  then show ?case using star_of_alpha [of "rx_word r" w "rx_alpha r" c] by simp
qed (auto simp: rx_word_Cat)

lemma rx_word_lit [rx_words]: "rx_word (lit s) w \<longleftrightarrow> w = s"
  by (induction s arbitrary: w) (auto simp: rx_word_Cat lit_char_def)

lemma rx_word_lit_char [rx_words]: "rx_word (lit_char c) w \<longleftrightarrow> w = [c]"
  by (auto simp: lit_char_def)

lemma rx_word_opt [rx_words]: "rx_word (opt r) w \<longleftrightarrow> rx_word r w \<or> w = []"
  by (auto simp: opt_def)

lemma star_of_ClsI: "\<forall>c\<in>set w. P c \<Longrightarrow> star_of (\<lambda>w. \<exists>c. w = [c] \<and> P c) w"
proof (induction w)
  case (Cons c w)
  then show ?case
    using star_Cons [of "\<lambda>w. \<exists>c. w = [c] \<and> P c" "[c]" w] by simp
qed (simp add: star_Nil)

lemma star_of_Cls [simp]: "star_of (\<lambda>w. \<exists>c. w = [c] \<and> P c) w \<longleftrightarrow> (\<forall>c\<in>set w. P c)"
proof
  assume "star_of (\<lambda>w. \<exists>c. w = [c] \<and> P c) w"
  then show "\<forall>c\<in>set w. P c" by (induction rule: star_of.induct) auto
qed (rule star_of_ClsI)

lemma rx_word_plus_Cls [rx_words]:
  "rx_word (plus (Cls P)) w \<longleftrightarrow> w \<noteq> [] \<and> (\<forall>c\<in>set w. P c)"
  by (cases w) (auto simp: plus_def rx_word_Cat_Cls rx_words)

lemma rx_word_rep_exact [rx_words]:
  "rx_word (rep_exact n (Cls P)) w \<longleftrightarrow> length w = n \<and> (\<forall>c\<in>set w. P c)"
proof (induction n arbitrary: w)
  case (Suc n)
  then show ?case by (cases w) (auto simp: rx_word_Cat_Cls)
qed auto

lemma rx_word_rep_upto [rx_words]:
  "rx_word (rep_upto n (Cls P)) w \<longleftrightarrow> length w \<le> n \<and> (\<forall>c\<in>set w. P c)"
proof (induction n arbitrary: w)
  case (Suc n)
  then show ?case by (cases w) (auto simp: rx_word_Cat_Cls)
qed auto

lemma rx_word_rep [rx_words]:
  assumes "m \<le> n"
  shows "rx_word (rep m n (Cls P)) w \<longleftrightarrow> m \<le> length w \<and> length w \<le> n \<and> (\<forall>c\<in>set w. P c)"
proof
  assume "rx_word (rep m n (Cls P)) w"
  then show "m \<le> length w \<and> length w \<le> n \<and> (\<forall>c\<in>set w. P c)"
    using assms by (auto simp: rep_def rx_word_Cat rx_words)
next
  assume w: "m \<le> length w \<and> length w \<le> n \<and> (\<forall>c\<in>set w. P c)"
  then have "rx_word (rep_exact m (Cls P)) (take m w)" "rx_word (rep_upto (n - m) (Cls P)) (drop m w)"
    by (auto simp: rx_words dest: in_set_takeD in_set_dropD)
  then have "rx_word (rep m n (Cls P)) (take m w @ drop m w)"
    unfolding rep_def rx_word_Cat by blast
  then show "rx_word (rep m n (Cls P)) w" by simp
qed

lemma rx_alpha_shapes [simp]:
  "rx_alpha (lit s) c \<longleftrightarrow> c \<in> set s"
  "rx_alpha (lit_char d) c \<longleftrightarrow> c = d"
  "rx_alpha (opt r) c \<longleftrightarrow> rx_alpha r c"
  "rx_alpha (plus r) c \<longleftrightarrow> rx_alpha r c"
  by (induction s) (auto simp: lit_char_def opt_def plus_def)

lemma rx_alpha_rep: "rx_alpha (rep_exact n r) c \<Longrightarrow> rx_alpha r c"
  "rx_alpha (rep_upto n r) c \<Longrightarrow> rx_alpha r c"
  by (induction n) auto

lemma rx_alpha_repD [dest]: "rx_alpha (rep m n r) c \<Longrightarrow> rx_alpha r c"
  by (auto simp: rep_def dest: rx_alpha_rep)

section \<open>What the groups hold\<close>

text \<open>A text some run of the pattern reads, and the texts its group \<open>i\<close> can hold.\<close>

definition rx_text :: "rx \<Rightarrow> string \<Rightarrow> bool" where
  "rx_text r t \<longleftrightarrow> (\<exists>b g b' s' g'. (b', s', g') \<in> set (rx_run r (b, t @ s', g)))"

fun cap_text :: "rx \<Rightarrow> nat \<Rightarrow> string \<Rightarrow> bool" where
  "cap_text (Cat r1 r2) i t = (cap_text r1 i t \<or> cap_text r2 i t)"
| "cap_text (Alt r1 r2) i t = (cap_text r1 i t \<or> cap_text r2 i t)"
| "cap_text (Star r) i t = cap_text r i t"
| "cap_text (Cap j r) i t = (i = j \<and> rx_text r t \<or> cap_text r i t)"
| "cap_text _ i t = False"

fun sure_cap :: "rx \<Rightarrow> nat \<Rightarrow> bool" where
  "sure_cap (Cat r1 r2) i = (sure_cap r1 i \<or> sure_cap r2 i)"
| "sure_cap (Alt r1 r2) i = (sure_cap r1 i \<and> sure_cap r2 i)"
| "sure_cap (Cap j r) i = (i = j \<or> sure_cap r i)"
| "sure_cap _ i = False"

abbreviation groups :: "pos \<Rightarrow> (nat \<times> string) list" where
  "groups p \<equiv> snd (snd p)"

lemma rx_text_word: "plain r \<Longrightarrow> rx_text r t \<Longrightarrow> rx_word r t"
  using plain_reads [of r] unfolding rx_text_def by (fastforce elim: reads_sound)

lemma rx_run_textI:
  assumes "(b', s', g') \<in> set (rx_run r (b, s, g))"
  shows "rx_text r (take (length s - length s') s)"
proof -
  obtain w where s: "s = w @ s'" using rx_run_consumed [OF assms] by (auto elim: consumedE)
  then have "(b', s', g') \<in> set (rx_run r (b, w @ s', g))" using assms by simp
  then have "rx_text r w" unfolding rx_text_def by blast
  with s show ?thesis by simp
qed

lemma star_iter_groups:
  assumes "\<And>p q. q \<in> set (f p) \<Longrightarrow> set (groups p) \<subseteq> set (groups q) \<and> set (groups q) \<subseteq> set (groups p) \<union> G"
  shows "q \<in> set (star_iter f n p) \<Longrightarrow>
    set (groups p) \<subseteq> set (groups q) \<and> set (groups q) \<subseteq> set (groups p) \<union> G"
proof (induction n arbitrary: p)
  case (Suc n)
  consider "q = p" | m where "m \<in> set (f p)" "q \<in> set (star_iter f n m)"
    using Suc.prems by (auto split: if_splits)
  then show ?case
  proof cases
    case 2
    then show ?thesis using assms [of m p] Suc.IH [of m] by blast
  qed simp
qed simp

lemma rx_run_groups:
  "q \<in> set (rx_run r p) \<Longrightarrow> set (groups p) \<subseteq> set (groups q) \<and>
     set (groups q) \<subseteq> set (groups p) \<union> {(i, t). cap_text r i t}"
proof (induction r arbitrary: p q)
  case (Cat r1 r2)
  then obtain m where "m \<in> set (rx_run r1 p)" "q \<in> set (rx_run r2 m)" by auto
  with Cat.IH(1) [of m p] Cat.IH(2) [of q m] show ?case by auto
next
  case (Alt r1 r2)
  then have "q \<in> set (rx_run r1 p) \<or> q \<in> set (rx_run r2 p)" by simp
  with Alt.IH(1) [of q p] Alt.IH(2) [of q p] show ?case by auto
next
  case (Star r)
  have "{(i, t). cap_text (Star r) i t} = {(i, t). cap_text r i t}" by simp
  with Star star_iter_groups [of "rx_run r" "{(i, t). cap_text r i t}" q] show ?case by simp
next
  case (Cap j r)
  obtain b s g where p: "p = (b, s, g)" by (cases p)
  with Cap.prems obtain b' s' g' where q: "q = (b', s', (j, take (length s - length s') s) # g')"
    and m: "(b', s', g') \<in> set (rx_run r (b, s, g))" by auto
  from Cap.IH [OF m] rx_run_textI [OF m] show ?case by (auto simp: p q)
next
  case (Cls P)
  obtain b s g where "p = (b, s, g)" by (cases p)
  with Cls show ?case by (cases s) (auto split: if_splits)
next
  case Bos then show ?case by (cases p) (simp split: if_splits)
next
  case Eos then show ?case by (cases p) (simp split: if_splits)
next
  case WordB then show ?case by (cases p) (simp split: if_splits)
next
  case (NBehind P) then show ?case by (cases p) (simp split: if_splits)
qed (simp_all split: if_splits)

lemma rx_run_sure_cap: "q \<in> set (rx_run r p) \<Longrightarrow> sure_cap r i \<Longrightarrow> i \<in> fst ` set (groups q)"
proof (induction r arbitrary: p q)
  case (Cat r1 r2)
  then obtain m where m: "m \<in> set (rx_run r1 p)" "q \<in> set (rx_run r2 m)" by auto
  have "i \<in> fst ` set (groups m) \<or> i \<in> fst ` set (groups q)"
    using Cat.prems(2) Cat.IH(1) [OF m(1)] Cat.IH(2) [OF m(2)] by auto
  with rx_run_groups [OF m(2)] show ?case by blast
next
  case (Cap j r)
  obtain b s g where p: "p = (b, s, g)" by (cases p)
  with Cap.prems obtain b' s' g' where q: "q = (b', s', (j, take (length s - length s') s) # g')"
    and m: "(b', s', g') \<in> set (rx_run r (b, s, g))" by auto
  with Cap show ?case by auto
qed auto

text \<open>What a group of a pattern holds when every match sets it.\<close>

lemma run_group_text:
  assumes "q \<in> set (rx_run r (b, s, []))" "sure_cap r i"
  obtains t where "group i q = Some t" "cap_text r i t"
proof -
  obtain t where t: "group i q = Some t"
    using rx_run_sure_cap [OF assms] by (cases "group i q") (auto simp: group_def map_of_eq_None_iff)
  then have "(i, t) \<in> set (groups q)" by (auto simp: group_def dest: map_of_SomeD)
  with rx_run_groups [OF assms(1)] have "cap_text r i t" by auto
  with t that show thesis by blast
qed

lemma finditer_run: "q \<in> set (rx_finditer r b s) \<Longrightarrow> \<exists>b' s'. q \<in> set (rx_run r (b', s', []))"
proof (induction r b s rule: rx_finditer.induct)
  case (1 r b s)
  show ?case
  proof (cases "rx_run r (b, s, [])")
    case Nil
    with 1 show ?thesis by (subst (asm) rx_finditer.simps) (auto split: list.splits)
  next
    case (Cons p ps)
    then have p: "p \<in> set (rx_run r (b, s, []))" by simp
    show ?thesis
    proof (cases "q = p")
      case True with p show ?thesis by blast
    next
      case False
      have "q \<in> set (if length (fst (snd p)) < length s then rx_finditer r (fst p) (fst (snd p))
               else case s of [] \<Rightarrow> [] | x # xs \<Rightarrow> rx_finditer r (x # b) xs)"
        using 1(4) False Cons by (subst (asm) rx_finditer.simps) simp
      then show ?thesis using 1(2) [OF Cons] 1(3) [OF Cons] by (auto split: if_splits list.splits)
    qed
  qed
qed

lemma finditer_group:
  assumes "q \<in> set (rx_finditer r b s)" "sure_cap r i"
  obtains t where "group i q = Some t" "cap_text r i t"
  using finditer_run [OF assms(1)] run_group_text assms(2) by metis

lemma match_group:
  assumes "rx_match r s = Some q" "sure_cap r i"
  obtains t where "group i q = Some t" "cap_text r i t"
proof -
  have "q \<in> set (rx_run r ([], s, []))" using assms(1) by (auto simp: rx_match_def split: list.splits)
  then show thesis using run_group_text assms(2) that by blast
qed

end
