(* ===== verification/PyJson.thy ===== *)
theory PyJson
  imports Prelude "HOL-Library.AList"
begin

text \<open>
  JSON documents as the program holds them after \<open>json.loads\<close>: a Python object of
  strings, numbers, booleans, \<open>None\<close>, lists and dictionaries in insertion order.  A float
  is kept as its \<open>repr\<close> text.  The operations are the ones the program applies to such
  values: \<open>dict.get\<close>, truth value, \<open>str\<close>, \<open>isinstance\<close>.  Parsing text to a document
  is left to the theories that need it, as an argument.
\<close>

datatype json =
    JNull
  | JBool bool
  | JInt int
  | JFloat string
  | JStr string
  | JList "json list"
  | JObj "(string \<times> json) list"

text \<open>\<open>d.get(k)\<close> and \<open>d.get(k, default)\<close> on the items of a dictionary.\<close>

definition jget :: "string \<Rightarrow> (string \<times> json) list \<Rightarrow> json option" where
  "jget k d = map_of d k"

definition jget_default :: "string \<Rightarrow> json \<Rightarrow> (string \<times> json) list \<Rightarrow> json" where
  "jget_default k v d = (case map_of d k of None \<Rightarrow> v | Some x \<Rightarrow> x)"

fun jtruthy :: "json \<Rightarrow> bool" where
  "jtruthy JNull = False"
| "jtruthy (JBool b) = b"
| "jtruthy (JInt i) = (i \<noteq> 0)"
| "jtruthy (JFloat r) = (r \<noteq> ''0.0'' \<and> r \<noteq> ''-0.0'')"
| "jtruthy (JStr s) = (s \<noteq> [])"
| "jtruthy (JList xs) = (xs \<noteq> [])"
| "jtruthy (JObj d) = (d \<noteq> [])"

text \<open>\<open>x or y\<close>.\<close>

definition jor :: "json \<Rightarrow> json \<Rightarrow> json" where
  "jor x y = (if jtruthy x then x else y)"

fun jdict :: "json \<Rightarrow> (string \<times> json) list option" where
  "jdict (JObj d) = Some d"
| "jdict _ = None"

fun jlist :: "json \<Rightarrow> json list option" where
  "jlist (JList xs) = Some xs"
| "jlist _ = None"

fun jstring :: "json \<Rightarrow> string option" where
  "jstring (JStr s) = Some s"
| "jstring _ = None"

text \<open>Lists and dictionaries cannot be hashed: looking one up in a set or a dict raises.\<close>

fun jhashable :: "json \<Rightarrow> bool" where
  "jhashable (JList _) = False"
| "jhashable (JObj _) = False"
| "jhashable _ = True"

section \<open>Text of a value\<close>

definition hex_char :: "nat \<Rightarrow> char" where
  "hex_char d = (if d < 10 then char_of (48 + d) else char_of (87 + d))"

definition hex2 :: "nat \<Rightarrow> string" where
  "hex2 n = [hex_char (n div 16), hex_char (n mod 16)]"

definition repr_quote :: "string \<Rightarrow> char" where
  "repr_quote s = (if CHR 0x27 \<in> set s \<and> CHR 0x22 \<notin> set s then CHR 0x22 else CHR 0x27)"

definition repr_char :: "char \<Rightarrow> char \<Rightarrow> string" where
  "repr_char q c =
     (if c = q \<or> c = CHR 0x5C then [CHR 0x5C, c]
      else if c = CHR 0x0A then [CHR 0x5C, CHR ''n'']
      else if c = CHR 0x0D then [CHR 0x5C, CHR ''r'']
      else if c = CHR 0x09 then [CHR 0x5C, CHR ''t'']
      else if code c < 32 \<or> (127 \<le> code c \<and> code c \<le> 160) \<or> code c = 173
           then [CHR 0x5C, CHR ''x''] @ hex2 (code c)
      else [c])"

definition repr_str :: "string \<Rightarrow> string" where
  "repr_str s = (let q = repr_quote s in [q] @ concat (map (repr_char q) s) @ [q])"

fun py_repr :: "json \<Rightarrow> string" where
  "py_repr JNull = ''None''"
| "py_repr (JBool b) = (if b then ''True'' else ''False'')"
| "py_repr (JInt i) = show_int i"
| "py_repr (JFloat r) = r"
| "py_repr (JStr s) = repr_str s"
| "py_repr (JList xs) = ''['' @ join '', '' (map py_repr xs) @ '']''"
| "py_repr (JObj d) =
     ''{'' @ join '', '' (map (\<lambda>(k, v). repr_str k @ '': '' @ py_repr v) d) @ ''}''"

fun py_str :: "json \<Rightarrow> string" where
  "py_str (JStr s) = s"
| "py_str j = py_repr j"

text \<open>\<open>int(x)\<close> of a JSON value: \<open>None\<close> is the exception.\<close>

definition float_trunc :: "string \<Rightarrow> int option" where
  "float_trunc r =
     (let neg = (r \<noteq> [] \<and> hd r = CHR ''-''); body = (if neg then tl r else r);
          mant = takeWhile (\<lambda>c. c \<noteq> CHR ''e'') body; ex = drop 1 (dropWhile (\<lambda>c. c \<noteq> CHR ''e'') body);
          whole = takeWhile is_digit mant; frac = drop 1 (dropWhile is_digit mant);
          shift = (case py_int ex of None \<Rightarrow> 0 | Some i \<Rightarrow> i);
          digits = (if 0 \<le> shift
                    then whole @ take (nat shift) frac @ replicate (nat shift - length frac) (CHR ''0'')
                    else take (length whole - nat (- shift)) whole)
      in if whole = [] then None
         else Some (if neg then - digits_int digits else digits_int digits))"

fun json_int :: "json \<Rightarrow> int option" where
  "json_int (JInt i) = Some i"
| "json_int (JBool b) = Some (if b then 1 else 0)"
| "json_int (JStr s) = py_int s"
| "json_int (JFloat r) = float_trunc r"
| "json_int _ = None"

text \<open>\<open>for x in v\<close>: the items, the keys of a dictionary, the characters of a text.\<close>

fun json_iter :: "json \<Rightarrow> py_exn + json list" where
  "json_iter (JList xs) = Inr xs"
| "json_iter (JObj d) = Inr (map (\<lambda>p. JStr (fst p)) d)"
| "json_iter (JStr s) = Inr (map (\<lambda>c. JStr [c]) s)"
| "json_iter _ = Inl TypeError"

text \<open>\<open>v in S\<close> for a set of texts: lists and dictionaries cannot be hashed.\<close>

fun json_in :: "string list \<Rightarrow> json \<Rightarrow> py_exn + bool" where
  "json_in S (JStr s) = Inr (s \<in> set S)"
| "json_in S (JList xs) = Inl TypeError"
| "json_in S (JObj d) = Inl TypeError"
| "json_in S _ = Inr False"

section \<open>Text and bytes\<close>

text \<open>UTF-8 on the code points of the model: one byte below 128, two above.\<close>

definition utf8_size :: "char \<Rightarrow> nat" where
  "utf8_size c = (if is_ascii c then 1 else 2)"

definition utf8_length :: "string \<Rightarrow> nat" where
  "utf8_length s = sum_list (map utf8_size s)"

definition utf8_char :: "char \<Rightarrow> string" where
  "utf8_char c = (if is_ascii c then [c] else [char_of (192 + code c div 64), char_of (128 + code c mod 64)])"

definition utf8_encode :: "string \<Rightarrow> string" where
  "utf8_encode s = concat (map utf8_char s)"

text \<open>\<open>s.encode()[:n].decode('utf-8', 'ignore')\<close>: a character cut in two is dropped.\<close>

fun take_bytes :: "nat \<Rightarrow> string \<Rightarrow> string" where
  "take_bytes n [] = []"
| "take_bytes n (c # cs) = (if utf8_size c \<le> n then c # take_bytes (n - utf8_size c) cs else [])"

lemma utf8_length_append [simp]: "utf8_length (s @ t) = utf8_length s + utf8_length t"
  and utf8_length_Nil [simp]: "utf8_length [] = 0"
  and utf8_length_Cons [simp]: "utf8_length (c # s) = utf8_size c + utf8_length s"
  by (simp_all add: utf8_length_def)

lemma take_bytes_length: "utf8_length (take_bytes n s) \<le> n"
  by (induction n s rule: take_bytes.induct) (auto simp: utf8_length_def)

text \<open>
  \<open>json.dumps(j, ensure_ascii=False, separators=(sep, colon))\<close>; the default separators are a
  comma and a colon, each with a space.
\<close>

definition json_escape :: "char \<Rightarrow> string" where
  "json_escape c =
     (if c = CHR 0x22 \<or> c = CHR 0x5C then [CHR 0x5C, c]
      else if c = CHR 0x0A then [CHR 0x5C, CHR ''n'']
      else if c = CHR 0x0D then [CHR 0x5C, CHR ''r'']
      else if c = CHR 0x09 then [CHR 0x5C, CHR ''t'']
      else if c = CHR 0x08 then [CHR 0x5C, CHR ''b'']
      else if c = CHR 0x0C then [CHR 0x5C, CHR ''f'']
      else if code c < 32 then [CHR 0x5C, CHR ''u'', CHR ''0'', CHR ''0'', hex_char (code c div 16), hex_char (code c mod 16)]
      else [c])"

definition json_string :: "string \<Rightarrow> string" where
  "json_string s = [CHR 0x22] @ concat (map json_escape s) @ [CHR 0x22]"

fun json_text :: "string \<Rightarrow> string \<Rightarrow> json \<Rightarrow> string" where
  "json_text sep colon JNull = ''null''"
| "json_text sep colon (JBool b) = (if b then ''true'' else ''false'')"
| "json_text sep colon (JInt i) = show_int i"
| "json_text sep colon (JFloat r) =
     (if r = ''inf'' then ''Infinity'' else if r = ''-inf'' then ''-Infinity'' else if r = ''nan'' then ''NaN'' else r)"
| "json_text sep colon (JStr s) = json_string s"
| "json_text sep colon (JList xs) = ''['' @ join sep (map (json_text sep colon) xs) @ '']''"
| "json_text sep colon (JObj d) = ''{'' @ join sep (map (\<lambda>(k, v). json_string k @ colon @ json_text sep colon v) d) @ ''}''"

definition json_dumps_text :: "json \<Rightarrow> string" where
  "json_dumps_text = json_text '', '' '': ''"

end
