(* ===== verification/HostAgent.thy ===== *)
theory HostAgent
  imports PyRegex PyJson
begin

text \<open>
  The privileged daemon of the host, \<^verbatim>\<open>host-agent/wardnode-wf-agent.py\<close>, and the client
  side of its protocol, \<^verbatim>\<open>app/modules/socket_client.py\<close>.  The daemon runs as root and turns
  commands from a Unix socket into calls of \<open>ufw\<close> and \<open>iptables\<close>.

  Its state is the list of command lines it has executed, and its two marker files.  The
  programs it runs are not part of the repository: the record \<open>host\<close> is the environment,
  whose \<open>run_cmd\<close> answers a command line depending on everything that was run before.
  Responses are the JSON dictionaries of the code.
\<close>

section \<open>Environment and state\<close>

datatype proc = Exited int string string | TimedOut | NotFound

record host =
  run_cmd :: "string list list \<Rightarrow> string list \<Rightarrow> proc"
  marker_writable :: bool
  ufw_default :: "string + string"
  docker_path :: "string option"
  loads :: "string \<Rightarrow> json option"

record agent =
  history :: "string list list"
  protected_ports :: "(string \<times> bool) list option"
  secure_marker :: bool

type_synonym 'a agent_op = "(agent, 'a) op"
type_synonym response = "(string \<times> json) list"

text \<open>\<open>subprocess.run\<close>: the command line is recorded whatever comes of it.\<close>

definition subprocess_run :: "host \<Rightarrow> string list \<Rightarrow> (int \<times> string \<times> string) agent_op" where
  "subprocess_run h argv s =
     (let s' = s\<lparr>history := history s @ [argv]\<rparr> in
      case run_cmd h (history s) argv of
        Exited rc out err \<Rightarrow> (Inr (rc, out, err), s')
      | TimedOut \<Rightarrow> (Inl TimeoutExpired, s')
      | NotFound \<Rightarrow> (Inl FileNotFoundError, s'))"

section \<open>Validators\<close>

definition PORT_RE :: rx where
  "PORT_RE = anchored (rep 1 5 (Cls is_digit))"

definition octet_rx :: rx where
  "octet_rx = rep 1 3 (Cls is_digit)"

definition IPV4_RE :: rx where
  "IPV4_RE = anchored
     (Cat (rep_exact 3 (Cap 1 (Cat octet_rx (lit_char (CHR ''.'')))))
     (Cat octet_rx
       (opt (Cap 2 (Cat (lit_char (CHR ''/''))
         (Alt (Cat (opt (Cls (\<lambda>c. c = CHR ''1'' \<or> c = CHR ''2''))) (Cls is_digit))
              (Cat (lit_char (CHR ''3'')) (Cls (\<lambda>c. c \<in> set ''012'')))))))))"

definition IPV6_RE :: rx where
  "IPV6_RE = anchored
     (Cat (plus (Cls (\<lambda>c. is_hex c \<or> c = CHR '':'')))
          (opt (Cap 1 (Cat (lit_char (CHR ''/'')) (rep 1 3 (Cls is_digit))))))"

definition RULE_RE :: rx where
  "RULE_RE = anchored (rep 1 3 (Cls is_digit))"

definition PROTO :: "string list" where
  "PROTO = [''tcp'', ''udp'', ''any'']"

text \<open>The conversions \<open>int(p)\<close> in the two validators are applied to matched text only.\<close>

definition int_in :: "int \<Rightarrow> int \<Rightarrow> string \<Rightarrow> bool" where
  "int_in lo hi s = (case py_int s of None \<Rightarrow> False | Some i \<Rightarrow> lo \<le> i \<and> i \<le> hi)"

definition vport :: "string \<Rightarrow> bool" where
  "vport p \<longleftrightarrow> matches PORT_RE p \<and> int_in 1 65535 p"

definition vip :: "string \<Rightarrow> bool" where
  "vip s = (if matches IPV4_RE s
            then list_all (int_in 0 255) (split_on (CHR ''.'') (hd (split_on (CHR ''/'') s)))
            else matches IPV6_RE s)"

definition vproto :: "string \<Rightarrow> bool" where
  "vproto p \<longleftrightarrow> p \<in> set PROTO"

definition vrule :: "string \<Rightarrow> bool" where
  "vrule n \<longleftrightarrow> matches RULE_RE n"

text \<open>The same checks on the console's side of the socket.\<close>

definition valid_port :: "string \<Rightarrow> bool" where
  "valid_port p \<longleftrightarrow> matches PORT_RE p \<and> int_in 1 65535 p"

definition valid_ip :: "string \<Rightarrow> bool" where
  "valid_ip ip = (if matches IPV4_RE ip
            then list_all (int_in 0 255) (split_on (CHR ''.'') (hd (split_on (CHR ''/'') ip)))
            else matches IPV6_RE ip)"

definition valid_proto :: "string \<Rightarrow> bool" where
  "valid_proto p \<longleftrightarrow> p \<in> set PROTO"

definition valid_rule_num :: "string \<Rightarrow> bool" where
  "valid_rule_num n \<longleftrightarrow> matches RULE_RE n"

section \<open>Calls of ufw and iptables\<close>

definition ok_output :: "bool \<Rightarrow> string \<Rightarrow> response" where
  "ok_output b out = [(''ok'', JBool b), (''output'', JStr out)]"

definition fail :: "string \<Rightarrow> response" where
  "fail msg = [(''ok'', JBool False), (''error'', JStr msg)]"

definition proc_response :: "int \<times> string \<times> string \<Rightarrow> response" where
  "proc_response = (\<lambda>(rc, out, err). ok_output (rc = 0) (strip (if out = [] then err else out)))"

definition is_ok :: "response \<Rightarrow> bool" where
  "is_ok r = jtruthy (jget_default ''ok'' JNull r)"

definition ufw :: "host \<Rightarrow> string list \<Rightarrow> response agent_op" where
  "ufw h args =
     catch (bind (subprocess_run h (''/usr/sbin/ufw'' # args)) (\<lambda>p. ret (proc_response p)))
           (\<lambda>e. if e = TimeoutExpired then ret (fail ''ufw timeout'') else raise e)"

text \<open>The log file is touched best-effort; it is not part of the model's state.\<close>

definition enable_ufw_logging :: "host \<Rightarrow> response agent_op" where
  "enable_ufw_logging h = ufw h [''logging'', ''medium'']"

definition iptables :: "host \<Rightarrow> string list \<Rightarrow> response agent_op" where
  "iptables h args =
     catch (bind (subprocess_run h (''/usr/sbin/iptables'' # args)) (\<lambda>p. ret (proc_response p)))
           (\<lambda>e. if e = TimeoutExpired then ret (fail ''iptables timeout'')
                else if e = FileNotFoundError then ret (fail ''iptables no encontrado'')
                else raise e)"

section \<open>Protected ports\<close>

definition DOCKER_CIDR :: string where "DOCKER_CIDR = ''172.16.0.0/12''"
definition BLOCKED_PORTS :: "int list" where "BLOCKED_PORTS = [22, 80, 443, 5000]"

definition load_protected_ports :: "(string \<times> bool) list agent_op" where
  "load_protected_ports = fetch (\<lambda>s. case protected_ports s of None \<Rightarrow> [] | Some d \<Rightarrow> d)"

definition save_protected_ports :: "host \<Rightarrow> (string \<times> bool) list \<Rightarrow> unit agent_op" where
  "save_protected_ports h ports =
     modify (\<lambda>s. if marker_writable h then s\<lparr>protected_ports := Some ports\<rparr> else s)"

text \<open>The two rules that protect a port, as the words after the chain.\<close>

definition lo_accept_spec :: "string \<Rightarrow> string list" where
  "lo_accept_spec port = [''-i'', ''lo'', ''-p'', ''tcp'', ''--dport'', port, ''-j'', ''ACCEPT'']"

definition drop_spec :: "string \<Rightarrow> string list" where
  "drop_spec port =
     [''-p'', ''tcp'', ''--dport'', port, ''!'', ''-s'', DOCKER_CIDR, ''-j'', ''DROP'']"

text \<open>\<open>for _ in range(n): run(rule); if returncode != 0: break\<close>; the result counts the successes.\<close>

fun delete_rule_loop :: "host \<Rightarrow> nat \<Rightarrow> string list \<Rightarrow> nat agent_op" where
  "delete_rule_loop h 0 rule = ret 0"
| "delete_rule_loop h (Suc n) rule =
     bind (subprocess_run h (''/usr/sbin/iptables'' # rule)) (\<lambda>(rc, out, err).
       if rc \<noteq> 0 then ret 0
       else bind (delete_rule_loop h n rule) (\<lambda>k. ret (Suc k)))"

definition delete_raw_rules :: "host \<Rightarrow> string \<Rightarrow> nat agent_op" where
  "delete_raw_rules h port =
     bind (delete_rule_loop h 10 ([''-t'', ''raw'', ''-D'', ''PREROUTING''] @ lo_accept_spec port))
       (\<lambda>a. bind (delete_rule_loop h 10 ([''-t'', ''raw'', ''-D'', ''PREROUTING''] @ drop_spec port))
       (\<lambda>b. ret (a + b)))"

definition is_host_port_blocked :: "host \<Rightarrow> string \<Rightarrow> bool agent_op" where
  "is_host_port_blocked h port =
     bind (subprocess_run h ([''/usr/sbin/iptables'', ''-t'', ''raw'', ''-C'', ''PREROUTING'']
                             @ drop_spec port))
       (\<lambda>(rc, out, err). ret (rc = 0))"

text \<open>\<open>result['output']\<close>: the answer of a timeout has no such key.\<close>

definition output_of :: "response \<Rightarrow> string agent_op" where
  "output_of r = (case jget ''output'' r of
      Some (JStr out) \<Rightarrow> ret out
    | _ \<Rightarrow> raise KeyError)"

definition protect_host_port :: "host \<Rightarrow> string \<Rightarrow> response agent_op" where
  "protect_host_port h port =
     bind (delete_raw_rules h port) (\<lambda>_.
     bind (iptables h ([''-t'', ''raw'', ''-I'', ''PREROUTING'', ''1''] @ drop_spec port)) (\<lambda>r1.
     if \<not> is_ok r1 then bind (output_of r1) (\<lambda>out. ret (fail (''iptables: '' @ out)))
     else
     bind (iptables h ([''-t'', ''raw'', ''-I'', ''PREROUTING'', ''1''] @ lo_accept_spec port)) (\<lambda>r2.
     if \<not> is_ok r2 then bind (output_of r2) (\<lambda>out. ret (fail (''iptables lo ACCEPT: '' @ out)))
     else
     bind load_protected_ports (\<lambda>ports.
     bind (save_protected_ports h (AList.update port True ports)) (\<lambda>_.
     bind (is_host_port_blocked h port) (\<lambda>verified.
     ret [(''ok'', JBool True), (''blocked'', JBool verified),
          (''output'', JStr (if verified
             then ''Puerto '' @ port @ '' asegurado y verificado en iptables raw/PREROUTING''
             else ''Puerto '' @ port @ '': reglas insertadas pero la verificaci'' @ [CHR 0xF3] @
                  ''n iptables no confirma el bloqueo''))]))))))"

definition unprotect_host_port :: "host \<Rightarrow> string \<Rightarrow> response agent_op" where
  "unprotect_host_port h port =
     bind (delete_raw_rules h port) (\<lambda>removed.
     bind load_protected_ports (\<lambda>ports.
     bind (save_protected_ports h (AList.delete port ports)) (\<lambda>_.
     ret (ok_output True (''Puerto '' @ port @ '' desprotegido ('' @ show_nat removed @
                          '' reglas eliminadas)'')))))"

definition restore_protected_ports :: "host \<Rightarrow> unit agent_op" where
  "restore_protected_ports h =
     bind load_protected_ports (\<lambda>ports.
       iterate (\<lambda>(port, active). if \<not> active then ret ()
                                 else bind (protect_host_port h port) (\<lambda>_. ret ())) ports)"

section \<open>The console port\<close>

definition console_drop :: "string list" where
  "console_drop = [''-p'', ''tcp'', ''--dport'', ''5000'', ''-j'', ''DROP'']"

definition console_accept :: "string list" where
  "console_accept = [''-i'', ''lo'', ''-p'', ''tcp'', ''--dport'', ''5000'', ''-j'', ''ACCEPT'']"

definition secure_console_port :: "host \<Rightarrow> response agent_op" where
  "secure_console_port h =
     bind (delete_rule_loop h 10 ([''-D'', ''INPUT''] @ console_drop)) (\<lambda>_.
     bind (delete_rule_loop h 10 ([''-D'', ''INPUT''] @ console_accept)) (\<lambda>_.
     bind (iptables h ([''-I'', ''INPUT'', ''1''] @ console_drop)) (\<lambda>r1.
     if \<not> is_ok r1 then bind (output_of r1) (\<lambda>out. ret (fail (''iptables: '' @ out)))
     else
     bind (iptables h ([''-I'', ''INPUT'', ''1''] @ console_accept)) (\<lambda>r2.
     if \<not> is_ok r2 then bind (output_of r2) (\<lambda>out. ret (fail (''iptables: '' @ out)))
     else
     bind (modify (\<lambda>s. if marker_writable h then s\<lparr>secure_marker := True\<rparr> else s)) (\<lambda>_.
     ret (ok_output True (''Puerto 5000 asegurado: acceso externo bloqueado v'' @ [CHR 0xED] @
                          ''a INPUT'')))))))"

definition restore_secure_port :: "host \<Rightarrow> unit agent_op" where
  "restore_secure_port h =
     bind (fetch secure_marker) (\<lambda>present.
       if \<not> present then ret () else bind (secure_console_port h) (\<lambda>_. ret ()))"

section \<open>Published container ports\<close>

definition PORT_MAPPING_RE :: rx where
  "PORT_MAPPING_RE =
     Cat (Cap 1 (Alt (plus (Cls (\<lambda>c. is_digit c \<or> c = CHR ''.'')))
                     (plus (Cls (\<lambda>c. is_hex c \<or> c = CHR '':'')))))
     (Cat (lit_char (CHR '':''))
     (Cat (Cap 2 (plus (Cls is_digit)))
     (Cat (lit ''->'')
     (Cat (Cap 3 (plus (Cls is_digit)))
     (Cat (lit_char (CHR ''/'')) (Cap 4 (Alt (lit ''tcp'') (lit ''udp''))))))))"

definition group_text :: "nat \<Rightarrow> pos \<Rightarrow> string" where
  "group_text i p = (case group i p of None \<Rightarrow> [] | Some t \<Rightarrow> t)"

type_synonym port_key = "json \<times> string \<times> string"

text \<open>One match of one line: skipped when its container, port and protocol were seen.\<close>

definition docker_match ::
    "host \<Rightarrow> json \<Rightarrow> pos \<Rightarrow> port_key list \<times> response list
       \<Rightarrow> (port_key list \<times> response list) agent_op" where
  "docker_match h name m = (\<lambda>(seen, out).
     let host_ip = group_text 1 m; host_port = group_text 2 m;
         container_port = group_text 3 m; proto = group_text 4 m;
         loopback_only = (host_ip = ''127.0.0.1'' \<or> host_ip = ''::1'');
         key = (name, host_port, proto)
     in if \<not> jhashable name then raise TypeError
        else if key \<in> set seen then ret (seen, out)
        else bind (if loopback_only then ret False else is_host_port_blocked h host_port)
          (\<lambda>blocked. ret (key # seen,
             out @ [[(''container'', name), (''host_port'', JStr host_port),
                     (''container_port'', JStr container_port), (''proto'', JStr proto),
                     (''loopback_only'', JBool loopback_only), (''blocked'', JBool blocked)]])))"

definition docker_line ::
    "host \<Rightarrow> string \<Rightarrow> port_key list \<times> response list
       \<Rightarrow> (port_key list \<times> response list) agent_op" where
  "docker_line h raw_line acc =
     (let line = strip raw_line in
      if line = [] then ret acc
      else case loads h line of
             None \<Rightarrow> ret acc
           | Some (JObj item) \<Rightarrow>
               (case jget_default ''ports'' (JStr []) item of
                  JStr ports \<Rightarrow>
                    fold_op (docker_match h (jget_default ''name'' (JStr []) item))
                            (rx_finditer PORT_MAPPING_RE [] ports) acc
                | _ \<Rightarrow> raise TypeError)
           | Some _ \<Rightarrow> raise AttributeError)"

definition docker_ps_format :: string where
  \<open>docker_ps_format = ''{"name":"{{.Names}}","ports":"{{.Ports}}"}''\<close>

definition list_docker_ports :: "host \<Rightarrow> response agent_op" where
  "list_docker_ports h =
     (case docker_path h of
        None \<Rightarrow> ret (fail (''docker no encontrado '' @ [CHR 0xE2, CHR 0x80, CHR 0x94] @
                          '' '' @ [CHR 0xC2, CHR 0xBF] @ ''est'' @ [CHR 0xE1] @
                          '' instalado en el host?''))
      | Some docker \<Rightarrow>
          bind
            (catch
              (bind (subprocess_run h [docker, ''ps'', ''--format'', docker_ps_format])
                 (\<lambda>(rc, out, err).
                    if rc \<noteq> 0 then ret (Inl (fail (''docker ps fall'' @ [CHR 0xF3] @ '': '' @ strip err)))
                    else ret (Inr out)))
              (\<lambda>e. if e = TimeoutExpired then ret (Inl (fail ''Timeout al ejecutar docker ps''))
                   else raise e))
            (\<lambda>r. case r of
                Inl resp \<Rightarrow> ret resp
              | Inr out \<Rightarrow>
                  bind (fold_op (docker_line h) (splitlines (strip out)) ([], []))
                       (\<lambda>(seen, ports). ret [(''ok'', JBool True),
                          (''ports'', JList (map JObj ports)), (''raw'', JStr (strip out))])))"

section \<open>Commands\<close>

definition ACTIONS :: "string list" where
  "ACTIONS =
     [''status'', ''allow_port'', ''deny_port'', ''allow_ip'', ''deny_ip'', ''delete_rule'',
      ''check_defaults'', ''init_firewall'', ''get_ipv6_status'', ''set_ipv6'',
      ''secure_console_port'', ''protect_host_port'', ''unprotect_host_port'',
      ''list_docker_ports'', ''limit_port'', ''unlimit_port'']"

definition ACCION_NO_PERMITIDA :: string where
  "ACCION_NO_PERMITIDA = ''Acci'' @ [CHR 0xF3] @ ''n no permitida''"
definition PUERTO_INVALIDO :: string where
  "PUERTO_INVALIDO = ''Puerto inv'' @ [CHR 0xE1] @ ''lido''"
definition PROTOCOLO_INVALIDO :: string where
  "PROTOCOLO_INVALIDO = ''Protocolo inv'' @ [CHR 0xE1] @ ''lido''"
definition IP_INVALIDA :: string where
  "IP_INVALIDA = ''IP inv'' @ [CHR 0xE1] @ ''lida''"

text \<open>\<open>str(cmd.get(k, default))\<close>.\<close>

definition arg :: "string \<Rightarrow> string \<Rightarrow> response \<Rightarrow> string" where
  "arg k dflt cmd = py_str (jget_default k (JStr dflt) cmd)"

definition handle_port_rule :: "host \<Rightarrow> string \<Rightarrow> response \<Rightarrow> response agent_op" where
  "handle_port_rule h verdict cmd =
     (let port = arg ''port'' [] cmd; proto = arg ''proto'' ''tcp'' cmd in
      if \<not> vport port then ret (fail PUERTO_INVALIDO)
      else if \<not> vproto proto then ret (fail PROTOCOLO_INVALIDO)
      else ufw h [verdict, if proto = ''any'' then port else port @ ''/'' @ proto])"

definition handle_ip_rule :: "host \<Rightarrow> string \<Rightarrow> response \<Rightarrow> response agent_op" where
  "handle_ip_rule h verdict cmd =
     (let ip = arg ''ip'' [] cmd in
      if \<not> vip ip then ret (fail IP_INVALIDA) else ufw h [verdict, ''from'', ip])"

definition init_steps :: "host \<Rightarrow> string \<Rightarrow> response agent_op list" where
  "init_steps h ssh_port =
     [ufw h [''default'', ''deny'', ''incoming''],
      ufw h [''default'', ''allow'', ''outgoing''],
      ufw h [''allow'', ssh_port @ ''/tcp''],
      ufw h [''allow'', ''80/tcp''],
      ufw h [''allow'', ''443/tcp''],
      ufw h [''allow'', ''from'', ''172.16.0.0/12'', ''to'', ''any'', ''port'', ''8081'', ''proto'', ''tcp''],
      enable_ufw_logging h,
      ufw h [''--force'', ''enable'']]"

definition step_output :: "response \<Rightarrow> string" where
  "step_output r = (case jget ''output'' r of Some (JStr s) \<Rightarrow> s | _ \<Rightarrow> [])"

definition handle_init_firewall :: "host \<Rightarrow> response \<Rightarrow> response agent_op" where
  "handle_init_firewall h cmd =
     (let ssh_port = arg ''ssh_port'' ''22'' cmd in
      if \<not> vport ssh_port then ret (fail (''Puerto SSH inv'' @ [CHR 0xE1] @ ''lido''))
      else bind (run_all (init_steps h ssh_port)) (\<lambda>steps.
        ret (ok_output (list_all is_ok steps) (join [newline] (map step_output steps)))))"

text \<open>The loop over the lines of \<^verbatim>\<open>/etc/default/ufw\<close>: the first \<open>IPV6=\<close> line decides.\<close>

fun ipv6_setting :: "string list \<Rightarrow> bool" where
  "ipv6_setting [] = True"
| "ipv6_setting (line # rest) =
     (if starts_with ''IPV6='' line
      then py_lower (strip (drop 1 (dropWhile (\<lambda>c. c \<noteq> CHR ''='') (strip line)))) = ''yes''
      else ipv6_setting rest)"

definition handle_get_ipv6 :: "host \<Rightarrow> response agent_op" where
  "handle_get_ipv6 h =
     (case ufw_default h of
        Inl exc \<Rightarrow> ret (fail exc)
      | Inr content \<Rightarrow> ret [(''ok'', JBool True),
                           (''ipv6'', JBool (ipv6_setting (split_on newline content)))])"

definition handle_set_ipv6 :: "host \<Rightarrow> response \<Rightarrow> response agent_op" where
  "handle_set_ipv6 h cmd =
     (case jget_default ''enabled'' JNull cmd of
        JBool enabled \<Rightarrow>
          catch
            (bind (subprocess_run h [''/opt/wardnode/wardnode-set-ipv6.sh'',
                                     if enabled then ''yes'' else ''no''])
                  (\<lambda>p. ret (proc_response p)))
            (\<lambda>e. if e = TimeoutExpired then ret (fail ''Timeout al configurar IPv6'')
                 else if e = FileNotFoundError
                 then ret (fail (''Script IPv6 no encontrado '' @ [CHR 0xE2, CHR 0x80, CHR 0x94] @
                                 '' ejecuta install.sh nuevamente''))
                 else raise e)
      | _ \<Rightarrow> ret (fail ''Campo 'enabled' debe ser booleano''))"

definition handle_protect :: "host \<Rightarrow> response \<Rightarrow> response agent_op" where
  "handle_protect h cmd =
     (let port = arg ''port'' [] cmd in
      if \<not> vport port then ret (fail PUERTO_INVALIDO)
      else if list_ex (\<lambda>b. py_int port = Some b) BLOCKED_PORTS
      then ret (fail (''El puerto '' @ port @ '' est'' @ [CHR 0xE1] @
                      '' reservado y no puede bloquearse''))
      else protect_host_port h port)"

definition handle_unprotect :: "host \<Rightarrow> response \<Rightarrow> response agent_op" where
  "handle_unprotect h cmd =
     (let port = arg ''port'' [] cmd in
      if \<not> vport port then ret (fail PUERTO_INVALIDO) else unprotect_host_port h port)"

definition handle_limit :: "host \<Rightarrow> response \<Rightarrow> response agent_op" where
  "handle_limit h cmd =
     (let port = arg ''port'' ''22'' cmd; proto = arg ''proto'' ''tcp'' cmd in
      if \<not> vport port then ret (fail PUERTO_INVALIDO)
      else if \<not> vproto proto then ret (fail PROTOCOLO_INVALIDO)
      else ufw h [''limit'', port @ ''/'' @ proto])"

definition handle_unlimit :: "host \<Rightarrow> response \<Rightarrow> response agent_op" where
  "handle_unlimit h cmd =
     (let port = arg ''port'' ''22'' cmd; proto = arg ''proto'' ''tcp'' cmd in
      if \<not> vport port then ret (fail PUERTO_INVALIDO)
      else if \<not> vproto proto then ret (fail PROTOCOLO_INVALIDO)
      else bind (ufw h [''delete'', ''limit'', port @ ''/'' @ proto]) (\<lambda>_.
           ufw h [''allow'', port @ ''/'' @ proto]))"

definition handle :: "host \<Rightarrow> response \<Rightarrow> response agent_op" where
  "handle h cmd =
     (let action = jget_default ''action'' (JStr []) cmd in
      if \<not> jhashable action then raise TypeError
      else if action \<notin> JStr ` set ACTIONS then ret (fail ACCION_NO_PERMITIDA)
      else if action = JStr ''status'' then ufw h [''status'', ''numbered'']
      else if action = JStr ''allow_port'' then handle_port_rule h ''allow'' cmd
      else if action = JStr ''deny_port'' then handle_port_rule h ''deny'' cmd
      else if action = JStr ''allow_ip'' then handle_ip_rule h ''allow'' cmd
      else if action = JStr ''deny_ip'' then handle_ip_rule h ''deny'' cmd
      else if action = JStr ''delete_rule'' then
        (let num = arg ''rule_num'' [] cmd in
         if \<not> vrule num then ret (fail (''N'' @ [CHR 0xFA] @ ''mero de regla inv'' @ [CHR 0xE1] @ ''lido''))
         else ufw h [''--force'', ''delete'', num])
      else if action = JStr ''check_defaults'' then ufw h [''status'', ''verbose'']
      else if action = JStr ''init_firewall'' then handle_init_firewall h cmd
      else if action = JStr ''get_ipv6_status'' then handle_get_ipv6 h
      else if action = JStr ''set_ipv6'' then handle_set_ipv6 h cmd
      else if action = JStr ''secure_console_port'' then secure_console_port h
      else if action = JStr ''protect_host_port'' then handle_protect h cmd
      else if action = JStr ''unprotect_host_port'' then handle_unprotect h cmd
      else if action = JStr ''list_docker_ports'' then list_docker_ports h
      else if action = JStr ''limit_port'' then handle_limit h cmd
      else if action = JStr ''unlimit_port'' then handle_unlimit h cmd
      else ret (fail ''Sin handler''))"

section \<open>The protocol on the socket\<close>

definition MAX_PAYLOAD :: nat where "MAX_PAYLOAD = 4096"
definition MAX_RESP :: nat where "MAX_RESP = 4194304"

text \<open>\<open>n.to_bytes(4, 'big')\<close> and \<open>int.from_bytes(b, 'big')\<close>.\<close>

definition be4 :: "nat \<Rightarrow> string" where
  "be4 n = map char_of [n div 16777216 mod 256, n div 65536 mod 256, n div 256 mod 256, n mod 256]"

definition from_be :: "string \<Rightarrow> nat" where
  "from_be b = foldl (\<lambda>n c. 256 * n + code c) 0 b"

text \<open>
  A socket is the list of segments still to arrive; \<open>recv n\<close> gives at most \<open>n\<close> bytes of the
  next segment, and nothing once the peer has closed.
\<close>

fun recv :: "nat \<Rightarrow> string list \<Rightarrow> string \<times> string list" where
  "recv n [] = ([], [])"
| "recv n (seg # segs) =
     (if seg = [] then recv n segs
      else (take n seg, if length seg > n then drop n seg # segs else segs))"

text \<open>One accepted connection of \<open>serve\<close>: \<open>None\<close> when it is dropped without an answer.\<close>

definition serve_conn :: "host \<Rightarrow> string list \<Rightarrow> agent \<Rightarrow> response option \<times> agent" where
  "serve_conn h segs s =
     (let (raw_len, segs1) = recv 4 segs in
      if length raw_len < 4 then (None, s)
      else let plen = from_be raw_len in
        if plen > MAX_PAYLOAD then (None, s)
        else let (data, segs2) = recv plen segs1 in
          case loads h data of
            Some (JObj cmd) \<Rightarrow>
              (case handle h cmd s of
                 (Inr resp, s') \<Rightarrow> (Some resp, s')
               | (Inl e, s') \<Rightarrow> (Some (fail ''Comando malformado''), s'))
          | _ \<Rightarrow> (Some (fail ''Comando malformado''), s))"

text \<open>The client's request and its loop over \<open>s.recv(min(4096, resp_len - len(data)))\<close>.\<close>

definition frame :: "string \<Rightarrow> string" where
  "frame payload = be4 (length payload) @ payload"

fun segs_size :: "string list \<Rightarrow> nat" where
  "segs_size segs = sum_list (map length segs)"

function recv_loop :: "nat \<Rightarrow> string \<Rightarrow> string list \<Rightarrow> string" where
  "recv_loop resp_len data segs =
     (if length data < resp_len then
        (let (chunk, rest) = recv (min 4096 (resp_len - length data)) segs in
         if chunk = [] then data else recv_loop resp_len (data @ chunk) rest)
      else data)"
  by pat_completeness auto
termination
  by (relation "measure (\<lambda>(n, data, segs). n - length data)") (auto simp: neq_Nil_conv)

declare recv_loop.simps [simp del]

text \<open>\<open>send_command\<close> once the request is sent: the response text, or \<open>None\<close> when truncated.\<close>

definition client_receive :: "string list \<Rightarrow> string option" where
  "client_receive segs =
     (let (raw_len, rest) = recv 4 segs in
      if length raw_len < 4 then None
      else Some (recv_loop (min (from_be raw_len) MAX_RESP) [] rest))"

end
