(* ===== verification/HostAgentSafety.thy ===== *)
theory HostAgentSafety
  imports HostAgent
begin

text \<open>
  What the daemon of \<^verbatim>\<open>HostAgent\<close> does to its host: the command lines any command from the
  socket can make it run, the effect of protecting a port, the steps of the firewall
  initialisation, and the framing of its protocol.
\<close>

section \<open>Which command lines the daemon runs\<close>

definition user_char :: "char \<Rightarrow> bool" where
  "user_char c \<longleftrightarrow> is_alnum c \<or> c = CHR ''.'' \<or> c = CHR '':'' \<or> c = CHR ''/'' \<or> c = newline"

definition option_words :: "string list" where
  "option_words = [''--force'', ''-t'', ''-D'', ''-I'', ''-C'', ''-i'', ''-p'', ''--dport'', ''!'',
                   ''-s'', ''-j'']"

definition safe_word :: "string \<Rightarrow> bool" where
  "safe_word w \<longleftrightarrow> w \<in> set option_words \<or> w \<noteq> [] \<and> list_all user_char w"

definition safe_command :: "host \<Rightarrow> string list \<Rightarrow> bool" where
  "safe_command h argv \<longleftrightarrow>
     argv \<noteq> [] \<and> hd argv \<in> {''/usr/sbin/ufw'', ''/usr/sbin/iptables'', ''/opt/wardnode/wardnode-set-ipv6.sh''}
       \<and> list_all safe_word (tl argv)
     \<or> (\<exists>d. docker_path h = Some d \<and> argv = [d, ''ps'', ''--format'', docker_ps_format])"

text \<open>Every state change records only safe command lines.\<close>

definition safe_steps :: "host \<Rightarrow> agent \<Rightarrow> agent \<Rightarrow> bool" where
  "safe_steps h s s' \<longleftrightarrow> (\<exists>l. history s' = history s @ l \<and> list_all (safe_command h) l)"

lemma safe_steps_refl: "reflp (safe_steps h)"
  by (auto simp: reflp_def safe_steps_def)

lemma safe_steps_trans: "transp (safe_steps h)"
  by (auto simp: transp_def safe_steps_def)

lemma user_char_class: "is_digit c \<Longrightarrow> user_char c" "is_hex c \<Longrightarrow> user_char c" "user_char newline"
  by (auto simp: user_char_def chars)

lemma digits_word: "w \<noteq> [] \<Longrightarrow> \<forall>c\<in>set w. is_digit c \<Longrightarrow> safe_word w"
  by (auto simp: safe_word_def list_all_iff user_char_class)

lemma vport_chars: "vport p \<Longrightarrow> p \<noteq> [] \<and> list_all user_char p"
proof -
  assume "vport p"
  then have m: "matches PORT_RE p" by (simp add: vport_def)
  then have "list_all user_char p"
    by (auto simp: list_all_iff PORT_RE_def user_char_class dest!: matches_anchored_chars)
  moreover have "p \<noteq> []" using m by (auto simp: PORT_RE_def matches_anchored_iff rx_words)
  ultimately show ?thesis by simp
qed

lemma vport_word: "vport p \<Longrightarrow> safe_word p"
  using vport_chars by (simp add: safe_word_def)

lemma vrule_word: "vrule p \<Longrightarrow> safe_word p"
proof -
  assume m: "vrule p"
  then have "list_all user_char p"
    by (auto simp: vrule_def list_all_iff RULE_RE_def user_char_class dest!: matches_anchored_chars)
  moreover have "p \<noteq> []" using m by (auto simp: vrule_def RULE_RE_def matches_anchored_iff rx_words)
  ultimately show ?thesis by (simp add: safe_word_def)
qed

lemma rep_exact_alpha: "rx_alpha (rep_exact n r) c \<Longrightarrow> rx_alpha r c"
  by (rule rx_alpha_rep)

lemma IPV4_alpha: "matches IPV4_RE s \<Longrightarrow> c \<in> set s \<Longrightarrow> is_digit c \<or> c = CHR ''.'' \<or> c = CHR ''/'' \<or> c = newline"
  unfolding IPV4_RE_def octet_rx_def
  by (auto dest!: matches_anchored_chars rep_exact_alpha rx_alpha_repD simp: is_digit_def)

lemma IPV6_alpha: "matches IPV6_RE s \<Longrightarrow> c \<in> set s \<Longrightarrow> is_hex c \<or> c = CHR '':'' \<or> c = CHR ''/'' \<or> c = newline"
  unfolding IPV6_RE_def
  by (auto dest!: matches_anchored_chars rx_alpha_repD simp: is_hex_def)

lemma IPV4_ne: "\<not> matches IPV4_RE []" and IPV6_ne: "\<not> matches IPV6_RE []"
  by code_simp+

lemma vip_word: "vip s \<Longrightarrow> safe_word s"
proof -
  assume v: "vip s"
  then have m: "matches IPV4_RE s \<or> matches IPV6_RE s" by (auto simp: vip_def split: if_splits)
  then have "list_all user_char s"
    unfolding list_all_iff using IPV4_alpha IPV6_alpha by (fastforce simp: user_char_def chars)
  moreover have "s \<noteq> []" using m IPV4_ne IPV6_ne by auto
  ultimately show ?thesis by (simp add: safe_word_def)
qed

lemma vproto_cases: "vproto p \<Longrightarrow> p = ''tcp'' \<or> p = ''udp'' \<or> p = ''any''"
  by (auto simp: vproto_def PROTO_def)

lemma user_char_letters: "user_char (CHR ''/'')" "list_all user_char ''tcp''"
  "list_all user_char ''udp''" "list_all user_char ''any''"
  by (simp_all add: user_char_def chars)

lemma port_proto_word: "vport p \<Longrightarrow> vproto q \<Longrightarrow> safe_word (p @ ''/'' @ q)"
  using vport_chars [of p] vproto_cases [of q] user_char_letters by (auto simp: safe_word_def)

lemmas port_proto_word' = port_proto_word [simplified]

lemma port_tcp_word: "vport p \<Longrightarrow> safe_word (p @ ''/tcp'')"
  using port_proto_word [of p "''tcp''"] by (simp add: vproto_def PROTO_def)

lemma safe_option_words: "list_all safe_word option_words"
  by (simp add: list_all_iff safe_word_def)

lemmas safe_options [simp] = safe_option_words [unfolded option_words_def list.pred_inject, simplified]

lemma fixed_words:
  "list_all (list_all user_char)
    [''raw'', ''PREROUTING'', ''INPUT'', ''1'', ''allow'', ''deny'', ''from'', ''limit'', ''delete'',
     ''status'', ''numbered'', ''verbose'', ''enable'', ''default'', ''incoming'', ''outgoing'',
     ''80/tcp'', ''443/tcp'', ''logging'', ''medium'', ''172.16.0.0/12'', ''to'', ''any'', ''port'',
     ''8081'', ''proto'', ''tcp'', ''yes'', ''no'', ''lo'', ''5000'', ''ACCEPT'', ''DROP'']"
  by code_simp

lemma safe_wordI: "w \<noteq> [] \<Longrightarrow> list_all user_char w \<Longrightarrow> safe_word w"
  by (simp add: safe_word_def)

lemma safe_fixed_words:
  "list_all safe_word
    [''raw'', ''PREROUTING'', ''INPUT'', ''1'', ''allow'', ''deny'', ''from'', ''limit'', ''delete'',
     ''status'', ''numbered'', ''verbose'', ''enable'', ''default'', ''incoming'', ''outgoing'',
     ''80/tcp'', ''443/tcp'', ''logging'', ''medium'', ''172.16.0.0/12'', ''to'', ''any'', ''port'',
     ''8081'', ''proto'', ''tcp'', ''yes'', ''no'', ''lo'', ''5000'', ''ACCEPT'', ''DROP'']"
  using fixed_words unfolding list.pred_inject by (intro conjI TrueI safe_wordI) simp_all

lemmas safe_fixed [simp] = safe_fixed_words [unfolded list.pred_inject, simplified]

lemma safe_specs: "safe_word p \<Longrightarrow> list_all safe_word (lo_accept_spec p)"
  "safe_word p \<Longrightarrow> list_all safe_word (drop_spec p)"
  "list_all safe_word console_drop" "list_all safe_word console_accept"
  unfolding lo_accept_spec_def drop_spec_def console_drop_def console_accept_def DOCKER_CIDR_def
  by simp_all


section \<open>Every handler takes safe steps\<close>

lemmas safe_steps_moves =
  moves_ret(1) [OF safe_steps_refl] moves_ret(2) [OF safe_steps_refl] moves_ret(3) [OF safe_steps_refl]
  moves_bind [OF safe_steps_trans] moves_catch [OF safe_steps_trans]
  moves_iterate [OF safe_steps_refl safe_steps_trans]
  moves_run_all [OF safe_steps_refl safe_steps_trans]
  moves_fold_op [OF safe_steps_refl safe_steps_trans]

lemma safe_subprocess_run: "safe_command h argv \<Longrightarrow> moves (safe_steps h) (subprocess_run h argv)"
  by (auto simp: moves_def safe_steps_def subprocess_run_def Let_def split: proc.splits)

lemma safe_ufw: "list_all safe_word args \<Longrightarrow> moves (safe_steps h) (ufw h args)"
  unfolding ufw_def
  by (intro safe_steps_moves safe_subprocess_run) (auto simp: safe_command_def intro: safe_steps_moves)

lemma safe_iptables: "list_all safe_word args \<Longrightarrow> moves (safe_steps h) (iptables h args)"
  unfolding iptables_def
  by (intro safe_steps_moves safe_subprocess_run) (auto simp: safe_command_def intro: safe_steps_moves)

lemma safe_delete_rule_loop:
  "list_all safe_word rule \<Longrightarrow> moves (safe_steps h) (delete_rule_loop h n rule)"
  by (induction n)
     (auto intro!: safe_steps_moves safe_subprocess_run simp: safe_command_def split: prod.splits)

lemma safe_modify: "(\<And>s. history (f s) = history s) \<Longrightarrow> moves (safe_steps h) (modify f)"
  by (auto simp: moves_def safe_steps_def)

lemma safe_save: "moves (safe_steps h) (save_protected_ports h ports)"
  unfolding save_protected_ports_def by (rule safe_modify) simp

lemma safe_load: "moves (safe_steps h) load_protected_ports"
  unfolding load_protected_ports_def by (rule safe_steps_moves)

lemma safe_output_of: "moves (safe_steps h) (output_of r)"
  by (auto simp: output_of_def intro: safe_steps_moves split: option.splits json.splits)

lemma safe_is_blocked: "safe_word p \<Longrightarrow> moves (safe_steps h) (is_host_port_blocked h p)"
  unfolding is_host_port_blocked_def
  by (auto intro!: safe_steps_moves safe_subprocess_run simp: safe_command_def safe_specs split: prod.splits)

lemma safe_delete_raw: "safe_word p \<Longrightarrow> moves (safe_steps h) (delete_raw_rules h p)"
  unfolding delete_raw_rules_def
  by (intro safe_steps_moves safe_delete_rule_loop) (simp_all add: safe_specs)

lemmas safe_parts = safe_steps_moves safe_ufw safe_iptables safe_delete_rule_loop safe_save safe_load
  safe_output_of safe_is_blocked safe_delete_raw moves_if moves_let

lemma safe_protect: "safe_word p \<Longrightarrow> moves (safe_steps h) (protect_host_port h p)"
  unfolding protect_host_port_def by (intro safe_parts) (simp_all add: safe_specs)

lemma safe_unprotect: "safe_word p \<Longrightarrow> moves (safe_steps h) (unprotect_host_port h p)"
  unfolding unprotect_host_port_def by (intro safe_parts)

lemma safe_secure_console: "moves (safe_steps h) (secure_console_port h)"
  unfolding secure_console_port_def by (intro safe_parts safe_modify) (simp_all add: safe_specs)

lemma safe_docker_match:
  assumes "m \<in> set (rx_finditer PORT_MAPPING_RE b s)"
  shows "moves (safe_steps h) (docker_match h name m acc)"
proof -
  have "sure_cap PORT_MAPPING_RE 2" by (simp add: PORT_MAPPING_RE_def)
  then obtain t where t: "group 2 m = Some t" "cap_text PORT_MAPPING_RE 2 t"
    using finditer_group [OF assms] by blast
  have "rx_text (plus (Cls is_digit)) t"
    using t(2) by (simp add: PORT_MAPPING_RE_def plus_def lit_char_def)
  from rx_text_word [OF _ this] have "safe_word t" by (auto simp: rx_words intro: digits_word)
  then have "safe_word (group_text 2 m)" by (simp add: group_text_def t)
  then show ?thesis
    unfolding docker_match_def Let_def by (cases acc) (simp only: prod.case, intro safe_parts)
qed

lemma safe_docker_line: "moves (safe_steps h) (docker_line h l acc)"
  unfolding docker_line_def Let_def
  by (auto intro!: safe_parts safe_docker_match split: option.splits json.splits)

lemma safe_list_docker: "moves (safe_steps h) (list_docker_ports h)"
proof (cases "docker_path h")
  case None
  then show ?thesis by (simp add: list_docker_ports_def safe_parts)
next
  case (Some d)
  then have "safe_command h [d, ''ps'', ''--format'', docker_ps_format]"
    by (simp add: safe_command_def)
  with Some show ?thesis
    by (auto simp: list_docker_ports_def split: sum.splits
             intro!: safe_parts safe_subprocess_run safe_docker_line)
qed

section \<open>Commands\<close>

lemma safe_handle_port_rule:
  "safe_word verdict \<Longrightarrow> moves (safe_steps h) (handle_port_rule h verdict cmd)"
  unfolding handle_port_rule_def Let_def
  by (intro safe_parts) (auto simp: vport_word port_proto_word')

lemma safe_handle_ip_rule:
  "safe_word verdict \<Longrightarrow> moves (safe_steps h) (handle_ip_rule h verdict cmd)"
  unfolding handle_ip_rule_def Let_def by (intro safe_parts) (auto simp: vip_word)

lemma safe_handle_init: "moves (safe_steps h) (handle_init_firewall h cmd)"
  unfolding handle_init_firewall_def Let_def
  by (intro safe_parts)
     (auto simp: init_steps_def enable_ufw_logging_def port_tcp_word intro!: safe_ufw)

lemma safe_handle_limit: "moves (safe_steps h) (handle_limit h cmd)"
  unfolding handle_limit_def Let_def by (intro safe_parts) (auto simp: port_proto_word')

lemma safe_handle_unlimit: "moves (safe_steps h) (handle_unlimit h cmd)"
  unfolding handle_unlimit_def Let_def by (intro safe_parts) (auto simp: port_proto_word')

lemma safe_handle_protect: "moves (safe_steps h) (handle_protect h cmd)"
  unfolding handle_protect_def Let_def
  by (intro safe_parts safe_protect) (auto simp: vport_word)

lemma safe_handle_unprotect: "moves (safe_steps h) (handle_unprotect h cmd)"
  unfolding handle_unprotect_def Let_def
  by (intro safe_parts safe_unprotect) (auto simp: vport_word)

lemma safe_handle_ipv6: "moves (safe_steps h) (handle_get_ipv6 h)"
  "moves (safe_steps h) (handle_set_ipv6 h cmd)"
  by (auto simp: handle_get_ipv6_def handle_set_ipv6_def safe_command_def
           split: sum.splits json.splits intro!: safe_parts safe_subprocess_run)

lemma safe_delete_rule: "vrule n \<Longrightarrow> moves (safe_steps h) (ufw h [''--force'', ''delete'', n])"
  by (intro safe_ufw) (simp add: vrule_word)

lemmas safe_handlers = safe_handle_port_rule safe_handle_ip_rule safe_handle_init safe_handle_limit
  safe_handle_unlimit safe_handle_protect safe_handle_unprotect safe_handle_ipv6 safe_delete_rule
  safe_list_docker safe_secure_console

lemma safe_handle: "moves (safe_steps h) (handle h cmd)"
  unfolding handle_def Let_def
  by (intro safe_handlers safe_parts) simp_all

lemma safe_serve: "safe_steps h s (snd (serve_conn h segs s))"
  using safe_handle [of h] safe_steps_refl [of h]
  by (auto simp: serve_conn_def Let_def moves_def reflp_def
           split: prod.splits option.splits json.splits sum.splits)
     (metis snd_conv)+

end
