(* ===== verification/RuleValidation.thy ===== *)
theory RuleValidation
  imports PyRegex
begin

text \<open>
  The validators that stand between the operator's forms and the generated Nginx
  configuration: custom ModSecurity rules and rule exclusions
  (\<^verbatim>\<open>app/proxy/custom_rules.py\<close>), extra Nginx snippets (\<^verbatim>\<open>app/proxy/nginx_extra.py\<close>),
  security headers (\<^verbatim>\<open>app/proxy/security_headers.py\<close>), domains and addresses
  (\<^verbatim>\<open>app/proxy/validators.py\<close>, \<^verbatim>\<open>app/models.py\<close>).

  A validator returns the list of its complaints, one constructor per message of the code;
  the exceptions a validator can raise are the \<open>Inl\<close> values.
\<close>

section \<open>Custom ModSecurity rules\<close>

datatype rule_error =
    RuleNameRequired
  | RuleNameTooLong
  | RuleTextRequired
  | RuleTextTooLong
  | SingleQuotesForbidden
  | ForbiddenToken string
  | CtlForbidden
  | NoStatement
  | NotSecRule nat
  | UnbalancedDouble nat
  | UnbalancedSingle nat
  | MissingId nat
  | IdOutOfRange nat nat
  | DuplicateIds

definition CUSTOM_RULE_ID_MIN :: nat where "CUSTOM_RULE_ID_MIN = 1000000"
definition CUSTOM_RULE_ID_MAX :: nat where "CUSTOM_RULE_ID_MAX = 1999999"
definition MAX_RULE_TEXT_LENGTH :: nat where "MAX_RULE_TEXT_LENGTH = 6000"

definition DISALLOWED_RULE_TOKENS :: "string list" where
  "DISALLOWED_RULE_TOKENS = [''include'', ''exec:'', ''lua:'']"

definition squote :: char where "squote = CHR 0x27"
definition dquote :: char where "dquote = CHR 0x22"
definition backslash :: char where "backslash = CHR 0x5C"

text \<open>\<^verbatim>\<open>\bctl\s*:\<close> and \<^verbatim>\<open>\bid\s*:\s*'?(\d+)'?\<close>, both case-insensitive.\<close>

definition CTL_RE :: rx where
  "CTL_RE = Cat WordB (Cat (lit_ci ''ctl'') (Cat (Star (Cls is_space)) (lit '':'')))"

definition RULE_ID_RE :: rx where
  "RULE_ID_RE = Cat WordB (Cat (lit_ci ''id'') (Cat (Star (Cls is_space)) (Cat (lit '':'')
     (Cat (Star (Cls is_space)) (Cat (opt (lit_char squote))
       (Cat (Cap 1 (plus (Cls is_digit))) (opt (lit_char squote))))))))"

text \<open>\<open>_statements\<close>: comments and blank lines go, a trailing backslash joins a line to the next.\<close>

fun statements_from :: "string list \<Rightarrow> string list \<Rightarrow> string list" where
  "statements_from cur [] = (if cur = [] then [] else [strip (join '' '' cur)])"
| "statements_from cur (raw_line # rest) =
     (let line = strip raw_line in
      if line = [] \<or> starts_with ''#'' line then statements_from cur rest
      else if ends_with [backslash] line
           then statements_from (cur @ [rstrip (butlast line)]) rest
           else strip (join '' '' (cur @ [line])) # statements_from [] rest)"

definition statements :: "string \<Rightarrow> string list" where
  "statements rule_text = statements_from [] (splitlines rule_text)"

definition found_id :: "string \<Rightarrow> string option" where
  "found_id statement = Option.bind (rx_search RULE_ID_RE statement) (group 1)"

text \<open>
  The body of the loop over the statements: the complaints about one statement and the id
  it declares, if any; converting an id of more than 4300 digits raises.
\<close>

definition check_statement :: "nat \<Rightarrow> string \<Rightarrow> py_exn + rule_error list \<times> nat option" where
  "check_statement index statement =
     (let e1 = (if starts_with ''SecRule '' statement \<or> starts_with ''SecAction '' statement
                then [] else [NotSecRule index]);
          e2 = (if count_char dquote statement mod 2 \<noteq> 0 then [UnbalancedDouble index] else []);
          e3 = (if count_char squote statement mod 2 \<noteq> 0 then [UnbalancedSingle index] else [])
      in case found_id statement of
           None \<Rightarrow> Inr (e1 @ e2 @ e3 @ [MissingId index], None)
         | Some digits \<Rightarrow>
             (case parse_digits digits of
                None \<Rightarrow> Inl ValueError
              | Some rule_id \<Rightarrow>
                  Inr (e1 @ e2 @ e3 @
                       (if rule_id < CUSTOM_RULE_ID_MIN \<or> rule_id > CUSTOM_RULE_ID_MAX
                        then [IdOutOfRange index rule_id] else []), Some rule_id)))"

fun check_statements :: "nat \<Rightarrow> string list \<Rightarrow> py_exn + rule_error list \<times> nat list" where
  "check_statements index [] = Inr ([], [])"
| "check_statements index (s # ss) =
     (case check_statement index s of
        Inl x \<Rightarrow> Inl x
      | Inr (es, i) \<Rightarrow>
          (case check_statements (Suc index) ss of
             Inl x \<Rightarrow> Inl x
           | Inr (es', js) \<Rightarrow> Inr (es @ es', (case i of None \<Rightarrow> js | Some n \<Rightarrow> n # js))))"

definition validate_custom_rule :: "string \<Rightarrow> string \<Rightarrow> py_exn + rule_error list" where
  "validate_custom_rule name rule_text =
     (let e1 = (if name = [] then [RuleNameRequired] else []);
          e2 = (if length name > 160 then [RuleNameTooLong] else [])
      in if rule_text = [] then Inr (e1 @ e2 @ [RuleTextRequired])
         else
           let e3 = (if length rule_text > MAX_RULE_TEXT_LENGTH then [RuleTextTooLong] else []);
               e4 = (if squote \<in> set rule_text then [SingleQuotesForbidden] else []);
               lowered = py_lower rule_text;
               e5 = map ForbiddenToken
                      (filter (\<lambda>t. contains (py_lower t) lowered) DISALLOWED_RULE_TOKENS);
               e6 = (case rx_search CTL_RE lowered of None \<Rightarrow> [] | Some _ \<Rightarrow> [CtlForbidden]);
               stmts = statements rule_text
           in if stmts = [] then Inr (e1 @ e2 @ e3 @ e4 @ e5 @ e6 @ [NoStatement])
              else case check_statements 1 stmts of
                     Inl x \<Rightarrow> Inl x
                   | Inr (e7, ids) \<Rightarrow>
                       Inr (e1 @ e2 @ e3 @ e4 @ e5 @ e6 @ e7 @
                            (if length ids \<noteq> length (remdups ids) then [DuplicateIds] else [])))"

subsection \<open>Exclusions of CRS rules by id\<close>

definition CRS_RULE_ID_MIN :: int where "CRS_RULE_ID_MIN = 900000"
definition CRS_RULE_ID_MAX :: int where "CRS_RULE_ID_MAX = 999999"

definition CRITICAL_CRS_RULE_IDS :: "int list" where
  "CRITICAL_CRS_RULE_IDS =
     [901001, 901100, 901120, 901130, 901140, 901150, 901160, 901170,
      901180, 901190, 901200, 901210, 901220, 901230, 901240, 901250,
      901260, 901270, 901300, 901310, 901320, 901330, 901340, 901350,
      901360, 901370, 901380, 901390, 901400, 901410, 901420,
      949110, 949111, 959100, 980130, 980140, 980170]"

definition MAX_EXCLUSION_COMMENT_LENGTH :: nat where "MAX_EXCLUSION_COMMENT_LENGTH = 200"

datatype exclusion_error =
    ExclusionIdRequired
  | ExclusionIdNotAscii string
  | ExclusionIdCustomRange int
  | ExclusionIdOutsideCrs int
  | ExclusionIdCritical int
  | ExclusionCommentTooLong

definition validate_rule_exclusion ::
    "string option \<Rightarrow> string \<Rightarrow> py_exn + int option \<times> exclusion_error list" where
  "validate_rule_exclusion rule_id_raw comment =
     (let raw = strip (case rule_id_raw of None \<Rightarrow> [] | Some s \<Rightarrow> s) in
      if raw = [] then Inr (None, [ExclusionIdRequired])
      else if \<not> (list_all is_ascii raw \<and> list_all is_digit raw)
           then Inr (None, [ExclusionIdNotAscii raw])
      else case py_int raw of
             None \<Rightarrow> Inl ValueError
           | Some rule_id \<Rightarrow>
               if int CUSTOM_RULE_ID_MIN \<le> rule_id \<and> rule_id \<le> int CUSTOM_RULE_ID_MAX
                 then Inr (None, [ExclusionIdCustomRange rule_id])
               else if \<not> (CRS_RULE_ID_MIN \<le> rule_id \<and> rule_id \<le> CRS_RULE_ID_MAX)
                 then Inr (None, [ExclusionIdOutsideCrs rule_id])
               else if rule_id \<in> set CRITICAL_CRS_RULE_IDS
                 then Inr (None, [ExclusionIdCritical rule_id])
               else if length comment > MAX_EXCLUSION_COMMENT_LENGTH
                 then Inr (None, [ExclusionCommentTooLong])
               else Inr (Some rule_id, []))"

section \<open>Extra Nginx directives\<close>

datatype snippet_error =
    SnippetTooLong string
  | SnippetBraces string nat
  | SnippetNoSemicolon string nat
  | SnippetControlChars string nat
  | SnippetBadDirective string nat
  | SnippetForbiddenDirective string nat string
  | SnippetUnbalancedQuotes string nat
  | NginxTestFailed string

definition MAX_SNIPPET_LENGTH :: nat where "MAX_SNIPPET_LENGTH = 8000"

definition DISALLOWED_DIRECTIVES :: "string list" where
  "DISALLOWED_DIRECTIVES =
     [''include'', ''load_module'', ''daemon'', ''master_process'', ''pid'', ''user'',
      ''worker_processes'', ''events'', ''http'', ''server'', ''location'', ''upstream'',
      ''map'', ''geo'', ''root'', ''alias'', ''ssl_certificate_key'', ''proxy_pass'',
      ''proxy_redirect'', ''mirror'', ''return'', ''rewrite'', ''sub_filter'', ''internal'',
      ''add_header'', ''error_page'']"

text \<open>The loop body for one raw line; \<open>[][0]\<close> on an empty directive raises.\<close>

definition check_snippet_line :: "string \<Rightarrow> nat \<Rightarrow> string \<Rightarrow> py_exn + snippet_error list" where
  "check_snippet_line context line_number raw_line =
     (let line = strip raw_line in
      if line = [] \<or> starts_with ''#'' line then Inr []
      else if CHR ''{'' \<in> set line \<or> CHR ''}'' \<in> set line then Inr [SnippetBraces context line_number]
      else if \<not> ends_with '';'' line then Inr [SnippetNoSemicolon context line_number]
      else if \<exists>c\<in>set raw_line. code c < 32 \<and> c \<noteq> CHR 0x09
           then Inr [SnippetControlChars context line_number]
      else if lstrip (butlast line) = [] then Inl IndexError
      else let directive = first_word (butlast line);
               bare = filter (\<lambda>c. c \<noteq> CHR ''_'') directive;
               e1 = (if bare = [] \<or> \<not> list_all uni_alnum bare
                     then [SnippetBadDirective context line_number] else []);
               e2 = (if directive \<in> set DISALLOWED_DIRECTIVES
                     then [SnippetForbiddenDirective context line_number directive] else []);
               e3 = (if count_char dquote line mod 2 \<noteq> 0 \<or> count_char squote line mod 2 \<noteq> 0
                     then [SnippetUnbalancedQuotes context line_number] else [])
           in Inr (e1 @ e2 @ e3))"

fun check_snippet_lines ::
    "string \<Rightarrow> nat \<Rightarrow> string list \<Rightarrow> py_exn + snippet_error list" where
  "check_snippet_lines context n [] = Inr []"
| "check_snippet_lines context n (l # ls) =
     (case check_snippet_line context n l of
        Inl x \<Rightarrow> Inl x
      | Inr es \<Rightarrow> (case check_snippet_lines context (Suc n) ls of
                    Inl x \<Rightarrow> Inl x
                  | Inr es' \<Rightarrow> Inr (es @ es')))"

definition validate_snippet_lines :: "string \<Rightarrow> string \<Rightarrow> py_exn + snippet_error list" where
  "validate_snippet_lines snippet context =
     (if length snippet > MAX_SNIPPET_LENGTH then Inr [SnippetTooLong context]
      else check_snippet_lines context 1 (splitlines snippet))"

text \<open>
  \<open>_indent\<close> (and its twin \<open>_indent_nginx_snippet\<close> in services.py), and the configuration
  the binary tests.  The \<open>nginx\<close> binary is not part of the repository: it is an argument,
  absent when \<open>shutil.which\<close> finds none; it maps the configuration text to a return code
  and its output, or \<open>None\<close> when the eight seconds run out.
\<close>

definition indent_snippet :: "string \<Rightarrow> nat \<Rightarrow> string" where
  "indent_snippet snippet spaces =
     join [newline] (map (\<lambda>line. if strip line \<noteq> [] then replicate spaces (CHR '' '') @ line else [])
                         (splitlines snippet))"

type_synonym nginx_binary = "string \<Rightarrow> (int \<times> string \<times> string) option"

definition nginx_test_conf :: "string \<Rightarrow> string \<Rightarrow> string" where
  "nginx_test_conf server_snippet location_snippet =
     join [newline]
       [[], ''events {}'', ''http {'', ''    server {'', ''        listen 127.0.0.1:8088;'',
        indent_snippet server_snippet 8, ''        location / {'',
        indent_snippet location_snippet 12,
        ''            proxy_pass http://127.0.0.1:65535;'', ''        }'', ''    }'', ''}'', []]"

definition validate_with_nginx_binary ::
    "nginx_binary \<Rightarrow> string \<Rightarrow> string \<Rightarrow> py_exn + snippet_error list" where
  "validate_with_nginx_binary nginx server_snippet location_snippet =
     (case nginx (nginx_test_conf server_snippet location_snippet) of
        None \<Rightarrow> Inl TimeoutExpired
      | Some (returncode, stdout, stderr) \<Rightarrow>
          if returncode = 0 then Inr []
          else let output = strip (if stderr = [] then stdout else stderr) in
               Inr [NginxTestFailed (if output = [] then ''configuracion invalida''
                                     else last (splitlines output))])"

definition validate_nginx_extra_config ::
    "nginx_binary option \<Rightarrow> string \<Rightarrow> string \<Rightarrow> py_exn + snippet_error list" where
  "validate_nginx_extra_config which_nginx server_snippet location_snippet =
     (case validate_snippet_lines server_snippet ''server'' of
        Inl x \<Rightarrow> Inl x
      | Inr e1 \<Rightarrow>
          (case validate_snippet_lines location_snippet ''location'' of
             Inl x \<Rightarrow> Inl x
           | Inr e2 \<Rightarrow>
               if e1 @ e2 \<noteq> [] then Inr (e1 @ e2)
               else case which_nginx of
                      None \<Rightarrow> Inr []
                    | Some nginx \<Rightarrow> validate_with_nginx_binary nginx server_snippet location_snippet))"

section \<open>Security headers, domains, e-mail addresses\<close>

definition header_name_char :: "char \<Rightarrow> bool" where
  "header_name_char c \<longleftrightarrow> is_alnum c \<or> c \<in> set ''!#$%&*+.^_`|~-'' \<or> c = squote"

definition HEADER_NAME_RE :: rx where
  "HEADER_NAME_RE = anchored (plus (Cls header_name_char))"

definition invalid_value_char :: "char \<Rightarrow> bool" where
  "invalid_value_char c \<longleftrightarrow> code c \<le> 8 \<or> (10 \<le> code c \<and> code c \<le> 31) \<or> code c = 127"

definition INVALID_VALUE_RE :: rx where
  "INVALID_VALUE_RE = Cls invalid_value_char"

datatype header_error =
    HeaderNameRequired
  | HeaderNameInvalid string
  | HeaderValueRequired
  | HeaderValueInvalid string
  | HeaderNameTooLong
  | HeaderValueTooLong string

definition validate_security_header :: "string \<Rightarrow> string \<Rightarrow> header_error list" where
  "validate_security_header name value =
     (if name = [] then [HeaderNameRequired]
      else if \<not> matches HEADER_NAME_RE name then [HeaderNameInvalid name] else []) @
     (if value = [] then [HeaderValueRequired]
      else if rx_search INVALID_VALUE_RE value \<noteq> None then [HeaderValueInvalid name] else []) @
     (if length name > 120 then [HeaderNameTooLong] else []) @
     (if length value > 1000 then [HeaderValueTooLong name] else [])"

text \<open>
  \<^verbatim>\<open>^(?=.{1,253}$)(?!-)[A-Za-z0-9-]{1,63}(?<!-)(\.(?!-)[A-Za-z0-9-]{1,63}(?<!-))+$\<close>,
  written out in \<open>validators.py\<close> and again in \<open>models.py\<close>.
\<close>

definition label_char :: "char \<Rightarrow> bool" where
  "label_char c \<longleftrightarrow> is_alnum c \<or> c = CHR ''-''"

definition domain_label :: rx where
  "domain_label = Cat (NLook (lit_char (CHR ''-''))) (Cat (rep 1 63 (Cls label_char)) (NBehind (\<lambda>c. c = CHR ''-'')))"

definition DOMAIN_RE :: rx where
  "DOMAIN_RE = Cat Bos (Cat (Look (Cat (rep 1 253 anychar) Eos))
     (Cat domain_label (Cat (plus (Cap 1 (Cat (lit_char (CHR ''.'')) domain_label))) Eos)))"

text \<open>\<^verbatim>\<open>^[a-zA-Z0-9._%+\-]+@[a-zA-Z0-9.\-]+\.[a-zA-Z]{2,}$\<close>\<close>

definition EMAIL_RE :: rx where
  "EMAIL_RE = anchored
     (Cat (plus (Cls (\<lambda>c. is_alnum c \<or> c \<in> set ''._%+-'')))
     (Cat (lit_char (CHR ''@''))
     (Cat (plus (Cls (\<lambda>c. is_alnum c \<or> c \<in> set ''.-'')))
     (Cat (lit_char (CHR ''.''))
     (Cat (rep_exact 2 (Cls is_alpha)) (Star (Cls is_alpha)))))))"

definition is_valid_domain :: "string \<Rightarrow> bool" where
  "is_valid_domain value = matches DOMAIN_RE value"

definition is_valid_email :: "string \<Rightarrow> bool" where
  "is_valid_email value = matches EMAIL_RE value"

text \<open>\<open>Site._validate_domain\<close>: what the model stores, or the \<open>ValueError\<close>.\<close>

definition site_validate_domain :: "string option \<Rightarrow> py_exn + string" where
  "site_validate_domain value =
     (let v = py_lower (strip (case value of None \<Rightarrow> [] | Some s \<Rightarrow> s)) in
      if matches DOMAIN_RE v then Inr v else Inl ValueError)"

section \<open>Host names: what the domain pattern means\<close>

text \<open>The specification of the domain pattern, without patterns.\<close>

definition label_ok :: "string \<Rightarrow> bool" where
  "label_ok l \<longleftrightarrow> 1 \<le> length l \<and> length l \<le> 63 \<and> list_all label_char l
     \<and> hd l \<noteq> CHR ''-'' \<and> last l \<noteq> CHR ''-''"

definition hostname :: "string \<Rightarrow> bool" where
  "hostname w \<longleftrightarrow> length w \<le> 253 \<and> 2 \<le> length (split_on (CHR ''.'') w)
     \<and> list_all label_ok (split_on (CHR ''.'') w)"

lemma run_not_hyphen:
  "rx_run (NLook (lit_char (CHR ''-''))) (b, s, g) = (if s \<noteq> [] \<and> hd s = CHR ''-'' then [] else [(b, s, g)])"
  by (cases s) (auto simp: lit_char_def)

lemma reads_label: "reads domain_label label_ok"
proof -
  have r: "reads (rep 1 63 (Cls label_char))
      (\<lambda>w. 1 \<le> length w \<and> length w \<le> 63 \<and> (\<forall>c\<in>set w. label_char c))"
    by (rule reads_cong [OF plain_reads]) (simp_all add: rx_words)
  show ?thesis
  proof (rule readsI)
    fix b s g q
    assume "q \<in> set (rx_run domain_label (b, s, g))"
    then obtain m0 m where m0: "m0 \<in> set (rx_run (NLook (lit_char (CHR ''-''))) (b, s, g))"
      and m1: "m \<in> set (rx_run (rep 1 63 (Cls label_char)) m0)"
      and q: "q \<in> set (rx_run (NBehind (\<lambda>c. c = CHR ''-'')) m)"
      unfolding domain_label_def run_Cat by blast
    from m0 have s: "\<not> (s \<noteq> [] \<and> hd s = CHR ''-'')" and m0_eq: "m0 = (b, s, g)"
      unfolding run_not_hyphen by (auto split: if_splits)
    note m = m1 [unfolded m0_eq]
    obtain w g' where w: "s = w @ fst (snd m)" "m = (rev w @ b, fst (snd m), g')"
      "1 \<le> length w \<and> length w \<le> 63 \<and> (\<forall>c\<in>set w. label_char c)"
      using reads_sound [OF r m] by blast
    have "q = m \<and> last w \<noteq> CHR ''-''"
      using q w(2,3) by (cases m; cases w rule: rev_cases) (auto split: if_splits)
    moreover have "hd w \<noteq> CHR ''-''" using s w by (cases w) auto
    ultimately show "\<exists>w g'. s = w @ fst (snd q) \<and> q = (rev w @ b, fst (snd q), g') \<and> label_ok w"
      using w by (auto simp: label_ok_def list_all_iff)
  next
    fix w b s g
    assume w: "label_ok w"
    obtain g' where m: "(rev w @ b, s, g') \<in> set (rx_run (rep 1 63 (Cls label_char)) (b, w @ s, g))"
    proof (rule reads_complete [OF r])
      show "1 \<le> length w \<and> length w \<le> 63 \<and> (\<forall>c\<in>set w. label_char c)"
        using w by (simp add: label_ok_def list_all_iff)
    qed
    have "rx_run (NLook (lit_char (CHR ''-''))) (b, w @ s, g) = [(b, w @ s, g)]"
      using w unfolding run_not_hyphen by (cases w) (simp_all add: label_ok_def)
    moreover have "rx_run (NBehind (\<lambda>c. c = CHR ''-'')) (rev w @ b, s, g') = [(rev w @ b, s, g')]"
      using w by (cases w rule: rev_cases) (simp_all add: label_ok_def)
    ultimately show "\<exists>g'. (rev w @ b, s, g') \<in> set (rx_run domain_label (b, w @ s, g))"
      using m unfolding domain_label_def run_Cat by (metis list.set_intros(1))
  qed
qed

definition dotted :: "string \<Rightarrow> bool" where
  "dotted w \<longleftrightarrow> (\<exists>l. w = CHR ''.'' # l \<and> label_ok l)"

lemma reads_dotted: "reads (Cap 1 (Cat (lit_char (CHR ''.'')) domain_label)) dotted"
proof (rule reads_cong)
  show "reads (Cap 1 (Cat (lit_char (CHR ''.'')) domain_label))
      (cat_of (rx_word (lit_char (CHR ''.''))) label_ok)"
    by (intro reads_Cap reads_Cat plain_reads reads_label) simp
qed (auto simp: cat_of_def rx_words dotted_def)

lemma label_ok_no_dot: "label_ok l \<Longrightarrow> CHR ''.'' \<notin> set l"
  by (auto simp: label_ok_def list_all_iff label_char_def chars)

lemma split_dotted:
  assumes "star_of dotted w"
  shows "label_ok l \<Longrightarrow> list_all label_ok (split_on (CHR ''.'') (l @ w)) \<and>
     (w \<noteq> [] \<longrightarrow> 2 \<le> length (split_on (CHR ''.'') (l @ w)))"
  using assms
proof (induction arbitrary: l rule: star_of.induct)
  case star_Nil
  then show ?case by (simp add: split_on_none label_ok_no_dot)
next
  case (star_Cons v w)
  then obtain k where k: "v = CHR ''.'' # k" "label_ok k" by (auto simp: dotted_def)
  with star_Cons have "list_all label_ok (split_on (CHR ''.'') (k @ w))" by blast
  moreover have "split_on (CHR ''.'') (l @ v @ w) = l # split_on (CHR ''.'') (k @ w)"
    using k star_Cons.prems by (simp add: split_on_append_sep label_ok_no_dot)
  moreover have "1 \<le> length (split_on (CHR ''.'') (k @ w))"
    by (cases "split_on (CHR ''.'') (k @ w)") auto
  ultimately show ?case using star_Cons.prems by simp
qed

lemma dotted_split:
  "list_all label_ok ls \<Longrightarrow> star_of dotted (concat (map (\<lambda>l. CHR ''.'' # l) ls))"
proof (induction ls)
  case (Cons l ls)
  then have "star_of dotted ((CHR ''.'' # l) @ concat (map (\<lambda>l. CHR ''.'' # l) ls))"
    using star_Cons [of dotted "CHR ''.'' # l"] by (simp add: dotted_def [of "CHR ''.'' # l"])
  then show ?case by simp
qed (simp add: star_Nil)

lemma join_dots: "join ''.'' (l # ls) = l @ concat (map (\<lambda>l. CHR ''.'' # l) ls)"
  by (induction ls arbitrary: l) auto

text \<open>The body of the domain pattern reads the dotted names of two labels or more.\<close>

lemma reads_names:
  "reads (Cat domain_label (plus (Cap 1 (Cat (lit_char (CHR ''.'')) domain_label))))
     (\<lambda>w. 2 \<le> length (split_on (CHR ''.'') w) \<and> list_all label_ok (split_on (CHR ''.'') w))"
proof (rule reads_cong)
  show "reads (Cat domain_label (plus (Cap 1 (Cat (lit_char (CHR ''.'')) domain_label))))
     (cat_of label_ok (cat_of dotted (star_of dotted)))"
    unfolding plus_def by (intro reads_Cat reads_label reads_Star reads_dotted)
next
  fix w
  show "cat_of label_ok (cat_of dotted (star_of dotted)) w \<longleftrightarrow>
      2 \<le> length (split_on (CHR ''.'') w) \<and> list_all label_ok (split_on (CHR ''.'') w)"
  proof
    assume "cat_of label_ok (cat_of dotted (star_of dotted)) w"
    then obtain l v u where w: "w = l @ v @ u" "label_ok l" "dotted v" "star_of dotted u"
      by (auto simp: cat_of_def)
    then have "star_of dotted (v @ u)" "v @ u \<noteq> []"
      by (auto intro!: star_Cons simp: dotted_def)
    with split_dotted [OF this(1) w(2)] w(1) show "2 \<le> length (split_on (CHR ''.'') w)
        \<and> list_all label_ok (split_on (CHR ''.'') w)" by simp
  next
    assume h: "2 \<le> length (split_on (CHR ''.'') w) \<and> list_all label_ok (split_on (CHR ''.'') w)"
    then obtain l k ls where s: "split_on (CHR ''.'') w = l # k # ls"
      by (cases "split_on (CHR ''.'') w"; cases "tl (split_on (CHR ''.'') w)") auto
    have "w = join ''.'' (l # k # ls)" using join_split_on [of "CHR ''.''" w] s by simp
    then have "w = l @ (CHR ''.'' # k) @ concat (map (\<lambda>l. CHR ''.'' # l) ls)"
      by (simp add: join_dots del: join.simps)
    moreover have "label_ok l" "dotted (CHR ''.'' # k)" "star_of dotted (concat (map (\<lambda>l. CHR ''.'' # l) ls))"
      using h s dotted_split [of ls] by (auto simp: dotted_def)
    ultimately show "cat_of label_ok (cat_of dotted (star_of dotted)) w"
      unfolding cat_of_def by blast
  qed
qed

lemma names_no_newline:
  "list_all label_ok (split_on (CHR ''.'') w) \<Longrightarrow> c \<in> set w \<Longrightarrow> label_char c \<or> c = CHR ''.''"
proof -
  assume a: "list_all label_ok (split_on (CHR ''.'') w)" and c: "c \<in> set w"
  have "set w \<subseteq> (\<Union>l\<in>set (split_on (CHR ''.'') w). set l) \<union> {CHR ''.''}"
    using set_join [of "[CHR ''.'']" "split_on (CHR ''.'') w"] by (simp add: join_split_on)
  with a c show ?thesis by (auto simp: list_all_iff label_ok_def)
qed

lemma look_length:
  "rx_run (Look (Cat (rep 1 253 anychar) Eos)) ([], s, g) \<noteq> [] \<longleftrightarrow>
     (\<exists>w. (s = w \<or> s = w @ [newline]) \<and> 1 \<le> length w \<and> length w \<le> 253 \<and> newline \<notin> set w)"
    (is "?l \<longleftrightarrow> ?r")
proof -
  have r: "reads (rep 1 253 anychar) (\<lambda>w. 1 \<le> length w \<and> length w \<le> 253 \<and> newline \<notin> set w)"
    by (rule reads_cong [OF plain_reads]) (auto simp: anychar_def rx_words)
  have "?l \<longleftrightarrow> (\<exists>q. q \<in> set (rx_run (Cat (rep 1 253 anychar) Eos) ([], s, g)))"
    by (auto simp del: rx_run.simps(3) simp: neq_Nil_conv) (metis list.set_cases)
  also have "\<dots> \<longleftrightarrow> (\<exists>m. m \<in> set (rx_run (rep 1 253 anychar) ([], s, g)) \<and>
      (fst (snd m) = [] \<or> fst (snd m) = [newline]))"
    unfolding run_Cat by (auto split: if_splits) 
  also have "\<dots> \<longleftrightarrow> ?r"
  proof
    assume "\<exists>m. m \<in> set (rx_run (rep 1 253 anychar) ([], s, g)) \<and>
      (fst (snd m) = [] \<or> fst (snd m) = [newline])"
    then obtain m where m: "m \<in> set (rx_run (rep 1 253 anychar) ([], s, g))"
      and e: "fst (snd m) = [] \<or> fst (snd m) = [newline]" by blast
    obtain w g' where "s = w @ fst (snd m)" "1 \<le> length w \<and> length w \<le> 253 \<and> newline \<notin> set w"
      using reads_sound [OF r m] by blast
    with e show ?r by auto
  next
    assume ?r
    then obtain w t where w: "s = w @ t" "t = [] \<or> t = [newline]"
      "1 \<le> length w \<and> length w \<le> 253 \<and> newline \<notin> set w" by auto
    obtain g' where "(rev w @ [], t, g') \<in> set (rx_run (rep 1 253 anychar) ([], w @ t, g))"
      using w(3) by (rule reads_complete [OF r])
    with w(1,2) show "\<exists>m. m \<in> set (rx_run (rep 1 253 anychar) ([], s, g)) \<and>
      (fst (snd m) = [] \<or> fst (snd m) = [newline])" by force
  qed
  finally show ?thesis .
qed

text \<open>The pattern accepts exactly the host names, and the host names with one final line feed.\<close>

theorem domain_re_iff:
  "matches DOMAIN_RE s \<longleftrightarrow> hostname s \<or> (\<exists>w. s = w @ [newline] \<and> hostname w)"
proof -
  let ?body = "Cat domain_label (plus (Cap 1 (Cat (lit_char (CHR ''.'')) domain_label)))"
  let ?look = "Look (Cat (rep 1 253 anychar) Eos)"
  let ?names = "\<lambda>w. 2 \<le> length (split_on (CHR ''.'') w) \<and> list_all label_ok (split_on (CHR ''.'') w)"
  have nl: "newline \<notin> set w" if "?names w" for w
    using names_no_newline [of w newline] that by (auto simp: label_char_def chars)
  have nl': "\<not> ?names (w @ [newline])" for w using nl [of "w @ [newline]"] by auto
  have ne: "w \<noteq> []" if "?names w" for w using that by (cases w) auto
  have "matches DOMAIN_RE s \<longleftrightarrow> rx_run ?look ([], s, []) \<noteq> [] \<and> matches (anchored ?body) s"
    unfolding matches_iff DOMAIN_RE_def anchored_def run_Cat run_Look run_Bos by blast
  also have "\<dots> \<longleftrightarrow> (\<exists>w. (s = w \<or> s = w @ [newline]) \<and> ?names w \<and> length w \<le> 253)"
    unfolding matches_anchored_reads [OF reads_names] look_length
    using nl nl' ne by (auto simp: Suc_le_eq)
  also have "\<dots> \<longleftrightarrow> hostname s \<or> (\<exists>w. s = w @ [newline] \<and> hostname w)"
    by (auto simp: hostname_def)
  finally show ?thesis .
qed

lemma lower_char_not_upper: "\<not> is_upper (lower_char c)"
proof (cases "is_upper c \<or> (192 \<le> code c \<and> code c \<le> 222 \<and> code c \<noteq> 215)")
  case True
  then have "code (lower_char c) = code c + 32" by (auto simp: lower_char_def is_upper_def)
  with True show ?thesis by (auto simp: is_upper_def)
next
  case False
  then have "lower_char c = c" unfolding lower_char_def by (rule if_not_P)
  with False show ?thesis by simp
qed

lemma lower_char_newline: "lower_char c = newline \<Longrightarrow> c = newline"
proof (cases "is_upper c \<or> (192 \<le> code c \<and> code c \<le> 222 \<and> code c \<noteq> 215)")
  case True
  then have "code (lower_char c) = code c + 32" by (auto simp: lower_char_def is_upper_def)
  moreover have "code newline = 10" by (simp add: newline_def)
  moreover assume "lower_char c = newline"
  ultimately show ?thesis using True by (auto simp: is_upper_def)
qed (simp add: lower_char_def)

lemma py_lower_id: "\<forall>c\<in>set s. lower_char c = c \<Longrightarrow> py_lower s = s"
  by (simp add: py_lower_def map_idI)

definition stored_domain_char :: "char \<Rightarrow> bool" where
  "stored_domain_char c \<longleftrightarrow> is_lower c \<or> is_digit c \<or> c = CHR ''-'' \<or> c = CHR ''.''"

lemma stored_domain_char_facts:
  "stored_domain_char c \<Longrightarrow> lower_char c = c \<and> \<not> is_space c"
  by (auto simp: stored_domain_char_def lower_char_def chars)

lemma label_char_lower: "label_char c \<or> c = CHR ''.'' \<Longrightarrow> \<not> is_upper c \<Longrightarrow> stored_domain_char c"
  by (auto simp: label_char_def stored_domain_char_def is_alnum_def is_alpha_def)

lemma hostname_chars: "hostname w \<Longrightarrow> c \<in> set w \<Longrightarrow> label_char c \<or> c = CHR ''.''"
  using names_no_newline by (auto simp: hostname_def)

lemma site_validate_domain_sound:
  assumes "site_validate_domain v = Inr d"
  shows "hostname d \<and> list_all stored_domain_char d"
proof -
  define x where "x = strip (case v of None \<Rightarrow> [] | Some s \<Rightarrow> s)"
  have d: "d = py_lower x" "matches DOMAIN_RE d"
    using assms by (auto simp: site_validate_domain_def x_def Let_def split: if_splits)
  have "d \<noteq> w @ [newline]" for w
  proof
    assume "d = w @ [newline]"
    then obtain y c where y: "x = y @ [c]" "lower_char c = newline"
      using d(1) by (cases x rule: rev_cases) (auto simp: py_lower_def)
    then have "c = newline" by (simp add: lower_char_newline)
    moreover have "x \<noteq> []" using y(1) by simp
    then have "\<not> is_space (last x)" unfolding x_def by (rule strip_last)
    ultimately show False using y(1) by (simp add: is_space_def newline_def)
  qed
  with d(2) have h: "hostname d" by (simp add: domain_re_iff)
  have "stored_domain_char c" if "c \<in> set d" for c
    using hostname_chars [OF h that] that lower_char_not_upper
    by (intro label_char_lower) (auto simp: d(1) py_lower_def)
  with h show ?thesis by (simp add: list_all_iff)
qed

lemma stored_domain_fixed:
  assumes "hostname d" "list_all stored_domain_char d"
  shows "site_validate_domain (Some d) = Inr d"
proof -
  have "strip d = d" "py_lower d = d"
    using assms(2) stored_domain_char_facts
    by (auto intro!: strip_no_space py_lower_id simp: list_all_iff)
  with assms(1) show ?thesis by (simp add: site_validate_domain_def domain_re_iff)
qed

section \<open>What the validators accept\<close>

subsection \<open>Custom rules\<close>

text \<open>One accepted directive with the id it declares.\<close>

definition statement_accepted :: "string \<Rightarrow> nat \<Rightarrow> bool" where
  "statement_accepted s rule_id \<longleftrightarrow>
     (starts_with ''SecRule '' s \<or> starts_with ''SecAction '' s)
     \<and> even (count_char dquote s) \<and> even (count_char squote s)
     \<and> Option.bind (found_id s) parse_digits = Some rule_id
     \<and> CUSTOM_RULE_ID_MIN \<le> rule_id \<and> rule_id \<le> CUSTOM_RULE_ID_MAX"

lemma check_statement_iff:
  "check_statement k s = Inr ([], i) \<longleftrightarrow> (\<exists>n. i = Some n \<and> statement_accepted s n)"
  by (auto simp: check_statement_def statement_accepted_def Let_def odd_iff_mod_2_eq_one
      not_less split: option.splits if_splits)

lemma check_statements_iff:
  "check_statements k ss = Inr ([], ids) \<longleftrightarrow> list_all2 statement_accepted ss ids"
proof (induction ss arbitrary: k ids)
  case (Cons s ss)
  show ?case
  proof
    assume "check_statements k (s # ss) = Inr ([], ids)"
    then obtain i js where "check_statement k s = Inr ([], i)"
      "check_statements (Suc k) ss = Inr ([], js)" "ids = (case i of None \<Rightarrow> js | Some n \<Rightarrow> n # js)"
      by (auto split: sum.splits prod.splits)
    with Cons show "list_all2 statement_accepted (s # ss) ids"
      by (auto simp: check_statement_iff)
  next
    assume "list_all2 statement_accepted (s # ss) ids"
    then obtain n js where n: "ids = n # js" "statement_accepted s n" "list_all2 statement_accepted ss js"
      by (cases ids) auto
    then have "check_statement k s = Inr ([], Some n)" "check_statements (Suc k) ss = Inr ([], js)"
      using Cons by (simp_all add: check_statement_iff)
    with n show "check_statements k (s # ss) = Inr ([], ids)" by simp
  qed
qed auto

lemma length_remdups_distinct: "length xs = length (remdups xs) \<longleftrightarrow> distinct xs"
  by (metis distinct_card length_remdups_card_conv card_distinct remdups_id_iff_distinct)

definition custom_rule_ok :: "string \<Rightarrow> string \<Rightarrow> bool" where
  "custom_rule_ok name rule_text \<longleftrightarrow>
     1 \<le> length name \<and> length name \<le> 160
     \<and> 1 \<le> length rule_text \<and> length rule_text \<le> MAX_RULE_TEXT_LENGTH
     \<and> squote \<notin> set rule_text
     \<and> \<not> list_ex (\<lambda>t. contains t (py_lower rule_text)) DISALLOWED_RULE_TOKENS
     \<and> rx_search CTL_RE (py_lower rule_text) = None
     \<and> statements rule_text \<noteq> []
     \<and> (\<exists>ids. list_all2 statement_accepted (statements rule_text) ids \<and> distinct ids)"

lemma lower_tokens: "t \<in> set DISALLOWED_RULE_TOKENS \<Longrightarrow> py_lower t = t"
  by (auto simp: DISALLOWED_RULE_TOKENS_def py_lower_def lower_char_def is_upper_def)

lemma no_tokens_iff:
  "filter (\<lambda>t. contains (py_lower t) l) DISALLOWED_RULE_TOKENS = []
     \<longleftrightarrow> \<not> list_ex (\<lambda>t. contains t l) DISALLOWED_RULE_TOKENS"
  using lower_tokens by (auto simp: filter_empty_conv list_ex_iff)

text \<open>The validator accepts a rule exactly when it is a well-formed rule of the reserved range.\<close>

lemma validate_custom_rule_iff: "validate_custom_rule name t = Inr [] \<longleftrightarrow> custom_rule_ok name t"
proof (cases "t = [] \<or> statements t = []")
  case True
  then show ?thesis
    by (auto simp: validate_custom_rule_def custom_rule_ok_def Let_def)
next
  case False
  show ?thesis
  proof (cases "check_statements 1 (statements t)")
    case (Inl x)
    then have "\<not> list_all2 statement_accepted (statements t) ids" for ids
      by (metis check_statements_iff sum.distinct(1))
    with Inl False show ?thesis
      by (simp add: validate_custom_rule_def custom_rule_ok_def Let_def)
  next
    case (Inr r)
    obtain e ids where r: "r = (e, ids)" by (cases r)
    have "list_all2 statement_accepted (statements t) js \<longleftrightarrow> e = [] \<and> js = ids" for js
      using Inr r check_statements_iff [of 1 "statements t" js] by auto
    with Inr r False show ?thesis
      by (auto simp: validate_custom_rule_def custom_rule_ok_def Let_def no_tokens_iff
          length_remdups_distinct Suc_le_eq split: option.splits)
  qed
qed

subsection \<open>Exclusions\<close>

lemma validate_rule_exclusion_iff:
  "validate_rule_exclusion raw comment = Inr (Some n, es) \<longleftrightarrow>
     es = [] \<and> (\<exists>s. raw = Some s \<and> strip s \<noteq> [] \<and> list_all is_digit (strip s)
       \<and> length (strip s) \<le> int_limit \<and> n = int (digits_val (strip s)))
     \<and> CRS_RULE_ID_MIN \<le> n \<and> n \<le> CRS_RULE_ID_MAX \<and> n \<notin> set CRITICAL_CRS_RULE_IDS
     \<and> length comment \<le> MAX_EXCLUSION_COMMENT_LENGTH"
proof (cases raw)
  case None
  then show ?thesis by (simp add: validate_rule_exclusion_def strip_def lstrip_def rstrip_def)
next
  case (Some s)
  show ?thesis
  proof (cases "strip s \<noteq> [] \<and> list_all is_digit (strip s)")
    case False
    with Some show ?thesis by (auto simp: validate_rule_exclusion_def Let_def)
  next
    case True
    have p: "py_int (strip s) = (if length (strip s) \<le> int_limit
        then Some (int (digits_val (strip s))) else None)"
      using True py_int_digits [of "strip s"] parse_digits_all [of "strip s"]
        parse_digits_too_long [of "strip s"] by (auto simp: list_all_iff)
    have a: "list_all is_ascii (strip s)"
      using True by (auto simp: list_all_iff is_digit_def is_ascii_def)
    show ?thesis
      using True Some p a
      by (auto simp: validate_rule_exclusion_def Let_def CUSTOM_RULE_ID_MIN_def
          CRS_RULE_ID_MAX_def CUSTOM_RULE_ID_MAX_def not_less split: if_splits)
  qed
qed

lemma validate_rule_exclusion_reports:
  "validate_rule_exclusion raw comment = Inr (r, es) \<Longrightarrow> (r = None) = (es \<noteq> [])"
  by (auto simp: validate_rule_exclusion_def Let_def split: option.splits if_splits; metis)

subsection \<open>Extra directives\<close>

definition snippet_line_ok :: "string \<Rightarrow> bool" where
  "snippet_line_ok raw_line \<longleftrightarrow>
     (let line = strip raw_line; directive = first_word (butlast line) in
      line = [] \<or> starts_with ''#'' line \<or>
      (CHR ''{'' \<notin> set line \<and> CHR ''}'' \<notin> set line \<and> ends_with '';'' line
       \<and> list_all (\<lambda>c. 32 \<le> code c \<or> c = CHR 0x09) raw_line
       \<and> list_ex (\<lambda>c. c \<noteq> CHR ''_'') directive
       \<and> list_all is_word directive
       \<and> directive \<notin> set DISALLOWED_DIRECTIVES
       \<and> even (count_char dquote line) \<and> even (count_char squote line)))"

lemma first_word_ne: "first_word s = [] \<longleftrightarrow> lstrip s = []"
proof
  assume "first_word s = []"
  then show "lstrip s = []"
    unfolding first_word_def lstrip_def by (metis hd_dropWhile list.collapse takeWhile.simps(2) list.discI)
qed (simp add: first_word_def)

lemma bare_directive_iff:
  "(filter (\<lambda>c. c \<noteq> CHR ''_'') d = [] \<or> \<not> list_all uni_alnum (filter (\<lambda>c. c \<noteq> CHR ''_'') d))
     \<longleftrightarrow> \<not> (list_ex (\<lambda>c. c \<noteq> CHR ''_'') d \<and> list_all is_word d)"
  by (auto simp: filter_empty_conv list_ex_iff list_all_iff is_word_def)

lemma check_snippet_line_iff:
  "check_snippet_line ctx n l = Inr [] \<longleftrightarrow> snippet_line_ok l"
proof -
  have c: "(\<exists>c\<in>set l. code c < 32 \<and> c \<noteq> CHR 0x09) \<longleftrightarrow> \<not> list_all (\<lambda>c. 32 \<le> code c \<or> c = CHR 0x09) l"
    by (auto simp: list_all_iff not_le)
  have "list_ex (\<lambda>c. c \<noteq> CHR ''_'') (first_word s) \<Longrightarrow> lstrip s \<noteq> []" for s
    using first_word_ne [of s] by auto
  then show ?thesis
    unfolding check_snippet_line_def snippet_line_ok_def Let_def bare_directive_iff c
    by (auto simp: odd_iff_mod_2_eq_one)
qed

lemma check_snippet_lines_iff:
  "check_snippet_lines ctx n ls = Inr [] \<longleftrightarrow> list_all snippet_line_ok ls"
proof (induction ls arbitrary: n)
  case (Cons l ls)
  have "snippet_line_ok l \<longleftrightarrow> check_snippet_line ctx n l = Inr []"
    by (simp add: check_snippet_line_iff)
  with Cons show ?case by (auto split: sum.splits)
qed simp

lemma validate_snippet_lines_iff:
  "validate_snippet_lines s ctx = Inr [] \<longleftrightarrow>
     length s \<le> MAX_SNIPPET_LENGTH \<and> list_all snippet_line_ok (splitlines s)"
  by (simp add: validate_snippet_lines_def check_snippet_lines_iff)

subsection \<open>Security headers\<close>

lemma rx_search_Cls: "rx_search_from (Cls P) b s = None \<longleftrightarrow> list_all (\<lambda>c. \<not> P c) s"
  by (induction s arbitrary: b) auto

lemma header_name_iff:
  "matches HEADER_NAME_RE n \<longleftrightarrow>
     (\<exists>w. (n = w \<or> n = w @ [newline]) \<and> w \<noteq> [] \<and> list_all header_name_char w)"
  unfolding HEADER_NAME_RE_def
  by (auto simp: matches_anchored_iff rx_words list_all_iff)

lemma validate_security_header_iff:
  "validate_security_header name value = [] \<longleftrightarrow>
     matches HEADER_NAME_RE name \<and> length name \<le> 120
     \<and> value \<noteq> [] \<and> length value \<le> 1000 \<and> list_all (\<lambda>c. \<not> invalid_value_char c) value"
  by (auto simp: validate_security_header_def rx_search_def INVALID_VALUE_RE_def rx_search_Cls
      header_name_iff)

end
