(* ===== verification/RuleProperties.thy ===== *)
theory RuleProperties
  imports RuleValidation
begin

text \<open>
  The properties of the validators of \<^verbatim>\<open>RuleValidation\<close>: what each of them accepts,
  stated without the patterns and loops of the code.
\<close>

text \<open>
  C20: The domain pattern accepts exactly the host names (at most 253 characters, two or more
  labels of 1 to 63 letters, digits and hyphens that neither begin nor end with a hyphen),
  and, because a dollar sign also matches before a final line feed, those followed by one.
\<close>

theorem domain_pattern_exact:
  "is_valid_domain s \<longleftrightarrow> hostname s \<or> (\<exists>w. s = w @ [newline] \<and> hostname w)"
  unfolding is_valid_domain_def by (rule domain_re_iff)

text \<open>
  The domains a site can be stored with are exactly the host names in lower case: what
  the model's validator returns is one, and each of them is returned unchanged, so a stored
  domain never holds a space, a line feed, a quote or a semicolon.
\<close>

theorem stored_domains_exact:
  "(\<exists>v. site_validate_domain v = Inr d) \<longleftrightarrow> hostname d \<and> list_all stored_domain_char d"
  using site_validate_domain_sound stored_domain_fixed by blast

text \<open>
  C21: A custom rule is accepted exactly when its name and text have admissible lengths, it
  holds no apostrophe, no forbidden token and no ctl action, and every statement is a SecRule
  or SecAction with balanced quotes whose first id lies in the reserved range, all these ids
  being distinct.
\<close>

theorem custom_rule_accepted_iff:
  "validate_custom_rule name t = Inr [] \<longleftrightarrow> custom_rule_ok name t"
  by (rule validate_custom_rule_iff)

text \<open>
  An exclusion is accepted, and with which rule id, exactly when the text is a decimal
  number of the CRS range that is not one of the critical rules and the comment is not too
  long; in particular no critical rule can ever be excluded.
\<close>

theorem rule_exclusion_accepted_iff:
  "validate_rule_exclusion raw comment = Inr (Some n, es) \<longleftrightarrow>
     es = [] \<and> (\<exists>s. raw = Some s \<and> strip s \<noteq> [] \<and> list_all is_digit (strip s)
       \<and> length (strip s) \<le> int_limit \<and> n = int (digits_val (strip s)))
     \<and> CRS_RULE_ID_MIN \<le> n \<and> n \<le> CRS_RULE_ID_MAX \<and> n \<notin> set CRITICAL_CRS_RULE_IDS
     \<and> length comment \<le> MAX_EXCLUSION_COMMENT_LENGTH"
  by (rule validate_rule_exclusion_iff)

text \<open>
  C22: A snippet of extra directives is accepted exactly when it is short enough and every
  line is blank, a comment, or a directive without braces, with balanced quotes, ending in a
  semicolon, whose first word is a plain word that is not on the list of forbidden
  directives.
\<close>

theorem snippet_accepted_iff:
  "validate_snippet_lines s ctx = Inr [] \<longleftrightarrow>
     length s \<le> MAX_SNIPPET_LENGTH \<and> list_all snippet_line_ok (splitlines s)"
  by (rule validate_snippet_lines_iff)


end
