(* ===== verification/Models.thy ===== *)
theory Models
  imports PyJson
begin

text \<open>
  The tables of \<^verbatim>\<open>app/models.py\<close>: one record per model, its columns as fields, the database
  as the lists of rows, and the uniqueness constraints.  Times are microseconds since the
  epoch, in UTC and without zone, as the columns hold them.  The cached columns
  \<open>updated_at\<close>, the serialized machine-learning models and the relationships, which
  SQLAlchemy derives from the foreign keys, are left out.
\<close>

section \<open>Rows\<close>

record app_config =
  cfg_key :: string
  cfg_value :: "string option"
  cfg_encrypted :: bool

record attack_event =
  ev_id :: nat
  ev_site_id :: "nat option"
  ev_domain :: string
  ev_source_ip :: string
  ev_country_code :: "string option"
  ev_method :: string
  ev_path :: string
  ev_status_code :: int
  ev_action :: string
  ev_category :: string
  ev_rule_id :: "string option"
  ev_severity :: string
  ev_message :: string
  ev_transaction_id :: "string option"
  ev_created_at :: int

record modsec_raw_log =
  raw_id :: nat
  raw_transaction_id :: "string option"
  raw_source_ip :: "string option"
  raw_rule_id :: "string option"
  raw_json :: string
  raw_created_at :: int

record audit_log =
  al_id :: nat
  al_created_at :: int
  al_actor_email :: string
  al_actor_id :: "nat option"
  al_action :: string
  al_resource_type :: "string option"
  al_resource_name :: "string option"
  al_detail :: "json option"
  al_ip_address :: "string option"
  al_severity :: string
  al_status :: string

text \<open>Scores are tenths of a point: the program rounds them to one decimal.\<close>

record soc_incident =
  inc_id :: nat
  inc_source_ip :: string
  inc_domain :: "string option"
  inc_window_start :: int
  inc_window_end :: int
  inc_event_count :: nat
  inc_score :: int
  inc_severity :: string
  inc_status :: string
  inc_reviewed_by :: "nat option"
  inc_reviewed_at :: "int option"
  inc_review_comment :: "string option"
  inc_abuse_score :: "int option"
  inc_mitre :: "json option"
  inc_ml_score :: "int option"
  inc_alerted_at :: "int option"
  inc_blocked :: bool
  inc_blocked_at :: "int option"
  inc_blocked_method :: "string option"
  inc_blocked_until :: "int option"

record soc_analysis =
  an_id :: nat
  an_incident_id :: nat
  an_payload :: json
  an_provider :: string
  an_model :: string
  an_tokens_in :: "nat option"
  an_tokens_out :: "nat option"
  an_created_at :: int
  an_read_at :: "int option"
  an_origin :: string
  an_manual_reason :: "string option"

record threat_intel =
  ti_ip :: string
  ti_payload :: string
  ti_fetched_at :: int

record mitre_technique =
  mt_technique_id :: string
  mt_name :: string
  mt_tactic :: "string option"
  mt_is_subtechnique :: bool
  mt_synced_at :: int

record ddos_ban_event =
  ban_cs_alert_id :: int
  ban_source_ip :: string
  ban_scenario :: string
  ban_country_code :: "string option"
  ban_events_count :: int
  ban_created_at :: int
  ban_expires_at :: "int option"

record user =
  usr_id :: nat
  usr_email :: string
  usr_name :: string
  usr_password_hash :: string
  usr_role :: string
  usr_is_active :: bool
  usr_last_login_at :: "int option"
  usr_totp_secret :: "string option"
  usr_totp_enabled :: bool
  usr_session_token :: string

record reset_token =
  rt_id :: nat
  rt_user_id :: nat
  rt_token_hash :: string
  rt_expires_at :: int
  rt_used_at :: "int option"
  rt_created_at :: int

record site =
  site_id :: nat
  site_name :: string
  site_domain :: string
  site_upstream_url :: string
  site_waf_enabled :: bool
  site_letsencrypt_enabled :: bool
  site_letsencrypt_status :: string
  site_letsencrypt_error :: "string option"
  site_certificate_path :: "string option"
  site_certificate_key_path :: "string option"
  site_is_console :: bool
  site_force_https :: bool
  site_hsts_mode :: string
  site_host_port_blocked :: bool

record traffic_policy =
  tp_site_id :: nat
  tp_rate_limit_enabled :: bool
  tp_requests_per_second :: int
  tp_burst :: int
  tp_nodelay :: bool
  tp_conn_limit_enabled :: bool
  tp_max_connections :: int
  tp_key_strategy :: string

record security_header =
  sh_id :: nat
  sh_site_id :: nat
  sh_name :: string
  sh_value :: string
  sh_enabled :: bool
  sh_always :: bool
  sh_position :: int
  sh_is_default :: bool

record nginx_extra =
  nx_site_id :: nat
  nx_enabled :: bool
  nx_server_snippet :: string
  nx_location_snippet :: string

record custom_rule =
  cr_id :: nat
  cr_site_id :: nat
  cr_name :: string
  cr_rule_text :: string
  cr_enabled :: bool
  cr_position :: int

record rule_category =
  rc_id :: nat
  rc_key :: string
  rc_name :: string
  rc_description :: string
  rc_crs_tag :: string
  rc_enabled_by_default :: bool

record rule_setting =
  rs_site_id :: nat
  rs_category_id :: nat
  rs_enabled :: bool

record bot_protection =
  bp_site_id :: nat
  bp_enabled :: bool

record rule_exclusion =
  we_id :: nat
  we_site_id :: nat
  we_rule_id :: int
  we_comment :: "string option"
  we_enabled :: bool

record geo_entry =
  geo_site_id :: nat
  geo_country_code :: string
  geo_country_name :: string
  geo_enabled :: bool

record db =
  users :: "user list"
  reset_tokens :: "reset_token list"
  sites :: "site list"
  traffic_policies :: "traffic_policy list"
  security_headers :: "security_header list"
  nginx_extras :: "nginx_extra list"
  custom_rules :: "custom_rule list"
  categories :: "rule_category list"
  rule_settings :: "rule_setting list"
  bot_protections :: "bot_protection list"
  rule_exclusions :: "rule_exclusion list"
  geo_entries :: "geo_entry list"
  configs :: "app_config list"
  events :: "attack_event list"
  raw_logs :: "modsec_raw_log list"
  audits :: "audit_log list"
  incidents :: "soc_incident list"
  analyses :: "soc_analysis list"
  intel :: "threat_intel list"
  techniques :: "mitre_technique list"
  bans :: "ddos_ban_event list"

text \<open>The uniqueness constraints of the tables; a null is never a duplicate.\<close>

definition somes :: "'a option list \<Rightarrow> 'a list" where
  "somes xs = map the (filter (\<lambda>x. x \<noteq> None) xs)"

lemma somes_simps [simp]:
  "somes [] = []" "somes (None # xs) = somes xs" "somes (Some x # xs) = x # somes xs"
  "somes (xs @ ys) = somes xs @ somes ys"
  by (simp_all add: somes_def)

lemma somes_set: "set (somes xs) = {x. Some x \<in> set xs}"
  by (force simp: somes_def)

definition constraints :: "db \<Rightarrow> bool" where
  "constraints d \<longleftrightarrow>
     distinct (map cfg_key (configs d))
     \<and> distinct (map usr_id (users d)) \<and> distinct (map usr_email (users d))
     \<and> distinct (map rt_id (reset_tokens d)) \<and> distinct (map rt_token_hash (reset_tokens d))
     \<and> distinct (map site_id (sites d)) \<and> distinct (map site_domain (sites d))
     \<and> distinct (map tp_site_id (traffic_policies d))
     \<and> distinct (map sh_id (security_headers d))
     \<and> distinct (map nx_site_id (nginx_extras d))
     \<and> distinct (map cr_id (custom_rules d))
     \<and> distinct (map rc_id (categories d)) \<and> distinct (map rc_key (categories d))
     \<and> distinct (map (\<lambda>r. (rs_site_id r, rs_category_id r)) (rule_settings d))
     \<and> distinct (map bp_site_id (bot_protections d))
     \<and> distinct (map we_id (rule_exclusions d))
     \<and> distinct (map (\<lambda>r. (we_site_id r, we_rule_id r)) (rule_exclusions d))
     \<and> distinct (map (\<lambda>r. (geo_site_id r, geo_country_code r)) (geo_entries d))
     \<and> distinct (map ev_id (events d)) \<and> distinct (somes (map ev_transaction_id (events d)))
     \<and> distinct (map raw_id (raw_logs d)) \<and> distinct (somes (map raw_transaction_id (raw_logs d)))
     \<and> distinct (map al_id (audits d))
     \<and> distinct (map inc_id (incidents d)) \<and> distinct (map an_id (analyses d))
     \<and> distinct (map ti_ip (intel d))
     \<and> distinct (map mt_technique_id (techniques d))
     \<and> distinct (map ban_cs_alert_id (bans d))"

text \<open>The database after \<open>create_all\<close>.\<close>

definition empty_db :: db where
  "empty_db = \<lparr>users = [], reset_tokens = [], sites = [], traffic_policies = [], security_headers = [],
     nginx_extras = [], custom_rules = [], categories = [], rule_settings = [], bot_protections = [],
     rule_exclusions = [], geo_entries = [], configs = [], events = [], raw_logs = [], audits = [],
     incidents = [], analyses = [], intel = [], techniques = [], bans = []\<rparr>"

lemma empty_db_constraints [simp]: "constraints empty_db"
  by (simp add: constraints_def empty_db_def)

definition fresh_id :: "nat list \<Rightarrow> nat" where
  "fresh_id ids = Suc (fold max ids 0)"

lemma fold_max_start: "a \<le> fold max xs (a::nat)"
proof (induction xs arbitrary: a)
  case (Cons x xs)
  have "a \<le> max x a" by simp
  also have "\<dots> \<le> fold max xs (max x a)" by (rule Cons.IH)
  finally show ?case by simp
qed simp

lemma fold_max_ge: "x \<in> set xs \<Longrightarrow> x \<le> fold max xs (a::nat)"
proof (induction xs arbitrary: a)
  case (Cons y ys)
  have "y \<le> max y a" by simp
  also have "\<dots> \<le> fold max ys (max y a)" by (rule fold_max_start)
  finally show ?case using Cons by auto
qed simp

lemma fresh_id_new: "fresh_id ids \<notin> set ids"
  using fold_max_ge [of "fresh_id ids" ids 0] by (auto simp: fresh_id_def)

end
