(* ===== verification/Store.thy ===== *)
theory Store
  imports Models
begin

text \<open>
  What every component does with the tables of \<^verbatim>\<open>Models\<close>: the SQLAlchemy session with its
  pending changes, commit and rollback, the key/value configuration table (\<open>AppConfig\<close>) and
  the audit trail (\<^verbatim>\<open>app/audit/helpers.py\<close>).

  A session is the committed tables beside the working ones; a commit fails when the database
  is away (the environment decides) or when a uniqueness constraint is violated.
\<close>

section \<open>Sessions\<close>

text \<open>What a component does to the outside world is recorded in order.\<close>

datatype ext_call =
    CscliCall "string list"
  | AgentCall string "(string \<times> json) list"
  | NotifyIncidents "nat list"
  | NotifyBlock nat
  | HttpGet string string
  | ChatCall string
  | SyslogSend string
  | SyslogFail string
  | ArchiveWrite string string string
  | FileWrite string string
  | FileDelete string
  | DockerExec string string
  | MailSend string string
  | HttpPost string string

record session =
  committed :: db
  working :: db
  attempts :: nat
  calls :: "ext_call list"

text \<open>
  The environment: when commits fail, the clock, who is logged in and from where, and the
  answers of the programs and services outside the repository, which may depend on everything
  asked of them before.  \<open>bind_text\<close> and \<open>bind_int\<close> tell what a value becomes in a text column
  of at most so many characters and in an integer column; \<open>None\<close> is the database refusing it.
\<close>

record env =
  commit_fails :: "nat \<Rightarrow> bool"
  now :: int
  remote_addr :: "string option"
  current_user :: "(string \<times> nat) option"
  cscli_exec :: "ext_call list \<Rightarrow> string list \<Rightarrow> string + (int \<times> string)"
  agent_reply :: "ext_call list \<Rightarrow> string \<Rightarrow> (string \<times> json) list \<Rightarrow> (string \<times> json) list"
  notify_raises :: "ext_call list \<Rightarrow> ext_call \<Rightarrow> bool"
  json_loads :: "string \<Rightarrow> py_exn + json"
  json_dumps :: "json \<Rightarrow> string"
  http_reply :: "ext_call list \<Rightarrow> string \<Rightarrow> string \<Rightarrow> string + string list"
  chat_reply :: "ext_call list \<Rightarrow> string \<Rightarrow> (string option \<times> nat option \<times> nat option) option"
  fernet_key :: bool
  fernet_encrypt :: "string \<Rightarrow> string"
  fernet_decrypt :: "string \<Rightarrow> string option"
  bind_text :: "nat option \<Rightarrow> json \<Rightarrow> string option"
  bind_int :: "json \<Rightarrow> int option"

type_synonym 'a sess_op = "(session, 'a) op"

definition commit :: "env \<Rightarrow> unit sess_op" where
  "commit e s =
     (let s' = s\<lparr>attempts := Suc (attempts s)\<rparr> in
      if commit_fails e (attempts s) then (Inl SQLAlchemyError, s')
      else if \<not> constraints (working s) then (Inl IntegrityError, s')
      else (Inr (), s'\<lparr>committed := working s\<rparr>))"

definition rollback :: "unit sess_op" where
  "rollback = modify (\<lambda>s. s\<lparr>working := committed s\<rparr>)"

definition update_db :: "(db \<Rightarrow> db) \<Rightarrow> unit sess_op" where
  "update_db f = modify (\<lambda>s. s\<lparr>working := f (working s)\<rparr>)"

definition external :: "ext_call \<Rightarrow> unit sess_op" where
  "external c = modify (\<lambda>s. s\<lparr>calls := calls s @ [c]\<rparr>)"

text \<open>\<open>send_command\<close> of \<^verbatim>\<open>app/modules/socket_client.py\<close>: the request and the answer of the agent.\<close>

definition send_command :: "env \<Rightarrow> string \<Rightarrow> (string \<times> json) list \<Rightarrow> (string \<times> json) list sess_op" where
  "send_command e action args s =
     (Inr (agent_reply e (calls s) action args), s\<lparr>calls := calls s @ [AgentCall action args]\<rparr>)"

text \<open>A value for a column that must not be null, and for one that may.\<close>

definition required :: "env \<Rightarrow> nat option \<Rightarrow> json \<Rightarrow> py_exn + string" where
  "required e n v = (if v = JNull then Inl IntegrityError
     else case bind_text e n v of None \<Rightarrow> Inl SQLAlchemyError | Some t \<Rightarrow> Inr t)"

definition nullable :: "env \<Rightarrow> nat option \<Rightarrow> json \<Rightarrow> py_exn + string option" where
  "nullable e n v = (if v = JNull then Inr None
     else case bind_text e n v of None \<Rightarrow> Inl SQLAlchemyError | Some t \<Rightarrow> Inr (Some t))"

definition required_int :: "env \<Rightarrow> json \<Rightarrow> py_exn + int" where
  "required_int e v = (if v = JNull then Inl IntegrityError
     else case bind_int e v of None \<Rightarrow> Inl SQLAlchemyError | Some i \<Rightarrow> Inr i)"

text \<open>An environment in which nothing happens; examples start from it.\<close>

definition quiet_env :: env where
  "quiet_env = \<lparr>commit_fails = (\<lambda>k. False), now = 0, remote_addr = None, current_user = None,
     cscli_exec = (\<lambda>hist argv. Inr (0, [])), agent_reply = (\<lambda>hist a args. []),
     notify_raises = (\<lambda>hist c. False), json_loads = (\<lambda>t. Inl JSONDecodeError),
     json_dumps = py_repr,
     http_reply = (\<lambda>hist url query. Inl ''ConnectError''), chat_reply = (\<lambda>hist prompt. None),
     fernet_key = False, fernet_encrypt = (\<lambda>t. t), fernet_decrypt = (\<lambda>t. None),
     bind_text = (\<lambda>n v. case v of JStr t \<Rightarrow> (case n of None \<Rightarrow> Some t | Some k \<Rightarrow> if length t \<le> k then Some t else None)
        | _ \<Rightarrow> None),
     bind_int = (\<lambda>v. case v of JInt i \<Rightarrow> if - (2 ^ 31) \<le> i \<and> i < 2 ^ 31 then Some i else None | _ \<Rightarrow> None)\<rparr>"

definition fresh_session :: "db \<Rightarrow> session" where
  "fresh_session d = \<lparr>committed = d, working = d, attempts = 0, calls = []\<rparr>"

text \<open>A database that is never away.\<close>

definition db_up :: "env \<Rightarrow> bool" where
  "db_up e \<longleftrightarrow> commit_fails e = (\<lambda>k. False)"

lemma db_upD: "db_up e \<Longrightarrow> \<not> commit_fails e k"
  by (simp add: db_up_def)

lemma commit_cases:
  obtains (away) "commit e s = (Inl SQLAlchemyError, s\<lparr>attempts := Suc (attempts s)\<rparr>)"
  | (dup) "\<not> constraints (working s)" "commit e s = (Inl IntegrityError, s\<lparr>attempts := Suc (attempts s)\<rparr>)"
  | (ok) "constraints (working s)"
      "commit e s = (Inr (), s\<lparr>attempts := Suc (attempts s), committed := working s\<rparr>)"
  by (cases "commit_fails e (attempts s)"; cases "constraints (working s)") (auto simp: commit_def Let_def)

lemma commit_calls: "calls (snd (commit e s)) = calls s"
  by (cases rule: commit_cases [of e s]) auto

section \<open>Tables with a unique key\<close>

text \<open>
  The interface of a table whose rows are inserted one by one under a uniqueness constraint,
  a duplicate being dropped silently: CrowdSec alerts, WAF events, raw audit logs.  \<open>norm\<close> is
  what of a row is compared: the identifier the table gives it is left out.
\<close>

locale dedup_store =
  fixes insert_row :: "'row \<Rightarrow> 'st \<Rightarrow> 'st"
    and rows :: "'st \<Rightarrow> 'row list"
    and key :: "'row \<Rightarrow> 'k option"
    and norm :: "'row \<Rightarrow> 'row"
    and ok :: "'st \<Rightarrow> bool"
  assumes rows_insert: "ok s \<Longrightarrow> rows (insert_row r s) =
      (if key r \<noteq> None \<and> key r \<in> key ` set (rows s) then rows s else rows s @ [norm r])"
    and key_norm: "key (norm r) = key r"
    and insert_ok: "ok s \<Longrightarrow> ok (insert_row r s)"
    and ok_distinct: "ok s \<Longrightarrow> distinct (somes (map key (rows s)))"
begin

lemma fold_ok: "ok s \<Longrightarrow> ok (fold insert_row rs s)"
  by (induction rs arbitrary: s) (simp_all add: insert_ok)

text \<open>Rows are never removed or reordered, and only given rows are added.\<close>

lemma keeps_rows: "ok s \<Longrightarrow> \<exists>new. rows (fold insert_row rs s) = rows s @ new \<and> set new \<subseteq> norm ` set rs"
proof (induction rs arbitrary: s)
  case (Cons r rs)
  obtain new where n: "rows (fold insert_row rs (insert_row r s)) = rows (insert_row r s) @ new"
    "set new \<subseteq> norm ` set rs" using Cons.IH insert_ok Cons.prems by blast
  then show ?case by (auto simp: rows_insert Cons.prems)
qed simp

text \<open>What is inserted once is there, and inserting it again changes nothing.\<close>

lemma inserted_keys: "ok s \<Longrightarrow> r \<in> set rs \<Longrightarrow> key r \<in> key ` set (rows (fold insert_row rs s))"
proof (induction rs arbitrary: s)
  case (Cons x rs)
  show ?case
  proof (cases "r = x")
    case True
    obtain new where "rows (fold insert_row rs (insert_row x s)) = rows (insert_row x s) @ new"
      using keeps_rows insert_ok Cons.prems(1) by blast
    moreover have "key x \<in> key ` set (rows (insert_row x s))"
      by (auto simp: rows_insert Cons.prems(1) key_norm)
    ultimately show ?thesis using True by auto
  next
    case False
    with Cons insert_ok show ?thesis by simp
  qed
qed simp

lemma known_rows:
  assumes "ok s" "\<And>r. r \<in> set rs \<Longrightarrow> key r \<noteq> None \<and> key r \<in> key ` set (rows s)"
  shows "rows (fold insert_row rs s) = rows s"
  using assms
proof (induction rs arbitrary: s)
  case (Cons r rs)
  then have "rows (insert_row r s) = rows s" by (simp add: rows_insert)
  with Cons.IH [of "insert_row r s"] Cons.prems insert_ok show ?case by simp
qed simp

lemma idempotent:
  assumes "ok s" "\<And>r. r \<in> set rs \<Longrightarrow> key r \<noteq> None"
  shows "rows (fold insert_row rs (fold insert_row rs s)) = rows (fold insert_row rs s)"
  using assms inserted_keys fold_ok by (intro known_rows) auto

end

text \<open>The insertion as the code does it: add, commit, and roll back when that fails.\<close>

definition insert_unique :: "(db \<Rightarrow> db) \<Rightarrow> db \<Rightarrow> db" where
  "insert_unique add d = (if constraints (add d) then add d else d)"

definition store_row :: "env \<Rightarrow> (db \<Rightarrow> db) \<Rightarrow> bool sess_op" where
  "store_row e add =
     catch
       (bind (update_db add) (\<lambda>_. bind (commit e) (\<lambda>_. ret True)))
       (\<lambda>x. bind rollback (\<lambda>_. if x = IntegrityError then ret False else raise x))"

text \<open>A session with nothing pending on consistent tables.\<close>

definition settled :: "session \<Rightarrow> bool" where
  "settled s \<longleftrightarrow> working s = committed s \<and> constraints (committed s)"

lemma store_row_settled:
  assumes "settled s"
  shows "settled (snd (store_row e add s))" "calls (snd (store_row e add s)) = calls s"
    "committed (snd (store_row e add s)) \<in> {committed s, insert_unique add (committed s)}"
  using assms
  by (auto simp: settled_def store_row_def bind_def catch_def update_db_def rollback_def commit_def
      insert_unique_def Let_def)

lemma store_row_works:
  assumes "settled s" "\<not> commit_fails e (attempts s)"
  shows "store_row e add s = (Inr (constraints (add (committed s))),
      s\<lparr>committed := insert_unique add (committed s), working := insert_unique add (committed s),
        attempts := Suc (attempts s)\<rparr>)"
  using assms
  by (auto simp: settled_def store_row_def bind_def catch_def update_db_def rollback_def commit_def
      insert_unique_def Let_def)

lemma store_row_away:
  assumes "settled s" "commit_fails e (attempts s)"
  shows "store_row e add s = (Inl SQLAlchemyError, s\<lparr>attempts := Suc (attempts s)\<rparr>)"
  using assms
  by (auto simp: settled_def store_row_def bind_def catch_def update_db_def rollback_def commit_def Let_def)

section \<open>The configuration table\<close>

definition config_get :: "db \<Rightarrow> string \<Rightarrow> string option" where
  "config_get d k = (case find (\<lambda>r. cfg_key r = k) (configs d) of
      None \<Rightarrow> None | Some r \<Rightarrow> cfg_value r)"

text \<open>\<open>int(AppConfig.get(k) or default)\<close>.\<close>

definition config_number :: "string option \<Rightarrow> int \<Rightarrow> int option" where
  "config_number v dflt = (case v of
      None \<Rightarrow> Some dflt
    | Some t \<Rightarrow> if t = [] then Some dflt else py_int t)"

text \<open>The same with the default when the text is not a number.\<close>

definition config_int :: "db \<Rightarrow> string \<Rightarrow> int \<Rightarrow> int" where
  "config_int d k dflt = (case config_number (config_get d k) dflt of None \<Rightarrow> dflt | Some n \<Rightarrow> n)"

fun put_config :: "string \<Rightarrow> string option \<Rightarrow> bool \<Rightarrow> app_config list \<Rightarrow> app_config list" where
  "put_config k v enc [] = [\<lparr>cfg_key = k, cfg_value = v, cfg_encrypted = enc\<rparr>]"
| "put_config k v enc (r # rs) =
     (if cfg_key r = k then r\<lparr>cfg_value := v, cfg_encrypted := enc\<rparr> # rs
      else r # put_config k v enc rs)"

definition config_put :: "string \<Rightarrow> string option \<Rightarrow> bool \<Rightarrow> db \<Rightarrow> db" where
  "config_put k v enc d = d\<lparr>configs := put_config k v enc (configs d)\<rparr>"

definition AppConfig_get :: "string \<Rightarrow> string option sess_op" where
  "AppConfig_get k = fetch (\<lambda>s. config_get (working s) k)"

definition AppConfig_set :: "env \<Rightarrow> string \<Rightarrow> string option \<Rightarrow> bool \<Rightarrow> unit sess_op" where
  "AppConfig_set e k v enc = bind (update_db (config_put k v enc)) (\<lambda>_. commit e)"

text \<open>\<open>decrypt\<close> is \<open>decrypt_secret\<close> of \<^verbatim>\<open>app/encryption.py\<close>.\<close>

definition AppConfig_get_secret ::
    "(string option \<Rightarrow> py_exn + string option) \<Rightarrow> string \<Rightarrow> string option sess_op" where
  "AppConfig_get_secret decrypt k s =
     (case find (\<lambda>r. cfg_key r = k) (configs (working s)) of
        None \<Rightarrow> (Inr None, s)
      | Some r \<Rightarrow>
          if cfg_encrypted r
          then (case decrypt (cfg_value r) of Inl x \<Rightarrow> (Inl x, s) | Inr t \<Rightarrow> (Inr t, s))
          else (Inr (cfg_value r), s))"

text \<open>The interface the components rely on: what a lookup gives after an update.\<close>

locale config_table =
  fixes lookup :: "'s \<Rightarrow> 'k \<Rightarrow> 'v option"
    and update :: "'k \<Rightarrow> 'v option \<Rightarrow> 's \<Rightarrow> 's"
    and keys_ok :: "'s \<Rightarrow> bool"
  assumes lookup_update: "lookup (update k v s) k' = (if k' = k then v else lookup s k')"
    and update_keys_ok: "keys_ok s \<Longrightarrow> keys_ok (update k v s)"
begin

lemma last_update_wins: "lookup (update k v (update k w s)) k' = lookup (update k v s) k'"
  by (simp add: lookup_update)

lemma updates_commute:
  "j \<noteq> k \<Longrightarrow> lookup (update j v (update k w s)) k' = lookup (update k w (update j v s)) k'"
  by (simp add: lookup_update)

lemma frame: "k' \<noteq> k \<Longrightarrow> lookup (update k v s) k' = lookup s k'"
  by (simp add: lookup_update)

end

lemma config_get_put: "config_get (config_put k v enc d) k' = (if k' = k then v else config_get d k')"
proof -
  have "(case find (\<lambda>r. cfg_key r = k') (put_config k v enc rs) of None \<Rightarrow> None | Some r \<Rightarrow> cfg_value r)
      = (if k' = k then v else case find (\<lambda>r. cfg_key r = k') rs of None \<Rightarrow> None | Some r \<Rightarrow> cfg_value r)" for rs
    by (induction rs) auto
  then show ?thesis by (simp add: config_get_def config_put_def)
qed

lemma put_config_keys: "set (map cfg_key (put_config k v enc rs)) = insert k (set (map cfg_key rs))"
  by (induction rs) auto

lemma put_config_distinct: "distinct (map cfg_key rs) \<Longrightarrow> distinct (map cfg_key (put_config k v enc rs))"
proof (induction rs)
  case (Cons r rs)
  then show ?case using put_config_keys [of k v enc rs] by auto
qed simp

interpretation plain_config: config_table config_get "\<lambda>k v. config_put k v False"
    "\<lambda>d. distinct (map cfg_key (configs d))"
proof unfold_locales
  show "config_get (config_put k v False s) k' = (if k' = k then v else config_get s k')" for k v s k'
    by (rule config_get_put)
qed (simp add: config_put_def put_config_distinct)

lemma config_put_constraints: "constraints d \<Longrightarrow> constraints (config_put k v enc d)"
  by (auto simp: constraints_def config_put_def put_config_distinct)

lemma AppConfig_set_works:
  assumes "constraints (working s)" "\<not> commit_fails e (attempts s)"
  shows "AppConfig_set e k v enc s = (Inr (), s\<lparr>working := config_put k v enc (working s),
      attempts := Suc (attempts s), committed := config_put k v enc (working s)\<rparr>)"
  using assms config_put_constraints
  by (simp add: AppConfig_set_def update_db_def bind_def commit_def Let_def)

section \<open>The audit trail\<close>

text \<open>
  \<open>log_audit\<close>: the savepoint around the insertion makes no difference to the tables; the
  commit that follows it is the one of the session.  Whatever fails is swallowed.
\<close>

definition add_audit :: "audit_log \<Rightarrow> db \<Rightarrow> db" where
  "add_audit a d = d\<lparr>audits := audits d @ [a\<lparr>al_id := fresh_id (map al_id (audits d))\<rparr>]\<rparr>"

definition audit_row ::
    "env \<Rightarrow> string \<Rightarrow> string option \<Rightarrow> string option \<Rightarrow> json option \<Rightarrow> string \<Rightarrow> string
       \<Rightarrow> (string \<times> nat option) option \<Rightarrow> audit_log" where
  "audit_row e action rtype rname detail severity status actor =
     \<lparr>al_id = 0, al_created_at = now e,
      al_actor_email = (case actor of Some (mail, i) \<Rightarrow> mail
         | None \<Rightarrow> (case current_user e of Some (mail, i) \<Rightarrow> mail | None \<Rightarrow> ''sistema'')),
      al_actor_id = (case actor of Some (mail, i) \<Rightarrow> i
         | None \<Rightarrow> map_option snd (current_user e)),
      al_action = action, al_resource_type = rtype, al_resource_name = rname,
      al_detail = detail, al_ip_address = remote_addr e, al_severity = severity, al_status = status\<rparr>"

text \<open>A detail is mostly a dictionary, at some places a text; an empty one is left out.\<close>

definition audit_entry ::
    "env \<Rightarrow> string \<Rightarrow> string option \<Rightarrow> string option \<Rightarrow> (string \<times> json) list option \<Rightarrow> string \<Rightarrow> string
       \<Rightarrow> (string \<times> nat option) option \<Rightarrow> audit_log" where
  "audit_entry e action rtype rname detail severity status actor =
     audit_row e action rtype rname (case detail of Some (x # xs) \<Rightarrow> Some (JObj (x # xs)) | _ \<Rightarrow> None) severity status actor"

definition audit_text_entry ::
    "env \<Rightarrow> string \<Rightarrow> string option \<Rightarrow> string option \<Rightarrow> string \<Rightarrow> string \<Rightarrow> string
       \<Rightarrow> (string \<times> nat option) option \<Rightarrow> audit_log" where
  "audit_text_entry e action rtype rname detail severity status actor =
     audit_row e action rtype rname (if detail = [] then None else Some (JStr detail)) severity status actor"

definition store_audit :: "env \<Rightarrow> audit_log \<Rightarrow> unit sess_op" where
  "store_audit e a =
     catch
       (catch (bind (update_db (add_audit a)) (\<lambda>_. commit e))
              (\<lambda>_. bind rollback (\<lambda>_. bind (update_db (add_audit a)) (\<lambda>_. commit e))))
       (\<lambda>_. rollback)"

definition log_audit ::
    "env \<Rightarrow> string \<Rightarrow> string option \<Rightarrow> string option \<Rightarrow> (string \<times> json) list option \<Rightarrow> string \<Rightarrow> string
       \<Rightarrow> (string \<times> nat option) option \<Rightarrow> unit sess_op" where
  "log_audit e action rtype rname detail severity status actor =
     store_audit e (audit_entry e action rtype rname detail severity status actor)"

lemma add_audit_frame [simp]: "raw_logs (add_audit a d) = raw_logs d" "configs (add_audit a d) = configs d"
  "users (add_audit a d) = users d" "reset_tokens (add_audit a d) = reset_tokens d"
  by (simp_all add: add_audit_def)

lemma add_audit_constraints [simp]: "constraints (add_audit a d) = constraints d"
  using fresh_id_new [of "map al_id (audits d)"] by (auto simp: constraints_def add_audit_def)

text \<open>What the audit call can do to a session: three outcomes, none of them an exception.\<close>

lemma store_audit_cases:
  obtains (stored) "constraints (working s)" "store_audit e a s = (Inr (), s\<lparr>working := add_audit a (working s),
      committed := add_audit a (working s), attempts := Suc (attempts s)\<rparr>)"
  | (retried) "constraints (committed s)" "store_audit e a s = (Inr (), s\<lparr>working := add_audit a (committed s),
      committed := add_audit a (committed s), attempts := Suc (Suc (attempts s))\<rparr>)"
  | (lost) "store_audit e a s = (Inr (), s\<lparr>working := committed s, attempts := Suc (Suc (attempts s))\<rparr>)"
  by (cases "commit_fails e (attempts s)"; cases "commit_fails e (Suc (attempts s))";
      cases "constraints (working s)"; cases "constraints (committed s)")
     (auto simp: store_audit_def bind_def catch_def update_db_def rollback_def commit_def Let_def)

lemma store_audit_total: "fst (store_audit e a s) = Inr ()"
  by (cases rule: store_audit_cases [of s e a]) auto

lemma store_audit_calls: "calls (snd (store_audit e a s)) = calls s"
  by (cases rule: store_audit_cases [of s e a]) auto

lemma store_audit_settled: "working (snd (store_audit e a s)) = committed (snd (store_audit e a s))"
  by (cases rule: store_audit_cases [of s e a]) auto

text \<open>
  C28: An audit call never raises, leaves nothing pending, and when it is stored at the first
  attempt it commits every pending change of the caller with it; when that attempt fails, the
  caller's pending changes are discarded.
\<close>

theorem log_audit_commits_caller:
  "\<exists>s'. log_audit e action rtype rname detail severity status actor s = (Inr (), s')
     \<and> working s' = committed s' \<and> calls s' = calls s
     \<and> (if constraints (working s) \<and> \<not> commit_fails e (attempts s)
        then committed s' = add_audit (audit_entry e action rtype rname detail severity status actor) (working s)
        else committed s' = committed s
           \<or> committed s' = add_audit (audit_entry e action rtype rname detail severity status actor) (committed s))"
  by (auto simp: log_audit_def store_audit_def bind_def catch_def update_db_def rollback_def commit_def Let_def)

end
