(* ===== verification/PyTime.thy ===== *)
theory PyTime
  imports PyRegex
begin

text \<open>
  Times.  A naive \<open>datetime\<close> is its number of microseconds since 1970-01-01; an aware one
  also has an offset.  \<open>strptime\<close> is modelled for the directives the program uses, through
  the pattern Python builds from the format; \<open>iso_seconds\<close> prints a time the way the
  program's formats do.
\<close>

section \<open>Calendar\<close>

definition second :: int where "second = 1000000"

definition leap :: "int \<Rightarrow> bool" where
  "leap y \<longleftrightarrow> y mod 4 = 0 \<and> (y mod 100 \<noteq> 0 \<or> y mod 400 = 0)"

definition days_in_month :: "int \<Rightarrow> int \<Rightarrow> int" where
  "days_in_month y m =
     (if m = 2 then (if leap y then 29 else 28)
      else if m = 4 \<or> m = 6 \<or> m = 9 \<or> m = 11 then 30 else 31)"

definition valid_date :: "int \<Rightarrow> int \<Rightarrow> int \<Rightarrow> bool" where
  "valid_date y m d \<longleftrightarrow> 1 \<le> y \<and> y \<le> 9999 \<and> 1 \<le> m \<and> m \<le> 12 \<and> 1 \<le> d \<and> d \<le> days_in_month y m"

text \<open>Days before the first of March of a year, and before a month counted from March.\<close>

definition days_before_year :: "int \<Rightarrow> int" where
  "days_before_year y = 365 * y + y div 4 - y div 100 + y div 400"

definition days_before_month :: "int \<Rightarrow> int" where
  "days_before_month mp = (153 * mp + 2) div 5"

definition days_from_civil :: "int \<Rightarrow> int \<Rightarrow> int \<Rightarrow> int" where
  "days_from_civil y m d =
     (let y' = (if m \<le> 2 then y - 1 else y); mp = (if m \<le> 2 then m + 9 else m - 3) in
      days_before_year y' + days_before_month mp + d - 1 - 719468)"

definition MIN_TIME :: int where
  "MIN_TIME = days_from_civil 1 1 1 * 86400 * 1000000"

definition MAX_TIME :: int where
  "MAX_TIME = (days_from_civil 9999 12 31 + 1) * 86400 * 1000000 - 1"

definition in_time_range :: "int \<Rightarrow> bool" where
  "in_time_range t \<longleftrightarrow> MIN_TIME \<le> t \<and> t \<le> MAX_TIME"

section \<open>Parsing\<close>

text \<open>The pattern of one directive, with the number of the group it sets.\<close>

definition digit_in :: "char \<Rightarrow> char \<Rightarrow> rx" where
  "digit_in a b = Cls (\<lambda>c. code a \<le> code c \<and> code c \<le> code b)"

definition any_digit :: rx where
  "any_digit = Cls is_digit"

definition alts :: "rx list \<Rightarrow> rx" where
  "alts rs = foldr Alt (butlast rs) (last rs)"

definition directive :: "char \<Rightarrow> rx option" where
  "directive c =
     (if c = CHR ''Y'' then Some (Cap 1 (rep_exact 4 any_digit))
      else if c = CHR ''m'' then Some (Cap 2 (alts
        [Cat (lit_char (CHR ''1'')) (digit_in (CHR ''0'') (CHR ''2'')),
         Cat (lit_char (CHR ''0'')) (digit_in (CHR ''1'') (CHR ''9'')), digit_in (CHR ''1'') (CHR ''9'')]))
      else if c = CHR ''d'' then Some (Cap 3 (alts
        [Cat (lit_char (CHR ''3'')) (digit_in (CHR ''0'') (CHR ''1'')),
         Cat (digit_in (CHR ''1'') (CHR ''2'')) any_digit,
         Cat (lit_char (CHR ''0'')) (digit_in (CHR ''1'') (CHR ''9'')), digit_in (CHR ''1'') (CHR ''9''),
         Cat (lit_char (CHR '' '')) (digit_in (CHR ''1'') (CHR ''9''))]))
      else if c = CHR ''H'' then Some (Cap 4 (alts
        [Cat (lit_char (CHR ''2'')) (digit_in (CHR ''0'') (CHR ''3'')),
         Cat (digit_in (CHR ''0'') (CHR ''1'')) any_digit, any_digit]))
      else if c = CHR ''M'' then Some (Cap 5 (alts
        [Cat (digit_in (CHR ''0'') (CHR ''5'')) any_digit, any_digit]))
      else if c = CHR ''S'' then Some (Cap 6 (alts
        [Cat (lit_char (CHR ''6'')) (digit_in (CHR ''0'') (CHR ''1'')),
         Cat (digit_in (CHR ''0'') (CHR ''5'')) any_digit, any_digit]))
      else if c = CHR ''f'' then Some (Cap 7 (rep 1 6 any_digit))
      else if c = CHR ''z'' then Some (Cap 8 (alts
        [Cat (Cls (\<lambda>x. x = CHR ''+'' \<or> x = CHR ''-''))
          (Cat (rep_exact 2 any_digit) (Cat (opt (lit_char (CHR '':'')))
            (Cat (digit_in (CHR ''0'') (CHR ''5'')) (Cat any_digit
              (opt (Cat (opt (lit_char (CHR '':''))) (Cat (digit_in (CHR ''0'') (CHR ''5''))
                (Cat any_digit (opt (Cat (lit_char (CHR ''.'')) (rep 1 6 any_digit))))))))))),
         lit_char (CHR ''Z'')]))
      else None)"

text \<open>A directive that is not one of these, and a percent sign at the end, are errors.\<close>

fun format_rx :: "string \<Rightarrow> rx option" where
  "format_rx [] = Some Eps"
| "format_rx [c] = (if c = CHR ''%'' then None else Some (lit_char_ci c))"
| "format_rx (c # d # cs) =
     (if c = CHR ''%''
      then (case directive d of None \<Rightarrow> None | Some r \<Rightarrow> map_option (Cat r) (format_rx cs))
      else map_option (Cat (lit_char_ci c)) (format_rx (d # cs)))"

definition number_of :: "nat \<Rightarrow> nat \<Rightarrow> pos \<Rightarrow> int" where
  "number_of i dflt p = (case group i p of
      None \<Rightarrow> int dflt | Some t \<Rightarrow> digits_int (filter is_digit t))"

definition micros :: "string \<Rightarrow> int" where
  "micros digits = digits_int (take 6 (digits @ ''000000''))"

text \<open>The offset of \<open>%z\<close>, in microseconds.\<close>

definition offset_of :: "string \<Rightarrow> int" where
  "offset_of z =
     (if z = ''Z'' then 0
      else
        let digits = filter (\<lambda>c. c \<noteq> CHR '':'') (tl z);
            whole = takeWhile is_digit digits; frac = drop 1 (dropWhile is_digit digits);
            h = digits_int (take 2 whole); m = digits_int (take 2 (drop 2 whole));
            s = digits_int (drop 4 whole);
            total = ((h * 60 + m) * 60 + s) * second + micros frac
        in if hd z = CHR ''-'' then - total else total)"

text \<open>A parsed time: its local microseconds and its offset when it has one.\<close>

definition strptime :: "string \<Rightarrow> string \<Rightarrow> (int \<times> int option) option" where
  "strptime s fmt =
     (case format_rx fmt of
        None \<Rightarrow> None
      | Some r \<Rightarrow>
          (case rx_match r s of
             None \<Rightarrow> None
           | Some p \<Rightarrow>
               let y = number_of 1 1900 p; m = number_of 2 1 p; d = number_of 3 1 p;
                   sec = number_of 6 0 p;
                   us = (case group 7 p of None \<Rightarrow> 0 | Some f \<Rightarrow> micros f)
               in if fst (snd p) \<noteq> [] \<or> \<not> valid_date y m d \<or> 59 < sec then None
                  else Some ((((days_from_civil y m d * 24 + number_of 4 0 p) * 60 + number_of 5 0 p) * 60 + sec)
                               * second + us,
                             map_option offset_of (group 8 p))))"

section \<open>Printing\<close>

definition civil_year :: "int \<Rightarrow> int" where
  "civil_year days =
     (let z = days + 719468; era = z div 146097; doe = z mod 146097;
          yoe = (doe - doe div 1460 + doe div 36524 - doe div 146096) div 365
      in yoe + era * 400)"

text \<open>Year, month and day of a day number; the inner year begins in March.\<close>

definition civil_from_days :: "int \<Rightarrow> int \<times> int \<times> int" where
  "civil_from_days days =
     (let y = civil_year days;
          doy = days + 719468 - days_before_year y;
          mp = (5 * doy + 2) div 153;
          d = doy - days_before_month mp + 1;
          m = (if mp < 10 then mp + 3 else mp - 9)
      in (if m \<le> 2 then y + 1 else y, m, d))"

definition pad :: "nat \<Rightarrow> int \<Rightarrow> string" where
  "pad k n = (let t = show_int n in replicate (k - length t) (CHR ''0'') @ t)"

text \<open>\<open>strftime('%Y-%m-%dT%H:%M:%S')\<close> of a naive time.\<close>

definition iso_seconds :: "int \<Rightarrow> string" where
  "iso_seconds t =
     (let s = t div second; days = s div 86400; r = s mod 86400; (y, m, d) = civil_from_days days in
      pad 4 y @ ''-'' @ pad 2 m @ ''-'' @ pad 2 d @ ''T'' @
      pad 2 (r div 3600) @ '':'' @ pad 2 (r div 60 mod 60) @ '':'' @ pad 2 (r mod 60))"

definition hour :: int where "hour = 3600000000"

text \<open>\<open>datetime.isoformat()\<close> with the offset of UTC.\<close>

definition isoformat_utc :: "int \<Rightarrow> string" where
  "isoformat_utc t = iso_seconds t @ (if t mod second = 0 then [] else ''.'' @ pad 6 (t mod second)) @ ''+00:00''"

text \<open>\<open>strftime('%Y%m%d-%H%M%S')\<close>.\<close>

definition compact_seconds :: "int \<Rightarrow> string" where
  "compact_seconds t =
     (let s = t div second; days = s div 86400; r = s mod 86400; (y, m, d) = civil_from_days days in
      pad 4 y @ pad 2 m @ pad 2 d @ ''-'' @ pad 2 (r div 3600) @ pad 2 (r div 60 mod 60) @ pad 2 (r mod 60))"

text \<open>The number of the day, and the hour of it.\<close>

definition day_of :: "int \<Rightarrow> int" where "day_of t = t div (24 * hour)"

definition hour_of :: "int \<Rightarrow> int" where "hour_of t = t mod (24 * hour) div hour"

end
