(* ===== verification/DdosIngest.thy ===== *)
theory DdosIngest
  imports Store PyTime
begin

text \<open>
  The poller of CrowdSec alerts, \<^verbatim>\<open>app/ddos/ingest.py\<close>: what it reads out of an alert, and
  one polling cycle over the answer of \<open>cscli alerts list\<close>.  The container's state and the
  text it prints, the JSON decoding and the country lookup are arguments.
\<close>

section \<open>One alert\<close>

definition time_formats :: "string list" where
  "time_formats = [''%Y-%m-%dT%H:%M:%SZ'', ''%Y-%m-%dT%H:%M:%S%z'', ''%Y-%m-%dT%H:%M:%S.%fZ'']"

text \<open>
  The loop over the formats on a raw value: the text is cut to 26 characters and each format
  to the length of the text.  A dictionary cannot be sliced (\<open>KeyError\<close>); for any other
  value that is not a text every format fails.
\<close>

definition parse_when :: "json \<Rightarrow> py_exn + (int \<times> int option) option" where
  "parse_when raw =
     (case raw of
        JStr t \<Rightarrow> Inr (Option.bind
            (find (\<lambda>fmt. strptime (take 26 t) (take (length t) fmt) \<noteq> None) time_formats)
            (\<lambda>fmt. strptime (take 26 t) (take (length t) fmt)))
      | JObj d \<Rightarrow> Inl KeyError
      | _ \<Rightarrow> Inr None)"

text \<open>To naive UTC; an offset can lead out of the years Python has.\<close>

definition to_utc :: "int \<times> int option \<Rightarrow> py_exn + int" where
  "to_utc w = (case w of
      (t, None) \<Rightarrow> Inr t
    | (t, Some off) \<Rightarrow> if in_time_range (t - off) then Inr (t - off) else Inl ValueError)"

record parsed_alert =
  pa_cs_alert_id :: int
  pa_source_ip :: json
  pa_scenario :: json
  pa_events_count :: int
  pa_created_at :: int
  pa_expires_at :: "int option"

definition alert_times :: "int \<Rightarrow> (string \<times> json) list \<Rightarrow> (int \<times> int option) option" where
  "alert_times now_utc alert =
     (let created_raw = jor (jor (jget_default ''created_at'' JNull alert) (jget_default ''startAt'' JNull alert)) (JStr []);
          decisions = jor (jget_default ''decisions'' JNull alert) (JList [])
      in case parse_when created_raw of
           Inl x \<Rightarrow> None
         | Inr w \<Rightarrow>
             (case (case w of None \<Rightarrow> Inr now_utc | Some t \<Rightarrow> to_utc t) of
                Inl x \<Rightarrow> None
              | Inr created \<Rightarrow>
                  (case decisions of
                     JList [] \<Rightarrow> Some (created, None)
                   | JList (JObj first # rest) \<Rightarrow>
                       (case parse_when (jor (jget_default ''until'' JNull first) (JStr [])) of
                          Inl x \<Rightarrow> None
                        | Inr None \<Rightarrow> Some (created, None)
                        | Inr (Some t) \<Rightarrow>
                            (case to_utc t of Inl x \<Rightarrow> None | Inr u \<Rightarrow> Some (created, Some u)))
                   | _ \<Rightarrow> None)))"

definition parse_alert :: "int \<Rightarrow> json \<Rightarrow> parsed_alert option" where
  "parse_alert now_utc alert_value =
     (case alert_value of
        JObj alert \<Rightarrow>
          (case json_int (jget_default ''id'' (JInt 0) alert) of
             None \<Rightarrow> None
           | Some alert_id \<Rightarrow>
               if alert_id = 0 then None
               else case jor (jget_default ''source'' JNull alert) (JObj []) of
                 JObj source \<Rightarrow>
                   let source_ip = jget_default ''ip'' (JStr []) source in
                   if \<not> jtruthy source_ip then None
                   else (case json_int (jor (jget_default ''events_count'' JNull alert) (JInt 1)) of
                           None \<Rightarrow> None
                         | Some n \<Rightarrow>
                             map_option (\<lambda>(created, expires).
                               \<lparr>pa_cs_alert_id = alert_id, pa_source_ip = source_ip,
                                pa_scenario = jor (jget_default ''scenario'' JNull alert) (JStr ''unknown''),
                                pa_events_count = n, pa_created_at = created, pa_expires_at = expires\<rparr>)
                               (alert_times now_utc alert))
               | _ \<Rightarrow> None)
      | _ \<Rightarrow> None)"

section \<open>One polling cycle\<close>

text \<open>
  The row of an alert; \<open>None\<close> when the database refuses one of the values.  The country is
  looked up for a text only: for anything else the lookup raises, which is caught.
\<close>

definition ban_event :: "env \<Rightarrow> (string \<Rightarrow> string option) \<Rightarrow> parsed_alert \<Rightarrow> ddos_ban_event option" where
  "ban_event e country p =
     (case (bind_int e (JInt (pa_cs_alert_id p)), bind_text e (Some 80) (pa_source_ip p),
            bind_text e (Some 120) (pa_scenario p), bind_int e (JInt (pa_events_count p))) of
        (Some i, Some ip, Some scenario, Some n) \<Rightarrow>
          Some \<lparr>ban_cs_alert_id = i, ban_source_ip = ip, ban_scenario = scenario,
                ban_country_code = (case pa_source_ip p of JStr t \<Rightarrow> country t | _ \<Rightarrow> None),
                ban_events_count = n, ban_created_at = pa_created_at p, ban_expires_at = pa_expires_at p\<rparr>
      | _ \<Rightarrow> None)"

definition add_ban :: "ddos_ban_event \<Rightarrow> db \<Rightarrow> db" where
  "add_ban b d = d\<lparr>bans := bans d @ [b]\<rparr>"

text \<open>One row in its own transaction; the result tells whether it was new.\<close>

definition store_ban :: "env \<Rightarrow> ddos_ban_event \<Rightarrow> bool sess_op" where
  "store_ban e b = store_row e (add_ban b)"

definition handle_alert ::
    "env \<Rightarrow> (string \<Rightarrow> string option) \<Rightarrow> json \<Rightarrow> nat \<Rightarrow> nat sess_op" where
  "handle_alert e country alert inserted =
     (case parse_alert (now e) alert of
        None \<Rightarrow> ret inserted
      | Some p \<Rightarrow>
          (case ban_event e country p of
             None \<Rightarrow> bind rollback (\<lambda>_. raise SQLAlchemyError)
           | Some b \<Rightarrow> bind (store_ban e b) (\<lambda>fresh. ret (if fresh then Suc inserted else inserted))))"

record crowdsec =
  cs_status :: "string option"
  cs_alerts :: "string + (int \<times> string)"

text \<open>
  \<open>_poll_once\<close>: the container is missing, not running, answers with an error, with nothing,
  with something that is not a list, or with the alerts.  The exception that ends a cycle is
  logged and swallowed.
\<close>

definition poll_once ::
    "env \<Rightarrow> (string \<Rightarrow> json option) \<Rightarrow> (string \<Rightarrow> string option) \<Rightarrow> crowdsec \<Rightarrow> unit sess_op" where
  "poll_once e loads_json country cs =
     (if cs_status cs \<noteq> Some ''running'' then ret ()
      else case cs_alerts cs of
        Inl exc \<Rightarrow> ret ()
      | Inr (exit_code, output) \<Rightarrow>
          if exit_code \<noteq> 0 then ret ()
          else let raw = strip output in
            if raw = [] then ret ()
            else case loads_json raw of
              Some (JList alerts) \<Rightarrow>
                catch (bind (fold_op (handle_alert e country) alerts 0) (\<lambda>_. ret ()))
                      (\<lambda>_. ret ())
            | _ \<Rightarrow> ret ())"


section \<open>The table of bans\<close>

definition insert_ban :: "ddos_ban_event \<Rightarrow> db \<Rightarrow> db" where
  "insert_ban b = insert_unique (add_ban b)"

lemma add_ban_constraints:
  "constraints (add_ban b d) \<longleftrightarrow> constraints d \<and> ban_cs_alert_id b \<notin> ban_cs_alert_id ` set (bans d)"
  by (auto simp: constraints_def add_ban_def)

interpretation ban_table: dedup_store insert_ban bans "\<lambda>b. Some (ban_cs_alert_id b)" "\<lambda>b. b" constraints
proof unfold_locales
  fix s r
  assume "constraints s"
  then show "bans (insert_ban r s) = (if Some (ban_cs_alert_id r) \<noteq> None
      \<and> Some (ban_cs_alert_id r) \<in> (\<lambda>b. Some (ban_cs_alert_id b)) ` set (bans s)
      then bans s else bans s @ [r])"
    by (auto simp: insert_ban_def insert_unique_def add_ban_constraints) (auto simp: add_ban_def)
  show "constraints (insert_ban r s)"
    using \<open>constraints s\<close> by (simp add: insert_ban_def insert_unique_def)
next
  fix s :: db
  assume "constraints s"
  moreover have "somes (map (\<lambda>b. Some (ban_cs_alert_id b)) xs) = map ban_cs_alert_id xs"
    for xs :: "ddos_ban_event list"
    by (induction xs) auto
  ultimately show "distinct (somes (map (\<lambda>b. Some (ban_cs_alert_id b)) (bans s)))"
    by (simp add: constraints_def)
qed simp

text \<open>The rows a list of alerts asks for.\<close>

definition alert_row :: "env \<Rightarrow> (string \<Rightarrow> string option) \<Rightarrow> json \<Rightarrow> ddos_ban_event option" where
  "alert_row e country alert = Option.bind (parse_alert (now e) alert) (ban_event e country)"

definition storable :: "env \<Rightarrow> (string \<Rightarrow> string option) \<Rightarrow> json \<Rightarrow> bool" where
  "storable e country alert \<longleftrightarrow>
     parse_alert (now e) alert = None \<or> alert_row e country alert \<noteq> None"

definition alert_rows :: "env \<Rightarrow> (string \<Rightarrow> string option) \<Rightarrow> json list \<Rightarrow> ddos_ban_event list" where
  "alert_rows e country alerts = somes (map (alert_row e country) alerts)"

lemma alerts_stored:
  assumes "list_all (storable e country) alerts" "db_up e" "settled s"
  shows "\<exists>k n. fold_op (handle_alert e country) alerts i s = (Inr n,
      s\<lparr>committed := fold insert_ban (alert_rows e country alerts) (committed s),
        working := fold insert_ban (alert_rows e country alerts) (committed s), attempts := k\<rparr>)"
  using assms(1,3)
proof (induction alerts arbitrary: i s)
  case Nil
  then show ?case by (auto simp: alert_rows_def settled_def intro!: exI [of _ "attempts s"])
next
  case (Cons a alerts)
  show ?case
  proof (cases "parse_alert (now e) a")
    case None
    then have "handle_alert e country a i s = (Inr i, s)"
      "alert_rows e country (a # alerts) = alert_rows e country alerts"
      by (simp_all add: handle_alert_def alert_rows_def alert_row_def)
    with Cons show ?thesis by (simp add: bind_Inr)
  next
    case (Some p)
    then obtain b where b: "ban_event e country p = Some b"
      using Cons.prems(1) by (auto simp: storable_def alert_row_def)
    let ?d = "insert_ban b (committed s)"
    let ?s = "s\<lparr>committed := ?d, working := ?d, attempts := Suc (attempts s)\<rparr>"
    have st: "settled ?s"
      using Cons.prems(2) by (simp add: settled_def insert_ban_def insert_unique_def)
    have h: "\<exists>i'. handle_alert e country a i s = (Inr i', ?s)"
      using store_row_works [OF Cons.prems(2) db_upD [OF assms(2)]] Some b
      by (simp add: handle_alert_def store_ban_def bind_def insert_ban_def)
    have rows: "alert_rows e country (a # alerts) = b # alert_rows e country alerts"
      using Some b by (simp add: alert_rows_def alert_row_def)
    obtain i' where i': "handle_alert e country a i s = (Inr i', ?s)" using h by blast
    have "list_all (storable e country) alerts" using Cons.prems(1) by simp
    then obtain k n where "fold_op (handle_alert e country) alerts i' ?s = (Inr n,
      ?s\<lparr>committed := fold insert_ban (alert_rows e country alerts) ?d,
        working := fold insert_ban (alert_rows e country alerts) ?d, attempts := k\<rparr>)"
      using Cons.IH [OF _ st, of i'] by auto
    with i' rows show ?thesis by (auto simp: bind_def)
  qed
qed

lemma poll_once_stores:
  assumes "cs_status cs = Some ''running''" "cs_alerts cs = Inr (0, answer)" "strip answer \<noteq> []"
    and "loads_json (strip answer) = Some (JList alerts)"
    and "list_all (storable e country) alerts" "db_up e" "settled s"
  shows "\<exists>k. poll_once e loads_json country cs s = (Inr (),
      s\<lparr>committed := fold insert_ban (alert_rows e country alerts) (committed s),
        working := fold insert_ban (alert_rows e country alerts) (committed s), attempts := k\<rparr>)"
proof -
  obtain k n where "fold_op (handle_alert e country) alerts 0 s = (Inr n,
      s\<lparr>committed := fold insert_ban (alert_rows e country alerts) (committed s),
        working := fold insert_ban (alert_rows e country alerts) (committed s), attempts := k\<rparr>)"
    using alerts_stored [OF assms(5-7), of 0] by blast
  with assms(1-4) show ?thesis by (auto simp: poll_once_def Let_def bind_def catch_def)
qed

text \<open>Whatever happens, the poller leaves a settled session and never raises.\<close>

lemma handle_alert_settled:
  assumes "settled s"
  shows "settled (snd (handle_alert e country a i s))"
proof -
  have "settled (snd (store_row e f s))" for f by (rule store_row_settled(1) [OF assms])
  with assms show ?thesis
    by (auto simp: handle_alert_def store_ban_def bind_def rollback_def settled_def
        split: option.splits prod.splits sum.splits) (metis snd_conv settled_def)+
qed


section \<open>Properties\<close>

text \<open>
  C27: A poll of a running CrowdSec against a working database stores exactly the alerts whose
  identifiers are new: earlier rows stay as they are, every alert that can be read is there
  afterwards, identifiers are never repeated, and a second poll of the same answer changes no
  row.
\<close>

theorem poll_deduplicates:
  assumes "cs_status cs = Some ''running''" "cs_alerts cs = Inr (0, answer)" "strip answer \<noteq> []"
    and "loads_json (strip answer) = Some (JList alerts)"
    and "list_all (storable e country) alerts" "db_up e" "settled s"
  shows "\<exists>s1 s2. poll_once e loads_json country cs s = (Inr (), s1)
    \<and> poll_once e loads_json country cs s1 = (Inr (), s2)
    \<and> (\<exists>new. bans (committed s1) = bans (committed s) @ new
              \<and> set new \<subseteq> set (alert_rows e country alerts))
    \<and> ban_cs_alert_id ` set (alert_rows e country alerts) \<subseteq> ban_cs_alert_id ` set (bans (committed s1))
    \<and> distinct (map ban_cs_alert_id (bans (committed s1)))
    \<and> bans (committed s2) = bans (committed s1)"
proof -
  let ?rows = "alert_rows e country alerts"
  let ?d = "fold insert_ban ?rows (committed s)"
  have c: "constraints (committed s)" using assms(7) by (simp add: settled_def)
  obtain k where p1: "poll_once e loads_json country cs s = (Inr (), s\<lparr>committed := ?d, working := ?d, attempts := k\<rparr>)"
    using poll_once_stores [of cs answer loads_json alerts e country s, OF assms] by blast
  let ?s1 = "s\<lparr>committed := ?d, working := ?d, attempts := k\<rparr>"
  have d: "constraints ?d" using ban_table.fold_ok [OF c] .
  then have "settled ?s1" by (simp add: settled_def)
  then obtain k' where p2: "poll_once e loads_json country cs ?s1
      = (Inr (), ?s1\<lparr>committed := fold insert_ban ?rows ?d, working := fold insert_ban ?rows ?d, attempts := k'\<rparr>)"
    using poll_once_stores [of cs answer loads_json alerts e country ?s1, OF assms(1-6)]
    by auto
  have "bans (fold insert_ban ?rows ?d) = bans ?d"
    using ban_table.idempotent [OF c] by simp
  moreover have "ban_cs_alert_id ` set ?rows \<subseteq> ban_cs_alert_id ` set (bans ?d)"
    using ban_table.inserted_keys [OF c, of _ ?rows] by blast
  moreover obtain new where "bans ?d = bans (committed s) @ new" "set new \<subseteq> set ?rows"
    using ban_table.keeps_rows [OF c] by auto
  moreover have "distinct (map ban_cs_alert_id (bans ?d))" using d by (simp add: constraints_def)
  ultimately show ?thesis using p1 p2
    by (intro exI [of _ ?s1] exI conjI) (assumption | simp)+
qed

definition demo_session :: session where
  "demo_session = \<lparr>committed = empty_db, working = empty_db, attempts = 0, calls = []\<rparr>"

definition demo_env :: env where
  "demo_env = quiet_env"

definition demo_alert :: json where
  "demo_alert = JObj [(''id'', JInt 42), (''source'', JObj [(''ip'', JStr ''203.0.113.9'')]),
     (''created_at'', JStr ''1970-01-02T00:00:00Z'')]"

lemma alert_demo_settled: "settled demo_session"
  by (simp add: settled_def demo_session_def)

lemma demo_alert_row: "alert_rows demo_env (\<lambda>ip. None) [demo_alert, demo_alert] =
    [\<lparr>ban_cs_alert_id = 42, ban_source_ip = ''203.0.113.9'', ban_scenario = ''unknown'',
      ban_country_code = None, ban_events_count = 1, ban_created_at = 86400000000, ban_expires_at = None\<rparr>,
     \<lparr>ban_cs_alert_id = 42, ban_source_ip = ''203.0.113.9'', ban_scenario = ''unknown'',
      ban_country_code = None, ban_events_count = 1, ban_created_at = 86400000000, ban_expires_at = None\<rparr>]"
  by code_simp

theorem poll_deduplicates_witness:
  "\<exists>s1 s2. poll_once demo_env (\<lambda>t. Some (JList [demo_alert, demo_alert])) (\<lambda>ip. None)
        \<lparr>cs_status = Some ''running'', cs_alerts = Inr (0, ''[..]'')\<rparr> demo_session = (Inr (), s1)
    \<and> poll_once demo_env (\<lambda>t. Some (JList [demo_alert, demo_alert])) (\<lambda>ip. None)
        \<lparr>cs_status = Some ''running'', cs_alerts = Inr (0, ''[..]'')\<rparr> s1 = (Inr (), s2)
    \<and> ban_cs_alert_id ` set (bans (committed s1)) = {42} \<and> bans (committed s2) = bans (committed s1)"
proof -
  let ?cs = "\<lparr>cs_status = Some ''running'', cs_alerts = Inr (0, ''[..]'')\<rparr>"
  let ?loads = "\<lambda>t::string. Some (JList [demo_alert, demo_alert])"
  have "list_all (storable demo_env (\<lambda>ip. None)) [demo_alert, demo_alert]" by code_simp
  moreover have "strip ''[..]'' \<noteq> []" by code_simp
  moreover have "db_up demo_env" by (simp add: demo_env_def quiet_env_def db_up_def)
  ultimately obtain s1 s2 where "poll_once demo_env ?loads (\<lambda>ip. None) ?cs demo_session = (Inr (), s1)"
    "poll_once demo_env ?loads (\<lambda>ip. None) ?cs s1 = (Inr (), s2)"
    "\<exists>new. bans (committed s1) = new \<and> set new \<subseteq> set (alert_rows demo_env (\<lambda>ip. None) [demo_alert, demo_alert])"
    "ban_cs_alert_id ` set (alert_rows demo_env (\<lambda>ip. None) [demo_alert, demo_alert]) \<subseteq> ban_cs_alert_id ` set (bans (committed s1))"
    "bans (committed s2) = bans (committed s1)"
    using poll_deduplicates [of ?cs "''[..]''" ?loads "[demo_alert, demo_alert]" demo_env "\<lambda>ip. None" demo_session]
      alert_demo_settled
    by (auto simp: demo_session_def empty_db_def)
  then show ?thesis unfolding demo_alert_row by (intro exI conjI) (assumption | force)+
qed

text \<open>
  A time with a fraction of a second and a final Z is longer than the 26 characters it is cut
  to: no format reads it, and the alert is stored with the time of the poll and no expiry.
\<close>

lemma subsecond_times_lost:
  "parse_when (JStr ''2026-06-11T20:00:00.123456Z'') = Inr None"
  "parse_when (JStr ''2026-06-11T20:00:00.123456789Z'') = Inr None"
  by code_simp+

end
