(* ===== verification/PyFloat.thy ===== *)
theory PyFloat
  imports Complex_Main
begin

text \<open>
  Python floats in the range the program computes with: a float is its exact rational value,
  and every arithmetic operation is the exact one followed by \<open>fl\<close>, the rounding to 53
  significant bits (nearest, ties to even).  \<open>round1\<close> is \<open>round(x, 1)\<close>, which rounds the
  exact value to one decimal, ties to even; its result is kept as a number of tenths.
  Overflow and subnormal numbers do not occur for the sizes involved.
\<close>

fun ilog2 :: "int \<Rightarrow> nat" where
  "ilog2 n = (if n < 2 then 0 else Suc (ilog2 (n div 2)))"

declare ilog2.simps [simp del]

definition pow2 :: "int \<Rightarrow> rat" where
  "pow2 e = (if 0 \<le> e then 2 ^ nat e else 1 / 2 ^ nat (- e))"

text \<open>Round half to even.\<close>

definition rhe :: "rat \<Rightarrow> int" where
  "rhe x = (let n = \<lfloor>x\<rfloor>; r = x - of_int n in
     if 2 * r < 1 then n else if 1 < 2 * r then n + 1 else if even n then n else n + 1)"

text \<open>The exponent of the leading bit of a positive rational.\<close>

definition exponent :: "rat \<Rightarrow> int" where
  "exponent x = (let (n, d) = quotient_of x; e = int (ilog2 n) - int (ilog2 d) in
     if pow2 e \<le> x then e else e - 1)"

definition fl :: "rat \<Rightarrow> rat" where
  "fl x = (if x \<le> 0 then 0 else let ulp = pow2 (exponent x - 52) in of_int (rhe (x / ulp)) * ulp)"

definition round1 :: "rat \<Rightarrow> int" where
  "round1 x = rhe (10 * x)"

lemma rhe_close: "\<bar>of_int (rhe x) - x\<bar> \<le> 1 / 2"
proof -
  have "0 \<le> x - of_int \<lfloor>x\<rfloor>" "x - of_int \<lfloor>x\<rfloor> < 1" by linarith+
  then show ?thesis by (auto simp: rhe_def Let_def)
qed

lemma rhe_int [simp]: "rhe (of_int n) = n"
  by (simp add: rhe_def)

lemma rhe_mono: "x \<le> y \<Longrightarrow> rhe x \<le> rhe y"
proof -
  assume xy: "x \<le> y"
  show ?thesis
  proof (cases "\<lfloor>x\<rfloor> = \<lfloor>y\<rfloor>")
    case True
    with xy show ?thesis by (auto simp: rhe_def Let_def)
  next
    case False
    then have "\<lfloor>x\<rfloor> + 1 \<le> \<lfloor>y\<rfloor>" using floor_mono [OF xy] by linarith
    moreover have "rhe x \<le> \<lfloor>x\<rfloor> + 1" "\<lfloor>y\<rfloor> \<le> rhe y" by (auto simp: rhe_def Let_def)
    ultimately show ?thesis by linarith
  qed
qed

lemma pow2_pos [simp]: "0 < pow2 e"
  by (simp add: pow2_def)

lemma pow2_ne [simp]: "pow2 e \<noteq> 0"
  using pow2_pos [of e] by (metis less_irrefl)

lemma pow2_Suc: "pow2 (e + 1) = 2 * pow2 e"
proof (cases "0 \<le> e")
  case True
  then have "nat (e + 1) = Suc (nat e)" by simp
  with True show ?thesis by (simp add: pow2_def)
next
  case False
  then have "nat (- e) = Suc (nat (- (e + 1)))" by simp
  then have "pow2 e = 1 / 2 ^ Suc (nat (- (e + 1)))" using False by (simp add: pow2_def)
  also have "\<dots> = pow2 (e + 1) / 2" using False by (cases "e = -1") (auto simp: pow2_def)
  finally show ?thesis by simp
qed

lemma pow2_half: "pow2 (e - 1) = pow2 e / 2"
  using pow2_Suc [of "e - 1"] by simp

lemma ilog2_bounds: "0 < n \<Longrightarrow> 2 ^ ilog2 n \<le> n \<and> n < 2 ^ Suc (ilog2 n)"
proof (induction n rule: ilog2.induct)
  case (1 n)
  show ?case
  proof (cases "n < 2")
    case True
    with 1 show ?thesis by (simp add: ilog2.simps [of n])
  next
    case False
    with 1 have IH: "2 ^ ilog2 (n div 2) \<le> n div 2" "n div 2 < 2 ^ Suc (ilog2 (n div 2))" by auto
    have "ilog2 n = Suc (ilog2 (n div 2))" using False by (simp add: ilog2.simps [of n])
    moreover have "2 * (n div 2) \<le> n" "n < 2 * (n div 2) + 2" by linarith+
    ultimately show ?thesis using IH by simp
  qed
qed

lemma pow2_diff: "pow2 (int a - int b) = 2 ^ a / 2 ^ b"
proof (cases "b \<le> a")
  case True
  then show ?thesis by (simp add: pow2_def power_diff nat_diff_distrib')
next
  case False
  then have "nat (int b - int a) = b - a" by simp
  with False show ?thesis by (simp add: pow2_def power_diff)
qed

lemma exponent_le: "0 < x \<Longrightarrow> pow2 (exponent x) \<le> x"
proof -
  assume x: "0 < x"
  obtain n d where q: "quotient_of x = (n, d)" by fastforce
  then have d: "0 < d" "x = of_int n / of_int d" using quotient_of_denom_pos quotient_of_div by blast+
  then have n: "0 < n" using x by (simp add: zero_less_divide_iff)
  let ?e = "int (ilog2 n) - int (ilog2 d)"
  have "pow2 (?e - 1) \<le> x"
  proof -
    have "(of_int (2 ^ ilog2 n) :: rat) \<le> of_int n" "(of_int d :: rat) \<le> of_int (2 ^ Suc (ilog2 d))"
      using ilog2_bounds [OF n] ilog2_bounds [OF d(1)] by (intro of_int_le_iff [THEN iffD2]; simp)+
    then have "(2 ^ ilog2 n / 2 ^ Suc (ilog2 d) :: rat) \<le> of_int n / of_int d"
      using d(1) n by (intro frac_le) auto
    moreover have "pow2 (?e - 1) = 2 ^ ilog2 n / 2 ^ Suc (ilog2 d)"
      using pow2_diff [of "ilog2 n" "Suc (ilog2 d)"] by (simp add: algebra_simps)
    ultimately show ?thesis using d(2) by simp
  qed
  then show ?thesis by (simp add: exponent_def q Let_def)
qed

text \<open>The relative error of one rounding.\<close>

definition unit_roundoff :: rat where "unit_roundoff = 1 / 2 ^ 53"

lemma pow2_shift: "pow2 (e - int k) = pow2 e / 2 ^ k"
proof (induction k)
  case 0
  then show ?case by simp
next
  case (Suc k)
  have "pow2 (e - int (Suc k)) = pow2 ((e - int k) - 1)" by (simp add: algebra_simps)
  with Suc show ?case by (simp add: pow2_half)
qed

lemma fl_error: "0 \<le> x \<Longrightarrow> \<bar>fl x - x\<bar> \<le> x * unit_roundoff"
proof (cases "x = 0")
  case True
  then show ?thesis by (simp add: fl_def)
next
  assume "0 \<le> x"
  case False
  then have x: "0 < x" using \<open>0 \<le> x\<close> by simp
  let ?u = "pow2 (exponent x - 52)"
  have u: "0 < ?u" by simp
  have "fl x - x = (of_int (rhe (x / ?u)) - x / ?u) * ?u"
    using x u by (simp add: fl_def Let_def algebra_simps)
  then have "\<bar>fl x - x\<bar> = \<bar>of_int (rhe (x / ?u)) - x / ?u\<bar> * ?u" by (simp add: abs_mult abs_of_pos [OF u])
  also have "\<dots> \<le> 1 / 2 * ?u" using rhe_close [of "x / ?u"] less_imp_le [OF u] by (intro mult_right_mono)
  also have "?u = pow2 (exponent x) / 2 ^ 52" using pow2_shift [of "exponent x" 52] by simp
  also have "1 / 2 * (pow2 (exponent x) / 2 ^ 52) = pow2 (exponent x) * unit_roundoff"
    by (simp add: unit_roundoff_def)
  also have "\<dots> \<le> x * unit_roundoff"
    using exponent_le [OF x] by (intro mult_right_mono) (simp_all add: unit_roundoff_def)
  finally show ?thesis .
qed

lemma fl_bounds: "0 \<le> x \<Longrightarrow> 0 \<le> fl x \<and> fl x \<le> x * (1 + unit_roundoff)"
proof -
  assume x: "0 \<le> x"
  have "\<bar>fl x - x\<bar> \<le> x * unit_roundoff" by (rule fl_error [OF x])
  moreover have "x * unit_roundoff \<le> x" using x by (simp add: unit_roundoff_def mult_left_le)
  ultimately show ?thesis by (auto simp: abs_le_iff algebra_simps)
qed

end
