(* ===== verification/PyIpText.thy ===== *)
theory PyIpText
  imports PyIp
begin

text \<open>
  Printing an address and reading it back: the printed form of an address is canonical.
\<close>


section \<open>Numbers from digits\<close>

lemma undigits_bounds:
  "0 < base \<Longrightarrow> \<forall>d\<in>set ds. 0 \<le> d \<and> d < base \<Longrightarrow> 0 \<le> undigits base ds \<and> undigits base ds < base ^ length ds"
proof (induction ds rule: rev_induct)
  case (snoc d ds)
  then have "0 \<le> undigits base ds" "undigits base ds \<le> base ^ length ds - 1" "0 \<le> d" "d \<le> base - 1"
    by auto
  then have "base * undigits base ds + d \<le> base * (base ^ length ds - 1) + (base - 1)"
    using snoc.prems(1) by (intro add_mono mult_left_mono) auto
  then have "base * undigits base ds + d < base * base ^ length ds"
    using snoc.prems(1) by (simp add: algebra_simps)
  moreover have "0 \<le> base * undigits base ds + d"
    using \<open>0 \<le> undigits base ds\<close> \<open>0 \<le> d\<close> snoc.prems(1) by simp
  ultimately show ?case by simp
qed simp

lemma all_some_map: "(\<And>x. x \<in> set xs \<Longrightarrow> f x = Some (g x)) \<Longrightarrow> all_some (map f xs) = Some (map g xs)"
  by (induction xs) auto

lemma all_some_append:
  "all_some xs = Some as \<Longrightarrow> all_some ys = Some bs \<Longrightarrow> all_some (xs @ ys) = Some (as @ bs)"
  by (induction xs arbitrary: as rule: all_some.induct) auto

lemma all_some_replicate: "all_some (replicate n (Some x)) = Some (replicate n x)"
  by (induction n) auto

lemma all_some_None: "None \<in> set xs \<Longrightarrow> all_some xs = None"
  by (induction xs rule: all_some.induct) auto

lemma all_some_set: "all_some xs = Some ys \<Longrightarrow> y \<in> set ys \<Longrightarrow> Some y \<in> set xs"
  by (induction xs arbitrary: ys rule: all_some.induct) auto

lemma all_some_length: "all_some xs = Some ys \<Longrightarrow> length ys = length xs"
  by (induction xs arbitrary: ys rule: all_some.induct) auto

section \<open>IPv4\<close>

lemma parse_octet_range: "parse_octet s = Some d \<Longrightarrow> 0 \<le> d \<and> d < 256"
  by (auto simp: parse_octet_def split: if_splits)

lemma ip4_int_range: "ip4_int s = Some n \<Longrightarrow> 0 \<le> n \<and> n < 2 ^ 32"
proof -
  assume "ip4_int s = Some n"
  then obtain ds where ds: "all_some (map parse_octet (split_on (CHR ''.'') s)) = Some ds"
    "length (split_on (CHR ''.'') s) = 4" and n: "n = undigits 256 ds"
    by (auto simp: ip4_int_def Let_def split: if_splits)
  then have "length ds = 4" using all_some_length by fastforce
  moreover have "\<forall>d\<in>set ds. 0 \<le> d \<and> d < 256"
    using all_some_set [OF ds(1)] parse_octet_range by fastforce
  ultimately show ?thesis using undigits_bounds [of 256 ds] by (simp add: n)
qed

lemma digit_char_0: "n < 10 \<Longrightarrow> digit_char n = CHR ''0'' \<longleftrightarrow> n = 0"
proof
  assume n: "n < 10" and d: "digit_char n = CHR ''0''"
  have "code (digit_char n) = 48" unfolding d by simp
  with code_digit_char [OF n] show "n = 0" by simp
next
  have "digit_char 0 = CHR ''0''" by code_simp
  moreover assume "n = 0"
  ultimately show "digit_char n = CHR ''0''" by simp
qed

lemma show_nat_hd: "0 < n \<Longrightarrow> hd (show_nat n) \<noteq> CHR ''0''"
proof (induction n rule: show_nat.induct)
  case (1 n)
  show ?case
  proof (cases "n < 10")
    case True
    with digit_char_0 [OF True] 1 show ?thesis by (subst show_nat.simps) simp
  next
    case False
    with 1 have "hd (show_nat (n div 10)) \<noteq> CHR ''0''" by simp
    with False show ?thesis by (subst show_nat.simps) (simp add: hd_append)
  qed
qed

lemma parse_octet_show: "0 \<le> d \<Longrightarrow> d < 256 \<Longrightarrow> parse_octet (show_int d) = Some d"
proof -
  assume d: "0 \<le> d" "d < 256"
  then have s: "show_int d = show_nat (nat d)" by (simp add: show_int_def)
  have "length (show_nat (nat d)) \<le> 3" using d by (intro length_show_nat) auto
  moreover have "show_nat (nat d) = ''0'' \<or> hd (show_nat (nat d)) \<noteq> CHR ''0''"
  proof (cases "d = 0")
    case True
    then show ?thesis by (subst show_nat.simps) (simp add: digit_char_0)
  next
    case False
    then show ?thesis using d show_nat_hd [of "nat d"] by simp
  qed
  moreover have "list_all is_digit (show_nat (nat d))" using show_nat_digits by (auto simp: list_all_iff)
  ultimately show ?thesis using d by (auto simp: parse_octet_def s)
qed

lemma show_int_no_char: "0 \<le> d \<Longrightarrow> \<not> is_digit c \<Longrightarrow> c \<notin> set (show_int d)"
  using show_nat_digits by (auto simp: show_int_def)

lemma show_int_digit: "0 \<le> d \<Longrightarrow> c \<in> set (show_int d) \<Longrightarrow> is_digit c"
  using show_nat_digits by (auto simp: show_int_def)

lemma bytes_of: "0 \<le> n \<Longrightarrow> n < 4294967296 \<Longrightarrow>
    undigits 256 [n div 16777216 mod 256, n div 65536 mod 256, n div 256 mod 256, n mod 256] = (n::int)"
proof -
  assume n: "0 \<le> n" "n < 4294967296"
  have "n div 65536 = n div 256 div 256" "n div 16777216 = n div 65536 div 256"
    using zdiv_zmult2_eq [of 256 n 256] zdiv_zmult2_eq [of 256 n 65536] by simp_all
  then have "n = 256 * (n div 256) + n mod 256"
    "n div 256 = 256 * (n div 65536) + n div 256 mod 256"
    "n div 65536 = 256 * (n div 16777216) + n div 65536 mod 256"
    by simp_all
  moreover have "n div 16777216 mod 256 = n div 16777216" using n by simp
  ultimately show ?thesis by (simp add: undigits_def)
qed

lemma ip4_int_join:
  assumes "length ds = 4" "\<forall>d\<in>set ds. 0 \<le> d \<and> d < 256"
  shows "ip4_int (join ''.'' (map show_int ds)) = Some (undigits 256 ds)"
proof -
  have "\<not> is_digit (CHR ''.'')" by (simp add: is_digit_def)
  then have sp: "split_on (CHR ''.'') (join ''.'' (map show_int ds)) = map show_int ds"
    using assms show_int_digit by (intro split_on_join) fastforce+
  have "join ''.'' (map show_int ds) \<noteq> []"
  proof
    assume "join ''.'' (map show_int ds) = []"
    with sp have "length (map show_int ds) = 1" by (metis split_on.simps(1) length_Cons list.size(3) One_nat_def)
    with assms(1) show False by simp
  qed
  moreover have "all_some (map parse_octet (map show_int ds)) = Some ds"
    using all_some_map [of ds "\<lambda>d. parse_octet (show_int d)" id] assms(2) parse_octet_show
    by (simp add: comp_def)
  ultimately show ?thesis using assms(1) by (simp add: ip4_int_def sp del: map_map)
qed

lemma ip4_int_show: "0 \<le> n \<Longrightarrow> n < 2 ^ 32 \<Longrightarrow> ip4_int (show_ip4 n) = Some n"
proof -
  assume n: "0 \<le> n" "n < 2 ^ 32"
  let ?ds = "[n div 16777216 mod 256, n div 65536 mod 256, n div 256 mod 256, n mod 256]"
  have "ip4_int (join ''.'' (map show_int ?ds)) = Some (undigits 256 ?ds)"
    by (rule ip4_int_join) auto
  moreover have "undigits 256 ?ds = n" using n by (intro bytes_of) simp_all
  ultimately show ?thesis by (simp only: show_ip4_def)
qed

lemma show_ip4_chars: "0 \<le> n \<Longrightarrow> c \<in> set (show_ip4 n) \<Longrightarrow> is_digit c \<or> c = CHR ''.''"
proof -
  assume n: "0 \<le> n" and c: "c \<in> set (show_ip4 n)"
  have "set (show_ip4 n) \<subseteq> (\<Union>w\<in>set (map show_int [n div 16777216 mod 256, n div 65536 mod 256, n div 256 mod 256, n mod 256]). set w) \<union> set ''.''"
    unfolding show_ip4_def by (rule set_join)
  moreover have "\<forall>w\<in>set (map show_int [n div 16777216 mod 256, n div 65536 mod 256, n div 256 mod 256, n mod 256]).
      \<forall>c\<in>set w. is_digit c"
    by (auto dest: show_int_digit [rotated])
  ultimately show ?thesis using c by auto
qed

lemma ip4_int_colon: "CHR '':'' \<in> set s \<Longrightarrow> ip4_int s = None"
proof -
  assume c: "CHR '':'' \<in> set s"
  have "set s \<subseteq> (\<Union>w\<in>set (split_on (CHR ''.'') s). set w) \<union> set ''.''"
    using set_join [of "''.''" "split_on (CHR ''.'') s"] join_split_on [of "CHR ''.''" s] by simp
  then obtain w where w: "w \<in> set (split_on (CHR ''.'') s)" "CHR '':'' \<in> set w" using c by auto
  then have "\<not> list_all is_digit w" by (force simp: list_all_iff is_digit_def)
  then have "parse_octet w = None" by (simp add: parse_octet_def)
  then have "None \<in> set (map parse_octet (split_on (CHR ''.'') s))" using w(1) by force
  then show ?thesis by (auto simp: ip4_int_def Let_def all_some_None)
qed

section \<open>Hexadecimal groups\<close>

lemma hex_digit_facts: "0 \<le> d \<Longrightarrow> d < 16 \<Longrightarrow> is_hex (hex_digit d) \<and> hex_value (hex_digit d) = d"
proof -
  assume d: "0 \<le> d" "d < 16"
  then have "nat d < 16" by simp
  then show ?thesis using d
    by (cases "d < 10") (auto simp: hex_digit_def hex_value_def chars)
qed

lemma show_hex_ne [simp]: "show_hex n \<noteq> []"
  by (subst show_hex.simps) simp

lemma show_hex_is_hex: "0 \<le> n \<Longrightarrow> c \<in> set (show_hex n) \<Longrightarrow> is_hex c"
proof (induction n rule: show_hex.induct)
  case (1 n)
  show ?case
  proof (cases "n < 16")
    case True
    with 1 hex_digit_facts show ?thesis by (subst (asm) show_hex.simps) auto
  next
    case False
    with 1 hex_digit_facts [of "n mod 16"] show ?thesis by (subst (asm) (2) show_hex.simps) auto
  qed
qed

lemma show_hex_value: "0 \<le> n \<Longrightarrow> undigits 16 (map hex_value (show_hex n)) = n"
proof (induction n rule: show_hex.induct)
  case (1 n)
  show ?case
  proof (cases "n < 16")
    case True
    with 1 hex_digit_facts [of n] show ?thesis
      by (subst show_hex.simps) (simp add: undigits_def)
  next
    case False
    with 1 hex_digit_facts [of "n mod 16"] show ?thesis
      by (subst show_hex.simps) simp
  qed
qed

lemma length_show_hex: "0 \<le> n \<Longrightarrow> n < 16 ^ Suc k \<Longrightarrow> length (show_hex n) \<le> Suc k"
proof (induction k arbitrary: n)
  case 0
  then show ?case by (subst show_hex.simps) simp
next
  case (Suc k)
  then have "n div 16 < 16 ^ Suc k" by (simp add: int_div_less_self algebra_simps) 
  with Suc have "length (show_hex (n div 16)) \<le> Suc k" by simp
  then show ?case by (subst show_hex.simps) simp
qed

lemma parse_hextet_show: "0 \<le> h \<Longrightarrow> h < 65536 \<Longrightarrow> parse_hextet (show_hex h) = Some h"
  using length_show_hex [of h 3] show_hex_is_hex [of h] show_hex_value [of h]
  by (auto simp: parse_hextet_def list_all_iff)

lemma parse_hextet_range: "parse_hextet s = Some h \<Longrightarrow> 0 \<le> h \<and> h < 65536"
proof -
  assume "parse_hextet s = Some h"
  then have s: "list_all is_hex s" "length s \<le> 4" "h = undigits 16 (map hex_value s)"
    by (auto simp: parse_hextet_def split: if_splits)
  have "\<forall>d\<in>set (map hex_value s). 0 \<le> d \<and> d < 16"
    using s(1) by (auto simp: list_all_iff hex_value_def chars)
  then have "0 \<le> h \<and> h < 16 ^ length s" using undigits_bounds [of 16 "map hex_value s"] s(3) by simp
  moreover have "(16::int) ^ length s \<le> 16 ^ 4" using s(2) by (intro power_increasing) auto
  ultimately show ?thesis by simp
qed


section \<open>IPv6\<close>

lemma hextet_options_facts:
  assumes "hi \<le> length parts" "lo \<le> length parts" "hi + lo \<le> 8"
  shows "length (hextet_options parts hi lo) = 8"
    "x \<in> set (hextet_options parts hi lo) \<Longrightarrow> x = Some 0 \<or> (\<exists>s. x = parse_hextet s)"
  using assms by (auto simp: hextet_options_def min_def)

lemma hextets_of_options:
  assumes "hextets_of ps = Some hs"
  shows "\<exists>hi lo. all_some (hextet_options ps hi lo) = Some hs \<and> hi \<le> length ps \<and> lo \<le> length ps \<and> hi + lo \<le> 8"
proof (cases "filter (\<lambda>i. ps ! i = []) [1..<length ps - 1]")
  case Nil
  then have "length ps = 8" "all_some (map parse_hextet ps) = Some hs"
    using assms by (auto simp: hextets_of_def Let_def split: if_splits)
  then have "all_some (hextet_options ps 8 0) = Some hs" by (simp add: hextet_options_def)
  with \<open>length ps = 8\<close> show ?thesis by (metis add_0_right le0 order_refl)
next
  case (Cons skip rest)
  let ?k = "length ps"
  define hi where "hi = (if hd ps = [] then skip - 1 else skip)"
  define lo where "lo = (if last ps = [] then ?k - skip - 2 else ?k - skip - 1)"
  have "skip \<in> set (filter (\<lambda>i. ps ! i = []) [1..<?k - 1])" using Cons by simp
  then have "hi \<le> ?k" "lo \<le> ?k" by (auto simp: hi_def lo_def)
  moreover have "hextets_of ps = (if 9 < ?k then None else case rest of [] \<Rightarrow>
      if (hd ps = [] \<and> hi \<noteq> 0) \<or> (last ps = [] \<and> lo \<noteq> 0) \<or> 8 \<le> hi + lo then None
      else all_some (hextet_options ps hi lo) | _ \<Rightarrow> None)"
    unfolding hextets_of_def hi_def lo_def Let_def Cons by (cases rest) (simp_all only: list.case)
  then have "all_some (hextet_options ps hi lo) = Some hs \<and> hi + lo \<le> 8"
    using assms by (auto split: list.splits if_splits)
  ultimately show ?thesis by blast
qed

lemma hextets_of_range: "hextets_of ps = Some hs \<Longrightarrow> length hs = 8 \<and> (\<forall>h\<in>set hs. 0 \<le> h \<and> h < 65536)"
proof -
  assume "hextets_of ps = Some hs"
  then obtain hi lo where o: "all_some (hextet_options ps hi lo) = Some hs"
    "hi \<le> length ps" "lo \<le> length ps" "hi + lo \<le> 8"
    using hextets_of_options by blast
  then have "length hs = 8" using all_some_length hextet_options_facts(1) by metis
  moreover have "0 \<le> h \<and> h < 65536" if "h \<in> set hs" for h
    using hextet_options_facts(2) [OF o(2-4) all_some_set [OF o(1) that]] parse_hextet_range by auto
  ultimately show ?thesis by simp
qed

lemma ip6_int_range: "ip6_int s = Some n \<Longrightarrow> 0 \<le> n \<and> n < 2 ^ 128"
proof -
  assume "ip6_int s = Some n"
  then obtain ps hs where "hextets_of ps = Some hs" "n = undigits 65536 hs"
    by (auto simp: ip6_int_def Let_def bind_eq_Some_conv split: if_splits)
  with hextets_of_range [of ps hs] undigits_bounds [of 65536 hs] show ?thesis by auto
qed

subsection \<open>Runs of zeros\<close>

definition zeros :: "int list \<Rightarrow> nat \<Rightarrow> nat \<Rightarrow> bool" where
  "zeros xs st len \<longleftrightarrow> st + len \<le> length xs \<and> (\<forall>k<len. xs ! (st + k) = 0)"

lemma zeros_Suc: "zeros xs st len \<Longrightarrow> st + len < length xs \<Longrightarrow> xs ! (st + len) = 0 \<Longrightarrow> zeros xs st (Suc len)"
  by (auto simp: zeros_def less_Suc_eq)

lemma best_run_zeros:
  "xs = pre @ hs \<Longrightarrow> zeros xs st len \<Longrightarrow> len = 0 \<or> st + len = length pre
     \<Longrightarrow> zeros xs (fst best) (snd best)
     \<Longrightarrow> zeros xs (fst (best_run hs (length pre) (st, len) best)) (snd (best_run hs (length pre) (st, len) best))"
proof (induction hs arbitrary: pre st len best)
  case Nil
  then show ?case by simp
next
  case (Cons h hs)
  have i: "xs ! length pre = h" "length pre < length xs" using Cons.prems(1) by auto
  note IH = Cons.IH [of "pre @ [h]", simplified]
  show ?case
  proof (cases "h = 0")
    case True
    define st' where "st' = (if len = 0 then length pre else st)"
    have z: "zeros xs st' (Suc len)"
    proof (cases "len = 0")
      case True
      then show ?thesis using i \<open>h = 0\<close> by (simp add: zeros_def st'_def)
    next
      case False
      then show ?thesis using Cons.prems i \<open>h = 0\<close> by (auto simp: zeros_Suc st'_def)
    qed
    have "st' + Suc len = Suc (length pre)" using Cons.prems(3) by (auto simp: st'_def)
    with IH [of st' "Suc len" "if snd best < Suc len then (st', Suc len) else best"] z Cons.prems True
    show ?thesis by (auto simp: Let_def st'_def [symmetric])
  next
    case False
    have "zeros xs (length pre) 0" using i(2) by (simp add: zeros_def)
    with IH [of "length pre" 0 best] Cons.prems False show ?thesis by auto
  qed
qed

lemma best_run_zeros0: "best_run hs 0 (0, 0) (0, 0) = (st, len) \<Longrightarrow> zeros hs st len"
  using best_run_zeros [of hs "[]" hs 0 0 "(0, 0)"] by (simp add: zeros_def)

lemma zeros_replicate: "zeros hs st len \<Longrightarrow> hs = take st hs @ replicate len 0 @ drop (st + len) hs"
proof -
  assume z: "zeros hs st len"
  have "take len (drop st hs) = replicate len 0"
    using z by (intro nth_equalityI) (auto simp: zeros_def)
  then show ?thesis by (metis append_take_drop_id drop_drop add.commute)
qed


lemma filter_upt_single:
  assumes "a \<le> m" "m < b" "P m" "\<And>i. a \<le> i \<Longrightarrow> i < b \<Longrightarrow> i \<noteq> m \<Longrightarrow> \<not> P i"
  shows "filter P [a..<b] = [m]"
proof -
  have "[a..<b] = [a..<m] @ m # [Suc m..<b]"
    using assms(1,2) by (metis le_Suc_ex less_imp_le_nat upt_add_eq_append upt_conv_Cons)
  moreover have "filter P [a..<m] = []" "filter P [Suc m..<b] = []"
    using assms by (auto simp: filter_empty_conv)
  ultimately show ?thesis using assms(3) by simp
qed

lemma hextets_of_skip:
  assumes "length parts \<le> 9" "1 \<le> skip" "skip < length parts - 1" "parts ! skip = []"
    and "\<And>i. 1 \<le> i \<Longrightarrow> i < length parts - 1 \<Longrightarrow> i \<noteq> skip \<Longrightarrow> parts ! i \<noteq> []"
    and "hi = (if hd parts = [] then 0 else skip)" "hd parts = [] \<Longrightarrow> skip = 1"
    and "lo = (if last parts = [] then 0 else length parts - skip - 1)"
    and "last parts = [] \<Longrightarrow> skip = length parts - 2"
    and "hi + lo < 8"
  shows "hextets_of parts = all_some (hextet_options parts hi lo)"
proof -
  have f: "filter (\<lambda>i. parts ! i = []) [1..<length parts - 1] = [skip]"
    using assms(2-5) by (intro filter_upt_single) auto
  have "(if hd parts = [] then skip - 1 else skip) = hi" using assms(6,7) by auto
  moreover have "(if last parts = [] then length parts - skip - 2 else length parts - skip - 1) = lo"
    using assms(8,9) by auto
  moreover have "\<not> (hd parts = [] \<and> hi \<noteq> 0 \<or> last parts = [] \<and> lo \<noteq> 0 \<or> 8 \<le> hi + lo)"
    using assms(6,8,10) by auto
  ultimately show ?thesis
    unfolding hextets_of_def Let_def f using assms(1) by auto
qed

definition in_range :: "int list \<Rightarrow> bool" where
  "in_range hs \<longleftrightarrow> (\<forall>h\<in>set hs. 0 \<le> h \<and> h < 65536)"

lemma parse_shown: "in_range hs \<Longrightarrow> all_some (map (parse_hextet \<circ> show_hex) hs) = Some hs"
  using all_some_map [of hs "parse_hextet \<circ> show_hex" id] parse_hextet_show by (auto simp: in_range_def)

lemma shown_options:
  assumes "in_range as" "in_range bs" "length as + n + length bs = 8"
    and "take (length as) parts = map show_hex as" "drop (length parts - length bs) parts = map show_hex bs"
  shows "all_some (hextet_options parts (length as) (length bs)) = Some (as @ replicate n 0 @ bs)"
proof -
  have "8 - (length as + length bs) = n" using assms(3) by simp
  then have "hextet_options parts (length as) (length bs)
      = map (parse_hextet \<circ> show_hex) as @ replicate n (Some 0) @ map (parse_hextet \<circ> show_hex) bs"
    by (simp add: hextet_options_def assms(4,5))
  then show ?thesis
    using parse_shown assms(1,2) by (simp add: all_some_append all_some_replicate)
qed

lemma last_map_ne: "xs \<noteq> [] \<Longrightarrow> last (map show_hex xs) \<noteq> []"
  by (simp add: last_map)

lemma hextets_of_compressed:
  assumes "in_range as" "in_range bs" "length as + n + length bs = 8" "2 \<le> n"
  shows "hextets_of ((if as = [] then [[]] else []) @ map show_hex as @ [[]] @ map show_hex bs
           @ (if bs = [] then [[]] else [])) = Some (as @ replicate n 0 @ bs)"
    (is "hextets_of ?parts = _")
proof -
  let ?skip = "if as = [] then 1 else length as"
  have "hextets_of ?parts = all_some (hextet_options ?parts (length as) (length bs))"
  proof (rule hextets_of_skip [where skip = ?skip])
    show "length ?parts \<le> 9" using assms(3,4) by (auto simp: Suc_le_eq)
    show "1 \<le> ?skip" by (auto simp: Suc_le_eq)
    show "?skip < length ?parts - 1" by auto
    show "?parts ! ?skip = []" by (auto simp: nth_append)
    show "?parts ! i \<noteq> []" if "1 \<le> i" "i < length ?parts - 1" "i \<noteq> ?skip" for i
      using that by (auto simp: nth_append nth_Cons' not_less split: if_splits)
    show "length as = (if hd ?parts = [] then 0 else ?skip)"
      by (cases as) auto
    show "hd ?parts = [] \<Longrightarrow> ?skip = 1" by (cases as) auto
    show "length bs = (if last ?parts = [] then 0 else length ?parts - ?skip - 1)"
      by (cases "bs = []") (auto simp: last_append last_map)
    show "last ?parts = [] \<Longrightarrow> ?skip = length ?parts - 2"
      by (cases "bs = []") (auto simp: last_append last_map)
    show "length as + length bs < 8" using assms(3,4) by simp
  qed
  also have "\<dots> = Some (as @ replicate n 0 @ bs)"
  proof (rule shown_options [OF assms(1-3)])
    show "take (length as) ?parts = map show_hex as" by auto
    show "drop (length ?parts - length bs) ?parts = map show_hex bs" by auto
  qed
  finally show ?thesis .
qed

lemma hextets_of_full:
  assumes "length hs = 8" "in_range hs"
  shows "hextets_of (map show_hex hs) = Some hs"
proof -
  have "filter (\<lambda>i. map show_hex hs ! i = []) [1..<length (map show_hex hs) - 1] = []"
    using assms(1) by (auto simp: filter_empty_conv)
  moreover have "hs \<noteq> []" using assms(1) by auto
  then have "hd (map show_hex hs) \<noteq> []" "last (map show_hex hs) \<noteq> []"
    by (simp_all add: hd_map last_map)
  moreover have "all_some (map parse_hextet (map show_hex hs)) = Some hs"
    using parse_shown [OF assms(2)] by simp
  ultimately show ?thesis using assms(1) unfolding hextets_of_def Let_def by simp
qed

lemma hextets_of_compress:
  assumes "length hs = 8" "in_range hs"
  shows "hextets_of (compress hs) = Some hs"
proof -
  obtain st len where b: "best_run hs 0 (0, 0) (0, 0) = (st, len)" by fastforce
  note z = best_run_zeros0 [OF b]
  show ?thesis
  proof (cases "len \<le> 1")
    case True
    with b hextets_of_full [OF assms] show ?thesis by (simp add: compress_def)
  next
    case False
    let ?as = "take st hs" and ?bs = "drop (st + len) hs"
    have le: "st + len \<le> length hs" using z by (simp add: zeros_def)
    have ab: "?as = [] \<longleftrightarrow> st = 0" "?bs = [] \<longleftrightarrow> st + len = length hs"
      using le assms(1) by auto
    have "in_range ?as" "in_range ?bs"
      using assms(2) by (auto simp: in_range_def dest: in_set_takeD in_set_dropD)
    moreover have "length ?as + len + length ?bs = 8" using le assms(1) by simp
    ultimately have "hextets_of ((if st = 0 then [[]] else []) @ map show_hex ?as @ [[]] @ map show_hex ?bs
           @ (if st + len = length hs then [[]] else [])) = Some (?as @ replicate len 0 @ ?bs)"
      using hextets_of_compressed [of ?as ?bs len] False unfolding ab by simp
    moreover have "?as @ replicate len 0 @ ?bs = hs" using zeros_replicate [OF z] by simp
    moreover have "compress hs = (if st = 0 then [[]] else []) @ map show_hex ?as @ [[]] @ map show_hex ?bs
           @ (if st + len = length hs then [[]] else [])"
      unfolding compress_def b using False by simp
    ultimately show ?thesis by simp
  qed
qed

subsection \<open>The text of an address\<close>

lemma compress_words: "in_range hs \<Longrightarrow> w \<in> set (compress hs) \<Longrightarrow> c \<in> set w \<Longrightarrow> is_hex c"
  using show_hex_is_hex
  by (auto simp: compress_def in_range_def split: prod.splits if_splits dest!: in_set_takeD in_set_dropD)

lemma hextets_range: "in_range (hextets n)"
  by (auto simp: in_range_def hextets_def)

lemma compress_length: "length hs = 8 \<Longrightarrow> 3 \<le> length (compress hs)"
proof -
  assume l: "length hs = 8"
  obtain st len where b: "best_run hs 0 (0, 0) (0, 0) = (st, len)" by fastforce
  have "st + len \<le> length hs" using best_run_zeros0 [OF b] by (simp add: zeros_def)
  with l b show ?thesis by (auto simp: compress_def Suc_le_eq)
qed

lemma colon_not_hex: "\<not> is_hex (CHR '':'')" "\<not> is_hex (CHR ''.'')" "\<not> is_hex (CHR ''%'')" "\<not> is_hex (CHR ''/'')"
  by (simp_all add: chars)

lemma split_show_ip6: "split_on (CHR '':'') (show_ip6 n) = compress (hextets n)"
proof -
  have "3 \<le> length (compress (hextets n))" by (rule compress_length) (simp add: hextets_def)
  then have "compress (hextets n) \<noteq> []" by auto
  moreover have "\<forall>w\<in>set (compress (hextets n)). CHR '':'' \<notin> set w"
    using compress_words [OF hextets_range] colon_not_hex(1) by blast
  ultimately show ?thesis unfolding show_ip6_def by (rule split_on_join)
qed

lemma show_ip6_chars: "c \<in> set (show_ip6 n) \<Longrightarrow> is_hex c \<or> c = CHR '':''"
  using set_join [of "'':''" "compress (hextets n)"] compress_words [OF hextets_range]
  by (fastforce simp: show_ip6_def)

lemma show_ip6_colon: "CHR '':'' \<in> set (show_ip6 n)"
proof (rule ccontr)
  assume "CHR '':'' \<notin> set (show_ip6 n)"
  then have "split_on (CHR '':'') (show_ip6 n) = [show_ip6 n]" by (rule split_on_none)
  moreover have "3 \<le> length (compress (hextets n))" by (rule compress_length) (simp add: hextets_def)
  ultimately show False by (simp add: split_show_ip6)
qed


lemma hextets_value: "0 \<le> n \<Longrightarrow> n < 2 ^ 128 \<Longrightarrow> undigits 65536 (hextets n) = n"
proof -
  assume n: "0 \<le> n" "n < 2 ^ 128"
  have step: "n div 65536 ^ i = 65536 * (n div 65536 ^ Suc i) + n div 65536 ^ i mod 65536" for i
  proof -
    have "n div 65536 ^ Suc i = n div 65536 ^ i div 65536"
      using zdiv_zmult2_eq [of 65536 n "65536 ^ i"] by (simp add: mult.commute)
    then show ?thesis by simp
  qed
  have top: "n div 65536 ^ 7 mod 65536 = n div 65536 ^ 7"
  proof (rule mod_pos_pos_trivial)
    show "0 \<le> n div 65536 ^ 7" using n(1) by simp
    have "n < 65536 * 65536 ^ 7" using n(2) by simp
    then show "n div 65536 ^ 7 < 65536" by (simp add: div_less_iff_less_mult [symmetric])
  qed
  have v: "undigits 65536 (hextets n) =
     65536 * (65536 * (65536 * (65536 * (65536 * (65536 * (65536 * (n div 65536 ^ 7 mod 65536)
       + n div 65536 ^ 6 mod 65536) + n div 65536 ^ 5 mod 65536) + n div 65536 ^ 4 mod 65536)
       + n div 65536 ^ 3 mod 65536) + n div 65536 ^ 2 mod 65536) + n div 65536 ^ 1 mod 65536)
       + n div 65536 ^ 0 mod 65536"
    by (simp only: undigits_def hextets_def list.map foldl.simps mult_zero_right add_0)
  have suc: "(7::nat) = Suc 6" "(6::nat) = Suc 5" "(5::nat) = Suc 4" "(4::nat) = Suc 3"
    "(3::nat) = Suc 2" "(2::nat) = Suc 1" "(1::nat) = Suc 0" by simp_all
  show ?thesis
    unfolding v top
    using step [of 6, folded suc(1)] step [of 5, folded suc(2)] step [of 4, folded suc(3)]
      step [of 3, folded suc(4)] step [of 2, folded suc(5)] step [of 1, folded suc(6)] step [of 0, folded suc(7)]
    by (simp only: power_0 div_by_1)
qed

lemma ip6_int_show:
  assumes "0 \<le> n" "n < 2 ^ 128"
  shows "ip6_int (show_ip6 n) = Some n"
proof -
  have l: "length (hextets n) = 8" by (simp add: hextets_def)
  let ?ps = "compress (hextets n)"
  have k: "3 \<le> length ?ps" by (rule compress_length [OF l])
  then have "last ?ps \<in> set ?ps" by (intro last_in_set) auto
  then have dot: "CHR ''.'' \<notin> set (last ?ps)"
    using compress_words [OF hextets_range] colon_not_hex(2) by blast
  have ne: "show_ip6 n \<noteq> []" using show_ip6_colon [of n] by auto
  have "hextets_of ?ps = Some (hextets n)" by (rule hextets_of_compress [OF l hextets_range])
  then show ?thesis
    using k dot ne hextets_value [OF assms] unfolding ip6_int_def Let_def split_show_ip6
    by (simp add: not_less)
qed

lemma split_scope_none: "CHR ''%'' \<notin> set s \<Longrightarrow> split_scope s = Some (s, None)"
  by (subst split_scope.simps) (auto simp: Let_def dropWhile_eq_Nil_conv)

lemma split_scope_some:
  assumes "CHR ''%'' \<notin> set a" "sc \<noteq> []" "CHR ''%'' \<notin> set sc"
  shows "split_scope (a @ ''%'' @ sc) = Some (a, Some sc)"
proof -
  have "takeWhile (\<lambda>c. c \<noteq> CHR ''%'') (a @ ''%'' @ sc) = a"
    using assms(1) by (subst takeWhile_append2) auto
  moreover have "dropWhile (\<lambda>c. c \<noteq> CHR ''%'') (a @ ''%'' @ sc) = ''%'' @ sc"
    using assms(1) by (subst dropWhile_append2) auto
  ultimately show ?thesis using assms(2,3) by (subst split_scope.simps) (simp add: Let_def)
qed

lemma set_tl_subset: "set (tl xs) \<subseteq> set xs"
  by (cases xs) auto

lemma split_scope_valid:
  "split_scope s = Some (a, Some sc) \<Longrightarrow> sc \<noteq> [] \<and> CHR ''%'' \<notin> set sc \<and> set sc \<subseteq> set s"
proof -
  assume a: "split_scope s = Some (a, Some sc)"
  let ?r = "dropWhile (\<lambda>c. c \<noteq> CHR ''%'') s"
  have r: "?r \<noteq> []" "sc = tl ?r" "sc \<noteq> []" "CHR ''%'' \<notin> set sc"
    using a by (subst (asm) split_scope.simps, auto simp: Let_def split: if_splits)+
  have "set sc \<subseteq> set ?r" unfolding r(2) by (rule set_tl_subset) 
  then have "set sc \<subseteq> set s" using set_dropWhileD by fast
  with r show ?thesis by simp
qed

text \<open>Reading the printed form of an address gives the address.\<close>

theorem ip_address_show: "valid_ipaddr a \<Longrightarrow> ip_address (show_ip a) = Some a"
proof (cases a)
  case (V4 n)
  assume "valid_ipaddr a"
  with V4 have n: "0 \<le> n" "n < 2 ^ 32" by simp_all
  have "CHR ''/'' \<notin> set (show_ip4 n)" using show_ip4_chars [OF n(1)] by (force simp: is_digit_def)
  with V4 ip4_int_show [OF n] show ?thesis by (simp add: ip_address_def)
next
  case (V6 n sc)
  assume v: "valid_ipaddr a"
  with V6 have n: "0 \<le> n" "n < 2 ^ 128" by simp_all
  have chars: "CHR ''%'' \<notin> set (show_ip6 n)" "CHR ''/'' \<notin> set (show_ip6 n)"
    using show_ip6_chars colon_not_hex by fastforce+
  have i4: "ip4_int (show_ip a) = None"
    using V6 show_ip6_colon [of n] by (intro ip4_int_colon) auto
  show ?thesis
  proof (cases sc)
    case None
    with V6 i4 chars ip6_int_show [OF n] show ?thesis
      by (simp add: ip_address_def split_scope_none)
  next
    case (Some t)
    with v V6 have t: "t \<noteq> []" "CHR ''%'' \<notin> set t" "CHR ''/'' \<notin> set t" by simp_all
    have "split_scope (show_ip a) = Some (show_ip6 n, Some t)"
      using split_scope_some [OF chars(1) t(1,2)] V6 Some by simp
    with V6 Some i4 chars t ip6_int_show [OF n] show ?thesis by (simp add: ip_address_def)
  qed
qed

theorem ip_address_valid: "ip_address s = Some a \<Longrightarrow> valid_ipaddr a"
proof -
  assume a: "ip_address s = Some a"
  then have sl: "CHR ''/'' \<notin> set s" by (auto simp: ip_address_def split: if_splits)
  show ?thesis
  proof (cases "ip4_int s")
    case (Some n)
    with a ip4_int_range [OF Some] show ?thesis by (auto simp: ip_address_def split: if_splits)
  next
    case None
    then obtain addr sc n where s: "split_scope s = Some (addr, sc)" "ip6_int addr = Some n" "a = V6 n sc"
      using a sl by (auto simp: ip_address_def split: option.splits)
    have "case sc of None \<Rightarrow> True | Some t \<Rightarrow> t \<noteq> [] \<and> CHR ''%'' \<notin> set t \<and> CHR ''/'' \<notin> set t"
      using s(1) split_scope_valid [of s addr] sl by (auto split: option.splits)
    with s(3) ip6_int_range [OF s(2)] show ?thesis by simp
  qed
qed

text \<open>Two texts print the same exactly when they are texts of the same address.\<close>

corollary show_ip_inj:
  "valid_ipaddr a \<Longrightarrow> valid_ipaddr b \<Longrightarrow> show_ip a = show_ip b \<longleftrightarrow> a = b"
  using ip_address_show by (metis option.inject)

end
