(* ===== verification/SocDetect.thy ===== *)
theory SocDetect
  imports PyFloat Store PyIpText
begin

text \<open>
  Heuristic detection, \<^verbatim>\<open>app/soc/detect.py\<close>: the aggregation of WAF events per source
  address over a time window, the score of a candidate and its severity.

  The aggregates are those of the SQL query; SQL leaves the order of the groups, and which of
  several most attacked domains comes first, open: the model takes the order in which they
  first occur in the table.  The score is computed with Python floats (\<^verbatim>\<open>PyFloat\<close>) and is
  kept as the number of tenths that \<open>round(..., 1)\<close> gives.
\<close>

section \<open>Candidates\<close>

definition DEFAULT_WINDOW_MINUTES :: int where "DEFAULT_WINDOW_MINUTES = 15"
definition DEFAULT_THRESHOLD_EVENTS :: int where "DEFAULT_THRESHOLD_EVENTS = 20"

definition SEV_ORDER :: "string \<Rightarrow> int option" where
  "SEV_ORDER = map_of [(''low'', 0), (''medium'', 1), (''high'', 2), (''critical'', 3)]"

definition sev_rank :: "string \<Rightarrow> int \<Rightarrow> int" where
  "sev_rank s dflt = (case SEV_ORDER s of None \<Rightarrow> dflt | Some n \<Rightarrow> n)"

record candidate =
  cand_source_ip :: string
  cand_event_count :: nat
  cand_cat_diversity :: nat
  cand_path_fanout :: nat
  cand_blocks :: nat
  cand_method_diversity :: nat
  cand_status_diversity :: nat
  cand_domain :: "string option"
  cand_categories :: "string list"
  cand_min_events :: int

definition in_window :: "int \<Rightarrow> int \<Rightarrow> attack_event \<Rightarrow> bool" where
  "in_window start stop ev \<longleftrightarrow> start \<le> ev_created_at ev \<and> ev_created_at ev \<le> stop"

definition of_ip :: "string \<Rightarrow> attack_event list \<Rightarrow> attack_event list" where
  "of_ip ip evs = filter (\<lambda>ev. ev_source_ip ev = ip) evs"

definition count_distinct :: "'a list \<Rightarrow> nat" where
  "count_distinct xs = length (remdups xs)"

text \<open>The first of the most frequent values.\<close>

definition most_common :: "'a list \<Rightarrow> 'a option" where
  "most_common xs =
     find (\<lambda>x. list_all (\<lambda>y. count_list xs y \<le> count_list xs x) xs) xs"

text \<open>Values in the order of their first occurrence.\<close>

definition firsts :: "'a list \<Rightarrow> 'a list" where
  "firsts xs = rev (remdups (rev xs))"

definition candidate_of :: "int \<Rightarrow> string \<Rightarrow> attack_event list \<Rightarrow> candidate" where
  "candidate_of min_events ip evs =
     \<lparr>cand_source_ip = ip,
      cand_event_count = length evs,
      cand_cat_diversity = count_distinct (map ev_category evs),
      cand_path_fanout = count_distinct (map ev_path evs),
      cand_blocks = length (filter (\<lambda>ev. ev_action ev = ''block'') evs),
      cand_method_diversity = count_distinct (map ev_method evs),
      cand_status_diversity = count_distinct (map ev_status_code evs),
      cand_domain = most_common (map ev_domain evs),
      cand_categories = firsts (map ev_category evs),
      cand_min_events = min_events\<rparr>"

definition find_candidates :: "attack_event list \<Rightarrow> int \<Rightarrow> int \<Rightarrow> int \<Rightarrow> candidate list" where
  "find_candidates evs window_start window_end min_events =
     (let window = filter (in_window window_start window_end) evs;
          rows = filter (\<lambda>ip. min_events \<le> int (length (of_ip ip window))) (firsts (map ev_source_ip window))
      in map (\<lambda>ip. candidate_of min_events ip (of_ip ip window))
             (filter (\<lambda>ip. ip_address ip \<noteq> None) rows))"

section \<open>Score\<close>

definition score_value :: "candidate \<Rightarrow> rat" where
  "score_value c =
     (let min_events = max 1 (cand_min_events c);
          event_count = cand_event_count c;
          volume = min 40 (fl (fl (40 * fl (of_nat event_count)) / fl (of_int (2 * min_events))));
          diversity = min 20 (fl (5 * fl (of_nat (cand_cat_diversity c))));
          block_ratio = (if event_count = 0 then 0
                         else fl (20 * fl (of_nat (cand_blocks c) / of_nat event_count)));
          fanout = min 20 (fl (2 * fl (of_nat (cand_path_fanout c))))
      in fl (fl (fl (volume + diversity) + block_ratio) + fanout))"

definition score_candidate :: "candidate \<Rightarrow> int" where
  "score_candidate c = round1 (score_value c)"

text \<open>A score as \<open>json.dumps\<close> prints it.\<close>

definition tenths_text :: "int \<Rightarrow> string" where
  "tenths_text n = show_int (n div 10) @ ''.'' @ show_int (n mod 10)"

definition tenths_json :: "int \<Rightarrow> json" where
  "tenths_json n = JFloat (tenths_text n)"

section \<open>Severity\<close>

definition clamp :: "int \<Rightarrow> int \<Rightarrow> int \<Rightarrow> int" where
  "clamp lo hi x = max lo (min hi x)"

definition resolve_severity_thresholds :: "db \<Rightarrow> int \<times> int \<times> int" where
  "resolve_severity_thresholds d =
     (let get = (\<lambda>k dflt. map_option (clamp 1 100) (config_number (config_get d k) dflt));
          (crit, high, med) =
            (case (get ''soc_sev_critical'' 80, get ''soc_sev_high'' 60, get ''soc_sev_medium'' 40) of
               (Some c, Some h, Some m) \<Rightarrow> (c, h, m)
             | _ \<Rightarrow> (80, 60, 40))
      in if med < high \<and> high < crit then (crit, high, med) else (80, 60, 40))"

definition severity_for_score :: "int \<Rightarrow> int \<times> int \<times> int \<Rightarrow> string" where
  "severity_for_score tenths = (\<lambda>(crit, high, med).
     if 10 * crit \<le> tenths then ''critical''
     else if 10 * high \<le> tenths then ''high''
     else if 10 * med \<le> tenths then ''medium''
     else ''low'')"

section \<open>Lemmas\<close>

lemma set_firsts [simp]: "set (firsts xs) = set xs"
  by (simp add: firsts_def)

lemma distinct_firsts [simp]: "distinct (firsts xs)"
  by (simp add: firsts_def)

lemma of_ip_nonempty: "ip \<in> set (map ev_source_ip evs) \<Longrightarrow> of_ip ip evs \<noteq> []"
  by (auto simp: of_ip_def filter_empty_conv)

lemma find_max: "xs \<noteq> [] \<Longrightarrow> \<exists>x\<in>set xs. list_all (\<lambda>y. count_list ys y \<le> count_list ys x) xs"
proof (induction xs)
  case (Cons a xs)
  show ?case
  proof (cases "xs = []")
    case False
    then obtain x where x: "x \<in> set xs" "list_all (\<lambda>y. count_list ys y \<le> count_list ys x) xs"
      using Cons.IH by blast
    show ?thesis
    proof (cases "count_list ys a \<le> count_list ys x")
      case True
      with x show ?thesis by auto
    next
      case False
      with x have "list_all (\<lambda>y. count_list ys y \<le> count_list ys a) (a # xs)"
        by (auto simp: list_all_iff intro: order_trans [of _ "count_list ys x"])
      then show ?thesis by auto
    qed
  qed simp
qed simp

lemma most_common_some:
  assumes "xs \<noteq> []"
  shows "\<exists>x. most_common xs = Some x \<and> x \<in> set xs \<and> list_all (\<lambda>y. count_list xs y \<le> count_list xs x) xs"
proof -
  obtain x where "x \<in> set xs" "list_all (\<lambda>y. count_list xs y \<le> count_list xs x) xs"
    using find_max [OF assms, of xs] by blast
  then have "most_common xs \<noteq> None" by (auto simp: most_common_def find_None_iff)
  then obtain z where "most_common xs = Some z" by blast
  then show ?thesis by (auto simp: most_common_def find_Some_iff)
qed

text \<open>The candidates of a window, described without the query.\<close>

lemma find_candidates_set:
  "c \<in> set (find_candidates evs a b n) \<longleftrightarrow>
     (\<exists>ip. c = candidate_of n ip (of_ip ip (filter (in_window a b) evs))
        \<and> of_ip ip (filter (in_window a b) evs) \<noteq> []
        \<and> n \<le> int (length (of_ip ip (filter (in_window a b) evs)))
        \<and> ip_address ip \<noteq> None)"
proof -
  let ?w = "filter (in_window a b) evs"
  have m: "ip \<in> set (map ev_source_ip ?w) \<longleftrightarrow> of_ip ip ?w \<noteq> []" for ip
    by (auto simp: of_ip_def filter_empty_conv)
  have "set (find_candidates evs a b n) = (\<lambda>ip. candidate_of n ip (of_ip ip ?w)) `
      {ip. ip \<in> set (map ev_source_ip ?w) \<and> n \<le> int (length (of_ip ip ?w)) \<and> ip_address ip \<noteq> None}"
    unfolding find_candidates_def Let_def by (auto simp del: set_map simp: set_map [of "\<lambda>ip. candidate_of n ip (of_ip ip ?w)"])
  then show ?thesis unfolding m by blast
qed

lemma find_candidates_distinct: "distinct (map cand_source_ip (find_candidates evs a b n))"
  by (simp add: find_candidates_def Let_def comp_def candidate_of_def)

subsection \<open>Bounds of the score\<close>

abbreviation u1 :: rat where "u1 \<equiv> 1 + unit_roundoff"

lemma u1_small: "100 * u1 ^ 5 \<le> 100 + 1 / 1000"
  by (simp add: unit_roundoff_def power_divide)

lemma fl_le: "0 \<le> x \<Longrightarrow> x \<le> b \<Longrightarrow> 0 \<le> fl x \<and> fl x \<le> b * u1"
  using fl_bounds [of x] by (auto simp: unit_roundoff_def intro: order_trans mult_right_mono)

lemma min_bounds: "0 \<le> x \<Longrightarrow> 0 \<le> (b::rat) \<Longrightarrow> 0 \<le> min b x \<and> min b x \<le> b"
  by auto

lemma score_value_bounds:
  assumes "cand_blocks c \<le> cand_event_count c"
  shows "0 \<le> score_value c \<and> score_value c \<le> 100 * u1 ^ 5"
proof -
  let ?ec = "cand_event_count c"
  define v where "v = min 40 (fl (fl (40 * fl (of_nat ?ec)) / fl (of_int (2 * max 1 (cand_min_events c)))))"
  define d where "d = min 20 (fl (5 * fl (of_nat (cand_cat_diversity c))))"
  define b where "b = (if ?ec = 0 then 0 else fl (20 * fl (of_nat (cand_blocks c) / of_nat ?ec)))"
  define f where "f = min 20 (fl (2 * fl (of_nat (cand_path_fanout c))))"
  have s: "score_value c = fl (fl (fl (v + d) + b) + f)"
    by (simp add: score_value_def v_def d_def b_def f_def Let_def)
  have nn: "0 \<le> fl x" if "0 \<le> x" for x using fl_bounds [OF that] by simp
  have v: "0 \<le> v \<and> v \<le> 40" unfolding v_def by (intro min_bounds nn divide_nonneg_nonneg mult_nonneg_nonneg) auto
  have d: "0 \<le> d \<and> d \<le> 20" unfolding d_def by (intro min_bounds nn mult_nonneg_nonneg) auto
  have f: "0 \<le> f \<and> f \<le> 20" unfolding f_def by (intro min_bounds nn mult_nonneg_nonneg) auto
  have b: "0 \<le> b \<and> b \<le> 20 * u1 ^ 2"
  proof (cases "?ec = 0")
    case False
    have "of_nat (cand_blocks c) / of_nat ?ec \<le> (1 :: rat)" using assms False by simp
    then have r: "0 \<le> fl (of_nat (cand_blocks c) / of_nat ?ec) \<and> fl (of_nat (cand_blocks c) / of_nat ?ec) \<le> 1 * u1"
      by (intro fl_le) auto
    then have "0 \<le> fl (20 * fl (of_nat (cand_blocks c) / of_nat ?ec))
        \<and> fl (20 * fl (of_nat (cand_blocks c) / of_nat ?ec)) \<le> (20 * u1) * u1"
      by (intro fl_le) auto
    moreover have "20 * u1 * u1 = 20 * u1 ^ 2" by (simp only: power2_eq_square mult.assoc)
    ultimately show ?thesis using False by (simp only: b_def if_False)
  qed (simp add: b_def unit_roundoff_def)
  have vd: "0 \<le> fl (v + d) \<and> fl (v + d) \<le> 60 * u1" using v d by (intro fl_le) auto
  have vdb: "0 \<le> fl (fl (v + d) + b) \<and> fl (fl (v + d) + b) \<le> (60 * u1 + 20 * u1 ^ 2) * u1"
    using vd b by (intro fl_le) auto
  have "0 \<le> fl (fl (fl (v + d) + b) + f) \<and> fl (fl (fl (v + d) + b) + f) \<le> ((60 * u1 + 20 * u1 ^ 2) * u1 + 20) * u1"
    using vdb f by (intro fl_le) auto
  moreover have "((60 * u1 + 20 * u1 ^ 2) * u1 + 20) * u1 \<le> 100 * u1 ^ 5"
    by (simp add: unit_roundoff_def power_divide)
  ultimately show ?thesis by (simp add: s)
qed

lemma score_bounds:
  assumes "cand_blocks c \<le> cand_event_count c"
  shows "0 \<le> score_candidate c \<and> score_candidate c \<le> 1000"
proof -
  note b = score_value_bounds [OF assms]
  have "rhe (10 * score_value c) \<le> rhe (of_int 1000 + 1 / 4)"
    using b u1_small by (intro rhe_mono) linarith
  also have "\<dots> = 1000" by code_simp
  finally have "score_candidate c \<le> 1000" by (simp add: score_candidate_def round1_def)
  moreover have "rhe (of_int 0) \<le> rhe (10 * score_value c)"
    using b by (intro rhe_mono) simp
  then have "0 \<le> rhe (10 * score_value c)" unfolding rhe_int .
  ultimately show ?thesis by (simp add: score_candidate_def round1_def)
qed

lemma thresholds_ordered:
  "resolve_severity_thresholds d = (c, h, m) \<Longrightarrow> 1 \<le> m \<and> m < h \<and> h < c \<and> c \<le> 100"
  by (auto simp: resolve_severity_thresholds_def Let_def clamp_def split: option.splits if_splits prod.splits)

lemma severity_rank_mono:
  assumes "m \<le> h" "h \<le> c" "x \<le> y"
  shows "sev_rank (severity_for_score x (c, h, m)) dflt \<le> sev_rank (severity_for_score y (c, h, m)) dflt"
  using assms by (auto simp: severity_for_score_def sev_rank_def SEV_ORDER_def)


section \<open>Properties\<close>

text \<open>
  The candidates of a window are, one per address, the aggregates over exactly the events
  of that address in the window, for the addresses that can be parsed and have at least one
  event and at least the threshold of them.
\<close>

theorem candidates_exact:
  "(c \<in> set (find_candidates evs a b n) \<longleftrightarrow>
     (\<exists>ip. c = candidate_of n ip (of_ip ip (filter (in_window a b) evs))
        \<and> of_ip ip (filter (in_window a b) evs) \<noteq> []
        \<and> n \<le> int (length (of_ip ip (filter (in_window a b) evs)))
        \<and> ip_address ip \<noteq> None))
   \<and> distinct (map cand_source_ip (find_candidates evs a b n))"
  using find_candidates_set find_candidates_distinct by blast

text \<open>
  The score of every candidate the query produces lies between 0 and 100 points, whatever
  the floating point roundings.
\<close>

theorem candidate_scores_bounded:
  "list_all (\<lambda>c. 0 \<le> score_candidate c \<and> score_candidate c \<le> 1000) (find_candidates evs a b n)"
  unfolding list_all_iff
  by (intro ballI score_bounds) (auto simp: find_candidates_def candidate_of_def Let_def)

text \<open>
  Whatever is configured, the thresholds of a cycle are ordered numbers between 1 and 100,
  and with them a higher score never has a lower severity.
\<close>

theorem severity_monotone:
  "(case resolve_severity_thresholds d of (c, h, m) \<Rightarrow> 1 \<le> m \<and> m < h \<and> h < c \<and> c \<le> 100)
   \<and> sev_rank (severity_for_score (min x y) (resolve_severity_thresholds d)) 0
       \<le> sev_rank (severity_for_score (max x y) (resolve_severity_thresholds d)) 0"
proof -
  obtain c h m where t: "resolve_severity_thresholds d = (c, h, m)" by (cases "resolve_severity_thresholds d")
  with thresholds_ordered [OF t] severity_rank_mono [of m h c "min x y" "max x y" 0] show ?thesis by simp
qed

end
