(* ===== verification/Encryption.thy ===== *)
theory Encryption
  imports Store
begin

text \<open>
  Secrets at rest, \<^verbatim>\<open>app/encryption.py\<close>: encryption and decryption around the Fernet cipher,
  which is a parameter of the environment, the secrets of the configuration table, and the
  reset after the key was rotated.
\<close>

definition encrypt_secret :: "env \<Rightarrow> string \<Rightarrow> py_exn + string" where
  "encrypt_secret e v =
     (if v = [] then Inr []
      else if \<not> fernet_key e then Inl EncryptionNotConfigured
      else Inr (fernet_encrypt e v))"

definition decrypt_secret :: "env \<Rightarrow> string option \<Rightarrow> py_exn + string option" where
  "decrypt_secret e v = (case v of
      None \<Rightarrow> Inr None
    | Some t \<Rightarrow>
        if t = [] then Inr None
        else if \<not> fernet_key e then Inl EncryptionNotConfigured
        else (case fernet_decrypt e t of
                None \<Rightarrow> Inl EncryptionNotConfigured
              | Some p \<Rightarrow> Inr (Some p)))"

text \<open>\<open>AppConfig.get_secret\<close> with the decryption of this module.\<close>

definition get_secret :: "env \<Rightarrow> string \<Rightarrow> string option sess_op" where
  "get_secret e k = AppConfig_get_secret (decrypt_secret e) k"

definition encrypted_rows :: "db \<Rightarrow> app_config list" where
  "encrypted_rows d = filter cfg_encrypted (configs d)"

definition has_undecryptable_secrets :: "env \<Rightarrow> db \<Rightarrow> bool" where
  "has_undecryptable_secrets e d =
     list_ex (\<lambda>r. decrypt_secret e (cfg_value r) = Inl EncryptionNotConfigured) (encrypted_rows d)"

record reset_counts =
  cleared_secrets :: nat
  cleared_totp :: nat
  cleared_keys :: "string list"

definition clear_secrets :: "db \<Rightarrow> db" where
  "clear_secrets d =
     d\<lparr>users := map (\<lambda>u. if usr_totp_secret u \<noteq> None
                       then u\<lparr>usr_totp_secret := None, usr_totp_enabled := False\<rparr> else u) (users d),
       configs := filter (\<lambda>r. \<not> cfg_encrypted r) (configs d)\<rparr>"

definition reset_encrypted_secrets :: "env \<Rightarrow> reset_counts sess_op" where
  "reset_encrypted_secrets e =
     bind (fetch working) (\<lambda>d.
     bind (update_db clear_secrets) (\<lambda>_.
     bind (commit e) (\<lambda>_.
     ret \<lparr>cleared_secrets = length (encrypted_rows d),
          cleared_totp = length (filter (\<lambda>u. usr_totp_secret u \<noteq> None) (users d)),
          cleared_keys = map cfg_key (encrypted_rows d)\<rparr>)))"

lemma get_secret_state [simp]: "snd (get_secret e k s) = s"
  by (auto simp: get_secret_def AppConfig_get_secret_def split: option.splits sum.splits)

lemma clear_secrets_constraints: "constraints d \<Longrightarrow> constraints (clear_secrets d)"
proof -
  have "map usr_id (users (clear_secrets d)) = map usr_id (users d)"
    "map usr_email (users (clear_secrets d)) = map usr_email (users d)"
    by (simp_all add: clear_secrets_def)
  moreover assume "constraints d"
  ultimately show ?thesis by (simp add: constraints_def distinct_map_filter) (simp add: clear_secrets_def distinct_map_filter)
qed

section \<open>Properties\<close>

text \<open>
  C33: A secret stored encrypted is read back as it was, with the key it was encrypted under;
  without a key nothing is stored, an empty secret reads back as none.
\<close>

theorem secret_roundtrip:
  assumes "\<And>t. t \<noteq> [] \<Longrightarrow> fernet_encrypt e t \<noteq> [] \<and> fernet_decrypt e (fernet_encrypt e t) = Some t"
    and "constraints (working s)" "\<not> commit_fails e (attempts s)"
  shows "(case encrypt_secret e v of
      Inl x \<Rightarrow> x = EncryptionNotConfigured \<and> \<not> fernet_key e \<and> v \<noteq> []
    | Inr c \<Rightarrow> fst (bind (AppConfig_set e k (Some c) True) (\<lambda>_. get_secret e k) s)
                 = Inr (if v = [] then None else Some v))"
proof (cases "v \<noteq> [] \<and> \<not> fernet_key e")
  case False
  define c where "c = (if v = [] then [] else fernet_encrypt e v)"
  have c: "encrypt_secret e v = Inr c" using False by (auto simp: encrypt_secret_def c_def)
  have row: "find (\<lambda>r. cfg_key r = k) (put_config k (Some c) True rs)
      = Some \<lparr>cfg_key = k, cfg_value = Some c, cfg_encrypted = True\<rparr>" for rs
    by (induction rs) auto
  have "decrypt_secret e (Some c) = Inr (if v = [] then None else Some v)"
    using False assms(1) by (auto simp: decrypt_secret_def c_def)
  then show ?thesis
    using c by (simp add: AppConfig_set_works [OF assms(2,3)] bind_def get_secret_def AppConfig_get_secret_def
        config_put_def row)
qed (auto simp: encrypt_secret_def)

theorem secret_roundtrip_witness:
  "fst (bind (AppConfig_set (quiet_env\<lparr>fernet_key := True, fernet_encrypt := Cons (CHR ''x''),
          fernet_decrypt := (\<lambda>t. Some (tl t))\<rparr>) ''k'' (Some ''xpass'') True)
        (\<lambda>_. get_secret (quiet_env\<lparr>fernet_key := True, fernet_encrypt := Cons (CHR ''x''),
          fernet_decrypt := (\<lambda>t. Some (tl t))\<rparr>) ''k'') (fresh_session empty_db)) = Inr (Some ''pass'')"
proof -
  let ?e = "quiet_env\<lparr>fernet_key := True, fernet_encrypt := Cons (CHR ''x''),
          fernet_decrypt := (\<lambda>t. Some (tl t))\<rparr>"
  have "constraints (working (fresh_session empty_db))" "\<not> commit_fails ?e (attempts (fresh_session empty_db))"
    by (simp_all add: fresh_session_def quiet_env_def)
  from secret_roundtrip [OF _ this, of "''pass''" "''k''"]
  show ?thesis by (simp add: encrypt_secret_def)
qed

text \<open>
  After the reset that follows a rotation of the key, nothing is left that cannot be
  decrypted, no second factor is left that would need the old key, and every plain setting is
  what it was; the counts it reports are those of the rows it removed.
\<close>

theorem reset_leaves_no_secret:
  assumes "constraints (working s)" "\<not> commit_fails e (attempts s)"
  shows "\<exists>s' r. reset_encrypted_secrets e s = (Inr r, s') \<and> working s' = committed s'
     \<and> \<not> has_undecryptable_secrets e' (committed s')
     \<and> list_all (\<lambda>u. usr_totp_secret u = None) (users (committed s'))
     \<and> map usr_id (users (committed s')) = map usr_id (users (working s))
     \<and> configs (committed s') = filter (\<lambda>c. \<not> cfg_encrypted c) (configs (working s))
     \<and> cleared_secrets r + length (configs (committed s')) = length (configs (working s))"
proof -
  have "has_undecryptable_secrets e' (clear_secrets d) = False" for d
    by (simp add: has_undecryptable_secrets_def encrypted_rows_def clear_secrets_def list_ex_iff)
  moreover have "constraints (clear_secrets (working s))" by (rule clear_secrets_constraints [OF assms(1)])
  moreover have "length (filter cfg_encrypted xs) + length (filter (\<lambda>c. \<not> cfg_encrypted c) xs) = length xs" for xs
    by (rule sum_length_filter_compl)
  ultimately show ?thesis using assms(2)
    by (auto simp: reset_encrypted_secrets_def bind_def commit_def update_db_def encrypted_rows_def
        clear_secrets_def list_all_iff Let_def)
qed

theorem reset_leaves_no_secret_witness:
  "configs (committed (snd (reset_encrypted_secrets quiet_env (fresh_session (empty_db\<lparr>configs :=
     [\<lparr>cfg_key = ''a'', cfg_value = Some ''1'', cfg_encrypted = False\<rparr>,
      \<lparr>cfg_key = ''b'', cfg_value = Some ''gAAA'', cfg_encrypted = True\<rparr>]\<rparr>)))))
   = [\<lparr>cfg_key = ''a'', cfg_value = Some ''1'', cfg_encrypted = False\<rparr>]"
proof -
  let ?s = "fresh_session (empty_db\<lparr>configs := [\<lparr>cfg_key = ''a'', cfg_value = Some ''1'', cfg_encrypted = False\<rparr>,
      \<lparr>cfg_key = ''b'', cfg_value = Some ''gAAA'', cfg_encrypted = True\<rparr>]\<rparr>)"
  have "constraints (working ?s)" "\<not> commit_fails quiet_env (attempts ?s)"
    by (simp_all add: fresh_session_def constraints_def empty_db_def quiet_env_def)
  from reset_leaves_no_secret [OF this, of quiet_env] show ?thesis
    by (auto simp: fresh_session_def)
qed

end
