(* ===== verification/SocEnrich.thy ===== *)
theory SocEnrich
  imports SocDetect PyTime Encryption
begin

text \<open>
  Enrichment of incidents: the MITRE ATT&CK reference table and its synchronisation
  (\<^verbatim>\<open>app/soc/mitre_cti.py\<close>), the techniques of the attack categories and the address
  reputation with its cache (\<^verbatim>\<open>app/soc/enrich.py\<close>).  What the two services answer, and
  reading and printing JSON, are parameters of the environment.
\<close>

section \<open>Downloads with a size limit\<close>

text \<open>
  The loop over the chunks of a response: the total is checked before a chunk is kept;
  \<open>None\<close> when the limit is passed.
\<close>

fun read_capped :: "int \<Rightarrow> int \<Rightarrow> string list \<Rightarrow> string option" where
  "read_capped limit so_far [] = Some []"
| "read_capped limit so_far (c # cs) =
     (let so_far' = so_far + int (length c) in
      if limit < so_far' then None else map_option ((@) c) (read_capped limit so_far' cs))"

lemma read_capped_iff:
  "so_far \<le> limit \<Longrightarrow> read_capped limit so_far cs =
     (if limit < so_far + int (length (concat cs)) then None else Some (concat cs))"
  by (induction cs arbitrary: so_far) (auto simp: Let_def add.assoc)

section \<open>The technique table\<close>

record technique_ref =
  tr_id :: string
  tr_name :: string
  tr_tactic :: string

definition TECHNIQUE_ID_RE :: rx where
  "TECHNIQUE_ID_RE = anchored (Cat (lit_char (CHR ''T'')) (Cat (rep_exact 4 (Cls is_digit))
     (opt (Cat (lit_char (CHR ''.'')) (rep_exact 3 (Cls is_digit))))))"

definition is_table_empty :: "db \<Rightarrow> bool" where
  "is_table_empty d \<longleftrightarrow> techniques d = []"

definition find_technique :: "string \<Rightarrow> db \<Rightarrow> mitre_technique option" where
  "find_technique tid d = find (\<lambda>r. mt_technique_id r = tid) (techniques d)"

definition technique_ref_of :: "mitre_technique \<Rightarrow> technique_ref" where
  "technique_ref_of r = \<lparr>tr_id = mt_technique_id r, tr_name = mt_name r,
     tr_tactic = (case mt_tactic r of None \<Rightarrow> [] | Some t \<Rightarrow> t)\<rparr>"

definition lookup_technique :: "string \<Rightarrow> db \<Rightarrow> technique_ref option" where
  "lookup_technique tid d =
     (if tid = [] then None else map_option technique_ref_of (find_technique tid d))"

definition get_technique_name :: "string \<Rightarrow> string \<Rightarrow> db \<Rightarrow> string" where
  "get_technique_name tid fallback d = (case lookup_technique tid d of
      None \<Rightarrow> fallback | Some r \<Rightarrow> tr_name r)"

definition get_techniques_context :: "string list \<Rightarrow> db \<Rightarrow> technique_ref list" where
  "get_techniques_context ids d =
     (if ids = [] then []
      else map technique_ref_of (filter (\<lambda>r. mt_technique_id r \<in> set ids) (techniques d)))"

definition STALE_DAYS :: int where "STALE_DAYS = 7"

definition is_fresh :: "int \<Rightarrow> db \<Rightarrow> bool" where
  "is_fresh now_utc d = list_ex (\<lambda>r. now_utc - STALE_DAYS * 24 * hour \<le> mt_synced_at r) (techniques d)"

section \<open>Reading one technique\<close>

record extracted =
  ex_technique_id :: string
  ex_name :: string
  ex_tactic :: string
  ex_is_subtechnique :: bool

text \<open>The external identifier: of the first reference whose source is ATT&CK.\<close>

fun mitre_reference :: "json list \<Rightarrow> py_exn + json" where
  "mitre_reference [] = Inr JNull"
| "mitre_reference (JObj r # rs) =
     (if jget ''source_name'' r = Some (JStr ''mitre-attack'')
      then Inr (jget_default ''external_id'' JNull r) else mitre_reference rs)"
| "mitre_reference (_ # rs) = Inl AttributeError"

text \<open>The phases that have a name; \<open>join\<close> raises on one that is not a text.\<close>

fun phase_names :: "json list \<Rightarrow> py_exn + string list" where
  "phase_names [] = Inr []"
| "phase_names (JObj kc # ks) =
     (case jget_default ''phase_name'' JNull kc of
        JStr n \<Rightarrow> rbind (phase_names ks) (\<lambda>ns. Inr (if n = [] then ns else n # ns))
      | v \<Rightarrow> if jtruthy v then Inl TypeError else phase_names ks)"
| "phase_names (_ # ks) = phase_names ks"

definition or_empty_list :: "json \<Rightarrow> json" where
  "or_empty_list v = (if jtruthy v then v else JList [])"

definition extract_technique :: "(string \<times> json) list \<Rightarrow> py_exn + extracted option" where
  "extract_technique obj =
     (if jtruthy (jget_default ''x_mitre_deprecated'' JNull obj) \<or> jtruthy (jget_default ''revoked'' JNull obj)
      then Inr None
      else rbind (json_iter (or_empty_list (jget_default ''external_references'' JNull obj))) (\<lambda>refs.
        rbind (mitre_reference refs) (\<lambda>tid.
        case tid of
          JStr i \<Rightarrow>
            if \<not> matches TECHNIQUE_ID_RE i then Inr None
            else (case jget_default ''name'' JNull obj of
              JStr name \<Rightarrow>
                if strip name = [] then Inr None
                else rbind (json_iter (or_empty_list (jget_default ''kill_chain_phases'' JNull obj))) (\<lambda>phases.
                  rbind (phase_names phases) (\<lambda>ns.
                  Inr (Some \<lparr>ex_technique_id = i, ex_name = take 255 (strip name),
                    ex_tactic = take 255 (join '','' ns),
                    ex_is_subtechnique = jtruthy (jget_default ''x_mitre_is_subtechnique'' JNull obj)\<rparr>)))
            | _ \<Rightarrow> Inr None)
        | _ \<Rightarrow> Inr None)))"

section \<open>Synchronisation\<close>

definition CTI_URL :: string where
  "CTI_URL = ''https://raw.githubusercontent.com/mitre/cti/master/enterprise-attack/enterprise-attack.json''"

definition MAX_CTI_BYTES :: int where "MAX_CTI_BYTES = 100 * 1024 * 1024"

definition BATCH_SIZE :: nat where "BATCH_SIZE = 50"

text \<open>The download: the name of the exception, or the document.\<close>

definition download_cti :: "env \<Rightarrow> (string + json) sess_op" where
  "download_cti e s =
     (Inr (case http_reply e (calls s) CTI_URL [] of
         Inl exc \<Rightarrow> Inl exc
       | Inr chunks \<Rightarrow> (case read_capped MAX_CTI_BYTES 0 chunks of
           None \<Rightarrow> Inl ''ValueError''
         | Some body \<Rightarrow> (case json_loads e body of Inl x \<Rightarrow> Inl ''JSONDecodeError'' | Inr j \<Rightarrow> Inr j))),
      s\<lparr>calls := calls s @ [HttpGet CTI_URL []]\<rparr>)"

definition technique_row :: "int \<Rightarrow> extracted \<Rightarrow> mitre_technique" where
  "technique_row now_utc x =
     \<lparr>mt_technique_id = ex_technique_id x, mt_name = ex_name x, mt_tactic = Some (ex_tactic x),
      mt_is_subtechnique = ex_is_subtechnique x, mt_synced_at = now_utc\<rparr>"

fun put_technique :: "mitre_technique \<Rightarrow> mitre_technique list \<Rightarrow> mitre_technique list" where
  "put_technique t [] = [t]"
| "put_technique t (r # rs) = (if mt_technique_id r = mt_technique_id t then t # rs else r # put_technique t rs)"

definition upsert_technique :: "int \<Rightarrow> extracted \<Rightarrow> db \<Rightarrow> db" where
  "upsert_technique now_utc x d = d\<lparr>techniques := put_technique (technique_row now_utc x) (techniques d)\<rparr>"

definition sync_object :: "env \<Rightarrow> json \<Rightarrow> nat \<Rightarrow> nat sess_op" where
  "sync_object e obj n = (case obj of
      JObj d \<Rightarrow>
        if jget ''type'' d \<noteq> Some (JStr ''attack-pattern'') then ret n
        else bind (lift (extract_technique d)) (\<lambda>x. case x of
               None \<Rightarrow> ret n
             | Some t \<Rightarrow> bind (update_db (upsert_technique (now e) t)) (\<lambda>_.
                 if Suc n mod BATCH_SIZE = 0 then bind (commit e) (\<lambda>_. ret (Suc n)) else ret (Suc n)))
    | _ \<Rightarrow> ret n)"

datatype sync_result = UpToDate | DownloadFailed string | UnexpectedStructure | PersistenceFailed py_exn | Synced nat

definition sync_mitre_attack :: "env \<Rightarrow> bool \<Rightarrow> sync_result sess_op" where
  "sync_mitre_attack e force =
     bind (fetch working) (\<lambda>d.
       if \<not> force \<and> is_fresh (now e) d then ret UpToDate
       else bind (download_cti e) (\<lambda>data. case data of
          Inl exc \<Rightarrow> ret (DownloadFailed exc)
        | Inr (JObj doc) \<Rightarrow> (case jget_default ''objects'' JNull doc of
            JList objects \<Rightarrow>
              catch (bind (fold_op (sync_object e) objects 0) (\<lambda>n. bind (commit e) (\<lambda>_. ret (Synced n))))
                    (\<lambda>x. bind rollback (\<lambda>_. ret (PersistenceFailed x)))
          | _ \<Rightarrow> ret UnexpectedStructure)
        | Inr _ \<Rightarrow> raise AttributeError))"

section \<open>Techniques of the attack categories\<close>

definition CRS_CATEGORY_TO_MITRE :: "string \<Rightarrow> (string \<times> string) list option" where
  "CRS_CATEGORY_TO_MITRE =
     (let exploit = (''T1190'', ''Exploit Public-Facing Application'');
          interpreter = (''T1059'', ''Command and Scripting Interpreter'');
          discovery = (''T1083'', ''File and Directory Discovery'');
          web_shell = (''T1505.003'', ''Server Software Component: Web Shell'')
      in map_of
        [(''sql-injection'', [exploit]),
         (''xss'', [(''T1189'', ''Drive-by Compromise''),
                    (''T1059.007'', ''Command and Scripting Interpreter: JavaScript'')]),
         (''rce'', [exploit, interpreter]),
         (''command-injection'', [exploit, interpreter]),
         (''lfi'', [exploit, discovery]),
         (''rfi'', [exploit, discovery]),
         (''scanner'', [(''T1595'', ''Active Scanning''), (''T1046'', ''Network Service Discovery'')]),
         (''brute-force'', [(''T1110'', ''Brute Force'')]),
         (''php-injection'', [exploit, web_shell]),
         (''java-injection'', [exploit, web_shell]),
         (''session-fixation'', [(''T1539'', ''Steal Web Session Cookie'')]),
         (''protocol-violation'', [exploit]),
         (''protocol-anomaly'', [exploit])])"

definition MITRE_FALLBACK :: "(string \<times> string) list" where
  "MITRE_FALLBACK = [(''T1190'', ''Exploit Public-Facing Application'')]"

definition techniques_of :: "string \<Rightarrow> (string \<times> string) list" where
  "techniques_of cat = (case CRS_CATEGORY_TO_MITRE cat of None \<Rightarrow> MITRE_FALLBACK | Some ts \<Rightarrow> ts)"

text \<open>The two loops with the set of identifiers seen.\<close>

fun unseen :: "string list \<Rightarrow> (string \<times> string) list \<Rightarrow> (string \<times> string) list" where
  "unseen seen [] = []"
| "unseen seen ((i, n) # ts) =
     (if i \<in> set seen then unseen seen ts else (i, n) # unseen (i # seen) ts)"

definition authorised :: "db \<Rightarrow> string \<times> string \<Rightarrow> technique_ref" where
  "authorised d = (\<lambda>(i, n). case lookup_technique i d of
      Some row \<Rightarrow> \<lparr>tr_id = i, tr_name = tr_name row, tr_tactic = tr_tactic row\<rparr>
    | None \<Rightarrow> \<lparr>tr_id = i, tr_name = n, tr_tactic = []\<rparr>)"

definition map_mitre :: "string list \<Rightarrow> db \<Rightarrow> technique_ref list" where
  "map_mitre cats d = map (authorised d) (unseen [] (concat (map techniques_of cats)))"

section \<open>Address reputation\<close>

definition is_public_ip :: "string \<Rightarrow> bool" where
  "is_public_ip ip = (case ip_address ip of
      None \<Rightarrow> False
    | Some obj \<Rightarrow> \<not> (is_private obj \<or> is_loopback obj \<or> is_reserved obj \<or> is_link_local obj
                    \<or> is_multicast obj \<or> is_unspecified obj))"

definition ABUSEIPDB_URL :: string where
  "ABUSEIPDB_URL = ''https://api.abuseipdb.com/api/v2/check''"

definition MAX_ABUSE_RESPONSE_BYTES :: int where "MAX_ABUSE_RESPONSE_BYTES = 256 * 1024"

definition DEFAULT_CACHE_TTL_HOURS :: int where "DEFAULT_CACHE_TTL_HOURS = 24"

text \<open>
  The cached answer, \<open>JNull\<close> for none, and whether it is fresh.  The time to live is a
  number of hours of the configuration; one that leads before the first year overflows.
\<close>

definition find_intel :: "string \<Rightarrow> db \<Rightarrow> threat_intel option" where
  "find_intel ip d = find (\<lambda>r. ti_ip r = ip) (intel d)"

definition cache_ttl :: "db \<Rightarrow> int" where
  "cache_ttl d = (case config_number (config_get d ''soc_abuse_cache_ttl_hours'') DEFAULT_CACHE_TTL_HOURS of
      None \<Rightarrow> DEFAULT_CACHE_TTL_HOURS | Some n \<Rightarrow> n)"

definition cache_lookup :: "env \<Rightarrow> string \<Rightarrow> db \<Rightarrow> py_exn + json \<times> bool" where
  "cache_lookup e ip d = (case find_intel ip d of
      None \<Rightarrow> Inr (JNull, False)
    | Some row \<Rightarrow>
        let limit = now e - cache_ttl d * hour in
        if \<not> in_time_range limit then Inl OverflowError
        else (case json_loads e (ti_payload row) of
            Inr j \<Rightarrow> Inr (j, limit \<le> ti_fetched_at row)
          | Inl x \<Rightarrow> if x = JSONDecodeError \<or> x = TypeError then Inr (JNull, False) else Inl x))"

definition abuse_fields :: "string list" where
  "abuse_fields = [''abuseConfidenceScore'', ''countryCode'', ''usageType'', ''isp'', ''totalReports'',
     ''lastReportedAt'']"

definition abuse_subset :: "(string \<times> json) list \<Rightarrow> (string \<times> json) list" where
  "abuse_subset data = map (\<lambda>k. (k, jget_default k JNull data)) abuse_fields"

fun put_intel :: "threat_intel \<Rightarrow> threat_intel list \<Rightarrow> threat_intel list" where
  "put_intel t [] = [t]"
| "put_intel t (r # rs) = (if ti_ip r = ti_ip t then t # rs else r # put_intel t rs)"

definition cache_put :: "string \<Rightarrow> string \<Rightarrow> int \<Rightarrow> db \<Rightarrow> db" where
  "cache_put ip payload now_utc d =
     d\<lparr>intel := put_intel \<lparr>ti_ip = ip, ti_payload = payload, ti_fetched_at = now_utc\<rparr> (intel d)\<rparr>"

text \<open>The answer of the service: the \<open>data\<close> of the document, \<open>None\<close> when anything failed.\<close>

definition query_abuse :: "env \<Rightarrow> string \<Rightarrow> json option sess_op" where
  "query_abuse e ip s =
     (Inr (case http_reply e (calls s) ABUSEIPDB_URL ip of
         Inl exc \<Rightarrow> None
       | Inr chunks \<Rightarrow> (case read_capped MAX_ABUSE_RESPONSE_BYTES 0 chunks of
           None \<Rightarrow> None
         | Some body \<Rightarrow> (case json_loads e body of
             Inr (JObj doc) \<Rightarrow> Some (jget_default ''data'' (JObj []) doc)
           | _ \<Rightarrow> None))),
      s\<lparr>calls := calls s @ [HttpGet ABUSEIPDB_URL ip]\<rparr>)"

definition abuse_api_key :: "env \<Rightarrow> string option sess_op" where
  "abuse_api_key e =
     catch (get_secret e ''soc_abuseipdb_api_key'')
       (\<lambda>x. if x = EncryptionNotConfigured then ret None else raise x)"

definition store_intel :: "env \<Rightarrow> string \<Rightarrow> json \<Rightarrow> json sess_op" where
  "store_intel e ip info =
     bind (update_db (cache_put ip (json_dumps e info) (now e))) (\<lambda>_.
     bind (commit e) (\<lambda>_. ret info))"

definition get_abuse_info :: "env \<Rightarrow> string \<Rightarrow> json sess_op" where
  "get_abuse_info e ip =
     (if \<not> is_public_ip ip then ret JNull
      else bind (fetch working) (\<lambda>d.
        bind (lift (cache_lookup e ip d)) (\<lambda>(cached, fresh).
        if cached \<noteq> JNull \<and> fresh then ret cached
        else bind (abuse_api_key e) (\<lambda>key.
          if key = None \<or> key = Some [] then ret cached
          else bind (query_abuse e ip) (\<lambda>answer.
            case answer of
              None \<Rightarrow> ret cached
            | Some (JObj data) \<Rightarrow> store_intel e ip (JObj (abuse_subset data))
            | Some _ \<Rightarrow> raise AttributeError)))))"

end
