(* ===== verification/SocSchema.thy ===== *)
theory SocSchema
  imports SocEnrich
begin

text \<open>
  The standard form of an analysis, \<^verbatim>\<open>app/soc/schema.py\<close>: the tolerant reading of what a
  language model answers.  Reading JSON is the environment's; the rescue of truncated answers
  by regular expressions, every coercion and the check of technique identifiers against the
  local table are modelled.  The dictionaries the code builds are records.
\<close>

section \<open>The form\<close>

record hypothesis =
  hyp_text :: string
  hyp_confidence :: int

record recommendation =
  rec_text :: string
  rec_priority :: string
  rec_action_type :: string

record ioc =
  ioc_type :: string
  ioc_value :: string

record analysis =
  ana_summary :: string
  ana_explanation :: string
  ana_severity_suggested :: string
  ana_confidence :: int
  ana_hypotheses :: "hypothesis list"
  ana_recommendations :: "recommendation list"
  ana_mitre_techniques :: "technique_ref list"
  ana_iocs :: "ioc list"

definition SEVERITIES :: "string list" where
  "SEVERITIES = [''critical'', ''high'', ''medium'', ''low'']"

definition PRIORITIES :: "string list" where
  "PRIORITIES = [''alta'', ''media'', ''baja'']"

definition ACTION_TYPES :: "string list" where
  "ACTION_TYPES = [''bloquear_ip'', ''ajustar_regla'', ''investigar'', ''monitorear'']"

definition IOC_TYPES :: "string list" where
  "IOC_TYPES = [''ip'', ''domain'', ''url'', ''path'', ''user_agent'', ''hash'']"

definition MITRE_ID_RE :: rx where
  "MITRE_ID_RE = anchored (Cat (lit_char (CHR ''T'')) (Cat (rep_exact 4 (Cls is_digit))
     (opt (Cat (lit_char (CHR ''.'')) (rep_exact 3 (Cls is_digit))))))"

definition MAX_LIST_ITEMS :: nat where "MAX_LIST_ITEMS = 10"
definition MAX_SUMMARY :: nat where "MAX_SUMMARY = 1000"
definition MAX_EXPLANATION :: nat where "MAX_EXPLANATION = 5000"
definition MAX_TEXT :: nat where "MAX_TEXT = 1000"
definition MAX_IOC_VALUE :: nat where "MAX_IOC_VALUE = 500"

definition EMPTY_ANALYSIS :: analysis where
  "EMPTY_ANALYSIS = \<lparr>ana_summary = [], ana_explanation = [], ana_severity_suggested = ''medium'',
     ana_confidence = 0, ana_hypotheses = [], ana_recommendations = [], ana_mitre_techniques = [],
     ana_iocs = []\<rparr>"

section \<open>Fences and broken JSON\<close>

definition fence :: string where
  "fence = [CHR 0x60, CHR 0x60, CHR 0x60]"

text \<open>
  Both substitutions match at most once: the first is anchored at the start, and of the
  second only the fence at the very end can match, with all the blanks before it.
\<close>

definition strip_fences :: "string \<Rightarrow> string" where
  "strip_fences raw =
     (let text = strip raw;
          opened = (if starts_with fence text then lstrip (dropWhile is_alpha (drop 3 text)) else text);
          closed = (if starts_with fence text \<and> ends_with fence opened
                    then rstrip (take (length opened - 3) opened) else opened)
      in strip closed)"

text \<open>From the first opening brace to the last closing one; empty when there is no such block.\<close>

definition brace_block :: "string \<Rightarrow> string" where
  "brace_block text =
     rev (dropWhile (\<lambda>c. c \<noteq> CHR ''}'') (rev (dropWhile (\<lambda>c. c \<noteq> CHR ''{'') text)))"

definition parse_json :: "env \<Rightarrow> string \<Rightarrow> py_exn + (string \<times> json) list option" where
  "parse_json e raw =
     (let text = strip_fences raw;
          as_dict = (\<lambda>j. case j of JObj d \<Rightarrow> Some d | _ \<Rightarrow> None);
          bad = (\<lambda>x. x = JSONDecodeError \<or> x = ValueError)
      in case json_loads e text of
           Inr j \<Rightarrow> Inr (as_dict j)
         | Inl x \<Rightarrow>
             if \<not> bad x then Inl x
             else if brace_block text = [] then Inr None
             else (case json_loads e (brace_block text) of
                     Inr j \<Rightarrow> Inr (as_dict j)
                   | Inl y \<Rightarrow> if bad y then Inr None else Inl y))"

section \<open>Coercions\<close>

definition coerce_str :: "json \<Rightarrow> nat \<Rightarrow> string" where
  "coerce_str v max_len = (case v of JStr s \<Rightarrow> take max_len s | _ \<Rightarrow> [])"

text \<open>\<open>int\<close> of an infinite float raises \<open>OverflowError\<close>, which is not caught.\<close>

definition coerce_confidence :: "json \<Rightarrow> py_exn + int" where
  "coerce_confidence v =
     (if v = JFloat ''inf'' \<or> v = JFloat ''-inf'' then Inl OverflowError
      else Inr (case json_int v of None \<Rightarrow> 0 | Some i \<Rightarrow> max 0 (min 100 i)))"

text \<open>The loops over the first ten items of a list that are dictionaries.\<close>

definition coerce_items ::
    "((string \<times> json) list \<Rightarrow> py_exn + 'a option) \<Rightarrow> json \<Rightarrow> py_exn + 'a list" where
  "coerce_items f items = (case items of
      JList xs \<Rightarrow> collect (\<lambda>item. case item of JObj d \<Rightarrow> f d | _ \<Rightarrow> Inr None) (take MAX_LIST_ITEMS xs)
    | _ \<Rightarrow> Inr [])"

definition field :: "string \<Rightarrow> (string \<times> json) list \<Rightarrow> json" where
  "field k d = jget_default k JNull d"

definition coerce_hypotheses :: "json \<Rightarrow> py_exn + hypothesis list" where
  "coerce_hypotheses = coerce_items (\<lambda>item.
     let text = coerce_str (field ''text'' item) MAX_TEXT in
     if text = [] then Inr None
     else rbind (coerce_confidence (field ''confidence'' item)) (\<lambda>c.
       Inr (Some \<lparr>hyp_text = text, hyp_confidence = c\<rparr>)))"

text \<open>The text when it is one of the choices, the default otherwise.\<close>

definition choose_in :: "string list \<Rightarrow> string \<Rightarrow> json \<Rightarrow> py_exn + string" where
  "choose_in choices dflt v =
     rbind (json_in choices v) (\<lambda>ok. Inr (case v of JStr s \<Rightarrow> if ok then s else dflt | _ \<Rightarrow> dflt))"

definition coerce_recommendations :: "json \<Rightarrow> py_exn + recommendation list" where
  "coerce_recommendations = coerce_items (\<lambda>item.
     let text = coerce_str (field ''text'' item) MAX_TEXT in
     if text = [] then Inr None
     else rbind (choose_in PRIORITIES ''media'' (field ''priority'' item)) (\<lambda>p.
          rbind (choose_in ACTION_TYPES ''investigar'' (field ''action_type'' item)) (\<lambda>a.
          Inr (Some \<lparr>rec_text = text, rec_priority = p, rec_action_type = a\<rparr>))))"

definition coerce_mitre :: "db \<Rightarrow> json \<Rightarrow> py_exn + technique_ref list" where
  "coerce_mitre d = coerce_items (\<lambda>item.
     case field ''id'' item of
       JStr tid \<Rightarrow>
         if \<not> matches MITRE_ID_RE tid then Inr None
         else if \<not> is_table_empty d then
           (case lookup_technique tid d of
              None \<Rightarrow> Inr None
            | Some row \<Rightarrow> Inr (Some \<lparr>tr_id = tid, tr_name = tr_name row, tr_tactic = tr_tactic row\<rparr>))
         else Inr (Some \<lparr>tr_id = tid, tr_name = coerce_str (field ''name'' item) MAX_TEXT, tr_tactic = []\<rparr>)
     | _ \<Rightarrow> Inr None)"

definition coerce_iocs :: "json \<Rightarrow> py_exn + ioc list" where
  "coerce_iocs = coerce_items (\<lambda>item.
     let value = coerce_str (field ''value'' item) MAX_IOC_VALUE in
     rbind (json_in IOC_TYPES (field ''type'' item)) (\<lambda>known.
     Inr (case field ''type'' item of
            JStr t \<Rightarrow> if known \<and> value \<noteq> [] then Some \<lparr>ioc_type = t, ioc_value = value\<rparr> else None
          | _ \<Rightarrow> None)))"

section \<open>Rescue of a truncated answer\<close>

definition quote :: char where "quote = CHR 0x22"
definition backslash :: char where "backslash = CHR 0x5C"

definition key_re :: "string \<Rightarrow> rx" where
  "key_re k = Cat (lit ([quote] @ k @ [quote])) (Cat (Star (Cls is_space)) (Cat (lit_char (CHR '':'')) (Star (Cls is_space))))"

definition STR_VALUE_RE :: rx where
  "STR_VALUE_RE = Cat (lit_char quote) (Cat
     (Star (Alt (Cat (lit_char backslash) anychar) (Cls (\<lambda>c. c \<noteq> quote \<and> c \<noteq> backslash)))) (lit_char quote))"

definition rescued :: "rx \<Rightarrow> string \<Rightarrow> string option" where
  "rescued r text = (case rx_search r text of None \<Rightarrow> None | Some p \<Rightarrow> group 1 p)"

definition rescue_text :: "env \<Rightarrow> string \<Rightarrow> nat \<Rightarrow> string \<Rightarrow> string" where
  "rescue_text e k max_len text = (case rescued (Cat (key_re k) (Cap 1 STR_VALUE_RE)) text of
      None \<Rightarrow> []
    | Some t \<Rightarrow> (case json_loads e t of Inl x \<Rightarrow> [] | Inr j \<Rightarrow> coerce_str j max_len))"

definition rescue_severity :: "string \<Rightarrow> string" where
  "rescue_severity text = (case rescued (Cat (key_re ''severity_suggested'') (Cat (lit_char quote)
       (Cat (Cap 1 (plus (Cls (\<lambda>c. c \<noteq> quote)))) (lit_char quote)))) text of
     Some s \<Rightarrow> if s \<in> set SEVERITIES then s else ''medium''
   | None \<Rightarrow> ''medium'')"

definition rescue_confidence :: "string \<Rightarrow> py_exn + int" where
  "rescue_confidence text = (case rescued (Cat (key_re ''confidence'') (Cap 1 (plus (Cls is_digit)))) text of
     None \<Rightarrow> Inr 0
   | Some t \<Rightarrow> coerce_confidence (JStr t))"

definition salvage_partial :: "env \<Rightarrow> string \<Rightarrow> py_exn + analysis" where
  "salvage_partial e raw =
     (let text = strip_fences raw in
      if \<not> starts_with ''{'' text then Inr (EMPTY_ANALYSIS\<lparr>ana_summary := take MAX_SUMMARY text\<rparr>)
      else rbind (rescue_confidence text) (\<lambda>confidence.
        Inr (EMPTY_ANALYSIS\<lparr>ana_summary := rescue_text e ''summary'' MAX_SUMMARY text,
               ana_explanation := rescue_text e ''explanation'' MAX_EXPLANATION text,
               ana_severity_suggested := rescue_severity text, ana_confidence := confidence\<rparr>)))"

section \<open>Normalisation\<close>

definition normalize_llm_output :: "env \<Rightarrow> db \<Rightarrow> string option \<Rightarrow> py_exn + analysis" where
  "normalize_llm_output e d raw0 = (case raw0 of
      None \<Rightarrow> Inr EMPTY_ANALYSIS
    | Some raw \<Rightarrow>
        rbind (parse_json e raw) (\<lambda>parsed. case parsed of
          None \<Rightarrow> salvage_partial e raw
        | Some data \<Rightarrow>
            rbind (choose_in SEVERITIES ''medium'' (field ''severity_suggested'' data)) (\<lambda>severity.
            rbind (coerce_confidence (field ''confidence'' data)) (\<lambda>confidence.
            rbind (coerce_hypotheses (field ''hypotheses'' data)) (\<lambda>hypotheses.
            rbind (coerce_recommendations (field ''recommendations'' data)) (\<lambda>recommendations.
            rbind (coerce_mitre d (field ''mitre_techniques'' data)) (\<lambda>mitre.
            rbind (coerce_iocs (field ''iocs'' data)) (\<lambda>iocs.
            Inr \<lparr>ana_summary = coerce_str (field ''summary'' data) MAX_SUMMARY,
                 ana_explanation = coerce_str (field ''explanation'' data) MAX_EXPLANATION,
                 ana_severity_suggested = severity, ana_confidence = confidence,
                 ana_hypotheses = hypotheses, ana_recommendations = recommendations,
                 ana_mitre_techniques = mitre, ana_iocs = iocs\<rparr>))))))))"

section \<open>The form is kept\<close>

definition hypothesis_ok :: "hypothesis \<Rightarrow> bool" where
  "hypothesis_ok h \<longleftrightarrow> hyp_text h \<noteq> [] \<and> length (hyp_text h) \<le> MAX_TEXT
     \<and> 0 \<le> hyp_confidence h \<and> hyp_confidence h \<le> 100"

definition recommendation_ok :: "recommendation \<Rightarrow> bool" where
  "recommendation_ok r \<longleftrightarrow> rec_text r \<noteq> [] \<and> length (rec_text r) \<le> MAX_TEXT
     \<and> rec_priority r \<in> set PRIORITIES \<and> rec_action_type r \<in> set ACTION_TYPES"

definition ioc_ok :: "ioc \<Rightarrow> bool" where
  "ioc_ok i \<longleftrightarrow> ioc_type i \<in> set IOC_TYPES \<and> ioc_value i \<noteq> [] \<and> length (ioc_value i) \<le> MAX_IOC_VALUE"

text \<open>
  A technique identifier consists of letters and digits that are safe inside the address the
  page builds from it, and belongs to the local table unless that is empty.
\<close>

definition id_char :: "char \<Rightarrow> bool" where
  "id_char c \<longleftrightarrow> c = CHR ''T'' \<or> is_digit c \<or> c = CHR ''.'' \<or> c = newline"

definition technique_ok :: "db \<Rightarrow> technique_ref \<Rightarrow> bool" where
  "technique_ok d r \<longleftrightarrow> list_all id_char (tr_id r) \<and> 5 \<le> length (tr_id r) \<and> length (tr_id r) \<le> 10
     \<and> (is_table_empty d \<or> lookup_technique (tr_id r) d = Some r)"

definition analysis_ok :: "db \<Rightarrow> analysis \<Rightarrow> bool" where
  "analysis_ok d a \<longleftrightarrow>
     length (ana_summary a) \<le> MAX_SUMMARY \<and> length (ana_explanation a) \<le> MAX_EXPLANATION
     \<and> ana_severity_suggested a \<in> set SEVERITIES
     \<and> 0 \<le> ana_confidence a \<and> ana_confidence a \<le> 100
     \<and> length (ana_hypotheses a) \<le> MAX_LIST_ITEMS \<and> list_all hypothesis_ok (ana_hypotheses a)
     \<and> length (ana_recommendations a) \<le> MAX_LIST_ITEMS \<and> list_all recommendation_ok (ana_recommendations a)
     \<and> length (ana_mitre_techniques a) \<le> MAX_LIST_ITEMS \<and> list_all (technique_ok d) (ana_mitre_techniques a)
     \<and> length (ana_iocs a) \<le> MAX_LIST_ITEMS \<and> list_all ioc_ok (ana_iocs a)"

lemma coerce_str_length [simp]: "length (coerce_str v n) \<le> n"
  by (simp add: coerce_str_def split: json.splits)

lemma coerce_confidence_range: "coerce_confidence v = Inr c \<Longrightarrow> 0 \<le> c \<and> c \<le> 100"
  by (auto simp: coerce_confidence_def split: if_splits option.splits)

lemma choose_in_choice: "choose_in S dflt v = Inr s \<Longrightarrow> dflt \<in> set S \<Longrightarrow> s \<in> set S"
  by (cases v) (auto simp: choose_in_def split: if_splits)

lemma coerce_items_all:
  assumes "coerce_items f v = Inr ys" "\<And>item y. f item = Inr (Some y) \<Longrightarrow> P y"
  shows "length ys \<le> MAX_LIST_ITEMS \<and> list_all P ys"
proof (cases v)
  case (JList xs)
  let ?g = "\<lambda>item. case item of JObj d \<Rightarrow> f d | _ \<Rightarrow> Inr None"
  have c: "collect ?g (take MAX_LIST_ITEMS xs) = Inr ys" using assms(1) JList by (simp add: coerce_items_def)
  from collect_eq_Inr [OF c] have "length ys \<le> MAX_LIST_ITEMS"
    "list_all (\<lambda>y. list_ex (\<lambda>x. ?g x = Inr (Some y)) (take MAX_LIST_ITEMS xs)) ys" by simp_all
  moreover have "P y" if "?g x = Inr (Some y)" for x y using that assms(2) by (cases x) auto
  ultimately show ?thesis unfolding list_all_iff list_ex_iff by blast
qed (use assms in \<open>auto simp: coerce_items_def\<close>)

lemma hypotheses_ok: "coerce_hypotheses v = Inr ys \<Longrightarrow> length ys \<le> MAX_LIST_ITEMS \<and> list_all hypothesis_ok ys"
  unfolding coerce_hypotheses_def
proof (erule coerce_items_all, goal_cases)
  case (1 item y)
  let ?text = "coerce_str (field ''text'' item) MAX_TEXT"
  obtain c where "coerce_confidence (field ''confidence'' item) = Inr c" "?text \<noteq> []"
    "y = \<lparr>hyp_text = ?text, hyp_confidence = c\<rparr>"
    using 1 by (auto simp: Let_def rbind_eq_Inr split: if_splits)
  with coerce_confidence_range show ?case by (simp add: hypothesis_ok_def)
qed

lemma recommendations_ok:
  "coerce_recommendations v = Inr ys \<Longrightarrow> length ys \<le> MAX_LIST_ITEMS \<and> list_all recommendation_ok ys"
  unfolding coerce_recommendations_def
proof (erule coerce_items_all, goal_cases)
  case (1 item y)
  have "''media'' \<in> set PRIORITIES" "''investigar'' \<in> set ACTION_TYPES"
    by (simp_all add: PRIORITIES_def ACTION_TYPES_def)
  with 1 show ?case
    by (auto simp: Let_def rbind_eq_Inr recommendation_ok_def split: if_splits dest: choose_in_choice)
qed

lemma iocs_ok: "coerce_iocs v = Inr ys \<Longrightarrow> length ys \<le> MAX_LIST_ITEMS \<and> list_all ioc_ok ys"
  unfolding coerce_iocs_def
proof (erule coerce_items_all, goal_cases)
  case (1 item y)
  then show ?case
    by (cases "field ''type'' item") (auto simp: Let_def rbind_eq_Inr ioc_ok_def split: if_splits)
qed

lemma mitre_id_words:
  "matches MITRE_ID_RE t \<Longrightarrow> list_all id_char t \<and> 5 \<le> length t \<and> length t \<le> 10"
  unfolding MITRE_ID_RE_def
  by (auto simp: matches_anchored_iff rx_word_Cat rx_words id_char_def list_all_iff)

lemma mitre_ok: "coerce_mitre d v = Inr ys \<Longrightarrow> length ys \<le> MAX_LIST_ITEMS \<and> list_all (technique_ok d) ys"
  unfolding coerce_mitre_def
proof (erule coerce_items_all, goal_cases)
  case (1 item y)
  then obtain tid where "field ''id'' item = JStr tid" "matches MITRE_ID_RE tid"
    by (auto split: json.splits if_splits)
  with 1 mitre_id_words [of tid] show ?case
    by (auto simp: technique_ok_def lookup_technique_def technique_ref_of_def find_technique_def
        split: if_splits option.splits dest: find_Some_iff [THEN iffD1])
qed

lemma empty_analysis_ok: "analysis_ok d EMPTY_ANALYSIS"
  by (simp add: analysis_ok_def EMPTY_ANALYSIS_def SEVERITIES_def)

lemma rescue_text_length: "length (rescue_text e k n t) \<le> n"
  by (simp add: rescue_text_def split: option.splits sum.splits)

lemma rescue_severity_known: "rescue_severity t \<in> set SEVERITIES"
  by (simp add: rescue_severity_def split: option.split) (simp add: SEVERITIES_def)

lemma rescue_confidence_range: "rescue_confidence t = Inr c \<Longrightarrow> 0 \<le> c \<and> c \<le> 100"
  by (auto simp: rescue_confidence_def split: option.splits dest: coerce_confidence_range)

lemma salvage_ok: "salvage_partial e raw = Inr a \<Longrightarrow> analysis_ok d a"
  using empty_analysis_ok [of d]
  by (auto simp: salvage_partial_def Let_def analysis_ok_def rbind_eq_Inr rescue_text_length
      rescue_severity_known split: if_splits dest: rescue_confidence_range)

text \<open>Where an exception can come from.\<close>

definition reader_raises :: "env \<Rightarrow> py_exn \<Rightarrow> bool" where
  "reader_raises e x \<longleftrightarrow> (\<exists>t. json_loads e t = Inl x \<and> x \<noteq> JSONDecodeError \<and> x \<noteq> ValueError)"

lemma rbind_eq_Inl: "rbind m f = Inl x \<longleftrightarrow> m = Inl x \<or> (\<exists>a. m = Inr a \<and> f a = Inl x)"
  by (cases m) auto

lemma json_in_raises: "json_in S v = Inl x \<Longrightarrow> x = TypeError"
  by (cases v) auto

lemma choose_in_raises: "choose_in S dflt v = Inl x \<Longrightarrow> x = TypeError"
  by (auto simp: choose_in_def rbind_eq_Inl dest: json_in_raises)

lemma confidence_raises: "coerce_confidence v = Inl x \<Longrightarrow> x = OverflowError"
  by (auto simp: coerce_confidence_def split: if_splits)

lemma coerce_items_raises:
  assumes "coerce_items f v = Inl x" "\<And>item. f item = Inl x \<Longrightarrow> P"
  shows P
proof (cases v)
  case (JList xs)
  with assms(1) have "list_ex (\<lambda>a. (case a of JObj d \<Rightarrow> f d | _ \<Rightarrow> Inr None) = Inl x) (take MAX_LIST_ITEMS xs)"
    by (intro collect_raises) (simp add: coerce_items_def)
  then obtain a where "(case a of JObj d \<Rightarrow> f d | _ \<Rightarrow> Inr None) = Inl x" by (auto simp: list_ex_iff)
  with assms(2) show P by (cases a) auto
qed (use assms in \<open>auto simp: coerce_items_def\<close>)

lemma hypotheses_raises: "coerce_hypotheses v = Inl x \<Longrightarrow> x = OverflowError"
  unfolding coerce_hypotheses_def
  by (erule coerce_items_raises) (auto simp: Let_def rbind_eq_Inl split: if_splits dest: confidence_raises)

lemma recommendations_raises: "coerce_recommendations v = Inl x \<Longrightarrow> x = TypeError"
  unfolding coerce_recommendations_def
  by (erule coerce_items_raises) (auto simp: Let_def rbind_eq_Inl split: if_splits dest: choose_in_raises)

lemma mitre_raises: "coerce_mitre d v \<noteq> Inl x"
  unfolding coerce_mitre_def
  by (rule notI, erule coerce_items_raises) (auto split: json.splits if_splits option.splits)

lemma iocs_raises: "coerce_iocs v = Inl x \<Longrightarrow> x = TypeError"
  unfolding coerce_iocs_def
  by (erule coerce_items_raises) (auto simp: Let_def rbind_eq_Inl dest: json_in_raises)

lemma parse_raises: "parse_json e t = Inl x \<Longrightarrow> reader_raises e x"
  by (auto simp: parse_json_def reader_raises_def Let_def split: sum.splits if_splits)

lemma salvage_raises: "salvage_partial e t = Inl x \<Longrightarrow> x = OverflowError"
  by (auto simp: salvage_partial_def rescue_confidence_def Let_def rbind_eq_Inl
      split: if_splits option.splits dest: confidence_raises)

section \<open>Properties\<close>

text \<open>
  C30: Whatever a language model answers, what is stored has the standard form: known severity,
  priorities, action and indicator types, confidences between 0 and 100, at most ten entries
  of bounded length, and technique identifiers that are harmless in a link and, when the local
  table has data, are in it under the official name.  The only exceptions are those of a value
  that cannot be hashed, an infinite confidence, or of the JSON reader beyond a syntax error.
\<close>

theorem normalized_wellformed:
  "case normalize_llm_output e d raw of
     Inr a \<Rightarrow> analysis_ok d a
   | Inl x \<Rightarrow> x = TypeError \<or> x = OverflowError \<or> (\<exists>t. json_loads e t = Inl x \<and> x \<noteq> JSONDecodeError \<and> x \<noteq> ValueError)"
proof (cases "normalize_llm_output e d raw")
  case (Inr a)
  have "raw = None \<Longrightarrow> analysis_ok d a" using Inr empty_analysis_ok by (simp add: normalize_llm_output_def)
  moreover have "analysis_ok d a" if "raw = Some t" for t
  proof (cases "parse_json e t = Inr None")
    case True
    with Inr that salvage_ok [of e t a d] show ?thesis by (simp add: normalize_llm_output_def)
  next
    case False
    with Inr that show ?thesis
      by (auto simp: normalize_llm_output_def rbind_eq_Inr analysis_ok_def SEVERITIES_def
          dest!: hypotheses_ok recommendations_ok mitre_ok iocs_ok coerce_confidence_range choose_in_choice
          split: option.splits)
  qed
  ultimately show ?thesis using Inr by (cases raw) auto
next
  case (Inl x)
  then have "x = TypeError \<or> x = OverflowError \<or> reader_raises e x"
    by (auto simp: normalize_llm_output_def rbind_eq_Inl mitre_raises split: option.splits
        dest: parse_raises salvage_raises choose_in_raises confidence_raises hypotheses_raises
          recommendations_raises iocs_raises)
  with Inl show ?thesis by (auto simp: reader_raises_def)
qed

text \<open>
  The exceptions are real: a severity that is a list, and a confidence too large for a float,
  make the reading raise, although it says it never does.
\<close>

lemma unhashable_severity_raises:
  "json_loads e t = Inr (JObj [(''severity_suggested'', JList [])]) \<Longrightarrow> strip_fences t = t
     \<Longrightarrow> normalize_llm_output e d (Some t) = Inl TypeError"
  by (simp add: normalize_llm_output_def parse_json_def Let_def field_def jget_default_def jget_def choose_in_def)

lemma infinite_confidence_raises:
  "json_loads e t = Inr (JObj [(''confidence'', JFloat ''inf'')]) \<Longrightarrow> strip_fences t = t
     \<Longrightarrow> normalize_llm_output e d (Some t) = Inl OverflowError"
  by (simp add: normalize_llm_output_def parse_json_def Let_def field_def jget_default_def jget_def choose_in_def
      coerce_confidence_def)

text \<open>
  A summary rescued from a broken document can begin with a brace, although the code says it
  never does: the text of the field is taken as it is.
\<close>

definition brace_demo_env :: env where
  "brace_demo_env = quiet_env\<lparr>json_loads := (\<lambda>t.
     if t = [quote] @ ''{x'' @ [quote] then Inr (JStr ''{x'') else Inl JSONDecodeError)\<rparr>"

lemma rescued_summary_brace:
  "normalize_llm_output brace_demo_env empty_db
     (Some (''{'' @ [quote] @ ''summary'' @ [quote] @ '':'' @ [quote] @ ''{x'' @ [quote] @ '',''))
   = Inr (EMPTY_ANALYSIS\<lparr>ana_summary := ''{x''\<rparr>)"
  by code_simp

end
