(* ===== verification/Atomic.thy ===== *)
theory Atomic
  imports Encryption
begin

text \<open>
  Operations that leave the database consistent whatever fails: starting from a session with
  nothing pending, a normal end leaves nothing pending, an exception leaves the committed
  tables consistent, and in both cases the committed tables have moved by the relation given.
  The composition of such operations is one again, and \<open>try\<close> with a rollback restores
  a session with nothing pending.
\<close>

lemma bind_ret_right [simp]: "bind m ret = m"
  by (rule ext) (auto simp: bind_def ret_def split: prod.splits sum.splits)

text \<open>What the outside can see of a session: the committed tables, and what was asked of it.\<close>

definition view :: "session \<Rightarrow> db \<times> ext_call list" where
  "view s = (committed s, calls s)"

definition runs :: "(db \<times> ext_call list \<Rightarrow> db \<times> ext_call list \<Rightarrow> bool) \<Rightarrow> 'a sess_op \<Rightarrow> bool" where
  "runs R m \<longleftrightarrow> (\<forall>s. settled s \<longrightarrow>
     (case m s of
        (Inr x, s') \<Rightarrow> settled s' \<and> R (view s) (view s')
      | (Inl x, s') \<Rightarrow> constraints (committed s') \<and> R (view s) (view s')))"

lemma runsI:
  assumes "\<And>s x s'. settled s \<Longrightarrow> m s = (Inr x, s') \<Longrightarrow> settled s' \<and> R (view s) (view s')"
    and "\<And>s x s'. settled s \<Longrightarrow> m s = (Inl x, s') \<Longrightarrow> constraints (committed s') \<and> R (view s) (view s')"
  shows "runs R m"
  unfolding runs_def
proof (intro allI impI)
  fix s assume "settled s"
  then show "case m s of
        (Inr x, s') \<Rightarrow> settled s' \<and> R (view s) (view s')
      | (Inl x, s') \<Rightarrow> constraints (committed s') \<and> R (view s) (view s')"
    using assms by (cases "m s"; cases "fst (m s)") auto
qed

lemma runs_Inr: "runs R m \<Longrightarrow> settled s \<Longrightarrow> m s = (Inr x, s') \<Longrightarrow> settled s' \<and> R (view s) (view s')"
  by (fastforce simp: runs_def)

lemma runs_Inl:
  "runs R m \<Longrightarrow> settled s \<Longrightarrow> m s = (Inl x, s') \<Longrightarrow> constraints (committed s') \<and> R (view s) (view s')"
  by (fastforce simp: runs_def)

lemma runs_any: "runs R m \<Longrightarrow> settled s \<Longrightarrow> constraints (committed (snd (m s))) \<and> R (view s) (view (snd (m s)))"
  by (cases "m s"; cases "fst (m s)") (auto dest: runs_Inr runs_Inl simp: settled_def)

lemma runs_outside:
  assumes "\<And>s. settled s \<Longrightarrow> working (snd (m s)) = working s \<and> committed (snd (m s)) = committed s
      \<and> R (view s) (view (snd (m s)))"
  shows "runs R m"
proof (rule runsI)
  fix s x s' assume "settled s" "m s = (Inr x, s')"
  with assms [of s] show "settled s' \<and> R (view s) (view s')" by (simp add: settled_def)
next
  fix s x s' assume "settled s" "m s = (Inl x, s')"
  with assms [of s] show "constraints (committed s') \<and> R (view s) (view s')" by (simp add: settled_def)
qed

lemma runs_ret: "reflp R \<Longrightarrow> runs R (ret x)" "reflp R \<Longrightarrow> runs R (raise e)" "reflp R \<Longrightarrow> runs R (fetch f)"
  by (rule runs_outside; simp add: reflpD)+

lemma runs_bind:
  assumes "transp R" "runs R m" "\<And>x. runs R (f x)"
  shows "runs R (bind m f)"
proof (rule runsI)
  fix s y s' assume s: "settled s" and b: "bind m f s = (Inr y, s')"
  then obtain x t where t: "m s = (Inr x, t)" "f x t = (Inr y, s')" by (auto simp: bind_eq_Inr)
  have 1: "settled t \<and> R (view s) (view t)" by (rule runs_Inr [OF assms(2) s t(1)])
  with runs_Inr [OF assms(3) _ t(2)] assms(1) show "settled s' \<and> R (view s) (view s')"
    by (auto elim: transpE)
next
  fix s y s' assume s: "settled s" and b: "bind m f s = (Inl y, s')"
  show "constraints (committed s') \<and> R (view s) (view s')"
  proof (cases "m s")
    case (Pair r t)
    show ?thesis
    proof (cases r)
      case (Inl z)
      with Pair b have "m s = (Inl z, s')" by (simp add: bind_def)
      then show ?thesis by (rule runs_Inl [OF assms(2) s])
    next
      case (Inr x)
      with Pair b have t: "m s = (Inr x, t)" "f x t = (Inl y, s')" by (simp_all add: bind_def)
      have 1: "settled t \<and> R (view s) (view t)" by (rule runs_Inr [OF assms(2) s t(1)])
      with runs_Inl [OF assms(3) _ t(2)] assms(1) show ?thesis by (auto elim: transpE)
    qed
  qed
qed

text \<open>A change with its commit.\<close>

lemma runs_commit:
  assumes "reflp R" "\<And>d c. constraints d \<Longrightarrow> constraints (f d) \<Longrightarrow> R (d, c) (f d, c)"
  shows "runs R (bind (update_db f) (\<lambda>_. commit e))"
proof (rule runsI)
  fix s x s' assume s: "settled s" and b: "bind (update_db f) (\<lambda>_. commit e) s = (Inr x, s')"
  then show "settled s' \<and> R (view s) (view s')" using assms(2) [of "committed s"]
    by (auto simp: settled_def bind_def update_db_def commit_def Let_def view_def split: if_splits)
next
  fix s x s' assume s: "settled s" and b: "bind (update_db f) (\<lambda>_. commit e) s = (Inl x, s')"
  then show "constraints (committed s') \<and> R (view s) (view s')" using assms(1)
    by (auto simp: settled_def bind_def update_db_def commit_def Let_def reflpD view_def split: if_splits)
qed

lemma runs_commit_only: "reflp R \<Longrightarrow> runs R (commit e)"
proof -
  assume r: "reflp R"
  have "bind (update_db (\<lambda>d. d)) (\<lambda>_. commit e) = commit e"
    by (rule ext) (simp add: bind_def update_db_def)
  with runs_commit [OF r, of "\<lambda>d. d" e] r show "runs R (commit e)" by (simp add: reflpD)
qed

text \<open>\<open>except: rollback()\<close>, and handlers that only look.\<close>

lemma runs_catch_rollback:
  assumes "transp R" "runs R m" "\<And>x. runs R (h x)"
  shows "runs R (catch m (\<lambda>x. bind rollback (\<lambda>_. h x)))"
proof (rule runsI)
  fix s y s' assume s: "settled s" and b: "catch m (\<lambda>x. bind rollback (\<lambda>_. h x)) s = (Inr y, s')"
  show "settled s' \<and> R (view s) (view s')"
  proof (cases "m s")
    case (Pair r t)
    show ?thesis
    proof (cases r)
      case (Inl z)
      with Pair have t: "m s = (Inl z, t)" by simp
      let ?t = "t\<lparr>working := committed t\<rparr>"
      have 1: "settled ?t \<and> R (view s) (view ?t)"
        using runs_Inl [OF assms(2) s t] by (simp add: settled_def view_def)
      have "h z ?t = (Inr y, s')" using b t by (simp add: catch_def bind_def rollback_def)
      with runs_Inr [OF assms(3), of ?t] 1 assms(1) show ?thesis by (auto elim: transpE)
    next
      case (Inr x)
      with Pair b have "m s = (Inr y, s')" by (simp add: catch_def)
      then show ?thesis by (rule runs_Inr [OF assms(2) s])
    qed
  qed
next
  fix s y s' assume s: "settled s" and b: "catch m (\<lambda>x. bind rollback (\<lambda>_. h x)) s = (Inl y, s')"
  then obtain z t where t: "m s = (Inl z, t)"
    by (cases "m s"; cases "fst (m s)") (auto simp: catch_def)
  let ?t = "t\<lparr>working := committed t\<rparr>"
  have 1: "settled ?t \<and> R (view s) (view ?t)"
    using runs_Inl [OF assms(2) s t] by (simp add: settled_def view_def)
  have "h z ?t = (Inl y, s')" using b t by (simp add: catch_def bind_def rollback_def)
  with runs_Inl [OF assms(3), of ?t] 1 assms(1) show "constraints (committed s') \<and> R (view s) (view s')"
    by (auto elim: transpE)
qed

lemma runs_rescue: "reflp R \<Longrightarrow> transp R \<Longrightarrow> runs R m \<Longrightarrow> runs R (catch m (\<lambda>_. rollback))"
  using runs_catch_rollback [of R m "\<lambda>_. ret ()"] by (simp add: runs_ret)

lemma runs_mono: "runs R m \<Longrightarrow> (\<And>a b. R a b \<Longrightarrow> S a b) \<Longrightarrow> runs S m"
  by (rule runsI) (blast dest: runs_Inr runs_Inl)+

lemma runs_if: "(b \<Longrightarrow> runs R m) \<Longrightarrow> (\<not> b \<Longrightarrow> runs R m') \<Longrightarrow> runs R (if b then m else m')"
  by simp

lemma runs_let: "runs R (f x) \<Longrightarrow> runs R (let y = x in f y)"
  by simp

lemma runs_option:
  "(x = None \<Longrightarrow> runs R m) \<Longrightarrow> (\<And>y. x = Some y \<Longrightarrow> runs R (f y))
     \<Longrightarrow> runs R (case x of None \<Rightarrow> m | Some y \<Rightarrow> f y)"
  by (cases x) auto

lemma runs_sum:
  "(\<And>y. x = Inl y \<Longrightarrow> runs R (f y)) \<Longrightarrow> (\<And>y. x = Inr y \<Longrightarrow> runs R (g y))
     \<Longrightarrow> runs R (case x of Inl y \<Rightarrow> f y | Inr y \<Rightarrow> g y)"
  by (cases x) auto

lemma runs_prod: "(\<And>a b. x = (a, b) \<Longrightarrow> runs R (f a b)) \<Longrightarrow> runs R (case x of (a, b) \<Rightarrow> f a b)"
  by (cases x) auto

lemmas runs_control = runs_if runs_let runs_option runs_sum runs_prod

section \<open>Relations on the committed tables alone\<close>

abbreviation on_tables :: "(db \<Rightarrow> db \<Rightarrow> bool) \<Rightarrow> db \<times> ext_call list \<Rightarrow> db \<times> ext_call list \<Rightarrow> bool" where
  "on_tables R \<equiv> \<lambda>a b. R (fst a) (fst b)"

definition steps :: "(db \<Rightarrow> db \<Rightarrow> bool) \<Rightarrow> 'a sess_op \<Rightarrow> bool" where
  "steps R m \<longleftrightarrow> runs (on_tables R) m"

lemma on_tables_preorder: "reflp R \<Longrightarrow> reflp (on_tables R)" "transp R \<Longrightarrow> transp (on_tables R)"
  by (auto simp: reflp_def transp_def)

lemma stepsI:
  assumes "\<And>s x s'. settled s \<Longrightarrow> m s = (Inr x, s') \<Longrightarrow> settled s' \<and> R (committed s) (committed s')"
    and "\<And>s x s'. settled s \<Longrightarrow> m s = (Inl x, s') \<Longrightarrow> constraints (committed s') \<and> R (committed s) (committed s')"
  shows "steps R m"
  using assms by (simp add: steps_def runsI view_def)

lemma steps_Inr: "steps R m \<Longrightarrow> settled s \<Longrightarrow> m s = (Inr x, s') \<Longrightarrow> settled s' \<and> R (committed s) (committed s')"
  using runs_Inr [of "on_tables R"] by (simp add: steps_def view_def)

lemma steps_Inl:
  "steps R m \<Longrightarrow> settled s \<Longrightarrow> m s = (Inl x, s') \<Longrightarrow> constraints (committed s') \<and> R (committed s) (committed s')"
  using runs_Inl [of "on_tables R"] by (simp add: steps_def view_def)

lemma steps_any: "steps R m \<Longrightarrow> settled s \<Longrightarrow> constraints (committed (snd (m s))) \<and> R (committed s) (committed (snd (m s)))"
  using runs_any [of "on_tables R"] by (simp add: steps_def view_def)

lemma steps_mono: "steps R m \<Longrightarrow> (\<And>d d'. R d d' \<Longrightarrow> S d d') \<Longrightarrow> steps S m"
  unfolding steps_def by (erule runs_mono) simp

text \<open>An operation that only looks, or only acts on the outside.\<close>

lemma steps_outside:
  assumes "reflp R" "\<And>s. working (snd (m s)) = working s \<and> committed (snd (m s)) = committed s"
  shows "steps R m"
  using assms by (simp add: steps_def runs_outside view_def reflpD)

lemma steps_ret: "reflp R \<Longrightarrow> steps R (ret x)" "reflp R \<Longrightarrow> steps R (raise e)" "reflp R \<Longrightarrow> steps R (fetch f)"
  "reflp R \<Longrightarrow> steps R (lift r)" "reflp R \<Longrightarrow> steps R (external c)"
  by (rule steps_outside; simp add: external_def)+ (auto intro!: steps_outside simp: lift_def external_def split: sum.split)

lemma steps_bind:
  assumes "transp R" "steps R m" "\<And>x. steps R (f x)"
  shows "steps R (bind m f)"
  using assms by (simp add: steps_def runs_bind on_tables_preorder)

text \<open>A change with its commit, and what follows it.\<close>

lemma steps_commit:
  assumes "reflp R" "transp R" "\<And>d. constraints d \<Longrightarrow> constraints (f d) \<Longrightarrow> R d (f d)" "steps R m"
  shows "steps R (bind (update_db f) (\<lambda>_. bind (commit e) (\<lambda>_. m)))"
proof -
  have "steps R (bind (update_db f) (\<lambda>_. commit e))"
    using assms by (simp add: steps_def runs_commit on_tables_preorder)
  from steps_bind [OF assms(2) this, of "\<lambda>_. m"] assms(4) show ?thesis
    by (simp add: bind_assoc)
qed

lemma steps_commit_only:
  assumes "reflp R" "transp R" "\<And>d. constraints d \<Longrightarrow> constraints (f d) \<Longrightarrow> R d (f d)"
  shows "steps R (bind (update_db f) (\<lambda>_. commit e))"
  using steps_commit [OF assms steps_ret(1) [OF assms(1)], of e "()"] by simp

lemma steps_catch_rollback:
  assumes "transp R" "steps R m" "\<And>x. steps R (h x)"
  shows "steps R (catch m (\<lambda>x. bind rollback (\<lambda>_. h x)))"
  using assms by (simp add: steps_def runs_catch_rollback on_tables_preorder)

lemma steps_rescue:
  assumes "reflp R" "transp R" "steps R m"
  shows "steps R (catch m (\<lambda>_. rollback))"
  using steps_catch_rollback [OF assms(2,3), of "\<lambda>_. ret ()"] steps_ret(1) [OF assms(1), of "()"] by simp

lemma rescue_total: "\<exists>x. fst (catch m (\<lambda>_. rollback) s) = Inr x"
  by (cases "m s"; cases "fst (m s)") (auto simp: catch_def rollback_def)

lemma steps_iterate:
  "reflp R \<Longrightarrow> transp R \<Longrightarrow> (\<And>x. x \<in> set xs \<Longrightarrow> steps R (f x)) \<Longrightarrow> steps R (iterate f xs)"
  by (induction xs) (auto intro!: steps_bind steps_ret)

lemma steps_fold_op:
  "reflp R \<Longrightarrow> transp R \<Longrightarrow> (\<And>x acc. x \<in> set xs \<Longrightarrow> steps R (f x acc)) \<Longrightarrow> steps R (fold_op f xs acc)"
  by (induction xs arbitrary: acc) (auto intro!: steps_bind steps_ret)

lemma steps_if: "(b \<Longrightarrow> steps R m) \<Longrightarrow> (\<not> b \<Longrightarrow> steps R m') \<Longrightarrow> steps R (if b then m else m')"
  by simp

lemma steps_let: "steps R (f x) \<Longrightarrow> steps R (let y = x in f y)"
  by simp

lemma steps_option:
  "(x = None \<Longrightarrow> steps R m) \<Longrightarrow> (\<And>y. x = Some y \<Longrightarrow> steps R (f y))
     \<Longrightarrow> steps R (case x of None \<Rightarrow> m | Some y \<Rightarrow> f y)"
  by (cases x) auto

lemma steps_sum:
  "(\<And>y. x = Inl y \<Longrightarrow> steps R (f y)) \<Longrightarrow> (\<And>y. x = Inr y \<Longrightarrow> steps R (g y))
     \<Longrightarrow> steps R (case x of Inl y \<Rightarrow> f y | Inr y \<Rightarrow> g y)"
  by (cases x) auto

lemma steps_prod: "(\<And>a b. x = (a, b) \<Longrightarrow> steps R (f a b)) \<Longrightarrow> steps R (case x of (a, b) \<Rightarrow> f a b)"
  by (cases x) auto

lemmas steps_control = steps_if steps_let steps_option steps_sum steps_prod

text \<open>The audit trail only grows.\<close>

lemma steps_store_audit:
  assumes "reflp R" "\<And>d. R d (add_audit a d)"
  shows "steps R (store_audit e a)"
proof (rule stepsI)
  fix s x s' assume "settled s" "store_audit e a s = (Inr x, s')"
  with assms show "settled s' \<and> R (committed s) (committed s')"
    by (cases rule: store_audit_cases [of s e a]) (auto simp: settled_def reflpD)
next
  fix s x s' assume "store_audit e a s = (Inl x, s')"
  then show "constraints (committed s') \<and> R (committed s) (committed s')"
    using store_audit_total [of e a s] by simp
qed

lemma steps_log_audit:
  "reflp R \<Longrightarrow> (\<And>a d. R d (add_audit a d)) \<Longrightarrow> steps R (log_audit e action rt rn det sev st act)"
  by (simp add: log_audit_def steps_store_audit)

lemma steps_get_secret: "reflp R \<Longrightarrow> steps R (get_secret e k)"
proof (rule steps_outside)
  fix s show "working (snd (get_secret e k s)) = working s \<and> committed (snd (get_secret e k s)) = committed s"
    by simp
qed

section \<open>Operations that always leave a settled session\<close>

definition keeps :: "(db \<Rightarrow> db \<Rightarrow> bool) \<Rightarrow> session \<Rightarrow> session \<Rightarrow> bool" where
  "keeps R s s' \<longleftrightarrow> (settled s \<longrightarrow> settled s' \<and> R (committed s) (committed s') \<and> calls s' = calls s)"

lemma keeps_order: "reflp R \<Longrightarrow> reflp (keeps R)" "transp R \<Longrightarrow> transp (keeps R)"
  by (auto simp: keeps_def reflp_def transp_def)

lemma keeps_store_row:
  "reflp R \<Longrightarrow> (\<And>d. R d (insert_unique add d)) \<Longrightarrow> moves (keeps R) (store_row e add)"
proof (rule movesI)
  fix s assume r: "reflp R" "\<And>d. R d (insert_unique add d)"
  show "keeps R s (snd (store_row e add s))"
    unfolding keeps_def
  proof (intro impI conjI)
    assume st: "settled s"
    show "settled (snd (store_row e add s))" "calls (snd (store_row e add s)) = calls s"
      by (rule store_row_settled [OF st])+
    show "R (committed s) (committed (snd (store_row e add s)))"
      using store_row_settled(3) [OF st, of e add] r by (auto simp: reflp_def)
  qed
qed

lemma keeps_rollback: "reflp R \<Longrightarrow> moves (keeps R) rollback"
  by (auto simp: moves_def keeps_def rollback_def settled_def reflp_def)

lemma moves_lift: "reflp R \<Longrightarrow> moves R (lift r)"
  by (cases r) (simp_all add: moves_ret)

lemma swallow_total: "fst (catch m (\<lambda>_. ret ()) s) = Inr ()"
  by (cases "m s"; cases "fst (m s)") (auto simp: catch_def)

end
