(* ===== verification/BanSafety.thy ===== *)
theory BanSafety
  imports PyIpText Store
begin

text \<open>
  Manual and automatic bans: \<^verbatim>\<open>app/ddos/safety.py\<close> decides whether an address may be
  banned, \<^verbatim>\<open>app/ddos/control.py\<close> asks CrowdSec to ban or unban it.  The specification of
  the decision speaks of addresses, the code of normalised texts; that the printed form of
  an address is canonical (\<^verbatim>\<open>PyIpText\<close>) connects them.
\<close>

section \<open>Normalisation\<close>

definition norm_ip :: "string \<Rightarrow> string option" where
  "norm_ip value = map_option show_ip (ip_address (strip value))"

definition norm_set :: "string list \<Rightarrow> string set" where
  "norm_set raw_items = set (somes (map norm_ip raw_items))"

definition is_protected_range :: "ipaddr \<Rightarrow> bool" where
  "is_protected_range addr \<longleftrightarrow>
     is_loopback addr \<or> is_private addr \<or> is_link_local addr \<or> is_reserved addr
     \<or> is_unspecified addr \<or> is_multicast addr"

text \<open>
  The addresses of the host: what the two sockets reported (nothing when the call failed) and
  what the resolver returned.
\<close>

record host_net =
  socket_names :: "string option list"
  resolver_names :: "string list option"

definition host_ips :: "host_net \<Rightarrow> string set" where
  "host_ips h = norm_set (somes (socket_names h)) \<union>
     (case resolver_names h of None \<Rightarrow> {} | Some names \<Rightarrow> norm_set names)"

section \<open>The guards\<close>

datatype refusal =
    InvalidIp
  | OwnAddress
  | ProtectedRange string
  | HostInterface string
  | SshHost string
  | Allowlisted string

definition or_empty :: "string option \<Rightarrow> string" where
  "or_empty v = (case v of None \<Rightarrow> [] | Some s \<Rightarrow> s)"

definition is_ban_safe ::
    "(string \<Rightarrow> string option) \<Rightarrow> host_net \<Rightarrow> string \<Rightarrow> string \<Rightarrow> refusal + unit" where
  "is_ban_safe cfg h ip0 request_ip0 =
     (let ip = strip ip0; request_ip = strip request_ip0 in
      case ip_address ip of
        None \<Rightarrow> Inl InvalidIp
      | Some addr \<Rightarrow>
          let norm = show_ip addr;
              ssh_host = strip (or_empty (cfg ''wf_ssh_host''));
              safe_items = filter (\<lambda>s. strip s \<noteq> [])
                             (split_on (CHR '','') (or_empty (cfg ''ddos_safe_ips'')))
          in if Some norm = norm_ip request_ip then Inl OwnAddress
             else if is_protected_range addr then Inl (ProtectedRange ip)
             else if norm \<in> host_ips h then Inl (HostInterface ip)
             else if ssh_host \<noteq> [] \<and> norm_ip ssh_host = Some norm then Inl (SshHost ip)
             else if norm \<in> norm_set safe_items then Inl (Allowlisted ip)
             else Inr ())"

section \<open>CrowdSec\<close>

definition ban_argv :: "string \<Rightarrow> string \<Rightarrow> string \<Rightarrow> string list" where
  "ban_argv ip duration reason =
     [''cscli'', ''decisions'', ''add'', ''--ip='' @ ip, ''--duration='' @ duration,
      ''--reason='' @ reason, ''--type=ban'']"

definition unban_argv :: "string \<Rightarrow> string list" where
  "unban_argv ip = [''cscli'', ''decisions'', ''delete'', ''--ip='' @ ip]"

definition run_cscli :: "env \<Rightarrow> string list \<Rightarrow> (bool \<times> string) sess_op" where
  "run_cscli e argv s =
     (Inr (case cscli_exec e (calls s) argv of
         Inl exc \<Rightarrow> (False, exc)
       | Inr (exit_code, output) \<Rightarrow>
           if exit_code \<noteq> 0
           then (False, ''cscli error ('' @ show_int exit_code @ ''): '' @ take 300 (strip output))
           else (True, [])),
      s\<lparr>calls := calls s @ [CscliCall argv]\<rparr>)"

definition ban_ip :: "env \<Rightarrow> string \<Rightarrow> string \<Rightarrow> string \<Rightarrow> (bool \<times> string) sess_op" where
  "ban_ip e ip duration reason = run_cscli e (ban_argv ip duration reason)"

definition unban_ip :: "env \<Rightarrow> string \<Rightarrow> (bool \<times> string) sess_op" where
  "unban_ip e ip = run_cscli e (unban_argv ip)"

section \<open>The decision on addresses\<close>

text \<open>The address a text denotes, whatever its spelling.\<close>

definition addr_of :: "string \<Rightarrow> ipaddr option" where
  "addr_of s = ip_address (strip s)"

definition ban_allowed ::
    "(string \<Rightarrow> string option) \<Rightarrow> host_net \<Rightarrow> ipaddr \<Rightarrow> ipaddr option \<Rightarrow> bool" where
  "ban_allowed cfg h a requester \<longleftrightarrow>
     requester \<noteq> Some a
     \<and> \<not> is_protected_range a
     \<and> Some a \<notin> addr_of ` set (somes (socket_names h))
     \<and> Some a \<notin> addr_of ` set (case resolver_names h of None \<Rightarrow> [] | Some names \<Rightarrow> names)
     \<and> addr_of (or_empty (cfg ''wf_ssh_host'')) \<noteq> Some a
     \<and> Some a \<notin> addr_of ` set (split_on (CHR '','') (or_empty (cfg ''ddos_safe_ips'')))"


lemma norm_ip_addr: "norm_ip s = map_option show_ip (addr_of s)"
  by (simp add: norm_ip_def addr_of_def)

lemma addr_of_valid: "addr_of s = Some a \<Longrightarrow> valid_ipaddr a"
  unfolding addr_of_def by (rule ip_address_valid)

lemma addr_of_strip [simp]: "addr_of (strip s) = addr_of s"
  by (simp add: addr_of_def)

lemma addr_of_blank: "strip s = [] \<Longrightarrow> addr_of s = None"
  by (simp add: addr_of_def ip_address_def ip4_int_def ip6_int_def split_scope.simps)

lemma norm_ip_eq:
  assumes "valid_ipaddr a"
  shows "norm_ip s = Some (show_ip a) \<longleftrightarrow> addr_of s = Some a"
  using assms addr_of_valid show_ip_inj by (cases "addr_of s") (auto simp: norm_ip_addr)

lemma norm_set_iff:
  assumes "valid_ipaddr a"
  shows "show_ip a \<in> norm_set xs \<longleftrightarrow> Some a \<in> addr_of ` set xs"
  using norm_ip_eq [OF assms] by (auto simp: norm_set_def somes_set image_iff) metis+

lemma host_ips_iff:
  assumes "valid_ipaddr a"
  shows "show_ip a \<in> host_ips h \<longleftrightarrow> Some a \<in> addr_of ` set (somes (socket_names h))
    \<or> Some a \<in> addr_of ` set (case resolver_names h of None \<Rightarrow> [] | Some names \<Rightarrow> names)"
  by (cases "resolver_names h") (simp_all add: host_ips_def norm_set_iff [OF assms])

lemma allowlist_iff:
  "Some a \<in> addr_of ` set (filter (\<lambda>s. strip s \<noteq> []) xs) \<longleftrightarrow> Some a \<in> addr_of ` set xs"
  using addr_of_blank by force

lemma ban_safe_allowed:
  "is_ban_safe cfg h ip req = Inr () \<longleftrightarrow> (\<exists>a. addr_of ip = Some a \<and> ban_allowed cfg h a (addr_of req))"
proof (cases "addr_of ip")
  case None
  then show ?thesis by (simp add: is_ban_safe_def addr_of_def Let_def)
next
  case (Some a)
  have v: "valid_ipaddr a" by (rule addr_of_valid [OF Some])
  have ssh: "strip (or_empty (cfg ''wf_ssh_host'')) \<noteq> [] \<and> norm_ip (strip (or_empty (cfg ''wf_ssh_host''))) = Some (show_ip a)
      \<longleftrightarrow> addr_of (or_empty (cfg ''wf_ssh_host'')) = Some a"
    using norm_ip_eq [OF v] addr_of_blank by (metis addr_of_strip option.distinct(1))
  have own: "Some (show_ip a) = norm_ip (strip req) \<longleftrightarrow> addr_of req = Some a"
    using norm_ip_eq [OF v, of "strip req"] by auto
  have ip: "ip_address (strip ip) = Some a" using Some by (simp add: addr_of_def)
  show ?thesis
    unfolding is_ban_safe_def Let_def ip option.case own ssh host_ips_iff [OF v] norm_set_iff [OF v]
      allowlist_iff ban_allowed_def
    using Some by simp
qed




section \<open>Properties\<close>

text \<open>
  C25: An address may be banned exactly when the text denotes an address that is not the
  requester's, not in a protected range, not one of the host's, not the configured SSH host
  and not on the allowlist, where all these comparisons are between addresses: no other
  spelling of a protected address gets through.
\<close>

theorem ban_safe_iff_allowed:
  "is_ban_safe cfg h ip req = Inr () \<longleftrightarrow> (\<exists>a. addr_of ip = Some a \<and> ban_allowed cfg h a (addr_of req))"
  by (rule ban_safe_allowed)


end
