(* ===== verification/Soar.thy ===== *)
theory Soar
  imports BanSafety SocEnrich HostAgent
begin

text \<open>
  Automatic blocking, \<^verbatim>\<open>app/soc/soar.py\<close>: for the incidents a detection cycle created, the
  gates on configuration and modules, the guards on each incident, the ban through CrowdSec or
  the host agent, and the record of it.  The console's view of the firewall
  (\<open>get_ufw_state\<close> and \<open>ufw_is_operational\<close> of \<^verbatim>\<open>app/modules/socket_client.py\<close>) is here too.
  Answers of CrowdSec and of the agent come from the environment; whether a notification
  raises is decided by it as well.
\<close>

section \<open>The firewall as the console sees it\<close>

record ufw_state =
  ufw_reachable :: bool
  ufw_active :: bool
  ufw_initialized :: bool

text \<open>\<open>.lower()\<close> of an answer that is not a text raises.\<close>

definition get_ufw_state :: "env \<Rightarrow> ufw_state sess_op" where
  "get_ufw_state e =
     bind (send_command e ''status'' []) (\<lambda>status.
       if \<not> jtruthy (jget_default ''ok'' JNull status)
       then ret \<lparr>ufw_reachable = False, ufw_active = False, ufw_initialized = False\<rparr>
       else bind (send_command e ''check_defaults'' []) (\<lambda>dflts.
         case jget_default ''output'' (JStr []) dflts of
           JStr out \<Rightarrow>
             let verbose = py_lower out in
             ret \<lparr>ufw_reachable = True, ufw_active = contains ''status: active'' verbose,
                  ufw_initialized = contains ''deny (incoming)'' verbose\<rparr>
         | _ \<Rightarrow> raise AttributeError))"

definition ufw_is_operational :: "env \<Rightarrow> bool sess_op" where
  "ufw_is_operational e =
     bind (get_ufw_state e) (\<lambda>st. ret (ufw_reachable st \<and> ufw_active st \<and> ufw_initialized st))"

section \<open>Guards\<close>

definition SOAR_BLOCK_LOOKBACK :: int where "SOAR_BLOCK_LOOKBACK = 6 * hour"

definition DURATION_RE :: rx where
  "DURATION_RE = anchored (Cat (plus (Cls is_digit)) (Cls (\<lambda>c. c \<in> set ''smhd'')))"

definition REASON_RE :: rx where
  "REASON_RE = anchored (rep 1 64 (Cls (\<lambda>c. is_word c \<or> c = CHR ''-'')))"

definition recent_admin_login_ips :: "int \<Rightarrow> db \<Rightarrow> string set" where
  "recent_admin_login_ips now_utc d =
     norm_set (somes (map al_ip_address
       (filter (\<lambda>a. al_action a = ''auth.login'' \<and> al_status a = ''success''
                    \<and> al_ip_address a \<noteq> None \<and> now_utc - 24 * hour \<le> al_created_at a) (audits d))))"

text \<open>
  \<open>_parse_duration_to_dt\<close>: all four spans are built before one is chosen, so a number of more
  than 999999999 days overflows whatever the unit; a zero span gives no date.
\<close>

definition unit_span :: "char \<Rightarrow> int option" where
  "unit_span u = map_of [(CHR ''s'', 1000000), (CHR ''m'', 60000000), (CHR ''h'', 3600000000),
                         (CHR ''d'', 86400000000)] u"

definition parse_duration :: "int \<Rightarrow> string \<Rightarrow> py_exn + int option" where
  "parse_duration now_utc duration =
     (if duration = [] then Inr None
      else case py_int (butlast duration) of
        None \<Rightarrow> Inr None
      | Some value \<Rightarrow>
          if 999999999 < \<bar>value\<bar> then Inl OverflowError
          else case unit_span (last duration) of
            None \<Rightarrow> Inr None
          | Some len \<Rightarrow>
              if value = 0 then Inr None
              else if \<not> in_time_range (now_utc + value * len) then Inl OverflowError
              else Inr (Some (now_utc + value * len)))"

section \<open>One incident\<close>

definition find_incident :: "nat \<Rightarrow> db \<Rightarrow> soc_incident option" where
  "find_incident i d = find (\<lambda>x. inc_id x = i) (incidents d)"

definition update_incident :: "nat \<Rightarrow> (soc_incident \<Rightarrow> soc_incident) \<Rightarrow> db \<Rightarrow> db" where
  "update_incident i f d = d\<lparr>incidents := map (\<lambda>x. if inc_id x = i then f x else x) (incidents d)\<rparr>"

definition already_blocked :: "int \<Rightarrow> soc_incident \<Rightarrow> db \<Rightarrow> bool" where
  "already_blocked now_utc inc d \<longleftrightarrow>
     list_ex (\<lambda>x. inc_source_ip x = inc_source_ip inc \<and> inc_id x \<noteq> inc_id inc \<and> inc_blocked x
        \<and> (case inc_blocked_at x of None \<Rightarrow> False | Some t \<Rightarrow> now_utc - SOAR_BLOCK_LOOKBACK \<le> t))
       (incidents d)"

definition soar_reason :: "nat \<Rightarrow> string" where
  "soar_reason i = (let reason = ''soc-incident-'' @ show_nat i in
     if matches REASON_RE reason then reason else ''soc-auto-block'')"

text \<open>The block itself: \<open>None\<close> when it was not carried out, otherwise its expiry.\<close>

definition execute_block ::
    "env \<Rightarrow> string \<Rightarrow> string \<Rightarrow> soc_incident \<Rightarrow> int option option sess_op" where
  "execute_block e meth duration inc =
     (let ip = inc_source_ip inc in
      if meth = ''crowdsec'' then
        bind (ban_ip e ip duration (soar_reason (inc_id inc))) (\<lambda>(ok, msg).
          if \<not> ok then ret None
          else case parse_duration (now e) duration of
                 Inl x \<Rightarrow> raise x
               | Inr until \<Rightarrow> ret (Some until))
      else if meth = ''ufw'' then
        (if \<not> valid_ip ip then ret None
         else bind (send_command e ''deny_ip'' [(''ip'', JStr ip)]) (\<lambda>result.
           if \<not> jtruthy (jget_default ''ok'' JNull result) then ret None else ret (Some None)))
      else ret (Some None))"

definition guards_pass ::
    "env \<Rightarrow> host_net \<Rightarrow> string \<Rightarrow> string set \<Rightarrow> db \<Rightarrow> soc_incident \<Rightarrow> bool" where
  "guards_pass e h min_severity admin_ips d inc \<longleftrightarrow>
     (let ip = inc_source_ip inc;
          norm = (case ip_address ip of None \<Rightarrow> ip | Some a \<Rightarrow> show_ip a)
      in sev_rank min_severity 2 \<le> sev_rank (inc_severity inc) 0
         \<and> is_public_ip ip
         \<and> is_ban_safe (config_get d) h ip [] = Inr ()
         \<and> norm \<notin> admin_ips
         \<and> \<not> already_blocked (now e) inc d)"

definition block_detail :: "string \<Rightarrow> string \<Rightarrow> soc_incident \<Rightarrow> (string \<times> json) list" where
  "block_detail meth duration inc =
     [(''incident_id'', JInt (int (inc_id inc))), (''method'', JStr meth),
      (''duration'', JStr (if meth = ''crowdsec'' then duration else ''permanent'')),
      (''severity'', JStr (inc_severity inc)), (''score'', tenths_json (inc_score inc))]"

definition notify :: "env \<Rightarrow> ext_call \<Rightarrow> unit sess_op" where
  "notify e c =
     (\<lambda>s. if notify_raises e (calls s) c then (Inl RuntimeError, s\<lparr>calls := calls s @ [c]\<rparr>)
          else (Inr (), s\<lparr>calls := calls s @ [c]\<rparr>))"

definition mark_blocked :: "int \<Rightarrow> string \<Rightarrow> int option \<Rightarrow> soc_incident \<Rightarrow> soc_incident" where
  "mark_blocked t meth until inc =
     inc\<lparr>inc_blocked := True, inc_blocked_at := Some t, inc_blocked_method := Some meth,
         inc_blocked_until := until\<rparr>"

definition evaluate_and_block ::
    "env \<Rightarrow> host_net \<Rightarrow> string \<Rightarrow> string \<Rightarrow> string \<Rightarrow> string set \<Rightarrow> nat \<Rightarrow> unit sess_op" where
  "evaluate_and_block e h meth min_severity duration admin_ips i =
     bind (fetch (\<lambda>s. (working s, find_incident i (working s)))) (\<lambda>(d, found).
       case found of
         None \<Rightarrow> raise SQLAlchemyError
       | Some inc \<Rightarrow>
           if \<not> guards_pass e h min_severity admin_ips d inc then ret ()
           else bind (execute_block e meth duration inc) (\<lambda>outcome.
             case outcome of
               None \<Rightarrow> ret ()
             | Some until \<Rightarrow>
                 bind (update_db (update_incident i (mark_blocked (now e) meth until))) (\<lambda>_.
                 bind (commit e) (\<lambda>_.
                 bind (log_audit e ''soc.incident.blocked'' (Some ''soc_incident'')
                         (Some (inc_source_ip inc)) (Some (block_detail meth duration inc))
                         ''warning'' ''success'' None) (\<lambda>_.
                 catch (notify e (NotifyBlock i)) (\<lambda>_. ret ()))))))"

section \<open>The incidents of a cycle\<close>

text \<open>Whether the chosen method can be used, asking the agent for the firewall.\<close>

definition method_available :: "env \<Rightarrow> string \<Rightarrow> bool sess_op" where
  "method_available e meth =
     bind (fetch (\<lambda>s. config_get (working s))) (\<lambda>cfg.
       if meth = ''crowdsec'' then ret (cfg ''module_ddos_enabled'' = Some ''1'')
       else if meth = ''ufw'' then
         (if cfg ''module_wf_enabled'' \<noteq> Some ''1'' then ret False
          else catch (ufw_is_operational e) (\<lambda>_. ret False))
       else ret False)"

definition or_default :: "string option \<Rightarrow> string \<Rightarrow> string" where
  "or_default v dflt = (case v of None \<Rightarrow> dflt | Some t \<Rightarrow> if t = [] then dflt else t)"

definition soar_duration :: "db \<Rightarrow> string" where
  "soar_duration d = (let t = or_default (config_get d ''soc_soar_duration'') ''24h'' in
     if matches DURATION_RE t then t else ''24h'')"

definition maybe_block_incidents :: "env \<Rightarrow> host_net \<Rightarrow> nat list \<Rightarrow> unit sess_op" where
  "maybe_block_incidents e h created =
     (if created = [] then ret ()
      else bind (fetch working) (\<lambda>d.
        if config_get d ''soc_soar_enabled'' \<noteq> Some ''1'' then ret ()
        else let meth = or_default (config_get d ''soc_soar_method'') ''crowdsec'' in
          bind (method_available e meth) (\<lambda>available.
            if \<not> available then ret ()
            else bind (fetch working) (\<lambda>d'.
              let min_severity = or_default (config_get d' ''soc_soar_min_severity'') ''high'';
                  duration = soar_duration d';
                  admin_ips = recent_admin_login_ips (now e) d'
              in iterate (\<lambda>i. catch (evaluate_and_block e h meth min_severity duration admin_ips i)
                                   (\<lambda>_. rollback)) created))))"


section \<open>What the engine may do\<close>

text \<open>
  The calls a run may add: questions about the firewall, notifications, and bans of addresses
  that pass the guards, relative to the configuration and the logins at the start.
\<close>

definition bannable :: "env \<Rightarrow> host_net \<Rightarrow> db \<Rightarrow> string \<Rightarrow> bool" where
  "bannable e h d ip \<longleftrightarrow>
     (\<exists>a. ip_address ip = Some a \<and> \<not> is_protected_range a
        \<and> is_ban_safe (config_get d) h ip [] = Inr ()
        \<and> show_ip a \<notin> recent_admin_login_ips (now e) d)"

definition soar_call :: "env \<Rightarrow> host_net \<Rightarrow> db \<Rightarrow> ext_call \<Rightarrow> bool" where
  "soar_call e h d c = (case c of
      CscliCall argv \<Rightarrow> (\<exists>ip duration reason. argv = ban_argv ip duration reason \<and> bannable e h d ip)
    | AgentCall action args \<Rightarrow> action \<in> {''status'', ''check_defaults''}
        \<or> (action = ''deny_ip'' \<and> (\<exists>ip. args = [(''ip'', JStr ip)] \<and> bannable e h d ip))
    | NotifyBlock i \<Rightarrow> True
    | _ \<Rightarrow> False)"

text \<open>Steps that keep the configuration and add admissible calls only.\<close>

definition soar_steps :: "env \<Rightarrow> host_net \<Rightarrow> db \<Rightarrow> session \<Rightarrow> session \<Rightarrow> bool" where
  "soar_steps e h d s s' \<longleftrightarrow>
     (\<exists>l. calls s' = calls s @ l \<and> list_all (soar_call e h d) l)
     \<and> (configs (working s) = configs d \<and> configs (committed s) = configs d
        \<longrightarrow> configs (working s') = configs d \<and> configs (committed s') = configs d)"

lemma soar_steps_refl: "reflp (soar_steps e h d)"
  by (auto simp: reflp_def soar_steps_def)

lemma soar_steps_trans: "transp (soar_steps e h d)"
  by (fastforce simp: transp_def soar_steps_def)

lemmas soar_moves =
  moves_ret(1) [OF soar_steps_refl] moves_ret(2) [OF soar_steps_refl] moves_ret(3) [OF soar_steps_refl]
  moves_bind [OF soar_steps_trans] moves_catch [OF soar_steps_trans]
  moves_iterate [OF soar_steps_refl soar_steps_trans] moves_control

lemma soar_commit: "moves (soar_steps e h d) (commit e')"
proof (rule movesI)
  fix s show "soar_steps e h d s (snd (commit e' s))"
    by (cases rule: commit_cases [of e' s]) (auto simp: soar_steps_def)
qed

lemma soar_rollback: "moves (soar_steps e h d) rollback"
  by (auto simp: moves_def soar_steps_def rollback_def)

lemma soar_update: "(\<And>x. configs (f x) = configs x) \<Longrightarrow> moves (soar_steps e h d) (update_db f)"
  by (auto simp: moves_def soar_steps_def update_db_def)

lemma soar_log_audit: "moves (soar_steps e h d) (log_audit e' a b c f g i j)"
proof (rule movesI)
  fix s show "soar_steps e h d s (snd (log_audit e' a b c f g i j s))"
    unfolding log_audit_def
    by (cases rule: store_audit_cases [of s e' "audit_entry e' a b c f g i j"])
       (auto simp: soar_steps_def add_audit_def)
qed

lemma soar_notify: "soar_call e h d c \<Longrightarrow> moves (soar_steps e h d) (notify e' c)"
  by (auto simp: moves_def soar_steps_def notify_def)

lemma soar_send: "soar_call e h d (AgentCall a args) \<Longrightarrow> moves (soar_steps e h d) (send_command e' a args)"
  by (auto simp: moves_def soar_steps_def send_command_def)

lemma soar_ban: "bannable e h d ip \<Longrightarrow> moves (soar_steps e h d) (ban_ip e' ip dur reason)"
  by (auto simp: moves_def soar_steps_def ban_ip_def run_cscli_def soar_call_def)

lemma soar_ufw: "moves (soar_steps e h d) (ufw_is_operational e')"
  unfolding ufw_is_operational_def get_ufw_state_def
  by (intro soar_moves soar_send)
     (auto simp: soar_call_def Let_def intro!: soar_moves soar_send split: json.split)

lemma soar_available: "moves (soar_steps e h d) (method_available e' meth)"
  unfolding method_available_def by (intro soar_moves soar_ufw)

lemma soar_execute: "bannable e h d (inc_source_ip inc) \<Longrightarrow> moves (soar_steps e h d) (execute_block e' meth dur inc)"
  unfolding execute_block_def
  by (intro soar_moves soar_ban soar_send) (simp_all add: soar_call_def)

lemma guards_bannable:
  assumes "guards_pass e h m (recent_admin_login_ips (now e) d) d' inc" "configs d' = configs d"
  shows "bannable e h d (inc_source_ip inc)"
proof -
  have c: "config_get d' = config_get d" using assms(2) by (simp add: config_get_def fun_eq_iff)
  obtain a where a: "ip_address (inc_source_ip inc) = Some a"
    using assms(1) by (auto simp: guards_pass_def is_public_ip_def Let_def split: option.splits)
  then have "\<not> is_protected_range a"
    using assms(1) by (auto simp: guards_pass_def is_public_ip_def is_protected_range_def Let_def)
  with a assms(1) c show ?thesis by (auto simp: bannable_def guards_pass_def Let_def)
qed

lemma soar_evaluate:
  assumes "configs (working s) = configs d" "configs (committed s) = configs d"
  shows "soar_steps e h d s (snd (evaluate_and_block e h meth m dur (recent_admin_login_ips (now e) d) i s))"
proof (cases "find_incident i (working s)")
  case None
  with soar_steps_refl [of e h d] show ?thesis
    by (simp add: evaluate_and_block_def bind_def reflp_def)
next
  case (Some inc)
  show ?thesis
  proof (cases "guards_pass e h m (recent_admin_login_ips (now e) d) (working s) inc")
    case False
    with Some soar_steps_refl [of e h d] show ?thesis
      by (simp add: evaluate_and_block_def bind_def reflp_def)
  next
    case True
    have b: "bannable e h d (inc_source_ip inc)" by (rule guards_bannable [OF True assms(1)])
    have "moves (soar_steps e h d) (bind (execute_block e meth dur inc) (\<lambda>outcome.
             case outcome of
               None \<Rightarrow> ret ()
             | Some until \<Rightarrow>
                 bind (update_db (update_incident i (mark_blocked (now e) meth until))) (\<lambda>_.
                 bind (commit e) (\<lambda>_.
                 bind (log_audit e ''soc.incident.blocked'' (Some ''soc_incident'')
                         (Some (inc_source_ip inc)) (Some (block_detail meth dur inc))
                         ''warning'' ''success'' None) (\<lambda>_.
                 catch (notify e (NotifyBlock i)) (\<lambda>_. ret ()))))))"
      by (intro soar_moves soar_execute [OF b] soar_update soar_commit soar_log_audit soar_notify)
         (simp_all add: update_incident_def soar_call_def)
    with Some True show ?thesis
      by (simp add: evaluate_and_block_def bind_def [of "fetch _"] moves_def)
  qed
qed

end
