(* ===== verification/SoarSafety.thy ===== *)
theory SoarSafety
  imports Soar
begin

text \<open>
  What automatic blocking guarantees: it never raises, it only asks for bans of addresses that
  pass every guard, and no address is banned twice in one run.
\<close>


lemma find_incident_some: "find_incident i d = Some inc \<Longrightarrow> inc \<in> set (incidents d) \<and> inc_id inc = i"
  by (auto simp: find_incident_def find_Some_iff)

section \<open>One run\<close>


text \<open>Asking for the firewall adds calls and changes nothing else.\<close>

definition asks :: "session \<Rightarrow> session \<Rightarrow> bool" where
  "asks s s' \<longleftrightarrow> (\<exists>l. s' = s\<lparr>calls := calls s @ l\<rparr>
     \<and> list_all (\<lambda>c. \<exists>args. c = AgentCall ''status'' args \<or> c = AgentCall ''check_defaults'' args) l)"

lemma asks_refl: "reflp asks"
proof (rule reflpI)
  fix s show "asks s s" unfolding asks_def by (rule exI [of _ "[]"]) simp
qed

lemma asks_trans: "transp asks"
  by (fastforce simp: transp_def asks_def)

lemmas asks_moves = moves_ret(1) [OF asks_refl] moves_ret(2) [OF asks_refl] moves_ret(3) [OF asks_refl]
  moves_bind [OF asks_trans] moves_catch [OF asks_trans] moves_control

lemma asks_send: "a = ''status'' \<or> a = ''check_defaults'' \<Longrightarrow> moves asks (send_command e a args)"
  by (auto simp: moves_def asks_def send_command_def)

lemma asks_available: "moves asks (method_available e meth)"
  unfolding method_available_def ufw_is_operational_def get_ufw_state_def
  by (intro asks_moves asks_send) (auto intro!: asks_moves split: json.split)

lemma available_total: "\<exists>b s'. method_available e meth s = (Inr b, s') \<and> asks s s'
    \<and> (b \<longrightarrow> meth = ''crowdsec'' \<or> meth = ''ufw'')"
proof -
  obtain r s' where r: "method_available e meth s = (r, s')" by fastforce
  have a: "asks s s'" using asks_available [of e meth] r by (metis movesD)
  have "\<exists>b. r = Inr b \<and> (b \<longrightarrow> meth = ''crowdsec'' \<or> meth = ''ufw'')"
    using r by (auto simp: method_available_def bind_def catch_def split: if_splits prod.splits sum.splits)
  with r a show ?thesis by blast
qed



section \<open>No address is banned twice\<close>

definition ban_target :: "ext_call \<Rightarrow> string option" where
  "ban_target c = (case c of
      CscliCall argv \<Rightarrow> if take 3 argv = [''cscli'', ''decisions'', ''add''] then Some (drop 5 (argv ! 3)) else None
    | AgentCall action args \<Rightarrow> if action = ''deny_ip'' then Some (py_str (jget_default ''ip'' JNull args)) else None
    | _ \<Rightarrow> None)"

definition call_ok :: "env \<Rightarrow> ext_call list \<Rightarrow> ext_call \<Rightarrow> bool" where
  "call_ok e hist c = (case c of
      CscliCall argv \<Rightarrow> (case cscli_exec e hist argv of Inr (rc, out) \<Rightarrow> rc = 0 | Inl x \<Rightarrow> False)
    | AgentCall action args \<Rightarrow> jtruthy (jget_default ''ok'' JNull (agent_reply e hist action args))
    | _ \<Rightarrow> True)"

fun ok_targets :: "env \<Rightarrow> ext_call list \<Rightarrow> ext_call list \<Rightarrow> string list" where
  "ok_targets e hist [] = []"
| "ok_targets e hist (c # cs) =
     (case ban_target c of Some ip \<Rightarrow> if call_ok e hist c then [ip] else [] | None \<Rightarrow> [])
       @ ok_targets e (hist @ [c]) cs"

lemma ok_targets_append: "ok_targets e hist (xs @ ys) = ok_targets e hist xs @ ok_targets e (hist @ xs) ys"
  by (induction xs arbitrary: hist) auto

lemma asks_targets: "list_all (\<lambda>c. \<exists>args. c = AgentCall ''status'' args \<or> c = AgentCall ''check_defaults'' args) l
    \<Longrightarrow> ok_targets e hist l = []"
  by (induction l arbitrary: hist) (auto simp: ban_target_def)

lemma target_ban [simp]: "ban_target (CscliCall (ban_argv ip dur reason)) = Some ip"
  by (simp add: ban_target_def ban_argv_def)

lemma target_deny [simp]: "ban_target (AgentCall ''deny_ip'' [(''ip'', JStr ip)]) = Some ip"
  by (simp add: ban_target_def jget_default_def)

text \<open>What one execution adds: at most one successful ban, of the incident's address.\<close>

lemma execute_block_outcome:
  assumes "meth = ''crowdsec'' \<or> meth = ''ufw''" "parse_duration (now e) dur = Inr until"
  shows "\<exists>out l. execute_block e meth dur inc s = (Inr out, s\<lparr>calls := calls s @ l\<rparr>)
    \<and> (out = None \<and> ok_targets e (calls s) l = []
       \<or> (\<exists>u. out = Some u) \<and> ok_targets e (calls s) l = [inc_source_ip inc])"
proof (cases "meth = ''crowdsec''")
  case True
  let ?argv = "ban_argv (inc_source_ip inc) dur (soar_reason (inc_id inc))"
  show ?thesis
  proof (cases "call_ok e (calls s) (CscliCall ?argv)")
    case ok: True
    then obtain out where "cscli_exec e (calls s) ?argv = Inr (0, out)"
      by (auto simp: call_ok_def split: sum.splits)
    with ok True assms(2) show ?thesis
      by (intro exI [of _ "Some until"] exI [of _ "[CscliCall ?argv]"])
         (simp add: execute_block_def ban_ip_def run_cscli_def bind_def Let_def)
  next
    case False
    with True show ?thesis
      by (intro exI [of _ None] exI [of _ "[CscliCall ?argv]"])
         (auto simp: execute_block_def ban_ip_def run_cscli_def bind_def Let_def call_ok_def split: sum.splits prod.splits)
  qed
next
  case False
  then have u: "meth = ''ufw''" using assms(1) by simp
  let ?c = "AgentCall ''deny_ip'' [(''ip'', JStr (inc_source_ip inc))]"
  show ?thesis
  proof (cases "valid_ip (inc_source_ip inc)")
    case False
    with u show ?thesis by (intro exI [of _ None] exI [of _ "[]"]) (simp add: execute_block_def Let_def)
  next
    case True
    with u show ?thesis
      by (cases "call_ok e (calls s) ?c")
         (intro exI [of _ "if call_ok e (calls s) ?c then Some None else None"] exI [of _ "[?c]"];
          simp add: execute_block_def Let_def send_command_def bind_def call_ok_def)+
  qed
qed

text \<open>
  The invariant of the loop: the tables are settled, and every address banned so far belongs
  to an incident that was processed and is recorded as blocked now.
\<close>

definition recorded :: "int \<Rightarrow> nat set \<Rightarrow> string \<Rightarrow> db \<Rightarrow> bool" where
  "recorded t seen ip d \<longleftrightarrow> (\<exists>x\<in>set (incidents d). inc_source_ip x = ip \<and> inc_id x \<in> seen
     \<and> inc_blocked x \<and> inc_blocked_at x = Some t)"

lemma update_incident_constraints:
  "(\<And>x. inc_id (f x) = inc_id x) \<Longrightarrow> constraints (update_incident i f d) = constraints d"
proof -
  assume f: "\<And>x. inc_id (f x) = inc_id x"
  have "inc_id \<circ> (\<lambda>x. if inc_id x = i then f x else x) = inc_id" by (auto simp: fun_eq_iff f)
  then show ?thesis by (simp add: constraints_def update_incident_def)
qed

lemma recorded_update:
  "recorded t seen ip d \<Longrightarrow> recorded t seen ip (update_incident i (mark_blocked t meth until) d)"
proof -
  assume "recorded t seen ip d"
  then obtain x where x: "x \<in> set (incidents d)" "inc_source_ip x = ip" "inc_id x \<in> seen"
    "inc_blocked x" "inc_blocked_at x = Some t" by (auto simp: recorded_def)
  let ?y = "if inc_id x = i then mark_blocked t meth until x else x"
  have "?y \<in> set (incidents (update_incident i (mark_blocked t meth until) d))"
    using x(1) by (auto simp: update_incident_def)
  moreover have "inc_source_ip ?y = ip \<and> inc_id ?y \<in> seen \<and> inc_blocked ?y \<and> inc_blocked_at ?y = Some t"
    using x by (auto simp: mark_blocked_def)
  ultimately show ?thesis unfolding recorded_def by blast
qed

lemma recorded_audit [simp]: "recorded t seen ip (add_audit a d) = recorded t seen ip d"
  by (simp add: recorded_def add_audit_def)

lemma recorded_mono: "recorded t seen ip d \<Longrightarrow> seen \<subseteq> seen' \<Longrightarrow> recorded t seen' ip d"
  by (auto simp: recorded_def)

lemma audit_db_up:
  assumes "settled s" "db_up e"
  shows "\<exists>k. store_audit e a s = (Inr (), s\<lparr>working := add_audit a (committed s),
      committed := add_audit a (committed s), attempts := k\<rparr>)"
  using assms
  by (intro exI [of _ "Suc (attempts s)"])
     (simp add: settled_def store_audit_def bind_def catch_def update_db_def commit_def db_upD Let_def)

lemma evaluate_outcome:
  assumes "settled s" "db_up e" "meth = ''crowdsec'' \<or> meth = ''ufw''"
    "parse_duration (now e) dur = Inr until"
    "\<forall>ip\<in>set banned. recorded (now e) seen ip (committed s)" "i \<notin> seen"
  shows "\<exists>r s' l. evaluate_and_block e h meth m dur admin i s = (r, s') \<and> settled s'
    \<and> calls s' = calls s @ l
    \<and> (\<forall>ip\<in>set (banned @ ok_targets e (calls s) l). recorded (now e) (insert i seen) ip (committed s'))
    \<and> (distinct banned \<longrightarrow> distinct (banned @ ok_targets e (calls s) l))"
proof -
  have w: "working s = committed s" "constraints (committed s)" using assms(1) by (auto simp: settled_def)
  have keep: "\<forall>ip\<in>set banned. recorded (now e) (insert i seen) ip (committed s)"
    using assms(5) recorded_mono by blast
  show ?thesis
  proof (cases "\<exists>inc. find_incident i (working s) = Some inc \<and> guards_pass e h m admin (working s) inc")
    case False
    then have "\<exists>r. evaluate_and_block e h meth m dur admin i s = (r, s)"
      by (cases "find_incident i (working s)") (auto simp: evaluate_and_block_def bind_def)
    with assms(1) keep show ?thesis by (auto intro!: exI [of _ "[]"])
  next
    case True
    then obtain inc where inc: "find_incident i (working s) = Some inc"
      "guards_pass e h m admin (working s) inc" by blast
    have id: "inc_id inc = i" "inc \<in> set (incidents (committed s))"
      using find_incident_some [OF inc(1)] w(1) by auto
    have fresh: "inc_source_ip inc \<notin> set banned"
    proof
      assume "inc_source_ip inc \<in> set banned"
      then obtain x where x: "x \<in> set (incidents (committed s))" "inc_source_ip x = inc_source_ip inc"
        "inc_id x \<in> seen" "inc_blocked x" "inc_blocked_at x = Some (now e)"
        using assms(5) by (auto simp: recorded_def)
      then have "already_blocked (now e) inc (working s)"
        using id(1) assms(6) w(1)
        by (auto simp: already_blocked_def list_ex_iff SOAR_BLOCK_LOOKBACK_def hour_def intro!: bexI [of _ x])
      with inc(2) show False by (simp add: guards_pass_def Let_def)
    qed
    obtain out l where x: "execute_block e meth dur inc s = (Inr out, s\<lparr>calls := calls s @ l\<rparr>)"
      "out = None \<and> ok_targets e (calls s) l = []
       \<or> (\<exists>u. out = Some u) \<and> ok_targets e (calls s) l = [inc_source_ip inc]"
      using execute_block_outcome [OF assms(3,4), of inc s] by blast
    show ?thesis
    proof (cases out)
      case None
      then have "evaluate_and_block e h meth m dur admin i s = (Inr (), s\<lparr>calls := calls s @ l\<rparr>)"
        using inc x(1) by (simp add: evaluate_and_block_def bind_def)
      with None x(2) assms(1) keep show ?thesis by (auto simp: settled_def intro!: exI [of _ l])
    next
      case (Some u)
      let ?d = "update_incident i (mark_blocked (now e) meth u) (committed s)"
      let ?s1 = "s\<lparr>calls := calls s @ l, working := ?d, attempts := Suc (attempts s), committed := ?d\<rparr>"
      have d: "constraints ?d" using w(2) by (simp add: update_incident_constraints mark_blocked_def)
      then have "settled ?s1" by (simp add: settled_def)
      define a where "a = audit_entry e ''soc.incident.blocked'' (Some ''soc_incident'')
            (Some (inc_source_ip inc)) (Some (block_detail meth dur inc)) ''warning'' ''success'' None"
      obtain k where a: "log_audit e ''soc.incident.blocked'' (Some ''soc_incident'')
            (Some (inc_source_ip inc)) (Some (block_detail meth dur inc)) ''warning'' ''success'' None ?s1
          = (Inr (), ?s1\<lparr>working := add_audit a ?d, committed := add_audit a ?d, attempts := k\<rparr>)"
        using audit_db_up [OF \<open>settled ?s1\<close> assms(2), of a] by (auto simp: log_audit_def a_def)
      have run: "evaluate_and_block e h meth m dur admin i s =
          (Inr (), ?s1\<lparr>working := add_audit a ?d, committed := add_audit a ?d, attempts := k,
                      calls := (calls s @ l) @ [NotifyBlock i]\<rparr>)"
        using inc x(1) Some a d w(1) assms(2)
        by (simp add: evaluate_and_block_def bind_def commit_def update_db_def db_upD Let_def catch_def notify_def)
      have mine: "recorded (now e) (insert i seen) (inc_source_ip inc) ?d"
      proof -
        have "mark_blocked (now e) meth u inc \<in> set (incidents ?d)"
          using id by (force simp: update_incident_def)
        then show ?thesis unfolding recorded_def
          by (rule bexI [rotated]) (simp add: mark_blocked_def id(1))
      qed
      have "ok_targets e (calls s) (l @ [NotifyBlock i]) = [inc_source_ip inc]"
        using x(2) Some by (simp add: ok_targets_append ban_target_def)
      with run mine keep fresh d show ?thesis
        by (auto simp: settled_def recorded_update intro!: exI [of _ "l @ [NotifyBlock i]"])
    qed
  qed
qed

lemma iterate_outcome:
  assumes "db_up e" "meth = ''crowdsec'' \<or> meth = ''ufw''" "parse_duration (now e) dur = Inr until"
  shows "settled s \<Longrightarrow> distinct created \<Longrightarrow> set created \<inter> seen = {} \<Longrightarrow> distinct banned
    \<Longrightarrow> \<forall>ip\<in>set banned. recorded (now e) seen ip (committed s)
    \<Longrightarrow> \<exists>s' l. iterate (\<lambda>i. catch (evaluate_and_block e h meth m dur admin i) (\<lambda>_. rollback)) created s
          = (Inr (), s') \<and> settled s' \<and> calls s' = calls s @ l
        \<and> distinct (banned @ ok_targets e (calls s) l)"
proof (induction created arbitrary: s seen banned)
  case Nil
  then show ?case by (auto intro!: exI [of _ "[]"])
next
  case (Cons i created)
  obtain r s1 l where r: "evaluate_and_block e h meth m dur admin i s = (r, s1)" "settled s1"
    "calls s1 = calls s @ l"
    "\<forall>ip\<in>set (banned @ ok_targets e (calls s) l). recorded (now e) (insert i seen) ip (committed s1)"
    "distinct (banned @ ok_targets e (calls s) l)"
    using evaluate_outcome [OF Cons.prems(1) assms, of banned seen i h m admin] Cons.prems by auto
  have c: "catch (evaluate_and_block e h meth m dur admin i) (\<lambda>_. rollback) s = (Inr (), s1)"
    using r(1,2) by (cases r) (auto simp: catch_def rollback_def settled_def)
  have "distinct created" "set created \<inter> insert i seen = {}" using Cons.prems by auto
  from Cons.IH [OF r(2) this r(5,4)] obtain s2 l2 where s2:
    "iterate (\<lambda>i. catch (evaluate_and_block e h meth m dur admin i) (\<lambda>_. rollback)) created s1 = (Inr (), s2)"
    "settled s2" "calls s2 = calls s1 @ l2"
    "distinct ((banned @ ok_targets e (calls s) l) @ ok_targets e (calls s1) l2)"
    by blast
  with c r(3) show ?case
    by (auto simp: bind_def ok_targets_append intro!: exI [of _ "l @ l2"])
qed

lemma maybe_block_outcome:
  assumes "db_up e" "settled s" "distinct created"
    "parse_duration (now e) (soar_duration (committed s)) = Inr until"
  shows "\<exists>s' l. maybe_block_incidents e h created s = (Inr (), s') \<and> settled s' \<and> calls s' = calls s @ l
    \<and> distinct (ok_targets e (calls s) l)"
proof -
  have w: "working s = committed s" using assms(2) by (simp add: settled_def)
  let ?d = "committed s"
  let ?meth = "or_default (config_get ?d ''soc_soar_method'') ''crowdsec''"
  obtain b s1 where s1: "method_available e ?meth s = (Inr b, s1)" "asks s s1"
    "b \<longrightarrow> ?meth = ''crowdsec'' \<or> ?meth = ''ufw''"
    using available_total by blast
  obtain l where l: "s1 = s\<lparr>calls := calls s @ l\<rparr>" "ok_targets e (calls s) l = []"
    using s1(2) asks_targets by (auto simp: asks_def)
  have st: "settled s1" using assms(2) by (simp add: l settled_def)
  show ?thesis
  proof (cases "created \<noteq> [] \<and> config_get ?d ''soc_soar_enabled'' = Some ''1'' \<and> b")
    case False
    have "maybe_block_incidents e h created s = (Inr (), s) \<or> maybe_block_incidents e h created s = (Inr (), s1)"
      using False s1(1) w by (auto simp: maybe_block_incidents_def bind_def Let_def)
    then show ?thesis using assms(2) st l by (auto intro: exI [of _ "[]"])
  next
    case True
    let ?m = "or_default (config_get ?d ''soc_soar_min_severity'') ''high''"
    obtain s' l' where it: "iterate (\<lambda>i. catch (evaluate_and_block e h ?meth ?m (soar_duration ?d)
          (recent_admin_login_ips (now e) ?d) i) (\<lambda>_. rollback)) created s1 = (Inr (), s')"
        "settled s'" "calls s' = calls s1 @ l'" "distinct ([] @ ok_targets e (calls s1) l')"
      using iterate_outcome [OF assms(1) _ assms(4) st assms(3), of ?meth "{}" "[]" h ?m
          "recent_admin_login_ips (now e) ?d"] s1(3) True by auto
    have "maybe_block_incidents e h created s = (Inr (), s')"
      using True s1(1) it(1) w by (simp add: maybe_block_incidents_def bind_def Let_def l(1))
    with it l show ?thesis by (intro exI [of _ s'] exI [of _ "l @ l'"]) (simp add: ok_targets_append)
  qed
qed


section \<open>Properties\<close>


definition soar_demo_incident :: "nat \<Rightarrow> soc_incident" where
  "soar_demo_incident i = \<lparr>inc_id = i, inc_source_ip = ''8.8.4.4'', inc_domain = None, inc_window_start = 0,
     inc_window_end = 0, inc_event_count = 50, inc_score = 900, inc_severity = ''critical'',
     inc_status = ''nuevo'', inc_reviewed_by = None, inc_reviewed_at = None,
     inc_review_comment = None, inc_abuse_score = None, inc_mitre = None, inc_ml_score = None,
     inc_alerted_at = None, inc_blocked = False, inc_blocked_at = None, inc_blocked_method = None,
     inc_blocked_until = None\<rparr>"

definition soar_demo_session :: session where
  "soar_demo_session =
     (let d = empty_db\<lparr>configs := [\<lparr>cfg_key = ''soc_soar_enabled'', cfg_value = Some ''1'', cfg_encrypted = False\<rparr>,
                          \<lparr>cfg_key = ''module_ddos_enabled'', cfg_value = Some ''1'', cfg_encrypted = False\<rparr>],
            incidents := [soar_demo_incident 1, soar_demo_incident 2]\<rparr>
      in \<lparr>committed = d, working = d, attempts = 0, calls = []\<rparr>)"

definition soar_demo_env :: env where
  "soar_demo_env = quiet_env"

definition soar_demo_net :: host_net where
  "soar_demo_net = \<lparr>socket_names = [Some ''203.0.113.7'', None], resolver_names = None\<rparr>"



text \<open>
  With a working database and a duration that can be turned into a date, no address is
  successfully banned more than once in a run, even when several of the cycle's incidents
  come from it.
\<close>

theorem soar_no_double_ban:
  assumes "db_up e" "settled s" "distinct created"
    and "parse_duration (now e) (soar_duration (committed s)) = Inr until"
  shows "\<exists>s' l. maybe_block_incidents e h created s = (Inr (), s') \<and> settled s' \<and> calls s' = calls s @ l
    \<and> distinct (ok_targets e (calls s) l)"
  using assms by (rule maybe_block_outcome)

theorem soar_no_double_ban_witness:
  "ok_targets soar_demo_env [] [CscliCall (ban_argv ''8.8.4.4'' ''24h'' ''soc-incident-1''), NotifyBlock 1]
     = [''8.8.4.4'']
   \<and> settled (snd (maybe_block_incidents soar_demo_env soar_demo_net [1, 2] soar_demo_session))"
proof
  show "ok_targets soar_demo_env [] [CscliCall (ban_argv ''8.8.4.4'' ''24h'' ''soc-incident-1''), NotifyBlock 1]
     = [''8.8.4.4'']" by code_simp
  have "db_up soar_demo_env" by (simp add: db_up_def soar_demo_env_def quiet_env_def)
  moreover have "settled soar_demo_session"
    by (simp add: settled_def soar_demo_session_def constraints_def empty_db_def soar_demo_incident_def Let_def)
  moreover have "parse_duration (now soar_demo_env) (soar_duration (committed soar_demo_session)) = Inr (Some 86400000000)"
    by code_simp
  ultimately show "settled (snd (maybe_block_incidents soar_demo_env soar_demo_net [1, 2] soar_demo_session))"
    using soar_no_double_ban [of soar_demo_env soar_demo_session "[1, 2]" "Some 86400000000" soar_demo_net] by auto
qed

text \<open>
  The condition on the duration matters: a duration the pattern accepts can overflow, which
  raises after the ban was carried out and before it is recorded.
\<close>

lemma long_duration_overflows:
  "matches DURATION_RE ''1000000000s'' \<and> parse_duration 0 ''1000000000s'' = Inl OverflowError"
  by code_simp

end
