(* ===== verification/SocCycle.thy ===== *)
theory SocCycle
  imports SocAnalysis SoarSafety
begin

text \<open>
  One detection cycle, \<open>run_detection_cycle\<close> of \<^verbatim>\<open>app/soc/services.py\<close>: the candidates of the
  window become new incidents or refresh the open one of their address, new ones are enriched,
  analysed, notified and, by the SOAR engine, blocked.  The anomaly score of the machine
  learning model is an argument; notifying is a call to the outside.
\<close>

definition MAX_LLM_ANALYSES_PER_CYCLE :: nat where "MAX_LLM_ANALYSES_PER_CYCLE = 5"
definition MAX_ENRICH_PER_CYCLE :: nat where "MAX_ENRICH_PER_CYCLE = 25"
definition DEDUPE_LOOKBACK :: int where "DEDUPE_LOOKBACK = hour"
definition minute :: int where "minute = 60000000"

definition SEVERITY_LADDER :: "string list" where
  "SEVERITY_LADDER = [''low'', ''medium'', ''high'', ''critical'']"

fun index_of :: "'a list \<Rightarrow> 'a \<Rightarrow> nat option" where
  "index_of [] x = None"
| "index_of (y # ys) x = (if y = x then Some 0 else map_option Suc (index_of ys x))"

definition bump_severity :: "string \<Rightarrow> string" where
  "bump_severity severity =
     (let idx = (case index_of SEVERITY_LADDER severity of None \<Rightarrow> 1 | Some i \<Rightarrow> i)
      in SEVERITY_LADDER ! min (idx + 1) (length SEVERITY_LADDER - 1))"

section \<open>One candidate\<close>

text \<open>\<open>order_by(window_end.desc()).first()\<close>.\<close>

fun latest :: "soc_incident list \<Rightarrow> soc_incident option" where
  "latest [] = None"
| "latest (x # xs) = (case latest xs of None \<Rightarrow> Some x
     | Some y \<Rightarrow> if inc_window_end x < inc_window_end y then Some y else Some x)"

definition is_open :: "int \<Rightarrow> string \<Rightarrow> soc_incident \<Rightarrow> bool" where
  "is_open now_utc ip x \<longleftrightarrow> inc_source_ip x = ip \<and> inc_status x = ''nuevo'' \<and> now_utc - DEDUPE_LOOKBACK \<le> inc_window_end x"

definition open_incident :: "int \<Rightarrow> string \<Rightarrow> db \<Rightarrow> soc_incident option" where
  "open_incident now_utc ip d = latest (filter (is_open now_utc ip) (incidents d))"

definition refresh_incident :: "int \<Rightarrow> candidate \<Rightarrow> int \<Rightarrow> int option \<Rightarrow> string \<Rightarrow> soc_incident \<Rightarrow> soc_incident" where
  "refresh_incident now_utc cand score ml_score severity x =
     x\<lparr>inc_window_end := now_utc,
       inc_event_count := max (inc_event_count x) (cand_event_count cand),
       inc_score := max (inc_score x) score,
       inc_severity := (if sev_rank (inc_severity x) 1 < sev_rank severity 1 then severity else inc_severity x),
       inc_ml_score := (case ml_score of None \<Rightarrow> inc_ml_score x
          | Some m \<Rightarrow> Some (max (case inc_ml_score x of None \<Rightarrow> 0 | Some v \<Rightarrow> v) m))\<rparr>"

text \<open>
  The confidence in a reputation answer.  The service documents an integer; a float is stored
  as its whole part, which decides the threshold as well.
\<close>

definition abuse_confidence :: "json \<Rightarrow> py_exn + int option" where
  "abuse_confidence abuse = (case abuse of
      JObj info \<Rightarrow> (case jget_default ''abuseConfidenceScore'' JNull info of
          JNull \<Rightarrow> Inr None
        | JInt i \<Rightarrow> Inr (Some i)
        | JBool b \<Rightarrow> Inr (Some (if b then 1 else 0))
        | JFloat r \<Rightarrow> (case float_trunc r of None \<Rightarrow> Inl SQLAlchemyError | Some i \<Rightarrow> Inr (Some i))
        | _ \<Rightarrow> Inl TypeError)
    | _ \<Rightarrow> if jtruthy abuse then Inl AttributeError else Inr None)"

definition new_incident ::
    "int \<Rightarrow> int \<Rightarrow> candidate \<Rightarrow> int \<Rightarrow> int option \<Rightarrow> string \<Rightarrow> json \<Rightarrow> int option \<Rightarrow> nat \<Rightarrow> soc_incident" where
  "new_incident window_start now_utc cand score ml_score severity mitre abuse i =
     \<lparr>inc_id = i, inc_source_ip = cand_source_ip cand, inc_domain = cand_domain cand,
      inc_window_start = window_start, inc_window_end = now_utc, inc_event_count = cand_event_count cand,
      inc_score = score,
      inc_severity = (case abuse of None \<Rightarrow> severity | Some a \<Rightarrow> if 75 \<le> a then bump_severity severity else severity),
      inc_status = ''nuevo'', inc_reviewed_by = None, inc_reviewed_at = None, inc_review_comment = None,
      inc_abuse_score = abuse, inc_mitre = Some mitre, inc_ml_score = ml_score, inc_alerted_at = None,
      inc_blocked = False, inc_blocked_at = None, inc_blocked_method = None, inc_blocked_until = None\<rparr>"

definition add_incident :: "soc_incident \<Rightarrow> db \<Rightarrow> db" where
  "add_incident x d = d\<lparr>incidents := incidents d @ [x]\<rparr>"

definition created_detail :: "soc_incident \<Rightarrow> (string \<times> json) list" where
  "created_detail x =
     [(''score'', tenths_json (inc_score x)), (''events'', JInt (int (inc_event_count x))),
      (''severity'', JStr (inc_severity x)),
      (''domain'', case inc_domain x of None \<Rightarrow> JNull | Some t \<Rightarrow> JStr t)]"

text \<open>The accumulator: the incidents created so far and the number of reputation queries.\<close>

definition store_incident ::
    "env \<Rightarrow> (nat \<Rightarrow> soc_incident) \<Rightarrow> nat sess_op" where
  "store_incident e build =
     bind (fetch (\<lambda>s. build (fresh_id (map inc_id (incidents (working s)))))) (\<lambda>x.
     bind (update_db (add_incident x)) (\<lambda>_.
     bind (commit e) (\<lambda>_.
     bind (log_audit e ''soc.incident.created'' (Some ''soc_incident'') (Some (inc_source_ip x))
             (Some (created_detail x))
             (if inc_severity x \<in> {''high'', ''critical''} then ''warning'' else ''info'') ''success'' None) (\<lambda>_.
     ret (inc_id x)))))"

definition enrich_candidate :: "env \<Rightarrow> candidate \<Rightarrow> bool \<Rightarrow> (json \<times> int option) sess_op" where
  "enrich_candidate e cand query =
     bind (fetch (\<lambda>s. mitre_json (map_mitre (cand_categories cand) (working s)))) (\<lambda>mitre.
     bind (if query then get_abuse_info e (cand_source_ip cand) else ret JNull) (\<lambda>info.
     bind (lift (abuse_confidence info)) (\<lambda>abuse.
     ret (mitre, abuse))))"

definition create_incident ::
    "env \<Rightarrow> (json \<Rightarrow> int option \<Rightarrow> nat \<Rightarrow> soc_incident) \<Rightarrow> candidate \<Rightarrow> nat list \<times> nat \<Rightarrow> (nat list \<times> nat) sess_op" where
  "create_incident e build cand = (\<lambda>(created, enriched).
     bind (enrich_candidate e cand (enriched < MAX_ENRICH_PER_CYCLE)) (\<lambda>(mitre, abuse).
     bind (store_incident e (build mitre abuse)) (\<lambda>i.
     ret (created @ [i], if enriched < MAX_ENRICH_PER_CYCLE then Suc enriched else enriched))))"

definition process_candidate ::
    "env \<Rightarrow> (candidate \<Rightarrow> int option) \<Rightarrow> int \<Rightarrow> int \<times> int \<times> int \<Rightarrow> candidate \<Rightarrow> nat list \<times> nat \<Rightarrow> (nat list \<times> nat) sess_op" where
  "process_candidate e ml window_start thresholds cand acc =
     (let score = score_candidate cand;
          ml_score = ml cand;
          blended = max score (case ml_score of None \<Rightarrow> 0 | Some m \<Rightarrow> m);
          severity = severity_for_score blended thresholds
      in bind (fetch (\<lambda>s. open_incident (now e) (cand_source_ip cand) (working s))) (\<lambda>found. case found of
           Some x \<Rightarrow>
             bind (bind (update_db (update_incident (inc_id x) (refresh_incident (now e) cand score ml_score severity)))
               (\<lambda>_. commit e)) (\<lambda>_. ret acc)
         | None \<Rightarrow>
             create_incident e (new_incident window_start (now e) cand score ml_score severity) cand acc))"

section \<open>The cycle\<close>

definition detect_incidents :: "env \<Rightarrow> (candidate \<Rightarrow> int option) \<Rightarrow> nat list sess_op" where
  "detect_incidents e ml =
     bind (fetch working) (\<lambda>d.
       let window_start = now e - config_int d ''soc_window_minutes'' DEFAULT_WINDOW_MINUTES * minute;
           threshold = config_int d ''soc_threshold_events'' DEFAULT_THRESHOLD_EVENTS;
           ml' = (if config_get d ''soc_ml_enabled'' = Some ''1'' then ml else (\<lambda>_. None))
       in if \<not> in_time_range window_start then raise OverflowError
          else bind (fold_op (process_candidate e ml' window_start (resolve_severity_thresholds d))
                      (find_candidates (events d) window_start (now e) threshold) ([], 0)) (\<lambda>acc. ret (fst acc)))"

definition severity_of :: "db \<Rightarrow> nat \<Rightarrow> int" where
  "severity_of d i = (case find_incident i d of None \<Rightarrow> 0 | Some x \<Rightarrow> sev_rank (inc_severity x) 0)"

definition analyze_one :: "env \<Rightarrow> nat \<Rightarrow> unit sess_op" where
  "analyze_one e i =
     catch (bind (fetch (\<lambda>s. find_incident i (working s))) (\<lambda>found. case found of
              None \<Rightarrow> raise SQLAlchemyError
            | Some x \<Rightarrow> bind (analyze_incident e False ''auto'' None x) (\<lambda>_. ret ())))
           (\<lambda>_. rollback)"

definition analyze_new_incidents :: "env \<Rightarrow> nat list \<Rightarrow> unit sess_op" where
  "analyze_new_incidents e created =
     bind (fetch working) (\<lambda>d.
       iterate (analyze_one e) (take MAX_LLM_ANALYSES_PER_CYCLE (sort_key (\<lambda>i. - severity_of d i) created)))"

definition run_detection_cycle :: "env \<Rightarrow> host_net \<Rightarrow> (candidate \<Rightarrow> int option) \<Rightarrow> nat sess_op" where
  "run_detection_cycle e h ml =
     bind (detect_incidents e ml) (\<lambda>created.
     bind (analyze_new_incidents e created) (\<lambda>_.
     bind (catch (notify e (NotifyIncidents created)) (\<lambda>_. rollback)) (\<lambda>_.
     bind (catch (maybe_block_incidents e h created) (\<lambda>_. rollback)) (\<lambda>_.
     ret (length created)))))"

end
