(* ===== verification/SocEnrichProps.thy ===== *)
theory SocEnrichProps
  imports SocEnrich
begin

text \<open>
  What the synchronisation of the technique table and the reputation cache guarantee: the
  table refines a map from identifiers to techniques, a failure leaves whole batches, and
  only public addresses leave the program, once per time to live.
\<close>

section \<open>The table as a map\<close>

text \<open>The abstract table, and the abstract synchronisation.\<close>

definition technique_map :: "db \<Rightarrow> string \<Rightarrow> mitre_technique option" where
  "technique_map d k = find_technique k d"

definition sync_map :: "int \<Rightarrow> extracted list \<Rightarrow> (string \<Rightarrow> mitre_technique option) \<Rightarrow> (string \<Rightarrow> mitre_technique option)" where
  "sync_map now_utc xs m = fold (\<lambda>x m. m(ex_technique_id x \<mapsto> technique_row now_utc x)) xs m"

definition upserts :: "int \<Rightarrow> extracted list \<Rightarrow> db \<Rightarrow> db" where
  "upserts now_utc xs d = fold (upsert_technique now_utc) xs d"

lemma find_put_technique:
  "find (\<lambda>r. mt_technique_id r = k) (put_technique t rs)
     = (if k = mt_technique_id t then Some t else find (\<lambda>r. mt_technique_id r = k) rs)"
  by (induction rs) auto

lemma technique_map_upsert:
  "technique_map (upsert_technique t x d) = (technique_map d)(ex_technique_id x \<mapsto> technique_row t x)"
  by (rule ext) (simp add: technique_map_def find_technique_def upsert_technique_def find_put_technique
      technique_row_def)

lemma technique_map_upserts: "technique_map (upserts t xs d) = sync_map t xs (technique_map d)"
  unfolding upserts_def sync_map_def by (induction xs arbitrary: d) (simp_all add: technique_map_upsert)

lemma put_technique_ids:
  "set (map mt_technique_id (put_technique t rs)) = insert (mt_technique_id t) (set (map mt_technique_id rs))"
  by (induction rs) auto

lemma put_technique_distinct:
  "distinct (map mt_technique_id rs) \<Longrightarrow> distinct (map mt_technique_id (put_technique t rs))"
proof (induction rs)
  case (Cons r rs)
  then show ?case using put_technique_ids [of t rs] by auto
qed simp

lemma upsert_constraints: "constraints d \<Longrightarrow> constraints (upsert_technique t x d)"
  by (simp add: constraints_def upsert_technique_def put_technique_distinct)

lemma upserts_constraints: "constraints d \<Longrightarrow> constraints (upserts t xs d)"
  unfolding upserts_def by (induction xs arbitrary: d) (simp_all add: upsert_constraints)

lemma upserts_simps [simp]: "upserts t [] d = d" "upserts t (x # xs) d = upserts t xs (upsert_technique t x d)"
  "upserts t (xs @ ys) d = upserts t ys (upserts t xs d)"
  by (simp_all add: upserts_def)

section \<open>Batches\<close>

definition extract_object :: "json \<Rightarrow> py_exn + extracted option" where
  "extract_object obj = (case obj of
      JObj d \<Rightarrow> if jget ''type'' d \<noteq> Some (JStr ''attack-pattern'') then Inr None else extract_technique d
    | _ \<Rightarrow> Inr None)"

text \<open>What is extracted before the first object that raises.\<close>

fun extracts :: "json list \<Rightarrow> extracted list" where
  "extracts [] = []"
| "extracts (obj # objs) = (case extract_object obj of
      Inl x \<Rightarrow> []
    | Inr None \<Rightarrow> extracts objs
    | Inr (Some t) \<Rightarrow> t # extracts objs)"

lemma collect_extracts: "collect extract_object objs = Inr xs \<Longrightarrow> extracts objs = xs"
  by (induction objs arbitrary: xs) (auto simp: rbind_eq_Inr split: sum.splits option.splits)

fun batched :: "int \<Rightarrow> nat \<Rightarrow> extracted list \<Rightarrow> db \<Rightarrow> db \<Rightarrow> db" where
  "batched t n [] w c = c"
| "batched t n (x # xs) w c =
     (let w' = upsert_technique t x w
      in batched t (Suc n) xs w' (if Suc n mod BATCH_SIZE = 0 then w' else c))"

lemma batched_snoc:
  "batched t n (xs @ [x]) w c =
     (if Suc (n + length xs) mod BATCH_SIZE = 0 then upserts t (xs @ [x]) w else batched t n xs w c)"
  by (induction t n xs w c rule: batched.induct) (simp_all add: Let_def)

lemma batched_whole: "batched t 0 xs w w = upserts t (take (BATCH_SIZE * (length xs div BATCH_SIZE)) xs) w"
proof (induction xs rule: rev_induct)
  case (snoc x xs)
  let ?l = "length xs"
  show ?case
  proof (cases "Suc ?l mod BATCH_SIZE = 0")
    case True
    then have "BATCH_SIZE * (Suc ?l div BATCH_SIZE) = Suc ?l" by (metis mult_div_mod_eq add.right_neutral)
    with True show ?thesis by (simp add: batched_snoc)
  next
    case False
    then have "Suc ?l div BATCH_SIZE = ?l div BATCH_SIZE" by (simp add: div_Suc)
    moreover have "BATCH_SIZE * (?l div BATCH_SIZE) \<le> ?l" by simp
    ultimately show ?thesis using False snoc.IH by (simp add: batched_snoc)
  qed
qed simp

lemma sync_object_step:
  assumes "\<And>k. \<not> commit_fails e k" "constraints (working s)"
  shows "\<exists>k. sync_object e obj n s = (case extract_object obj of
      Inl x \<Rightarrow> (Inl x, s)
    | Inr None \<Rightarrow> (Inr n, s)
    | Inr (Some t) \<Rightarrow> (Inr (Suc n), s\<lparr>working := upsert_technique (now e) t (working s), attempts := k,
        committed := (if Suc n mod BATCH_SIZE = 0 then upsert_technique (now e) t (working s) else committed s)\<rparr>))"
proof (cases "extract_object obj")
  case (Inl x)
  then show ?thesis
    by (auto simp: sync_object_def extract_object_def bind_def lift_def split: json.splits if_splits)
next
  case (Inr y)
  then show ?thesis
  proof (cases y)
    case None
    with Inr show ?thesis
      by (auto simp: sync_object_def extract_object_def bind_def lift_def split: json.splits if_splits)
  next
    case (Some t)
    with Inr obtain d where d: "obj = JObj d" "jget ''type'' d = Some (JStr ''attack-pattern'')"
      "extract_technique d = Inr (Some t)"
      by (auto simp: extract_object_def split: json.splits if_splits)
    have "sync_object e obj n s = (Inr (Suc n), s\<lparr>working := upsert_technique (now e) t (working s),
        attempts := (if Suc n mod BATCH_SIZE = 0 then Suc (attempts s) else attempts s),
        committed := (if Suc n mod BATCH_SIZE = 0 then upsert_technique (now e) t (working s) else committed s)\<rparr>)"
      using d assms upsert_constraints [OF assms(2)]
      by (simp add: sync_object_def bind_def lift_def update_db_def commit_def Let_def)
    with Inr Some show ?thesis
      by (intro exI [of _ "if Suc n mod BATCH_SIZE = 0 then Suc (attempts s) else attempts s"]) simp
  qed
qed

lemma sync_objects_run:
  assumes "\<And>k. \<not> commit_fails e k" "constraints (working s)"
  shows "\<exists>k. fold_op (sync_object e) objs n s =
     (map_sum id (\<lambda>xs. n + length xs) (collect extract_object objs),
      s\<lparr>working := upserts (now e) (extracts objs) (working s), attempts := k,
        committed := batched (now e) n (extracts objs) (working s) (committed s)\<rparr>)"
  using assms(2)
proof (induction objs arbitrary: n s)
  case Nil
  show ?case by (rule exI [of _ "attempts s"]) simp
next
  case (Cons obj objs)
  show ?case
  proof (cases "extract_object obj")
    case (Inl x)
    with sync_object_step [OF assms(1) Cons.prems, of obj n] show ?thesis
      by (auto simp: bind_def intro!: exI [of _ "attempts s"])
  next
    case (Inr y)
    show ?thesis
    proof (cases y)
      case None
      with Inr sync_object_step [OF assms(1) Cons.prems, of obj n] Cons.IH [OF Cons.prems, of n]
      show ?thesis by (cases "collect extract_object objs") (auto simp: bind_def)
    next
      case (Some t)
      with Inr sync_object_step [OF assms(1) Cons.prems, of obj n] obtain j where
        st: "sync_object e obj n s = (Inr (Suc n), s\<lparr>working := upsert_technique (now e) t (working s), attempts := j,
          committed := (if Suc n mod BATCH_SIZE = 0 then upsert_technique (now e) t (working s) else committed s)\<rparr>)"
        by auto
      let ?s = "s\<lparr>working := upsert_technique (now e) t (working s), attempts := j,
          committed := (if Suc n mod BATCH_SIZE = 0 then upsert_technique (now e) t (working s) else committed s)\<rparr>"
      have "constraints (working ?s)" using upsert_constraints [OF Cons.prems] by simp
      from Cons.IH [OF this, of "Suc n"] st Inr Some show ?thesis
        by (cases "collect extract_object objs") (auto simp: bind_def Let_def)
    qed
  qed
qed

text \<open>The whole synchronisation, when the document has a list of objects.\<close>

lemma download_cti_inr: "\<exists>r. download_cti e s = (Inr r, s\<lparr>calls := calls s @ [HttpGet CTI_URL []]\<rparr>)"
  by (simp add: download_cti_def)

lemma sync_run:
  assumes "db_up e" "settled s" "force \<or> \<not> is_fresh (now e) (working s)"
    and "download_cti e s = (Inr (Inr (JObj doc)), s1)" "jget_default ''objects'' JNull doc = JList objs"
  shows "\<exists>s'. sync_mitre_attack e force s =
      ((case collect extract_object objs of Inl x \<Rightarrow> Inr (PersistenceFailed x) | Inr xs \<Rightarrow> Inr (Synced (length xs))), s')
    \<and> settled s'
    \<and> committed s' = upserts (now e)
        (case collect extract_object objs of
           Inl x \<Rightarrow> take (BATCH_SIZE * (length (extracts objs) div BATCH_SIZE)) (extracts objs)
         | Inr xs \<Rightarrow> xs) (committed s)"
proof -
  have up: "\<And>k. \<not> commit_fails e k" using db_upD [OF assms(1)] .
  have s1: "s1 = s\<lparr>calls := calls s @ [HttpGet CTI_URL []]\<rparr>" using assms(4) by (simp add: download_cti_def)
  with assms(2) have w: "working s1 = committed s" "committed s1 = committed s" "constraints (committed s)"
    by (simp_all add: settled_def)
  then have "constraints (working s1)" by simp
  from sync_objects_run [OF up this, of objs 0] obtain k where run: "fold_op (sync_object e) objs 0 s1 =
     (map_sum id length (collect extract_object objs),
      s1\<lparr>working := upserts (now e) (extracts objs) (committed s), attempts := k,
        committed := batched (now e) 0 (extracts objs) (committed s) (committed s)\<rparr>)" using w by auto
  have "constraints (upserts (now e) xs (committed s))" for xs by (rule upserts_constraints [OF w(3)])
  with run up assms(3-5) show ?thesis
    by (cases "collect extract_object objs")
       (auto simp: sync_mitre_attack_def bind_def catch_def rollback_def commit_def Let_def settled_def
          batched_whole collect_extracts)
qed

section \<open>The reputation cache\<close>

lemma find_put_intel:
  "find (\<lambda>r. ti_ip r = ip) (put_intel t rs) = (if ti_ip t = ip then Some t else find (\<lambda>r. ti_ip r = ip) rs)"
  by (induction rs) auto

lemma put_intel_ips: "set (map ti_ip (put_intel t rs)) = insert (ti_ip t) (set (map ti_ip rs))"
  by (induction rs) auto

lemma put_intel_distinct: "distinct (map ti_ip rs) \<Longrightarrow> distinct (map ti_ip (put_intel t rs))"
proof (induction rs)
  case (Cons r rs)
  then show ?case using put_intel_ips [of t rs] by auto
qed simp

lemma cache_put_constraints: "constraints d \<Longrightarrow> constraints (cache_put ip p t d)"
  by (simp add: constraints_def cache_put_def put_intel_distinct)

lemma cache_lookup_put:
  assumes "json_loads e p = Inr j" "in_time_range (now e - cache_ttl d * hour)" "0 \<le> cache_ttl d"
  shows "cache_lookup e ip (cache_put ip p (now e) d) = Inr (j, True)"
proof -
  have "cache_ttl (cache_put ip p (now e) d) = cache_ttl d"
    by (simp add: cache_ttl_def cache_put_def config_get_def)
  moreover have "now e - cache_ttl d * hour \<le> now e" using assms(3) by (simp add: hour_def)
  ultimately show ?thesis using assms(1,2)
    by (simp add: cache_lookup_def find_intel_def cache_put_def find_put_intel Let_def)
qed

lemma abuse_api_key_state [simp]: "snd (abuse_api_key e s) = s"
proof -
  obtain r where "get_secret e ''soc_abuseipdb_api_key'' s = (r, s)"
    using get_secret_state [of e "''soc_abuseipdb_api_key''" s] by (metis prod.collapse)
  then show ?thesis by (cases r) (auto simp: abuse_api_key_def catch_def)
qed

lemma store_intel_calls [simp]: "calls (snd (store_intel e ip j s)) = calls s"
  by (cases rule: commit_cases [of e "snd (update_db (cache_put ip (json_dumps e j) (now e)) s)"])
     (simp_all add: store_intel_def bind_def update_db_def)

definition asks_once :: "string \<Rightarrow> session \<Rightarrow> session \<Rightarrow> bool" where
  "asks_once ip s s' \<longleftrightarrow> calls s' = calls s \<or> calls s' = calls s @ [HttpGet ABUSEIPDB_URL ip]"

lemma abuse_asks_once: "asks_once ip s (snd (get_abuse_info e ip s))"
proof -
  obtain r where "abuse_api_key e s = (r, s)" by (metis abuse_api_key_state prod.collapse)
  then show ?thesis
    by (cases r)
       (auto simp: asks_once_def get_abuse_info_def bind_def lift_def query_abuse_def
          split: prod.splits sum.splits option.splits json.splits)
qed

section \<open>Properties\<close>

text \<open>
  C32: With a working database, a synchronisation updates the map from identifiers to
  techniques by exactly the techniques extracted from the download, the later one winning;
  when an object cannot be read, exactly the whole batches of fifty before it are kept, and
  nothing is left pending.
\<close>

theorem sync_refines_map:
  assumes "db_up e" "settled s" "force \<or> \<not> is_fresh (now e) (working s)"
    and "download_cti e s = (Inr (Inr (JObj doc)), s1)" "jget_default ''objects'' JNull doc = JList objs"
  shows "\<exists>s'. sync_mitre_attack e force s =
      ((case collect extract_object objs of Inl x \<Rightarrow> Inr (PersistenceFailed x) | Inr xs \<Rightarrow> Inr (Synced (length xs))), s')
    \<and> settled s'
    \<and> technique_map (committed s') = sync_map (now e)
        (case collect extract_object objs of
           Inl x \<Rightarrow> take (BATCH_SIZE * (length (extracts objs) div BATCH_SIZE)) (extracts objs)
         | Inr xs \<Rightarrow> xs) (technique_map (committed s))"
  using sync_run [OF assms] by (metis technique_map_upserts)

definition mitre_demo_object :: json where
  "mitre_demo_object = JObj [(''type'', JStr ''attack-pattern''), (''name'', JStr '' Brute Force ''),
     (''external_references'', JList [JObj [(''source_name'', JStr ''mitre-attack''),
        (''external_id'', JStr ''T1110'')]]),
     (''kill_chain_phases'', JList [JObj [(''phase_name'', JStr ''credential-access'')]])]"

definition mitre_demo_env :: env where
  "mitre_demo_env = quiet_env\<lparr>http_reply := (\<lambda>hist url query. Inr [''{'', ''..}'']),
     json_loads := (\<lambda>t. Inr (JObj [(''objects'', JList [JNull, mitre_demo_object])]))\<rparr>"

theorem sync_refines_map_witness:
  "technique_map (committed (snd (sync_mitre_attack mitre_demo_env False (fresh_session empty_db)))) ''T1110''
     = Some \<lparr>mt_technique_id = ''T1110'', mt_name = ''Brute Force'', mt_tactic = Some ''credential-access'',
         mt_is_subtechnique = False, mt_synced_at = 0\<rparr>"
proof -
  have "db_up mitre_demo_env" by (simp add: db_up_def mitre_demo_env_def quiet_env_def)
  moreover have "settled (fresh_session empty_db)" by (simp add: settled_def fresh_session_def)
  moreover have "False \<or> \<not> is_fresh (now mitre_demo_env) (working (fresh_session empty_db))"
    by (simp add: is_fresh_def fresh_session_def empty_db_def)
  moreover have "download_cti mitre_demo_env (fresh_session empty_db)
     = (Inr (Inr (JObj [(''objects'', JList [JNull, mitre_demo_object])])),
        fresh_session empty_db\<lparr>calls := [HttpGet CTI_URL []]\<rparr>)"
    by (simp add: download_cti_def mitre_demo_env_def quiet_env_def fresh_session_def MAX_CTI_BYTES_def)
  moreover have "jget_default ''objects'' JNull [(''objects'', JList [JNull, mitre_demo_object])] = JList [JNull, mitre_demo_object]"
    by code_simp
  moreover have "collect extract_object [JNull, mitre_demo_object] = Inr [\<lparr>ex_technique_id = ''T1110'',
      ex_name = ''Brute Force'', ex_tactic = ''credential-access'', ex_is_subtechnique = False\<rparr>]"
    by code_simp
  ultimately show ?thesis
    using sync_refines_map [of mitre_demo_env "fresh_session empty_db" False]
    by (force simp: sync_map_def technique_row_def mitre_demo_env_def quiet_env_def)
qed

text \<open>
  A reputation query goes out at most once and only for a public address, whatever the
  event log holds; and once an answer was stored, asking again within its time to live gives
  the same answer without another query.
\<close>

theorem abuse_cached:
  assumes "db_up e" "settled s" "query_abuse e ip s = (Inr (Some (JObj data)), s1)"
    and "json_loads e (json_dumps e (JObj (abuse_subset data))) = Inr (JObj (abuse_subset data))"
    and "in_time_range (now e - cache_ttl (working s) * hour)" "0 \<le> cache_ttl (working s)"
  shows "(calls (snd (get_abuse_info e' ip' s')) = calls s'
       \<or> (is_public_ip ip' \<and> calls (snd (get_abuse_info e' ip' s')) = calls s' @ [HttpGet ABUSEIPDB_URL ip']))
    \<and> (case get_abuse_info e ip s of (r, s'') \<Rightarrow>
         calls s'' = calls s
         \<or> (r = Inr (JObj (abuse_subset data)) \<and> settled s'' \<and> get_abuse_info e ip s'' = (r, s'')))"
proof
  show "calls (snd (get_abuse_info e' ip' s')) = calls s'
       \<or> (is_public_ip ip' \<and> calls (snd (get_abuse_info e' ip' s')) = calls s' @ [HttpGet ABUSEIPDB_URL ip'])"
    using abuse_asks_once [of ip' s' e']
    by (cases "is_public_ip ip'") (auto simp: asks_once_def get_abuse_info_def)
next
  have up: "\<not> commit_fails e k" for k using db_upD [OF assms(1)] .
  obtain key where key: "abuse_api_key e s = (key, s)" by (metis abuse_api_key_state prod.collapse)
  have s1: "s1 = s\<lparr>calls := calls s @ [HttpGet ABUSEIPDB_URL ip]\<rparr>" using assms(3) by (simp add: query_abuse_def)
  let ?sub = "JObj (abuse_subset data)"
  let ?d = "cache_put ip (json_dumps e ?sub) (now e) (working s)"
  have c: "constraints ?d" using cache_put_constraints assms(2) by (simp add: settled_def)
  have l: "cache_lookup e ip ?d = Inr (?sub, True)" using cache_lookup_put [OF assms(4-6)] .
  show "case get_abuse_info e ip s of (r, s'') \<Rightarrow>
         calls s'' = calls s
         \<or> (r = Inr (JObj (abuse_subset data)) \<and> settled s'' \<and> get_abuse_info e ip s'' = (r, s''))"
    using assms(3) s1 key up c l
    by (cases key; cases "cache_lookup e ip (working s)")
       (auto simp: get_abuse_info_def store_intel_def bind_def lift_def update_db_def commit_def settled_def Let_def
          split: prod.splits)
qed

definition abuse_demo_env :: env where
  "abuse_demo_env = quiet_env\<lparr>http_reply := (\<lambda>hist url query. Inr [''body'']), json_dumps := (\<lambda>j. ''dumped''),
     json_loads := (\<lambda>t. if t = ''body'' then Inr (JObj [(''data'', JObj [(''abuseConfidenceScore'', JInt 80)])])
                       else Inr (JObj (abuse_subset [(''abuseConfidenceScore'', JInt 80)])))\<rparr>"

definition abuse_demo_session :: session where
  "abuse_demo_session = fresh_session (empty_db\<lparr>configs :=
     [\<lparr>cfg_key = ''soc_abuseipdb_api_key'', cfg_value = Some ''k'', cfg_encrypted = False\<rparr>]\<rparr>)"

theorem abuse_cached_witness:
  "case get_abuse_info abuse_demo_env ''8.8.8.8'' abuse_demo_session of (r, s) \<Rightarrow>
     calls s = [HttpGet ABUSEIPDB_URL ''8.8.8.8''] \<and> get_abuse_info abuse_demo_env ''8.8.8.8'' s = (r, s)"
proof -
  have s: "settled abuse_demo_session" "calls abuse_demo_session = []"
    by (simp_all add: settled_def abuse_demo_session_def fresh_session_def constraints_def empty_db_def)
  have up: "db_up abuse_demo_env" by (simp add: db_up_def abuse_demo_env_def quiet_env_def)
  have q: "query_abuse abuse_demo_env ''8.8.8.8'' abuse_demo_session
     = (Inr (Some (JObj [(''abuseConfidenceScore'', JInt 80)])),
        abuse_demo_session\<lparr>calls := [HttpGet ABUSEIPDB_URL ''8.8.8.8'']\<rparr>)"
    using s by (simp add: query_abuse_def abuse_demo_env_def quiet_env_def MAX_ABUSE_RESPONSE_BYTES_def jget_default_def jget_def)
  have j: "json_loads abuse_demo_env (json_dumps abuse_demo_env (JObj (abuse_subset [(''abuseConfidenceScore'', JInt 80)])))
     = Inr (JObj (abuse_subset [(''abuseConfidenceScore'', JInt 80)]))"
    by (simp add: abuse_demo_env_def quiet_env_def)
  have t: "cache_ttl (working abuse_demo_session) = 24" "now abuse_demo_env = 0" by code_simp+
  then have r: "in_time_range (now abuse_demo_env - cache_ttl (working abuse_demo_session) * hour)"
    "0 \<le> cache_ttl (working abuse_demo_session)" by (simp_all, code_simp)
  have "calls (snd (get_abuse_info abuse_demo_env ''8.8.8.8'' abuse_demo_session)) = [HttpGet ABUSEIPDB_URL ''8.8.8.8'']"
    by code_simp
  with abuse_cached [OF up s(1) q j r, of abuse_demo_env "''8.8.8.8''" abuse_demo_session] s(2)
  show ?thesis by (auto split: prod.splits)
qed

end
