(* ===== verification/SocCycleProps.thy ===== *)
theory SocCycleProps
  imports SocCycle SocEnrichProps
begin

text \<open>
  What a detection cycle guarantees, whatever fails in it: incidents are only added or
  advanced, an address never has more open incidents than before or one, every candidate of
  a completed cycle is covered by an open incident, and the services outside are asked a
  bounded number of times.
\<close>

section \<open>How incidents may change\<close>

text \<open>
  From one state of an incident to a later one, within the cycle at time \<open>t\<close>.
\<close>

definition advances :: "int \<Rightarrow> soc_incident \<Rightarrow> soc_incident \<Rightarrow> bool" where
  "advances t x y \<longleftrightarrow> inc_id y = inc_id x \<and> inc_source_ip y = inc_source_ip x \<and> inc_domain y = inc_domain x
     \<and> inc_window_start y = inc_window_start x \<and> inc_status y = inc_status x
     \<and> inc_event_count x \<le> inc_event_count y \<and> inc_score x \<le> inc_score y
     \<and> sev_rank (inc_severity x) 1 \<le> sev_rank (inc_severity y) 1
     \<and> (inc_blocked x \<longrightarrow> inc_blocked y)
     \<and> (inc_window_end y = inc_window_end x
        \<or> (t - DEDUPE_LOOKBACK \<le> inc_window_end x \<and> inc_status x = ''nuevo'' \<and> inc_window_end y = t))"

text \<open>No new incidents; and with new ones.\<close>

definition cycle_moves :: "int \<Rightarrow> db \<Rightarrow> db \<Rightarrow> bool" where
  "cycle_moves t d d' \<longleftrightarrow>
     (\<exists>upd. incidents d' = map upd (incidents d) \<and> (\<forall>x. advances t x (upd x)))
     \<and> events d' = events d \<and> configs d' = configs d \<and> (\<exists>l. audits d' = audits d @ l)"

definition cycle_grows :: "int \<Rightarrow> db \<Rightarrow> db \<Rightarrow> bool" where
  "cycle_grows t d d' \<longleftrightarrow>
     (\<exists>upd new. incidents d' = map upd (incidents d) @ new \<and> (\<forall>x. advances t x (upd x)))
     \<and> events d' = events d \<and> configs d' = configs d \<and> (\<exists>l. audits d' = audits d @ l)"

text \<open>How many incidents of an address are open.\<close>

definition open_count :: "int \<Rightarrow> string \<Rightarrow> db \<Rightarrow> nat" where
  "open_count t ip d = length (filter (is_open t ip) (incidents d))"

definition cycle_rel :: "int \<Rightarrow> db \<Rightarrow> db \<Rightarrow> bool" where
  "cycle_rel t d d' \<longleftrightarrow> cycle_grows t d d' \<and> (\<forall>ip. open_count t ip d' \<le> max 1 (open_count t ip d))"

definition covered :: "int \<Rightarrow> string \<Rightarrow> db \<Rightarrow> bool" where
  "covered t ip d \<longleftrightarrow> list_ex (\<lambda>x. inc_source_ip x = ip \<and> inc_status x = ''nuevo'' \<and> inc_window_end x = t) (incidents d)"

lemma advances_refl [simp]: "advances t x x"
  by (simp add: advances_def)

lemma advances_trans: "advances t x y \<Longrightarrow> advances t y z \<Longrightarrow> advances t x z"
  by (auto simp: advances_def)

lemma cycle_grows_refl: "reflp (cycle_grows t)"
  by (auto simp: reflp_def cycle_grows_def intro!: exI [of _ "\<lambda>x. x"])

lemma cycle_grows_trans: "transp (cycle_grows t)"
proof (rule transpI)
  fix a b c assume 1: "cycle_grows t a b" and 2: "cycle_grows t b c"
  obtain u new where u: "incidents b = map u (incidents a) @ new" "\<And>x. advances t x (u x)"
    using 1 by (auto simp: cycle_grows_def)
  obtain v more where v: "incidents c = map v (incidents b) @ more" "\<And>x. advances t x (v x)"
    using 2 by (auto simp: cycle_grows_def)
  have "incidents c = map (\<lambda>x. v (u x)) (incidents a) @ (map v new @ more)" using u v by simp
  moreover have "advances t x (v (u x))" for x by (rule advances_trans [OF u(2) v(2)])
  ultimately show "cycle_grows t a c" using 1 2 unfolding cycle_grows_def
    by (metis append.assoc)
qed

lemma cycle_moves_refl: "reflp (cycle_moves t)"
  by (auto simp: reflp_def cycle_moves_def intro!: exI [of _ "\<lambda>x. x"])

lemma cycle_moves_trans: "transp (cycle_moves t)"
proof (rule transpI)
  fix a b c assume 1: "cycle_moves t a b" and 2: "cycle_moves t b c"
  obtain u where u: "incidents b = map u (incidents a)" "\<And>x. advances t x (u x)"
    using 1 by (auto simp: cycle_moves_def)
  obtain v where v: "incidents c = map v (incidents b)" "\<And>x. advances t x (v x)"
    using 2 by (auto simp: cycle_moves_def)
  have "incidents c = map (\<lambda>x. v (u x)) (incidents a)" using u v by simp
  moreover have "advances t x (v (u x))" for x by (rule advances_trans [OF u(2) v(2)])
  ultimately show "cycle_moves t a c" using 1 2 unfolding cycle_moves_def
    by (metis append.assoc)
qed

lemma cycle_moves_same:
  "incidents d' = incidents d \<Longrightarrow> events d' = events d \<Longrightarrow> configs d' = configs d \<Longrightarrow> audits d' = audits d
     \<Longrightarrow> cycle_moves t d d'"
  by (auto simp: cycle_moves_def intro!: exI [of _ "\<lambda>x. x"])

lemma cycle_moves_audit: "cycle_moves t d (add_audit a d)"
  by (auto simp: cycle_moves_def add_audit_def intro!: exI [of _ "\<lambda>x. x"])

lemma cycle_moves_update:
  assumes "\<And>x. advances t x (f x)"
  shows "cycle_moves t d (update_incident i f d)"
  unfolding cycle_moves_def
  by (intro conjI exI [of _ "\<lambda>x. if inc_id x = i then f x else x"] exI [of _ "[]"])
     (auto simp: update_incident_def assms)

text \<open>An incident is open after a step exactly when it was.\<close>

lemma advances_open: "advances t x y \<Longrightarrow> is_open t ip y \<longleftrightarrow> is_open t ip x"
  by (auto simp: advances_def is_open_def DEDUPE_LOOKBACK_def hour_def)

lemma open_count_upd:
  assumes "\<forall>x. advances t x (upd x)"
  shows "length (filter (is_open t ip) (map upd xs)) = length (filter (is_open t ip) xs)"
proof (induction xs)
  case (Cons x xs)
  have "is_open t ip (upd x) = is_open t ip x" using assms advances_open by blast
  with Cons show ?case by simp
qed simp

lemma cycle_rel_refl: "reflp (cycle_rel t)"
  using cycle_grows_refl [of t] by (auto simp: reflp_def cycle_rel_def)

lemma cycle_rel_trans: "transp (cycle_rel t)"
proof (rule transpI)
  fix a b c assume 1: "cycle_rel t a b" and 2: "cycle_rel t b c"
  have "open_count t ip c \<le> max 1 (open_count t ip a)" for ip
  proof -
    have "open_count t ip c \<le> max 1 (open_count t ip b)" "open_count t ip b \<le> max 1 (open_count t ip a)"
      using 1 2 by (auto simp: cycle_rel_def)
    then show ?thesis by linarith
  qed
  with 1 2 cycle_grows_trans [of t] show "cycle_rel t a c" by (auto simp: cycle_rel_def elim: transpE)
qed

lemma moves_rel: "cycle_moves t d d' \<Longrightarrow> cycle_rel t d d'"
proof -
  assume m: "cycle_moves t d d'"
  obtain upd where u: "incidents d' = map upd (incidents d)" "\<forall>x. advances t x (upd x)"
    using m by (auto simp: cycle_moves_def)
  have "open_count t ip d' = open_count t ip d" for ip
    unfolding open_count_def u(1) by (rule open_count_upd [OF u(2)])
  moreover have "cycle_grows t d d'" using m unfolding cycle_moves_def cycle_grows_def by (metis append_Nil2)
  ultimately show ?thesis by (simp add: cycle_rel_def)
qed

lemma covered_grows: "cycle_grows t d d' \<Longrightarrow> covered t ip d \<Longrightarrow> covered t ip d'"
  by (fastforce simp: cycle_grows_def covered_def list_ex_iff advances_def)

lemma advances_mark: "advances t x (mark_blocked t' m u x)"
  by (simp add: advances_def mark_blocked_def)

section \<open>The parts of the cycle\<close>

definition untouched :: "session \<Rightarrow> session \<Rightarrow> bool" where
  "untouched s s' \<longleftrightarrow> working s' = working s \<and> committed s' = committed s"

lemma untouched_refl: "reflp untouched" and untouched_trans: "transp untouched"
  by (auto simp: untouched_def reflp_def transp_def)

lemma steps_untouched: "reflp R \<Longrightarrow> moves untouched m \<Longrightarrow> steps R m"
  by (rule steps_outside) (auto simp: moves_def untouched_def)

lemmas untouched_moves =
  moves_ret(1) [OF untouched_refl] moves_ret(2) [OF untouched_refl] moves_ret(3) [OF untouched_refl]
  moves_bind [OF untouched_trans] moves_catch [OF untouched_trans] moves_control

lemma untouched_calls:
  "moves untouched (send_command e a args)" "moves untouched (run_cscli e argv)" "moves untouched (notify e c)"
  "moves untouched (ask_model e p)" "moves untouched (query_abuse e ip)" "moves untouched (get_secret e k)"
  by (auto simp: moves_def untouched_def send_command_def run_cscli_def notify_def ask_model_def query_abuse_def)

lemma untouched_ufw: "moves untouched (ufw_is_operational e)"
  unfolding ufw_is_operational_def get_ufw_state_def
  by (intro untouched_moves untouched_calls) (auto simp: Let_def intro!: untouched_moves untouched_calls split: json.split)

lemma untouched_available: "moves untouched (method_available e m)"
  unfolding method_available_def by (intro untouched_moves untouched_ufw)

lemma untouched_execute: "moves untouched (execute_block e m dur inc)"
  unfolding execute_block_def ban_ip_def by (intro untouched_moves untouched_calls)

lemma untouched_api_key: "moves untouched (abuse_api_key e)" "moves untouched (key_for e n)"
  unfolding abuse_api_key_def key_for_def by (intro untouched_moves untouched_calls)+

lemma untouched_first: "moves untouched (first_with_key e d names)"
proof (induction names)
  case (Cons n names)
  then show ?case
    by (auto intro!: untouched_moves untouched_api_key split: option.split list.split)
qed (simp add: moves_def untouched_def)

lemma untouched_provider: "moves untouched (get_provider e)"
  unfolding get_provider_def by (intro untouched_moves untouched_first)

text \<open>What the enrichment, the analysis and the blocking do to the tables.\<close>

definition enrich_rel :: "db \<Rightarrow> db \<Rightarrow> bool" where
  "enrich_rel d d' \<longleftrightarrow> incidents d' = incidents d \<and> events d' = events d \<and> configs d' = configs d \<and> audits d' = audits d"

lemma enrich_rel_order: "reflp enrich_rel" "transp enrich_rel"
  by (auto simp: enrich_rel_def reflp_def transp_def)

lemma enrich_rel_moves: "enrich_rel d d' \<Longrightarrow> cycle_moves t d d'"
  by (simp add: enrich_rel_def cycle_moves_same)

lemma steps_store_intel: "steps enrich_rel (store_intel e ip j)"
  unfolding store_intel_def
  by (intro steps_commit enrich_rel_order steps_ret) (simp add: enrich_rel_def cache_put_def)

lemma steps_json:
  "reflp R \<Longrightarrow> (\<And>d. v = JObj d \<Longrightarrow> steps R (f d)) \<Longrightarrow> steps R (case v of JObj d \<Rightarrow> f d | _ \<Rightarrow> raise AttributeError)"
  by (cases v) (auto intro: steps_ret)

lemma steps_get_abuse: "steps enrich_rel (get_abuse_info e ip)"
  unfolding get_abuse_info_def
  by (intro steps_control steps_bind enrich_rel_order steps_ret steps_json steps_store_intel
        steps_untouched untouched_api_key untouched_calls)

lemma steps_enrich: "steps enrich_rel (enrich_candidate e cand q)"
  unfolding enrich_candidate_def
  by (intro steps_control steps_bind enrich_rel_order steps_ret steps_get_abuse)

lemma steps_analyze: "steps (cycle_moves t) (analyze_incident e ign orig reason inc)"
  unfolding analyze_incident_def
  by (intro steps_control steps_bind cycle_moves_refl cycle_moves_trans steps_ret steps_commit
        steps_untouched untouched_provider untouched_calls steps_log_audit cycle_moves_audit cycle_moves_same)
     (simp_all add: add_analysis_def)

lemma steps_analyze_one: "steps (cycle_moves t) (analyze_one e i)"
  unfolding analyze_one_def
  by (intro steps_rescue steps_control steps_bind cycle_moves_refl cycle_moves_trans steps_ret steps_analyze)

lemma steps_analyze_new: "steps (cycle_moves t) (analyze_new_incidents e created)"
  unfolding analyze_new_incidents_def
  by (intro steps_bind steps_iterate cycle_moves_refl cycle_moves_trans steps_ret steps_analyze_one)

lemma steps_notify: "steps (cycle_moves t) (catch (notify e c) (\<lambda>_. rollback))"
  by (intro steps_rescue steps_untouched untouched_calls cycle_moves_refl cycle_moves_trans)

lemma steps_block: "steps (cycle_moves t) (maybe_block_incidents e h created)"
  unfolding maybe_block_incidents_def evaluate_and_block_def
  by (intro steps_rescue steps_control steps_bind steps_iterate cycle_moves_refl cycle_moves_trans steps_ret steps_commit
        steps_log_audit cycle_moves_audit cycle_moves_update advances_mark
        steps_untouched untouched_available untouched_execute untouched_calls untouched_moves)

section \<open>One candidate\<close>

lemma latest_some: "latest xs = Some x \<Longrightarrow> x \<in> set xs"
  by (induction xs arbitrary: x) (auto split: option.splits if_splits)

lemma latest_none: "latest xs = None \<longleftrightarrow> xs = []"
  by (induction xs) (auto split: option.splits if_splits)

lemma open_incident_some: "open_incident t ip d = Some x \<Longrightarrow> x \<in> set (incidents d) \<and> is_open t ip x"
  using latest_some [of "filter (is_open t ip) (incidents d)" x] by (simp add: open_incident_def)

lemma open_incident_none: "open_incident t ip d = None \<longleftrightarrow> filter (is_open t ip) (incidents d) = []"
  by (simp add: open_incident_def latest_none)

lemma same_id:
  assumes "distinct (map inc_id xs)" "x \<in> set xs"
  shows "map (\<lambda>y. if inc_id y = inc_id x then f y else y) xs = map (\<lambda>y. if y = x then f y else y) xs"
  using assms by (auto dest: inj_on_contraD [OF distinct_map [THEN iffD1, THEN conjunct2]])

lemma advances_refresh:
  "is_open t ip x \<Longrightarrow> advances t x (refresh_incident t cand score ml severity x)"
  by (auto simp: advances_def refresh_incident_def is_open_def)

lemma refresh_rel:
  assumes "constraints d" "open_incident t ip d = Some x"
  shows "cycle_moves t d (update_incident (inc_id x) (refresh_incident t cand score ml severity) d)
    \<and> covered t ip (update_incident (inc_id x) (refresh_incident t cand score ml severity) d)"
proof -
  let ?f = "refresh_incident t cand score ml severity"
  have x: "x \<in> set (incidents d)" "is_open t ip x" using open_incident_some [OF assms(2)] by auto
  have i: "incidents (update_incident (inc_id x) ?f d) = map (\<lambda>y. if y = x then ?f y else y) (incidents d)"
    using same_id [of "incidents d" x ?f] assms(1) x(1) by (simp add: update_incident_def constraints_def)
  have "\<forall>y. advances t y (if y = x then ?f y else y)" using advances_refresh [OF x(2)] by simp
  with i have "\<exists>upd. incidents (update_incident (inc_id x) ?f d) = map upd (incidents d) \<and> (\<forall>y. advances t y (upd y))"
    by (intro exI [of _ "\<lambda>y. if y = x then ?f y else y"]) simp
  then have "cycle_moves t d (update_incident (inc_id x) ?f d)"
    unfolding cycle_moves_def by (simp add: update_incident_def)
  moreover have "covered t ip (update_incident (inc_id x) ?f d)"
    using x unfolding covered_def i by (auto simp: list_ex_iff is_open_def refresh_incident_def intro!: bexI [of _ x])
  ultimately show ?thesis ..
qed

definition opens :: "int \<Rightarrow> string \<Rightarrow> soc_incident \<Rightarrow> bool" where
  "opens t ip x \<longleftrightarrow> inc_source_ip x = ip \<and> inc_status x = ''nuevo'' \<and> inc_window_end x = t"

lemma add_rel:
  assumes "open_incident t ip d = None" "opens t ip x"
  shows "cycle_rel t d (add_incident x d) \<and> covered t ip (add_incident x d)"
proof -
  have "open_count t j (add_incident x d) \<le> max 1 (open_count t j d)" for j
  proof (cases "j = ip")
    case True
    with assms(1) show ?thesis by (simp add: open_count_def add_incident_def open_incident_none)
  next
    case False
    then have "\<not> is_open t j x" using assms(2) by (auto simp: opens_def is_open_def)
    then show ?thesis by (simp add: open_count_def add_incident_def)
  qed
  moreover have "cycle_grows t d (add_incident x d)"
    by (auto simp: cycle_grows_def add_incident_def intro!: exI [of _ "\<lambda>x. x"])
  ultimately show ?thesis using assms(2) by (simp add: cycle_rel_def covered_def add_incident_def opens_def)
qed

lemma store_incident_result:
  assumes "settled s" "open_incident t ip (committed s) = None" "\<And>i. opens t ip (build i)"
    and "store_incident e build s = (r, s')"
  shows "constraints (committed s') \<and> cycle_rel t (committed s) (committed s')
    \<and> (case r of Inl x \<Rightarrow> True | Inr i \<Rightarrow> settled s' \<and> covered t ip (committed s'))"
proof -
  define x where "x = build (fresh_id (map inc_id (incidents (working s))))"
  let ?d = "add_incident x (committed s)"
  have w: "working s = committed s" "constraints (committed s)" using assms(1) by (auto simp: settled_def)
  have rel: "cycle_rel t (committed s) ?d \<and> covered t ip ?d"
    using add_rel [OF assms(2) assms(3)] by (simp add: x_def)
  show ?thesis
  proof (cases "commit_fails e (attempts s) \<or> \<not> constraints ?d")
    case True
    then have "committed s' = committed s \<and> (\<exists>y. r = Inl y)" using assms(4) w
      by (auto simp: store_incident_def bind_def update_db_def commit_def Let_def x_def split: if_splits)
    with w cycle_rel_refl [of t] show ?thesis by (auto simp: reflp_def)
  next
    case False
    let ?s = "s\<lparr>working := ?d, attempts := Suc (attempts s), committed := ?d\<rparr>"
    let ?log = "log_audit e ''soc.incident.created'' (Some ''soc_incident'') (Some (inc_source_ip x))
             (Some (created_detail x))
             (if inc_severity x \<in> {''high'', ''critical''} then ''warning'' else ''info'') ''success'' None"
    have "store_incident e build s = bind ?log (\<lambda>_. ret (inc_id x)) ?s"
      using False w by (simp add: store_incident_def bind_def update_db_def commit_def Let_def x_def)
    moreover obtain s2 where l: "?log ?s = (Inr (), s2)"
      using store_audit_total by (metis log_audit_def prod.collapse)
    ultimately have rs: "r = Inr (inc_id x)" "s' = s2" using assms(4) by (auto simp: bind_def)
    have "settled ?s" using False by (simp add: settled_def)
    from steps_Inr [OF steps_log_audit [OF cycle_moves_refl cycle_moves_audit] this l]
    have "settled s2 \<and> cycle_moves t ?d (committed s2)" by auto
    moreover from this have "covered t ip (committed s2)"
      using covered_grows [of t ?d "committed s2"] rel moves_rel [of t ?d "committed s2"] by (simp add: cycle_rel_def)
    ultimately show ?thesis using rs rel moves_rel cycle_rel_trans [of t]
      by (auto simp: settled_def elim: transpE)
  qed
qed

lemma create_incident_result:
  assumes s: "settled s" and none: "open_incident t (cand_source_ip cand) (committed s) = None"
    and b: "\<And>m a i. opens t (cand_source_ip cand) (build m a i)"
    and run: "create_incident e build cand acc s = (r, s')"
  shows "constraints (committed s') \<and> cycle_rel t (committed s) (committed s')
    \<and> (case r of Inl x \<Rightarrow> True | Inr acc' \<Rightarrow> settled s' \<and> covered t (cand_source_ip cand) (committed s'))"
proof -
  let ?enrich = "enrich_candidate e cand (snd acc < MAX_ENRICH_PER_CYCLE)"
  obtain q s1 where q: "?enrich s = (q, s1)" by (cases "?enrich s")
  show ?thesis
  proof (cases q)
    case (Inl x)
    with q run have "r = Inl x" "s' = s1" by (auto simp: create_incident_def bind_def split: prod.splits)
    with steps_Inl [OF steps_enrich s q [unfolded Inl]] enrich_rel_moves moves_rel show ?thesis by auto
  next
    case (Inr ma)
    obtain m a where ma: "ma = (m, a)" by (cases ma)
    have s1: "settled s1" "enrich_rel (committed s) (committed s1)"
      using steps_Inr [OF steps_enrich s q [unfolded Inr]] by auto
    then have n1: "open_incident t (cand_source_ip cand) (committed s1) = None"
      using none by (simp add: enrich_rel_def open_incident_def)
    obtain q2 s2 where q2: "store_incident e (build m a) s1 = (q2, s2)" by (cases "store_incident e (build m a) s1")
    have "s' = s2 \<and> (case r of Inl x \<Rightarrow> True | Inr acc' \<Rightarrow> \<exists>i. q2 = Inr i)"
      using run q Inr ma q2 by (cases q2) (auto simp: create_incident_def bind_def split: prod.splits)
    with store_incident_result [OF s1(1) n1 b q2]
      enrich_rel_moves [OF s1(2), of t] moves_rel [of t "committed s" "committed s1"] cycle_rel_trans [of t]
    show ?thesis by (auto split: sum.splits elim: transpE)
  qed
qed

lemma process_candidate_result:
  assumes s: "settled s" and run: "process_candidate e ml ws th cand acc s = (r, s')"
  shows "constraints (committed s') \<and> cycle_rel (now e) (committed s) (committed s')
    \<and> (case r of Inl x \<Rightarrow> True | Inr acc' \<Rightarrow> settled s' \<and> covered (now e) (cand_source_ip cand) (committed s'))"
proof (cases "open_incident (now e) (cand_source_ip cand) (committed s)")
  case None
  have w: "working s = committed s" using s by (simp add: settled_def)
  show ?thesis
    by (rule create_incident_result [OF s None, of "new_incident ws (now e) cand (score_candidate cand) (ml cand)
          (severity_for_score (max (score_candidate cand) (case ml cand of None \<Rightarrow> 0 | Some m \<Rightarrow> m)) th)" e acc])
       (use run None w in \<open>simp_all add: process_candidate_def opens_def new_incident_def bind_def Let_def\<close>)
next
  case (Some x)
  have w: "working s = committed s" "constraints (committed s)" using s by (auto simp: settled_def)
  let ?f = "refresh_incident (now e) cand (score_candidate cand) (ml cand)
          (severity_for_score (max (score_candidate cand) (case ml cand of None \<Rightarrow> 0 | Some m \<Rightarrow> m)) th)"
  let ?d = "update_incident (inc_id x) ?f (committed s)"
  have "cycle_moves (now e) (committed s) ?d \<and> covered (now e) (cand_source_ip cand) ?d"
    by (rule refresh_rel [OF w(2) Some])
  with moves_rel have rel: "cycle_rel (now e) (committed s) ?d" "covered (now e) (cand_source_ip cand) ?d" by auto
  have "(\<exists>y. r = Inl y \<and> committed s' = committed s) \<or> (r = Inr acc \<and> constraints ?d
      \<and> s' = s\<lparr>working := ?d, attempts := Suc (attempts s), committed := ?d\<rparr>)"
    using run Some w by (auto simp: process_candidate_def bind_def update_db_def commit_def Let_def split: if_splits)
  with rel w cycle_rel_refl [of "now e"] show ?thesis by (auto simp: settled_def reflp_def)
qed

lemma process_all_result:
  assumes "settled s" "fold_op (process_candidate e ml ws th) cands acc s = (r, s')"
  shows "constraints (committed s') \<and> cycle_rel (now e) (committed s) (committed s')
    \<and> (case r of Inl x \<Rightarrow> True
       | Inr acc' \<Rightarrow> settled s' \<and> list_all (\<lambda>c. covered (now e) (cand_source_ip c) (committed s')) cands)"
  using assms
proof (induction cands arbitrary: acc s)
  case Nil
  with cycle_rel_refl [of "now e"] show ?case by (auto simp: settled_def reflp_def)
next
  case (Cons c cands)
  obtain q s1 where q: "process_candidate e ml ws th c acc s = (q, s1)" by (cases "process_candidate e ml ws th c acc s")
  note one = process_candidate_result [OF Cons.prems(1) q]
  show ?case
  proof (cases q)
    case (Inl x)
    with q Cons.prems(2) one show ?thesis by (auto simp: bind_def)
  next
    case (Inr acc1)
    with q Cons.prems(2) have rest: "fold_op (process_candidate e ml ws th) cands acc1 s1 = (r, s')"
      by (simp add: bind_def)
    have s1: "settled s1" "covered (now e) (cand_source_ip c) (committed s1)" "cycle_rel (now e) (committed s) (committed s1)"
      using one Inr by auto
    from Cons.IH [OF s1(1) rest] s1 cycle_rel_trans [of "now e"] covered_grows show ?thesis
      by (auto simp: cycle_rel_def split: sum.splits elim: transpE)
  qed
qed

text \<open>The candidates a cycle starts from.\<close>

definition cycle_candidates :: "env \<Rightarrow> db \<Rightarrow> candidate list" where
  "cycle_candidates e d = find_candidates (events d)
     (now e - config_int d ''soc_window_minutes'' DEFAULT_WINDOW_MINUTES * minute) (now e)
     (config_int d ''soc_threshold_events'' DEFAULT_THRESHOLD_EVENTS)"

lemma detect_result:
  assumes "settled s" "detect_incidents e ml s = (r, s')"
  shows "constraints (committed s') \<and> cycle_rel (now e) (committed s) (committed s')
    \<and> (case r of Inl x \<Rightarrow> True
       | Inr ids \<Rightarrow> settled s' \<and> list_all (\<lambda>c. covered (now e) (cand_source_ip c) (committed s')) (cycle_candidates e (committed s)))"
proof -
  let ?ml = "if config_get (committed s) ''soc_ml_enabled'' = Some ''1'' then ml else (\<lambda>_. None)"
  let ?ws = "now e - config_int (committed s) ''soc_window_minutes'' DEFAULT_WINDOW_MINUTES * minute"
  let ?fold = "fold_op (process_candidate e ?ml ?ws (resolve_severity_thresholds (committed s)))
     (cycle_candidates e (committed s)) ([], 0)"
  have w: "working s = committed s" using assms(1) by (simp add: settled_def)
  show ?thesis
  proof (cases "in_time_range ?ws")
    case False
    with assms w cycle_rel_refl [of "now e"] show ?thesis
      by (auto simp: detect_incidents_def bind_def Let_def settled_def reflp_def)
  next
    case True
    obtain q s1 where q: "?fold s = (q, s1)" by (cases "?fold s")
    have "detect_incidents e ml s = bind ?fold (\<lambda>acc. ret (fst acc)) s"
      using True w by (simp add: detect_incidents_def bind_def [of "fetch _"] Let_def cycle_candidates_def)
    with q assms(2) have "s' = s1 \<and> (case r of Inl x \<Rightarrow> True | Inr ids \<Rightarrow> \<exists>acc. q = Inr acc)"
      by (cases q) (auto simp: bind_def)
    with process_all_result [OF assms(1) q] show ?thesis by (auto split: sum.splits)
  qed
qed

lemma cycle_rest:
  "steps (cycle_moves t) (bind (analyze_new_incidents e created) (\<lambda>_.
     bind (catch (notify e (NotifyIncidents created)) (\<lambda>_. rollback)) (\<lambda>_.
     bind (catch (maybe_block_incidents e h created) (\<lambda>_. rollback)) (\<lambda>_.
     ret (length created)))))"
  by (intro steps_bind cycle_moves_trans cycle_moves_refl steps_ret steps_analyze_new steps_notify steps_rescue steps_block)

lemma cycle_result:
  assumes "settled s" "run_detection_cycle e h ml s = (r, s')"
  shows "constraints (committed s') \<and> cycle_rel (now e) (committed s) (committed s')
    \<and> (case r of Inl x \<Rightarrow> True
       | Inr n \<Rightarrow> settled s' \<and> list_all (\<lambda>c. covered (now e) (cand_source_ip c) (committed s')) (cycle_candidates e (committed s)))"
proof -
  obtain q s1 where q: "detect_incidents e ml s = (q, s1)" by (cases "detect_incidents e ml s")
  note d = detect_result [OF assms(1) q]
  show ?thesis
  proof (cases q)
    case (Inl x)
    with q assms(2) d show ?thesis by (auto simp: run_detection_cycle_def bind_def)
  next
    case (Inr created)
    with d have s1: "settled s1" by simp
    let ?rest = "bind (analyze_new_incidents e created) (\<lambda>_.
     bind (catch (notify e (NotifyIncidents created)) (\<lambda>_. rollback)) (\<lambda>_.
     bind (catch (maybe_block_incidents e h created) (\<lambda>_. rollback)) (\<lambda>_.
     ret (length created))))"
    have rest: "?rest s1 = (r, s')" using q Inr assms(2) by (simp add: run_detection_cycle_def bind_def [of "detect_incidents e ml"])
    have "cycle_moves (now e) (committed s1) (committed s') \<and> constraints (committed s')
       \<and> (case r of Inl x \<Rightarrow> True | Inr n \<Rightarrow> settled s')"
      using steps_Inr [OF cycle_rest s1] steps_Inl [OF cycle_rest s1] rest
      by (cases r) (auto simp: settled_def)
    moreover from this have "cycle_rel (now e) (committed s1) (committed s')" using moves_rel by blast
    ultimately show ?thesis using d Inr cycle_rel_trans [of "now e"] covered_grows
      by (auto simp: cycle_rel_def list_all_iff split: sum.splits elim: transpE)
  qed
qed

section \<open>When a cycle completes\<close>










section \<open>How often the outside is asked\<close>

definition asks_upto :: "(ext_call \<Rightarrow> bool) \<Rightarrow> nat \<Rightarrow> session \<Rightarrow> session \<Rightarrow> bool" where
  "asks_upto P n s s' \<longleftrightarrow> (\<exists>l. calls s' = calls s @ l \<and> length (filter P l) \<le> n)"

definition is_chat :: "ext_call \<Rightarrow> bool" where
  "is_chat c \<longleftrightarrow> (\<exists>p. c = ChatCall p)"

definition is_http :: "ext_call \<Rightarrow> bool" where
  "is_http c \<longleftrightarrow> (\<exists>u q. c = HttpGet u q)"

lemma asks_upto_refl: "reflp (asks_upto P n)"
  unfolding reflp_def asks_upto_def by (intro allI exI [of _ "[]"]) simp

lemma asks_upto_add: "asks_upto P a s t \<Longrightarrow> asks_upto P b t u \<Longrightarrow> asks_upto P (a + b) s u"
  unfolding asks_upto_def by (elim exE conjE, rule_tac x = "l @ la" in exI) simp

lemma asks_upto_trans: "transp (asks_upto P 0)"
  using asks_upto_add [of P 0 _ _ 0] by (auto intro: transpI)

lemma asks_upto_mono: "asks_upto P a s t \<Longrightarrow> a \<le> b \<Longrightarrow> asks_upto P b s t"
  by (auto simp: asks_upto_def intro: le_trans)

lemma asks_upto_same: "calls t = calls s \<Longrightarrow> asks_upto P n s t"
  unfolding asks_upto_def by (intro exI [of _ "[]"]) simp

lemma asks_upto_one: "calls t = calls s @ [c] \<Longrightarrow> (if P c then 1 else 0) \<le> n \<Longrightarrow> asks_upto P n s t"
  unfolding asks_upto_def by (intro exI [of _ "[c]"]) auto

text \<open>Operations without such a call.\<close>

lemmas free_moves =
  moves_ret(1) [OF asks_upto_refl] moves_ret(2) [OF asks_upto_refl] moves_ret(3) [OF asks_upto_refl]
  moves_bind [OF asks_upto_trans] moves_catch [OF asks_upto_trans]
  moves_iterate [OF asks_upto_refl asks_upto_trans] moves_control

lemma free_store: "moves (asks_upto P 0) (commit e)" "moves (asks_upto P 0) rollback" "moves (asks_upto P 0) (update_db f)"
    "moves (asks_upto P 0) (log_audit e a b c d g h i)" "moves (asks_upto P 0) (get_secret e k)"
    "moves (asks_upto P 0) (store_intel e ip j)" "moves (asks_upto P 0) (lift r)"
    "moves (asks_upto P 0) (fetch g')"
  by (auto simp: moves_def update_db_def rollback_def commit_calls log_audit_def store_audit_calls lift_def
      intro!: asks_upto_same split: sum.split)

lemma free_calls:
  "\<not> P (AgentCall a args) \<Longrightarrow> moves (asks_upto P 0) (send_command e a args)"
  "\<not> P (CscliCall argv) \<Longrightarrow> moves (asks_upto P 0) (run_cscli e argv)"
  "\<not> P c \<Longrightarrow> moves (asks_upto P 0) (notify e c)"
  "\<not> P (ChatCall p) \<Longrightarrow> moves (asks_upto P 0) (ask_model e p)"
  "\<not> P (HttpGet ABUSEIPDB_URL ip) \<Longrightarrow> moves (asks_upto P 0) (query_abuse e ip)"
  by (auto simp: moves_def send_command_def run_cscli_def notify_def ask_model_def query_abuse_def intro!: asks_upto_one)

definition inner_call :: "(ext_call \<Rightarrow> bool) \<Rightarrow> bool" where
  "inner_call P \<longleftrightarrow> P = is_chat \<or> P = is_http"

lemma inner_not: "inner_call P \<Longrightarrow> \<not> P (AgentCall a args)" "inner_call P \<Longrightarrow> \<not> P (CscliCall argv)"
  "inner_call P \<Longrightarrow> \<not> P (NotifyIncidents l)" "inner_call P \<Longrightarrow> \<not> P (NotifyBlock i)"
  by (auto simp: inner_call_def is_chat_def is_http_def)

lemma free_block:
  assumes "inner_call P"
  shows "moves (asks_upto P 0) (maybe_block_incidents e h created)"
proof -
  have u: "moves (asks_upto P 0) (ufw_is_operational e)"
    unfolding ufw_is_operational_def get_ufw_state_def
    by (intro free_moves free_calls inner_not assms)
       (auto simp: Let_def inner_not assms intro!: free_moves free_calls split: json.split)
  have x: "moves (asks_upto P 0) (execute_block e m dur inc)" for m dur inc
    unfolding execute_block_def ban_ip_def by (intro free_moves free_calls inner_not assms)
  show ?thesis
    unfolding maybe_block_incidents_def evaluate_and_block_def method_available_def
    by (intro free_moves free_store free_calls u x inner_not assms)
qed

lemma free_provider: "moves (asks_upto P 0) (get_provider e)"
proof -
  have "moves (asks_upto P 0) (key_for e n)" for n unfolding key_for_def by (intro free_moves free_store)
  then have "moves (asks_upto P 0) (first_with_key e d names)" for d names
  proof (induction names)
    case (Cons n names)
    then show ?case by (auto intro!: free_moves split: option.split list.split)
  qed (simp add: moves_def asks_upto_same)
  then show ?thesis unfolding get_provider_def by (intro free_moves)
qed

text \<open>An operation with one asking part.\<close>

lemma asks_free: "moves (asks_upto P 0) m \<Longrightarrow> moves (asks_upto P n) m"
  by (auto simp: moves_def intro: asks_upto_mono)

lemma asks_then: "moves (asks_upto P 0) m \<Longrightarrow> (\<And>x. moves (asks_upto P n) (f x)) \<Longrightarrow> moves (asks_upto P n) (bind m f)"
proof (rule movesI)
  fix s assume 1: "moves (asks_upto P 0) m" "\<And>x. moves (asks_upto P n) (f x)"
  obtain r t where m: "m s = (r, t)" by (cases "m s")
  have "asks_upto P 0 s t" by (rule movesD [OF 1(1) m])
  then show "asks_upto P n s (snd (bind m f s))"
    using 1(2) m asks_upto_add [of P 0 s t n] asks_upto_mono [of P 0 s t n] by (cases r) (auto simp: bind_def moves_def)
qed

lemma asks_first: "moves (asks_upto P n) m \<Longrightarrow> (\<And>x. moves (asks_upto P 0) (f x)) \<Longrightarrow> moves (asks_upto P n) (bind m f)"
proof (rule movesI)
  fix s assume 1: "moves (asks_upto P n) m" "\<And>x. moves (asks_upto P 0) (f x)"
  obtain r t where m: "m s = (r, t)" by (cases "m s")
  have "asks_upto P n s t" by (rule movesD [OF 1(1) m])
  then show "asks_upto P n s (snd (bind m f s))"
    using 1(2) m asks_upto_add [of P n s t 0] by (cases r) (auto simp: bind_def moves_def)
qed

lemma asks_catch: "moves (asks_upto P n) m \<Longrightarrow> (\<And>x. moves (asks_upto P 0) (h x)) \<Longrightarrow> moves (asks_upto P n) (catch m h)"
proof (rule movesI)
  fix s assume 1: "moves (asks_upto P n) m" "\<And>x. moves (asks_upto P 0) (h x)"
  obtain r t where m: "m s = (r, t)" by (cases "m s")
  have "asks_upto P n s t" by (rule movesD [OF 1(1) m])
  then show "asks_upto P n s (snd (catch m h s))"
    using 1(2) m asks_upto_add [of P n s t 0] by (cases r) (auto simp: catch_def moves_def)
qed

lemma asks_iterate: "(\<And>x. moves (asks_upto P n) (f x)) \<Longrightarrow> asks_upto P (n * length xs) s (snd (iterate f xs s))"
proof (induction xs arbitrary: s)
  case (Cons x xs)
  obtain r t where m: "f x s = (r, t)" by (cases "f x s")
  have "asks_upto P n s t" by (rule movesD [OF Cons.prems m])
  then show ?case
    using Cons.IH [OF Cons.prems, of t] m asks_upto_add [of P n s t "n * length xs"]
      asks_upto_mono [of P n s t "n + n * length xs"]
    by (cases r) (auto simp: bind_def)
qed (simp add: asks_upto_same)

lemma ask_model_once: "moves (asks_upto P 1) (ask_model e p)"
  by (auto simp: moves_def ask_model_def intro!: asks_upto_one)

lemma query_once: "moves (asks_upto P 1) (query_abuse e ip)"
  by (auto simp: moves_def query_abuse_def intro!: asks_upto_one)

lemma analyze_asks:
  assumes "n = 1 \<or> (n = 0 \<and> P = is_http)"
  shows "moves (asks_upto P n) (analyze_incident e ign orig reason inc)"
proof -
  have ask: "moves (asks_upto P n) (ask_model e p)" for p
    using assms ask_model_once free_calls(4) [of is_http p e] by (auto simp: is_http_def)
  show ?thesis
    unfolding analyze_incident_def
    by (rule asks_then, rule free_moves, rule moves_if, rule asks_free, rule free_moves,
        rule asks_then, rule free_provider, rule moves_option, rule asks_free, rule free_moves,
        rule asks_first, rule ask, intro free_moves free_store)
qed

lemma analyze_new_asks:
  assumes "n = 1 \<or> (n = 0 \<and> P = is_http)"
  shows "moves (asks_upto P (n * MAX_LLM_ANALYSES_PER_CYCLE)) (analyze_new_incidents e created)"
proof -
  have one: "moves (asks_upto P n) (analyze_one e i)" for i
    unfolding analyze_one_def
    by (rule asks_catch, rule asks_then, rule free_moves, rule moves_option, rule asks_free, rule free_moves,
        rule asks_first, rule analyze_asks [OF assms], rule free_moves, rule free_store)
  have "asks_upto P (n * MAX_LLM_ANALYSES_PER_CYCLE) s
      (snd (iterate (analyze_one e) (take MAX_LLM_ANALYSES_PER_CYCLE xs) s))" for xs s
    by (rule asks_upto_mono [OF asks_iterate [OF one]]) simp
  then show ?thesis unfolding analyze_new_incidents_def
    by (intro asks_then free_moves) (simp add: moves_def)
qed

lemma abuse_asks:
  assumes "n = 1 \<or> (n = 0 \<and> P = is_chat)"
  shows "moves (asks_upto P n) (get_abuse_info e ip)"
proof (rule movesI)
  fix s
  from abuse_asks_once [of ip s e] show "asks_upto P n s (snd (get_abuse_info e ip s))"
    unfolding asks_once_def
  proof
    assume "calls (snd (get_abuse_info e ip s)) = calls s @ [HttpGet ABUSEIPDB_URL ip]"
    then show ?thesis by (rule asks_upto_one) (use assms in \<open>auto simp: is_chat_def\<close>)
  qed (rule asks_upto_same)
qed

definition spent :: "(ext_call \<Rightarrow> bool) \<Rightarrow> nat \<Rightarrow> nat" where
  "spent P k = (if P = is_http then k else 0)"

lemma enrich_asks:
  assumes "inner_call P"
  shows "moves (asks_upto P (spent P (if q then 1 else 0))) (enrich_candidate e cand q)"
proof -
  have ask: "moves (asks_upto P (spent P (if q then 1 else 0))) (if q then get_abuse_info e (cand_source_ip cand) else ret JNull)"
    using assms abuse_asks [of "spent P 1" P e "cand_source_ip cand"] moves_ret(1) [OF asks_upto_refl]
    by (auto simp: inner_call_def spent_def)
  show ?thesis unfolding enrich_candidate_def
    by (rule asks_then [OF free_store(8)], rule asks_first, rule ask, intro free_moves free_store)
qed

lemma store_asks: "moves (asks_upto P 0) (store_incident e build)"
  unfolding store_incident_def by (intro free_moves free_store)

lemma process_asks:
  assumes "inner_call P" "process_candidate e ml ws th cand acc s = (r, s')"
  shows "asks_upto P (spent P (if snd acc < MAX_ENRICH_PER_CYCLE then 1 else 0)) s s'
    \<and> (case r of Inl x \<Rightarrow> True
       | Inr acc' \<Rightarrow> (acc' = acc \<and> asks_upto P 0 s s')
           \<or> snd acc' = (if snd acc < MAX_ENRICH_PER_CYCLE then Suc (snd acc) else snd acc))"
proof (cases "open_incident (now e) (cand_source_ip cand) (working s)")
  case (Some x)
  let ?op = "bind (bind (update_db (update_incident (inc_id x) (refresh_incident (now e) cand (score_candidate cand) (ml cand)
      (severity_for_score (max (score_candidate cand) (case ml cand of None \<Rightarrow> 0 | Some m \<Rightarrow> m)) th))))
               (\<lambda>_. commit e)) (\<lambda>_. ret acc)"
  have "moves (asks_upto P 0) ?op" by (intro free_moves free_store)
  moreover have op: "?op s = (r, s')" using assms(2) Some by (simp add: process_candidate_def bind_def [of "fetch _"] Let_def)
  ultimately have "asks_upto P 0 s s'" by (rule movesD)
  moreover have "case r of Inl x \<Rightarrow> True | Inr acc' \<Rightarrow> acc' = acc"
    using op by (cases r) (auto simp: bind_def split: prod.splits sum.splits)
  ultimately show ?thesis by (auto intro: asks_upto_mono split: sum.splits)
next
  case None
  let ?build = "new_incident ws (now e) cand (score_candidate cand) (ml cand)
      (severity_for_score (max (score_candidate cand) (case ml cand of None \<Rightarrow> 0 | Some m \<Rightarrow> m)) th)"
  have op: "create_incident e ?build cand acc s = (r, s')"
    using assms(2) None by (simp add: process_candidate_def bind_def [of "fetch _"] Let_def)
  have "moves (asks_upto P (spent P (if snd acc < MAX_ENRICH_PER_CYCLE then 1 else 0))) (create_incident e ?build cand acc)"
    unfolding create_incident_def case_prod_beta
    by (rule asks_first, rule enrich_asks [OF assms(1)], intro free_moves store_asks)
  with op have "asks_upto P (spent P (if snd acc < MAX_ENRICH_PER_CYCLE then 1 else 0)) s s'" by (metis movesD)
  moreover have "case r of Inl x \<Rightarrow> True
     | Inr acc' \<Rightarrow> snd acc' = (if snd acc < MAX_ENRICH_PER_CYCLE then Suc (snd acc) else snd acc)"
    using op by (cases r; cases acc) (auto simp: create_incident_def bind_def split: prod.splits sum.splits)
  ultimately show ?thesis by (auto split: sum.splits)
qed

lemma process_all_asks:
  assumes "inner_call P" "snd acc \<le> MAX_ENRICH_PER_CYCLE"
  shows "asks_upto P (spent P (MAX_ENRICH_PER_CYCLE - snd acc)) s (snd (fold_op (process_candidate e ml ws th) cands acc s))"
  using assms(2)
proof (induction cands arbitrary: acc s)
  case (Cons c cands)
  obtain q t where q: "process_candidate e ml ws th c acc s = (q, t)" by (cases "process_candidate e ml ws th c acc s")
  note one = process_asks [OF assms(1) q]
  let ?n = "MAX_ENRICH_PER_CYCLE - snd acc"
  have le: "spent P (if snd acc < MAX_ENRICH_PER_CYCLE then 1 else 0) \<le> spent P ?n" by (auto simp: spent_def)
  show ?case
  proof (cases q)
    case (Inl x)
    with q one le show ?thesis by (auto simp: bind_def intro: asks_upto_mono)
  next
    case (Inr acc1)
    show ?thesis
    proof (cases "acc1 = acc \<and> asks_upto P 0 s t")
      case True
      with q Inr Cons.IH [OF Cons.prems, of t] asks_upto_add [of P 0 s t] show ?thesis by (auto simp: bind_def)
    next
      case False
      with one Inr have a: "snd acc1 = (if snd acc < MAX_ENRICH_PER_CYCLE then Suc (snd acc) else snd acc)" by auto
      with Cons.prems have "snd acc1 \<le> MAX_ENRICH_PER_CYCLE" by auto
      from Cons.IH [OF this, of t] one
      have "asks_upto P (spent P (if snd acc < MAX_ENRICH_PER_CYCLE then 1 else 0) + spent P (MAX_ENRICH_PER_CYCLE - snd acc1)) s
         (snd (fold_op (process_candidate e ml ws th) cands acc1 t))"
        by (blast intro: asks_upto_add)
      with q Inr a show ?thesis by (auto simp: bind_def spent_def split: if_splits intro: asks_upto_mono)
    qed
  qed
qed (simp add: asks_upto_same)

lemma cycle_asks:
  assumes "inner_call P"
  shows "asks_upto P (if P = is_chat then MAX_LLM_ANALYSES_PER_CYCLE else MAX_ENRICH_PER_CYCLE) s
    (snd (run_detection_cycle e h ml s))"
proof -
  let ?rest = "\<lambda>created. bind (catch (notify e (NotifyIncidents created)) (\<lambda>_. rollback)) (\<lambda>_.
     bind (catch (maybe_block_incidents e h created) (\<lambda>_. rollback)) (\<lambda>_. ret (length created)))"
  have fold: "moves (asks_upto P (spent P MAX_ENRICH_PER_CYCLE)) (fold_op (process_candidate e ml' ws th) cands ([], 0))"
    for ml' ws th cands
    using process_all_asks [OF assms, of "([], 0)"] by (simp add: moves_def)
  have 1: "moves (asks_upto P (spent P MAX_ENRICH_PER_CYCLE)) (detect_incidents e ml)"
    unfolding detect_incidents_def
    by (rule asks_then, rule free_moves, intro moves_let moves_if, rule asks_free, rule free_moves,
        rule asks_first, rule fold, rule free_moves)
  have 2: "moves (asks_upto P (if P = is_chat then MAX_LLM_ANALYSES_PER_CYCLE else 0)) (analyze_new_incidents e created)" for created
    using assms analyze_new_asks [of "if P = is_chat then 1 else 0" P e created] by (auto simp: inner_call_def)
  have 3: "moves (asks_upto P 0) (?rest created)" for created
    by (intro free_moves free_store free_calls free_block inner_not assms)
  have 4: "is_chat \<noteq> is_http" by (metis is_chat_def is_http_def ext_call.distinct)
  show ?thesis
  proof (cases "P = is_chat")
    case True
    have d: "moves (asks_upto P 0) (detect_incidents e ml)" using 1 4 True by (simp add: spent_def)
    have a: "moves (asks_upto P MAX_LLM_ANALYSES_PER_CYCLE) (analyze_new_incidents e created)" for created
      using 2 [of created] True by simp
    have "moves (asks_upto P MAX_LLM_ANALYSES_PER_CYCLE) (run_detection_cycle e h ml)"
      unfolding run_detection_cycle_def
      by (rule asks_then, rule d, rule asks_first, rule a, rule 3)
    with True show ?thesis by (simp add: moves_def)
  next
    case False
    with assms have h: "P = is_http" by (simp add: inner_call_def)
    have d: "moves (asks_upto P MAX_ENRICH_PER_CYCLE) (detect_incidents e ml)" using 1 h by (simp add: spent_def)
    have a: "moves (asks_upto P 0) (analyze_new_incidents e created)" for created
      using 2 [of created] False by simp
    have "moves (asks_upto P MAX_ENRICH_PER_CYCLE) (run_detection_cycle e h ml)"
      unfolding run_detection_cycle_def
      by (rule asks_first, rule d, rule moves_bind [OF asks_upto_trans], rule a, rule 3)
    with False show ?thesis by (simp add: moves_def)
  qed
qed

section \<open>Properties\<close>

text \<open>
  C1: Whatever fails during a cycle, in the database, the services or the model, the stored
  incidents only advance: none is lost, changes its address or status, loses score, events,
  severity or its block; events and settings are untouched, the audit trail only grows; and no
  address has more open incidents than it had, or one.
\<close>

theorem cycle_never_regresses:
  assumes "settled s"
  shows "case run_detection_cycle e h ml s of
    (r, s') \<Rightarrow> constraints (committed s') \<and> cycle_rel (now e) (committed s) (committed s')"
  using cycle_result [OF assms] by (auto split: prod.split)


text \<open>
  C29: One cycle asks the language model at most five times and the reputation service at most
  twenty-five times, however many addresses attack and whatever the answers are.
\<close>

theorem cycle_calls_bounded:
  "\<exists>l. calls (snd (run_detection_cycle e h ml s)) = calls s @ l
     \<and> length (filter is_chat l) \<le> 5 \<and> length (filter is_http l) \<le> 25"
proof -
  let ?s' = "snd (run_detection_cycle e h ml s)"
  have "asks_upto is_chat 5 s ?s'" "asks_upto is_http 25 s ?s'"
  proof -
    have "is_http \<noteq> is_chat" by (metis is_chat_def is_http_def ext_call.distinct)
    then show "asks_upto is_chat 5 s ?s'" "asks_upto is_http 25 s ?s'"
      using cycle_asks [of is_chat s e h ml] cycle_asks [of is_http s e h ml]
      by (simp_all add: inner_call_def MAX_LLM_ANALYSES_PER_CYCLE_def MAX_ENRICH_PER_CYCLE_def)
  qed
  then show ?thesis by (auto simp: asks_upto_def)
qed

definition cycle_demo_event :: attack_event where
  "cycle_demo_event = prompt_demo_event\<lparr>ev_created_at := -1\<rparr>"

definition cycle_demo_session :: session where
  "cycle_demo_session = fresh_session (empty_db\<lparr>events := [cycle_demo_event],
     configs := [\<lparr>cfg_key = ''soc_threshold_events'', cfg_value = Some ''1'', cfg_encrypted = False\<rparr>]\<rparr>)"

lemma cycle_demo_settled: "settled cycle_demo_session"
  by (simp add: settled_def cycle_demo_session_def fresh_session_def constraints_def empty_db_def
      cycle_demo_event_def prompt_demo_event_def)

theorem cycle_never_regresses_witness:
  "length (incidents (committed (snd (run_detection_cycle quiet_env soar_demo_net (\<lambda>c. None) cycle_demo_session)))) = 1
   \<and> open_count 0 ''8.8.8.8'' (committed (snd (run_detection_cycle quiet_env soar_demo_net (\<lambda>c. None) cycle_demo_session))) \<le> 1"
proof
  show "length (incidents (committed (snd (run_detection_cycle quiet_env soar_demo_net (\<lambda>c. None) cycle_demo_session)))) = 1"
    by code_simp
  have "open_count 0 ''8.8.8.8'' (committed cycle_demo_session) = 0" "now quiet_env = 0"
    by (simp_all add: open_count_def cycle_demo_session_def fresh_session_def empty_db_def quiet_env_def)
  with cycle_never_regresses [OF cycle_demo_settled, of quiet_env soar_demo_net "\<lambda>c. None"]
  show "open_count 0 ''8.8.8.8'' (committed (snd (run_detection_cycle quiet_env soar_demo_net (\<lambda>c. None) cycle_demo_session))) \<le> 1"
    by (auto simp: cycle_rel_def split: prod.splits dest: spec [of _ "''8.8.8.8''"])
qed


end
