(* ===== verification/Syslog.thy ===== *)
theory Syslog
  imports SocEnrich
begin

text \<open>
  Forwarding to a syslog server: the RFC 5424 frames, the redaction of sensitive headers, the
  octet-counted stream and the guard on the target (\<^verbatim>\<open>app/proxy/syslog_forwarder.py\<close>), and the
  tick with its cursors (\<^verbatim>\<open>app/proxy/syslog_worker.py\<close>).  What the resolver returns and whether
  a frame can be sent are arguments; a frame that was sent is the call \<open>SyslogSend\<close>, one that
  failed \<open>SyslogFail\<close>.
\<close>

section \<open>Codes\<close>

definition FACILITY_CODES :: "(string \<times> int) list" where
  "FACILITY_CODES = [(''kern'', 0), (''user'', 1), (''mail'', 2), (''daemon'', 3), (''auth'', 4), (''syslog'', 5),
     (''lpr'', 6), (''news'', 7), (''uucp'', 8), (''cron'', 9), (''local0'', 16), (''local1'', 17),
     (''local2'', 18), (''local3'', 19), (''local4'', 20), (''local5'', 21), (''local6'', 22), (''local7'', 23)]"

definition AUDIT_SEVERITY :: "(string \<times> int) list" where
  "AUDIT_SEVERITY = [(''critical'', 2), (''error'', 3), (''warning'', 4), (''info'', 6)]"

definition WAF_SEVERITY :: "(string \<times> int) list" where
  "WAF_SEVERITY = [(''critical'', 2), (''high'', 3), (''medium'', 4), (''low'', 6)]"

definition code_of :: "(string \<times> int) list \<Rightarrow> string \<Rightarrow> int \<Rightarrow> int" where
  "code_of table k dflt = (case map_of table k of None \<Rightarrow> dflt | Some n \<Rightarrow> n)"

section \<open>Frames\<close>

definition MAX_MSG_BYTES :: nat where "MAX_MSG_BYTES = 8192"

definition sanitize :: "string \<Rightarrow> string" where
  "sanitize message =
     map (\<lambda>c. if c = CHR 0x0D \<or> c = CHR 0x0A then CHR '' '' else c) (filter (\<lambda>c. c \<noteq> CHR 0x00) message)"

definition header_field :: "nat \<Rightarrow> string \<Rightarrow> string" where
  "header_field n s = take n (replace_char (CHR '' '') ''_'' (if s = [] then ''-'' else s))"

definition frame_message :: "string \<Rightarrow> string" where
  "frame_message message =
     (let safe = sanitize message in
      if MAX_MSG_BYTES < utf8_length safe then take_bytes MAX_MSG_BYTES safe @ '' [truncated]'' else safe)"

definition build_rfc5424 ::
    "int \<Rightarrow> int \<Rightarrow> int \<Rightarrow> string \<Rightarrow> string \<Rightarrow> string \<Rightarrow> string \<Rightarrow> string \<Rightarrow> string" where
  "build_rfc5424 facility severity timestamp hostname appname procid msgid message =
     ''<'' @ show_int (facility * 8 + severity) @ ''>1 '' @
     iso_seconds timestamp @ ''.'' @ pad 6 (timestamp mod second) @ ''Z '' @
     header_field 255 hostname @ '' '' @ header_field 48 appname @ '' '' @ header_field 128 procid @ '' '' @
     header_field 32 msgid @ '' - '' @ frame_message message"

section \<open>Severities\<close>

definition MODSEC_LEVELS :: "(string \<times> string) list" where
  "MODSEC_LEVELS = [(''EMERGENCY'', ''critical''), (''ALERT'', ''critical''), (''CRITICAL'', ''critical''),
     (''ERROR'', ''high''), (''WARNING'', ''medium''), (''NOTICE'', ''low''), (''INFO'', ''low''), (''DEBUG'', ''low''),
     (''0'', ''critical''), (''1'', ''critical''), (''2'', ''critical''), (''3'', ''high''), (''4'', ''medium''),
     (''5'', ''low''), (''6'', ''low''), (''7'', ''low'')]"

text \<open>Whatever does not have the expected shape gives the default: every exception is caught.\<close>

definition severity_from_modsec :: "json \<Rightarrow> int" where
  "severity_from_modsec raw = (case raw of
      JObj d \<Rightarrow> (case jget_default ''transaction'' (JObj []) d of
          JObj tx \<Rightarrow> (case jget_default ''messages'' (JList []) tx of
              JList (JObj m # ms) \<Rightarrow> (case jget_default ''details'' (JObj []) m of
                  JObj dt \<Rightarrow>
                    let level = py_upper (strip (py_str (jget_default ''severity'' (JStr []) dt)));
                        waf = (case map_of MODSEC_LEVELS level of None \<Rightarrow> ''medium'' | Some w \<Rightarrow> w)
                    in code_of WAF_SEVERITY waf 4
                | _ \<Rightarrow> 4)
            | _ \<Rightarrow> 4)
        | _ \<Rightarrow> 4)
    | _ \<Rightarrow> 4)"

definition severity_from_audit :: "string \<Rightarrow> int" where
  "severity_from_audit s = code_of AUDIT_SEVERITY (py_lower (if s = [] then ''info'' else s)) 6"

section \<open>Bodies\<close>

definition SENSITIVE_HEADERS :: "string list" where
  "SENSITIVE_HEADERS = [''authorization'', ''proxy-authorization'', ''cookie'', ''set-cookie'', ''x-api-key'', ''x-auth-token'']"

definition is_sensitive :: "string \<Rightarrow> bool" where
  "is_sensitive k \<longleftrightarrow> py_lower k \<in> set SENSITIVE_HEADERS"

fun redact_headers :: "json \<Rightarrow> json" where
  "redact_headers (JObj d) =
     JObj (map (\<lambda>(k, v). (k, if is_sensitive k then JStr ''[REDACTED]'' else redact_headers v)) d)"
| "redact_headers (JList xs) = JList (map redact_headers xs)"
| "redact_headers j = j"

text \<open>\<open>json.dumps(..., ensure_ascii=False, separators=(',', ':'))\<close>.\<close>

definition json_compact :: "json \<Rightarrow> string" where
  "json_compact = json_text '','' '':''"

definition format_modsec_message :: "env \<Rightarrow> string \<Rightarrow> string" where
  "format_modsec_message e raw = (case json_loads e raw of
      Inl x \<Rightarrow> raw
    | Inr j \<Rightarrow> json_compact (redact_headers j))"

definition opt_json :: "string option \<Rightarrow> json" where
  "opt_json v = (case v of None \<Rightarrow> JNull | Some s \<Rightarrow> JStr s)"

definition format_audit_message :: "audit_log \<Rightarrow> string" where
  "format_audit_message row = json_compact (JObj
     ([(''action'', JStr (al_action row)), (''actor'', JStr (al_actor_email row)),
       (''resource_type'', opt_json (al_resource_type row)), (''resource_name'', opt_json (al_resource_name row)),
       (''severity'', JStr (al_severity row)), (''status'', JStr (al_status row)),
       (''ip'', opt_json (al_ip_address row))]
      @ (case al_detail row of None \<Rightarrow> [] | Some d \<Rightarrow> [(''detail'', d)])))"

definition build_modsec_frame :: "env \<Rightarrow> int \<Rightarrow> modsec_raw_log \<Rightarrow> string" where
  "build_modsec_frame e facility row =
     build_rfc5424 facility
       (case json_loads e (raw_json row) of Inl x \<Rightarrow> 4 | Inr j \<Rightarrow> severity_from_modsec j)
       (raw_created_at row) ''wardnode'' ''wardnode'' (show_nat (raw_id row)) ''WAF''
       (format_modsec_message e (raw_json row))"

definition build_audit_frame :: "int \<Rightarrow> audit_log \<Rightarrow> string" where
  "build_audit_frame facility row =
     build_rfc5424 facility (severity_from_audit (al_severity row)) (al_created_at row)
       ''wardnode'' ''wardnode'' (show_nat (al_id row)) ''AUDIT'' (format_audit_message row)"

section \<open>Target and stream\<close>

datatype target_check = TargetOk | Unresolvable | NoAddress | TargetForbidden

definition forbidden_target :: "ipaddr \<Rightarrow> bool" where
  "forbidden_target a \<longleftrightarrow> is_loopback a \<or> is_link_local a \<or> is_reserved a \<or> is_unspecified a \<or> is_multicast a"

text \<open>\<open>resolved\<close> is what the resolver returns, \<open>None\<close> for its error.\<close>

definition is_safe_syslog_target :: "string list option \<Rightarrow> target_check" where
  "is_safe_syslog_target resolved = (case resolved of
      None \<Rightarrow> Unresolvable
    | Some addrs \<Rightarrow>
        if addrs = [] then NoAddress
        else if list_ex (\<lambda>s. case ip_address s of None \<Rightarrow> False | Some a \<Rightarrow> forbidden_target a) addrs then TargetForbidden
        else TargetOk)"

text \<open>What is written for a frame: RFC 6587 octet counting on TCP, the bare frame on UDP.\<close>

definition octet_frame :: "string \<Rightarrow> string" where
  "octet_frame frame = (let data = utf8_encode frame in show_nat (length data) @ '' '' @ data)"

definition wire_data :: "string \<Rightarrow> string \<Rightarrow> string" where
  "wire_data protocol frame = (if protocol = ''tcp'' then octet_frame frame else utf8_encode frame)"

section \<open>One tick\<close>

definition BATCH_LIMIT :: nat where "BATCH_LIMIT = 500"

text \<open>The network: \<open>None\<close> when the data is accepted, otherwise the text of the \<open>OSError\<close>.\<close>

type_synonym network = "ext_call list \<Rightarrow> string \<Rightarrow> string option"

definition send_frame :: "network \<Rightarrow> string \<Rightarrow> string \<Rightarrow> string option sess_op" where
  "send_frame net protocol f s = (let data = wire_data protocol f in
     case net (calls s) data of
       None \<Rightarrow> (Inr None, s\<lparr>calls := calls s @ [SyslogSend data]\<rparr>)
     | Some err \<Rightarrow> (Inr (Some err), s\<lparr>calls := calls s @ [SyslogFail data]\<rparr>))"

fun send_all :: "network \<Rightarrow> string \<Rightarrow> string list \<Rightarrow> string option sess_op" where
  "send_all net protocol [] = ret None"
| "send_all net protocol (f # fs) =
     bind (send_frame net protocol f)
       (\<lambda>r. case r of Some err \<Rightarrow> ret (Some err) | None \<Rightarrow> send_all net protocol fs)"

definition get_cursor :: "db \<Rightarrow> string \<Rightarrow> int" where
  "get_cursor d key = (case config_get d key of
      None \<Rightarrow> -1
    | Some raw \<Rightarrow> (case py_int raw of None \<Rightarrow> -1 | Some n \<Rightarrow> n))"

definition set_cursor :: "env \<Rightarrow> string \<Rightarrow> int \<Rightarrow> unit sess_op" where
  "set_cursor e key v = AppConfig_set e key (Some (show_int v)) False"

text \<open>The rows of a source: their number and frame, in the order of the numbers.\<close>

type_synonym source = "db \<Rightarrow> (nat \<times> string) list"

definition bootstrap_cursor :: "env \<Rightarrow> string \<Rightarrow> source \<Rightarrow> int sess_op" where
  "bootstrap_cursor e key src =
     bind (fetch (\<lambda>s. int (fold max (map fst (src (working s))) 0))) (\<lambda>m.
     bind (set_cursor e key m) (\<lambda>_.
     bind (commit e) (\<lambda>_. ret m)))"

definition pending :: "source \<Rightarrow> int \<Rightarrow> db \<Rightarrow> (nat \<times> string) list" where
  "pending src cursor d = sort_key fst (filter (\<lambda>r. cursor < int (fst r)) (src d))"

definition modsec_source :: "env \<Rightarrow> int \<Rightarrow> source" where
  "modsec_source e facility d = map (\<lambda>r. (raw_id r, build_modsec_frame e facility r)) (raw_logs d)"

definition audit_source :: "int \<Rightarrow> source" where
  "audit_source facility d = map (\<lambda>r. (al_id r, build_audit_frame facility r)) (audits d)"

text \<open>The accumulator: how many frames were sent in all, and the last error.\<close>

definition forward_source ::
    "env \<Rightarrow> network \<Rightarrow> string \<Rightarrow> string \<Rightarrow> string \<Rightarrow> source \<Rightarrow> int \<times> string option \<Rightarrow> (int \<times> string option) sess_op" where
  "forward_source e net protocol key label src acc =
     bind (fetch (\<lambda>s. get_cursor (working s) key)) (\<lambda>c.
     bind (if c = -1 then bootstrap_cursor e key src else ret c) (\<lambda>cursor.
     bind (fetch (\<lambda>s. take BATCH_LIMIT (pending src cursor (working s)))) (\<lambda>rows.
     if rows = [] then ret acc
     else bind (send_all net protocol (map snd rows)) (\<lambda>r. case r of
       Some err \<Rightarrow> ret (fst acc, Some (label @ '' send error: '' @ err))
     | None \<Rightarrow> bind (set_cursor e key (int (fst (last rows)))) (\<lambda>_. ret (fst acc + int (length rows), snd acc))))))"

definition run_tick :: "env \<Rightarrow> network \<Rightarrow> string \<Rightarrow> int \<Rightarrow> string list \<Rightarrow> unit sess_op" where
  "run_tick e net protocol facility sources =
     bind (fetch (\<lambda>s. config_number (config_get (working s) ''syslog_sent_total'') 0)) (\<lambda>start. case start of
       None \<Rightarrow> raise ValueError
     | Some sent \<Rightarrow>
         bind (if ''modsecurity'' \<in> set sources
               then forward_source e net protocol ''syslog_cursor_modsec_id'' ''WAF'' (modsec_source e facility) (sent, None)
               else ret (sent, None)) (\<lambda>acc.
         bind (if ''audit'' \<in> set sources
               then forward_source e net protocol ''syslog_cursor_audit_id'' ''Audit'' (audit_source facility) acc
               else ret acc) (\<lambda>(sent', err).
         bind (AppConfig_set e ''syslog_sent_total'' (Some (show_int sent')) False) (\<lambda>_.
         bind (case err of
                 Some msg \<Rightarrow> AppConfig_set e ''syslog_last_error'' (Some msg) False
               | None \<Rightarrow>
                   bind (AppConfig_set e ''syslog_last_error'' (Some []) False) (\<lambda>_.
                   AppConfig_set e ''syslog_last_sent_at'' (Some (isoformat_utc (now e))) False)) (\<lambda>_.
         commit e)))))"

definition refusal_text :: "string \<Rightarrow> target_check \<Rightarrow> string" where
  "refusal_text host r = (case r of
      Unresolvable \<Rightarrow> ''No se pudo resolver el host: '' @ host
    | NoAddress \<Rightarrow> ''El host no resolvi'' @ [CHR 0xF3] @ '' a ninguna direcci'' @ [CHR 0xF3] @ ''n''
    | _ \<Rightarrow> ''Host no permitido (loopback/metadata/reservada/multicast)'')"

definition set_last_error :: "env \<Rightarrow> string \<Rightarrow> unit sess_op" where
  "set_last_error e msg =
     catch (bind (AppConfig_set e ''syslog_last_error'' (Some msg) False) (\<lambda>_. commit e)) (\<lambda>_. rollback)"

text \<open>The settings, each with its default.\<close>

definition config_or :: "db \<Rightarrow> string \<Rightarrow> string \<Rightarrow> string" where
  "config_or d k dflt = (case config_get d k of None \<Rightarrow> dflt | Some t \<Rightarrow> if t = [] then dflt else t)"

definition syslog_port :: "db \<Rightarrow> int" where
  "syslog_port d = (case py_int (config_or d ''syslog_port'' ''514'') of
      None \<Rightarrow> 514 | Some p \<Rightarrow> if 1 \<le> p \<and> p \<le> 65535 then p else 514)"

definition syslog_protocol :: "db \<Rightarrow> string" where
  "syslog_protocol d = (if config_or d ''syslog_protocol'' ''udp'' = ''tcp'' then ''tcp'' else ''udp'')"

definition syslog_facility :: "db \<Rightarrow> int" where
  "syslog_facility d = code_of FACILITY_CODES (config_or d ''syslog_facility'' ''local7'') 23"

definition syslog_sources :: "db \<Rightarrow> string list" where
  "syslog_sources d = filter (\<lambda>s. s \<noteq> [])
     (map strip (split_on (CHR '','') (config_or d ''syslog_sources'' ''modsecurity,audit'')))"

text \<open>
  The body under the lock.  After an exception of the database the session takes no statement
  before a rollback, so the error cannot be recorded.
\<close>

definition tick_failed :: "env \<Rightarrow> string \<Rightarrow> py_exn \<Rightarrow> unit sess_op" where
  "tick_failed e total_text x =
     (if x = ValueError
      then set_last_error e (''invalid literal for int() with base 10: '' @ py_repr (JStr total_text))
      else rollback)"

definition run_locked_body ::
    "env \<Rightarrow> (string \<Rightarrow> string list option) \<Rightarrow> (string \<Rightarrow> int \<Rightarrow> network) \<Rightarrow> unit sess_op" where
  "run_locked_body e resolve connect =
     bind (fetch working) (\<lambda>d.
     if config_get d ''syslog_enabled'' \<noteq> Some ''1'' then ret ()
     else let host = strip (config_or d ''syslog_host'' []) in
       if host = [] then ret ()
       else if is_safe_syslog_target (resolve host) \<noteq> TargetOk
       then set_last_error e (''Destino no permitido: '' @ refusal_text host (is_safe_syslog_target (resolve host)))
       else catch (run_tick e (connect host (syslog_port d)) (syslog_protocol d) (syslog_facility d) (syslog_sources d))
              (tick_failed e (config_or d ''syslog_sent_total'' [])))"

text \<open>Only the process that holds the advisory lock runs the body.\<close>

definition run_locked ::
    "bool \<Rightarrow> env \<Rightarrow> (string \<Rightarrow> string list option) \<Rightarrow> (string \<Rightarrow> int \<Rightarrow> network) \<Rightarrow> unit sess_op" where
  "run_locked got e resolve connect = (if got then run_locked_body e resolve connect else ret ())"

end
