(* ===== verification/WafIngest.thy ===== *)
theory WafIngest
  imports Atomic
begin

text \<open>
  The reader of the proxy's log, \<^verbatim>\<open>app/proxy/ingest.py\<close>: what it reads out of a ModSecurity
  record, the event and the raw record it stores, and one stream of log lines.  The country
  lookup is an argument; the lines are what the container prints.
\<close>

section \<open>Tables\<close>

definition RAW_JSON_MAX_BYTES :: nat where "RAW_JSON_MAX_BYTES = 64 * 1024"

definition SEVERITY_MAP :: "(string \<times> string) list" where
  "SEVERITY_MAP = [(''EMERGENCY'', ''critical''), (''ALERT'', ''critical''), (''CRITICAL'', ''critical''),
     (''ERROR'', ''high''), (''WARNING'', ''medium''), (''NOTICE'', ''low''), (''INFO'', ''low''), (''DEBUG'', ''low''),
     (''0'', ''critical''), (''1'', ''critical''), (''2'', ''critical''), (''3'', ''high''), (''4'', ''medium''),
     (''5'', ''low''), (''6'', ''low''), (''7'', ''low'')]"

definition TAG_TO_CATEGORY :: "(string \<times> string) list" where
  "TAG_TO_CATEGORY = [(''SQL_INJECTION'', ''sql-injection''), (''XSS'', ''xss''), (''RCE'', ''rce''), (''LFI'', ''lfi''),
     (''RFI'', ''rfi''), (''SCANNER'', ''scanner''), (''BRUTE_FORCE'', ''brute-force''),
     (''COMMAND_INJECTION'', ''command-injection''), (''PHP_INJECTION'', ''php-injection''),
     (''JAVA_INJECTION'', ''java-injection''), (''SESSION_FIXATION'', ''session-fixation''),
     (''PROTOCOL_VIOLATION'', ''protocol-violation''), (''PROTOCOL_ANOMALY'', ''protocol-anomaly''),
     (''ATTACK-SQLI'', ''sql-injection''), (''ATTACK-XSS'', ''xss''), (''ATTACK-RCE'', ''rce''), (''ATTACK-LFI'', ''lfi''),
     (''ATTACK-RFI'', ''rfi''), (''ATTACK-PROTOCOL'', ''protocol-violation''),
     (''ATTACK-PROTOCOL-ANOMALY'', ''protocol-anomaly''), (''ATTACK-INJECTION-PHP'', ''php-injection''),
     (''ATTACK-INJECTION-JAVA'', ''java-injection''), (''ATTACK-INJECTION-GENERIC'', ''injection-generic''),
     (''ATTACK-REPUTATION-SCANNER'', ''scanner''), (''ATTACK-REPUTATION-CRAWLER'', ''scanner''),
     (''ATTACK-REPUTATION-SCRIPTING'', ''scanner''), (''ATTACK-FIXATION'', ''session-fixation''),
     (''ATTACK-DISCLOSURE'', ''data-leakage''), (''ATTACK-DOS'', ''dos''), (''ATTACK-SCANNER'', ''scanner''),
     (''ATTACK-COMMAND-INJECTION'', ''command-injection''), (''ATTACK-PHP-INJECTION'', ''php-injection''),
     (''ATTACK-JAVA-INJECTION'', ''java-injection''), (''ATTACK-SESSION-FIXATION'', ''session-fixation'')]"

definition RULE_ID_PREFIX_TO_CATEGORY :: "(string \<times> string) list" where
  "RULE_ID_PREFIX_TO_CATEGORY = [(''913'', ''scanner''), (''920'', ''protocol-violation''), (''921'', ''protocol-violation''),
     (''930'', ''lfi''), (''931'', ''rfi''), (''932'', ''rce''), (''933'', ''php-injection''), (''941'', ''xss''),
     (''942'', ''sql-injection''), (''943'', ''session-fixation''), (''944'', ''java-injection'')]"

section \<open>Categories\<close>

text \<open>The first tag whose last segment is known; a tag that is not a text raises.\<close>

definition tag_segment :: "string \<Rightarrow> string" where
  "tag_segment t = py_upper (last (split_on (CHR ''/'') t))"

fun tag_category :: "json list \<Rightarrow> py_exn + string option" where
  "tag_category [] = Inr None"
| "tag_category (JStr t # ts) =
     (case map_of TAG_TO_CATEGORY (tag_segment t) of Some c \<Rightarrow> Inr (Some c) | None \<Rightarrow> tag_category ts)"
| "tag_category (j # ts) = Inl AttributeError"

definition parse_category :: "json list \<Rightarrow> py_exn + string" where
  "parse_category tags = rbind (tag_category tags) (\<lambda>c. Inr (case c of None \<Rightarrow> ''unknown'' | Some x \<Rightarrow> x))"

fun category_from_rule_ids :: "json list \<Rightarrow> string option" where
  "category_from_rule_ids [] = None"
| "category_from_rule_ids (r # rs) =
     (case (if jtruthy r \<and> 3 \<le> length (py_str r) then map_of RULE_ID_PREFIX_TO_CATEGORY (take 3 (py_str r)) else None) of
        Some c \<Rightarrow> Some c
      | None \<Rightarrow> category_from_rule_ids rs)"

text \<open>\<open>v.get(k, dflt)\<close> on a value that need not be a dictionary, and \<open>v[0]\<close>.\<close>

definition get_attr :: "json \<Rightarrow> string \<Rightarrow> json \<Rightarrow> py_exn + json" where
  "get_attr v k dflt = (case v of JObj d \<Rightarrow> Inr (jget_default k dflt d) | _ \<Rightarrow> Inl AttributeError)"

fun first_of :: "json \<Rightarrow> py_exn + json" where
  "first_of (JList (x # xs)) = Inr x"
| "first_of (JList []) = Inl IndexError"
| "first_of (JStr (c # cs)) = Inr (JStr [c])"
| "first_of (JStr []) = Inl IndexError"
| "first_of (JObj d) = Inl KeyError"
| "first_of j = Inl TypeError"

fun categorize_from :: "json list \<Rightarrow> json list \<Rightarrow> py_exn + string" where
  "categorize_from [] rule_ids = Inr (case category_from_rule_ids rule_ids of None \<Rightarrow> ''unknown'' | Some c \<Rightarrow> c)"
| "categorize_from (msg # msgs) rule_ids =
     (let details = (case msg of JObj m \<Rightarrow> jget_default ''details'' (JObj []) m | _ \<Rightarrow> JObj []) in
      rbind (get_attr details ''tags'' (JList [])) (\<lambda>tags.
      rbind (json_iter (jor tags (JList []))) (\<lambda>ts.
      rbind (tag_category ts) (\<lambda>c. case c of
        Some x \<Rightarrow> Inr x
      | None \<Rightarrow> rbind (get_attr details ''ruleId'' JNull) (\<lambda>rid.
          categorize_from msgs (if rid = JNull then rule_ids else rule_ids @ [rid]))))))"

definition categorize :: "json \<Rightarrow> py_exn + string" where
  "categorize messages = rbind (json_iter messages) (\<lambda>ms. categorize_from ms [])"

section \<open>One record\<close>

record parsed_event =
  pe_transaction_id :: json
  pe_domain :: string
  pe_source_ip :: json
  pe_method :: json
  pe_path :: json
  pe_status_code :: json
  pe_action :: string
  pe_rule_id :: "string option"
  pe_severity :: string
  pe_message :: json
  pe_category :: string

definition is_403 :: "json \<Rightarrow> bool" where
  "is_403 v \<longleftrightarrow> v = JInt 403 \<or> v = JFloat ''403.0''"

definition event_severity :: "json \<Rightarrow> string" where
  "event_severity v = (case map_of SEVERITY_MAP (py_upper (strip (py_str v))) of None \<Rightarrow> ''medium'' | Some s \<Rightarrow> s)"

text \<open>The host without its port, in lower case.\<close>

definition host_domain :: "json \<Rightarrow> py_exn + string" where
  "host_domain host = (case host of JStr h \<Rightarrow> Inr (py_lower (hd (split_on (CHR '':'') h))) | _ \<Rightarrow> Inl AttributeError)"

definition text_of :: "json \<Rightarrow> string option" where
  "text_of v = (if v = JNull then None else Some (py_str v))"

definition get_or :: "json \<Rightarrow> string \<Rightarrow> json \<Rightarrow> json" where
  "get_or v k dflt = (case v of JObj d \<Rightarrow> jget_default k dflt d | _ \<Rightarrow> dflt)"

text \<open>What is returned, once the parts of the record are known to be dictionaries.\<close>

definition event_of :: "json \<Rightarrow> json \<Rightarrow> json \<Rightarrow> json \<Rightarrow> json \<Rightarrow> json \<Rightarrow> string \<Rightarrow> string \<Rightarrow> parsed_event" where
  "event_of txn req msg0 status sev rid domain category =
     \<lparr>pe_transaction_id = jor (get_or txn ''id'' JNull) (get_or txn ''unique_id'' JNull), pe_domain = domain,
      pe_source_ip = jor (jor (jor (get_or req ''remote_address'' JNull) (get_or txn ''client_ip'' JNull))
        (get_or txn ''clientIp'' JNull)) (JStr []),
      pe_method = get_or req ''method'' (JStr ''GET''), pe_path = get_or req ''uri'' (JStr ''/''), pe_status_code = status,
      pe_action = (if is_403 status then ''block'' else ''detect''), pe_rule_id = text_of rid,
      pe_severity = event_severity sev, pe_message = get_or msg0 ''message'' (JStr []), pe_category = category\<rparr>"

definition parse_transaction :: "json \<Rightarrow> py_exn + parsed_event option" where
  "parse_transaction txn =
     rbind (get_attr txn ''messages'' (JList [])) (\<lambda>messages.
     if \<not> jtruthy messages then Inr None else
     rbind (get_attr txn ''request'' (JObj [])) (\<lambda>req.
     rbind (get_attr txn ''response'' (JObj [])) (\<lambda>resp.
     rbind (first_of messages) (\<lambda>msg0.
     rbind (get_attr msg0 ''details'' (JObj [])) (\<lambda>details.
     rbind (get_attr resp ''http_code'' (JInt 403)) (\<lambda>status.
     rbind (get_attr details ''severity'' (JStr [])) (\<lambda>sev.
     rbind (get_attr req ''headers'' (JObj [])) (\<lambda>headers.
     rbind (get_attr headers ''Host'' JNull) (\<lambda>h1.
     rbind (get_attr headers ''host'' JNull) (\<lambda>h2.
     rbind (host_domain (jor (jor h1 h2) (JStr ''unknown''))) (\<lambda>domain.
     rbind (get_attr details ''ruleId'' JNull) (\<lambda>rid.
     rbind (categorize messages) (\<lambda>category.
     Inr (Some (event_of txn req msg0 status sev rid domain category)))))))))))))))"

text \<open>A dictionary is taken as it is, a text is parsed.\<close>

definition parse_line :: "env \<Rightarrow> json \<Rightarrow> py_exn + parsed_event option" where
  "parse_line e line =
     (let data = (case line of
         JObj d \<Rightarrow> Inr (Some line)
       | JStr s \<Rightarrow> (case json_loads e (strip s) of
             Inl x \<Rightarrow> if x = JSONDecodeError \<or> x = ValueError then Inr None else Inl x
           | Inr j \<Rightarrow> Inr (Some j))
       | _ \<Rightarrow> Inl AttributeError)
      in rbind data (\<lambda>v. case v of
           None \<Rightarrow> Inr None
         | Some j \<Rightarrow> rbind (get_attr j ''transaction'' (JObj [])) (\<lambda>txn.
             if jtruthy txn then parse_transaction txn else Inr None)))"

section \<open>Storing\<close>

definition opt_str :: "string option \<Rightarrow> json" where
  "opt_str v = (case v of None \<Rightarrow> JNull | Some s \<Rightarrow> JStr s)"

definition event_row :: "env \<Rightarrow> nat option \<Rightarrow> string option \<Rightarrow> parsed_event \<Rightarrow> py_exn + attack_event" where
  "event_row e site country p =
     rbind (required e (Some 255) (JStr (pe_domain p))) (\<lambda>domain.
     rbind (required e (Some 80) (pe_source_ip p)) (\<lambda>ip.
     rbind (required e (Some 16) (pe_method p)) (\<lambda>meth.
     rbind (required e (Some 1000) (pe_path p)) (\<lambda>path.
     rbind (required_int e (pe_status_code p)) (\<lambda>status.
     rbind (nullable e (Some 80) (opt_str (pe_rule_id p))) (\<lambda>rid.
     rbind (required e None (pe_message p)) (\<lambda>msg.
     rbind (nullable e (Some 64) (pe_transaction_id p)) (\<lambda>tid.
     Inr \<lparr>ev_id = 0, ev_site_id = site, ev_domain = domain, ev_source_ip = ip, ev_country_code = country,
       ev_method = meth, ev_path = path, ev_status_code = status, ev_action = pe_action p, ev_category = pe_category p,
       ev_rule_id = rid, ev_severity = pe_severity p, ev_message = msg, ev_transaction_id = tid, ev_created_at = now e\<rparr>))))))))"

definition add_event :: "attack_event \<Rightarrow> db \<Rightarrow> db" where
  "add_event x d = d\<lparr>events := events d @ [x\<lparr>ev_id := fresh_id (map ev_id (events d))\<rparr>]\<rparr>"

text \<open>A refused value is found when the row is flushed: a null like a duplicate, anything else raised.\<close>

definition process_line :: "env \<Rightarrow> (string \<Rightarrow> string option) \<Rightarrow> json \<Rightarrow> unit sess_op" where
  "process_line e country line =
     bind (lift (parse_line e line)) (\<lambda>parsed. case parsed of
       None \<Rightarrow> ret ()
     | Some p \<Rightarrow>
         bind (fetch (\<lambda>s. map_option site_id (find (\<lambda>r. site_domain r = pe_domain p) (sites (working s))))) (\<lambda>site.
         let cc = (case pe_source_ip p of JStr t \<Rightarrow> if t = [] then None else country t | _ \<Rightarrow> None) in
         case event_row e site cc p of
           Inl x \<Rightarrow> bind rollback (\<lambda>_. if x = IntegrityError then ret () else raise x)
         | Inr r \<Rightarrow> bind (store_row e (add_event r)) (\<lambda>_. ret ())))"

text \<open>The raw record is cut when it is long; the cut text is wrapped in JSON again.\<close>

definition raw_text :: "json \<Rightarrow> string" where
  "raw_text j =
     (let t = json_dumps_text j in
      if RAW_JSON_MAX_BYTES < utf8_length t
      then json_dumps_text (JObj [(''_truncated'', JBool True), (''_head'', JStr (take_bytes (RAW_JSON_MAX_BYTES - 64) t))])
      else t)"

definition raw_fields :: "json \<Rightarrow> py_exn + json \<times> json \<times> json" where
  "raw_fields raw_dict =
     rbind (get_attr raw_dict ''transaction'' (JObj [])) (\<lambda>txn.
     rbind (get_attr txn ''id'' JNull) (\<lambda>i1.
     rbind (get_attr txn ''unique_id'' JNull) (\<lambda>i2.
     rbind (get_attr txn ''client_ip'' JNull) (\<lambda>ip.
     rbind (get_attr txn ''messages'' JNull) (\<lambda>m1.
     rbind (get_attr raw_dict ''messages'' JNull) (\<lambda>m2.
     rbind (first_of (jor (jor m1 m2) (JList [JObj []]))) (\<lambda>m.
     rbind (get_attr m ''details'' (JObj [])) (\<lambda>details.
     rbind (get_attr details ''ruleId'' JNull) (\<lambda>rid. Inr (jor i1 i2, ip, rid))))))))))"

definition raw_row :: "env \<Rightarrow> json \<Rightarrow> json \<times> json \<times> json \<Rightarrow> py_exn + modsec_raw_log" where
  "raw_row e raw_dict = (\<lambda>(tid, ip, rid).
     rbind (nullable e (Some 64) tid) (\<lambda>tid'.
     rbind (nullable e (Some 80) ip) (\<lambda>ip'.
     rbind (nullable e (Some 80) (opt_str (text_of rid))) (\<lambda>rid'.
     rbind (required e None (JStr (raw_text raw_dict))) (\<lambda>raw.
     Inr \<lparr>raw_id = 0, raw_transaction_id = tid', raw_source_ip = ip', raw_rule_id = rid', raw_json = raw,
       raw_created_at = now e\<rparr>)))))"

definition add_raw :: "modsec_raw_log \<Rightarrow> db \<Rightarrow> db" where
  "add_raw x d = d\<lparr>raw_logs := raw_logs d @ [x\<lparr>raw_id := fresh_id (map raw_id (raw_logs d))\<rparr>]\<rparr>"

definition store_raw_log :: "env \<Rightarrow> json \<Rightarrow> unit sess_op" where
  "store_raw_log e raw_dict =
     bind (lift (raw_fields raw_dict)) (\<lambda>fields.
     case raw_row e raw_dict fields of
       Inl x \<Rightarrow> rollback
     | Inr r \<Rightarrow> catch (bind (store_row e (add_raw r)) (\<lambda>_. ret ())) (\<lambda>_. ret ()))"

section \<open>The stream\<close>

text \<open>A line that is not an object is skipped; whatever fails for a line is logged.\<close>

definition handle_line :: "env \<Rightarrow> (string \<Rightarrow> string option) \<Rightarrow> string \<Rightarrow> unit sess_op" where
  "handle_line e country raw =
     (let line = strip raw in
      if take 1 line \<noteq> [CHR 0x7B] then ret ()
      else case json_loads e line of
        Inl x \<Rightarrow> if x = JSONDecodeError \<or> x = ValueError then ret () else raise x
      | Inr raw_dict \<Rightarrow>
          bind (catch (store_raw_log e raw_dict) (\<lambda>_. ret ())) (\<lambda>_.
          catch (process_line e country raw_dict) (\<lambda>_. ret ())))"

text \<open>Until the stream ends; any other exception ends it as well and the reader starts again.\<close>

definition follow_logs :: "env \<Rightarrow> (string \<Rightarrow> string option) \<Rightarrow> string list \<Rightarrow> unit sess_op" where
  "follow_logs e country raw_lines = catch (iterate (handle_line e country) raw_lines) (\<lambda>_. ret ())"

end
