(* ===== verification/WafIngestProps.thy ===== *)
theory WafIngestProps
  imports WafIngest
begin

text \<open>
  What the reader of the proxy's log guarantees: whatever the lines hold and whatever fails, it
  never stops with an exception, leaves nothing pending, only appends well-formed events and raw
  records, and stores no transaction twice; and how long a stored raw record can be.
\<close>

section \<open>Events are well formed\<close>

definition CATEGORIES :: "string list" where
  "CATEGORIES = ''unknown'' # map snd TAG_TO_CATEGORY @ map snd RULE_ID_PREFIX_TO_CATEGORY"

definition event_ok :: "attack_event \<Rightarrow> bool" where
  "event_ok x \<longleftrightarrow> ev_severity x \<in> set [''critical'', ''high'', ''medium'', ''low''] \<and> ev_action x \<in> set [''block'', ''detect'']
     \<and> ev_category x \<in> set CATEGORIES"

lemma event_severity_range: "event_severity v \<in> set [''critical'', ''high'', ''medium'', ''low'']"
proof -
  have "list_all (\<lambda>p. snd p \<in> set [''critical'', ''high'', ''medium'', ''low'']) SEVERITY_MAP"
    by (simp add: SEVERITY_MAP_def)
  then show ?thesis
    by (auto simp: event_severity_def list_all_iff dest!: map_of_SomeD split: option.split)
qed

lemma tag_category_known: "tag_category ts = Inr (Some c) \<Longrightarrow> c \<in> snd ` set TAG_TO_CATEGORY"
  by (induction ts rule: tag_category.induct) (force split: option.splits dest: map_of_SomeD)+

lemma rule_category_known: "category_from_rule_ids rs = Some c \<Longrightarrow> c \<in> snd ` set RULE_ID_PREFIX_TO_CATEGORY"
  by (induction rs) (force split: option.splits if_splits dest: map_of_SomeD)+

lemma categorize_from_known: "categorize_from ms rs = Inr c \<Longrightarrow> c \<in> set CATEGORIES"
proof (induction ms rs rule: categorize_from.induct)
  case (1 rs)
  then show ?case using rule_category_known by (auto simp: CATEGORIES_def split: option.splits)
next
  case (2 m ms rs)
  then show ?case using tag_category_known
    by (auto simp: rbind_eq_Inr Let_def CATEGORIES_def split: option.splits)
qed

lemma parse_transaction_ok:
  assumes "parse_transaction txn = Inr (Some p)"
  shows "pe_severity p \<in> set [''critical'', ''high'', ''medium'', ''low''] \<and> pe_action p \<in> set [''block'', ''detect'']
    \<and> pe_category p \<in> set CATEGORIES"
proof -
  obtain req msg0 status sev rid domain category messages where
    "p = event_of txn req msg0 status sev rid domain category" "categorize messages = Inr category"
    using assms unfolding parse_transaction_def by (auto simp: rbind_eq_Inr split: if_splits)
  then show ?thesis
    using event_severity_range [of sev] categorize_from_known by (auto simp: event_of_def categorize_def rbind_eq_Inr)
qed

lemma parse_line_ok:
  assumes "parse_line e line = Inr (Some p)"
  shows "pe_severity p \<in> set [''critical'', ''high'', ''medium'', ''low''] \<and> pe_action p \<in> set [''block'', ''detect'']
    \<and> pe_category p \<in> set CATEGORIES"
proof -
  obtain txn where "parse_transaction txn = Inr (Some p)"
    using assms unfolding parse_line_def by (auto simp: rbind_eq_Inr Let_def split: option.splits if_splits)
  then show ?thesis by (rule parse_transaction_ok)
qed

lemma event_row_ok:
  assumes "parse_line e line = Inr (Some p)" "event_row e site country p = Inr x"
  shows "event_ok x"
  using parse_line_ok [OF assms(1)] assms(2)
  unfolding event_row_def event_ok_def by (auto simp: rbind_eq_Inr)

section \<open>The tables only grow\<close>

definition ingested :: "db \<Rightarrow> db \<Rightarrow> bool" where
  "ingested d d' \<longleftrightarrow> (\<exists>new raw. d' = d\<lparr>events := events d @ new, raw_logs := raw_logs d @ raw\<rparr> \<and> list_all event_ok new)"

lemma ingested_order: "reflp ingested" "transp ingested"
proof -
  show "reflp ingested" by (rule reflpI) (auto simp: ingested_def intro!: exI [of _ "[]"])
  show "transp ingested"
  proof (rule transpI)
    fix x y z assume "ingested x y" "ingested y z"
    then obtain n r m q where "y = x\<lparr>events := events x @ n, raw_logs := raw_logs x @ r\<rparr>" "list_all event_ok n"
      "z = y\<lparr>events := events y @ m, raw_logs := raw_logs y @ q\<rparr>" "list_all event_ok m"
      unfolding ingested_def by blast
    then show "ingested x z" unfolding ingested_def
      by (intro exI [of _ "n @ m"] exI [of _ "r @ q"]) simp
  qed
qed

lemma ingestedI:
  "list_all event_ok new \<Longrightarrow> ingested d (d\<lparr>events := events d @ new, raw_logs := raw_logs d @ raw\<rparr>)"
  by (auto simp: ingested_def)

lemma ingested_event: "event_ok x \<Longrightarrow> ingested d (insert_unique (add_event x) d)"
  using ingestedI [of "[x\<lparr>ev_id := fresh_id (map ev_id (events d))\<rparr>]" d "[]"] ingested_order(1)
  by (simp add: insert_unique_def add_event_def event_ok_def reflpD)

lemma ingested_raw: "ingested d (insert_unique (add_raw x) d)"
  using ingestedI [of "[]" d "[x\<lparr>raw_id := fresh_id (map raw_id (raw_logs d))\<rparr>]"] ingested_order(1)
  by (simp add: insert_unique_def add_raw_def reflpD)

lemmas ingest_order = keeps_order(1) [OF ingested_order(1)] keeps_order(2) [OF ingested_order(2)]

lemma process_line_moves: "moves (keeps ingested) (process_line e country line)"
proof -
  let ?cc = "\<lambda>p. case pe_source_ip p of JStr t \<Rightarrow> if t = [] then None else country t | _ \<Rightarrow> None"
  have one: "moves (keeps ingested) (case event_row e site (?cc p) p of
       Inl x \<Rightarrow> bind rollback (\<lambda>_. if x = IntegrityError then ret () else raise x)
     | Inr r \<Rightarrow> bind (store_row e (add_event r)) (\<lambda>_. ret ()))"
    if "parse_line e line = Inr (Some p)" for site p
    using event_row_ok [OF that]
    by (intro moves_sum moves_bind moves_if moves_ret keeps_rollback keeps_store_row ingest_order
        ingested_order ingested_event) auto
  show ?thesis
  proof (cases "parse_line e line")
    case (Inl x)
    then show ?thesis by (simp add: process_line_def moves_ret ingest_order)
  next
    case (Inr parsed)
    then show ?thesis
      by (cases parsed) (auto simp: process_line_def Let_def moves_ret ingest_order simp del: ret_app
          intro!: moves_bind one)
  qed
qed

lemma store_raw_moves: "moves (keeps ingested) (store_raw_log e j)"
  unfolding store_raw_log_def
  by (intro moves_bind moves_sum moves_catch moves_lift moves_ret keeps_rollback keeps_store_row ingest_order
      ingested_order ingested_raw)

lemma handle_line_moves: "moves (keeps ingested) (handle_line e country raw)"
  unfolding handle_line_def
  by (intro moves_let moves_if moves_sum moves_bind moves_catch moves_ret store_raw_moves process_line_moves ingest_order)

lemma follow_logs_moves: "moves (keeps ingested) (follow_logs e country raw_lines)"
  unfolding follow_logs_def
  by (intro moves_catch moves_iterate handle_line_moves moves_ret ingest_order)


section \<open>The size of a raw record\<close>

lemma escape_size: "utf8_length (json_escape c) \<le> 6 * utf8_size c"
proof -
  have "utf8_size d \<le> 2" "0 < utf8_size d" for d by (simp_all add: utf8_size_def)
  moreover have "utf8_size (CHR 0x5C) = 1" "utf8_size (CHR ''n'') = 1" "utf8_size (CHR ''r'') = 1" "utf8_size (CHR ''t'') = 1"
    "utf8_size (CHR ''b'') = 1" "utf8_size (CHR ''f'') = 1" "utf8_size (CHR ''u'') = 1" "utf8_size (CHR ''0'') = 1"
    by (simp_all add: utf8_size_def is_ascii_def)
  moreover have "utf8_size (hex_char n) = 1" if "n < 16" for n
    using that by (simp add: utf8_size_def is_ascii_def hex_char_def)
  ultimately show ?thesis
    by (auto simp: json_escape_def utf8_size_def is_ascii_def)
qed

lemma json_string_size: "utf8_length (json_string s) \<le> 6 * utf8_length s + 2"
proof -
  have "utf8_length (concat (map json_escape s)) \<le> 6 * utf8_length s"
    by (induction s) (use escape_size in \<open>auto intro: add_mono\<close>)
  then show ?thesis by (simp add: json_string_def utf8_size_def is_ascii_def)
qed

lemma wrapped_text:
  "json_dumps_text (JObj [(''_truncated'', JBool True), (''_head'', JStr h)]) =
     [CHR 0x7B] @ json_string ''_truncated'' @ '': true, '' @ json_string ''_head'' @ '': '' @ json_string h @ [CHR 0x7D]"
  by (simp add: json_dumps_text_def)

lemma wrapped_size:
  "utf8_length (json_dumps_text (JObj [(''_truncated'', JBool True), (''_head'', JStr h)])) = utf8_length (json_string h) + 31"
  unfolding wrapped_text by (simp add: json_string_def json_escape_def utf8_size_def is_ascii_def)

text \<open>A text of quotes and backslashes only doubles.\<close>

definition doubling :: "char \<Rightarrow> bool" where
  "doubling c \<longleftrightarrow> c = CHR 0x22 \<or> c = CHR 0x5C"

lemma doubling_string: "list_all doubling s \<Longrightarrow> utf8_length (json_string s) = 2 * length s + 2"
proof -
  assume "list_all doubling s"
  then have "utf8_length (concat (map json_escape s)) = 2 * length s"
    by (induction s) (auto simp: doubling_def json_escape_def utf8_size_def is_ascii_def)
  then show ?thesis by (simp add: json_string_def utf8_size_def is_ascii_def)
qed

lemma doubling_take: "list_all doubling s \<Longrightarrow> take_bytes n s = take n s"
proof (induction n s rule: take_bytes.induct)
  case (2 n c cs)
  then show ?case by (cases n) (auto simp: doubling_def utf8_size_def is_ascii_def)
qed simp

lemma quotes_text:
  "json_dumps_text (JStr (replicate n (CHR 0x22))) = CHR 0x22 # concat (replicate n [CHR 0x5C, CHR 0x22]) @ [CHR 0x22]"
  by (simp add: json_dumps_text_def json_string_def json_escape_def map_replicate)

lemma quotes_doubling: "list_all doubling (json_dumps_text (JStr (replicate n (CHR 0x22))))"
proof -
  have "list_all doubling (concat (replicate n [CHR 0x5C, CHR 0x22]))" by (induction n) (simp_all add: doubling_def)
  then show ?thesis by (simp add: quotes_text doubling_def)
qed

lemma quotes_length: "length (json_dumps_text (JStr (replicate n (CHR 0x22)))) = 2 * n + 2"
proof -
  have "length (concat (replicate n [CHR 0x5C, CHR 0x22])) = 2 * n" by (induction n) simp_all
  then show ?thesis by (simp add: quotes_text)
qed

lemma raw_quotes_size: "utf8_length (raw_text (JStr (replicate 40000 (CHR 0x22)))) = 2 * 65472 + 33"
proof -
  let ?t = "json_dumps_text (JStr (replicate 40000 (CHR 0x22)))"
  have d: "list_all doubling ?t" and l: "length ?t = 80002" using quotes_doubling quotes_length by simp_all
  have "utf8_length s = length s" if "list_all doubling s" for s
    using that by (induction s) (auto simp: doubling_def utf8_size_def is_ascii_def)
  then have big: "RAW_JSON_MAX_BYTES < utf8_length ?t" using d l by (simp add: RAW_JSON_MAX_BYTES_def)
  have "list_all doubling (take 65472 ?t)" using d by (auto simp: list_all_iff dest: in_set_takeD)
  then have "utf8_length (json_string (take 65472 ?t)) = 2 * 65472 + 2" using l by (simp add: doubling_string)
  then show ?thesis
    unfolding raw_text_def Let_def using big
    by (simp only: if_True wrapped_size doubling_take [OF d] RAW_JSON_MAX_BYTES_def) simp
qed

section \<open>The properties\<close>

text \<open>
  C38: Whatever the proxy prints and whatever fails, the reader ends without an exception and
  with nothing pending; it only appends to the two tables, every new event has a known severity,
  action and category, and no transaction is ever stored twice.
\<close>

theorem ingest_appends:
  assumes "settled s"
  shows "\<exists>s' new raw. follow_logs e country raw_lines s = (Inr (), s') \<and> settled s' \<and> calls s' = calls s
     \<and> committed s' = committed s\<lparr>events := events (committed s) @ new, raw_logs := raw_logs (committed s) @ raw\<rparr>
     \<and> list_all event_ok new
     \<and> distinct (somes (map ev_transaction_id (events (committed s'))))
     \<and> distinct (somes (map raw_transaction_id (raw_logs (committed s'))))"
proof -
  obtain r s' where run: "follow_logs e country raw_lines s = (r, s')" by (cases "follow_logs e country raw_lines s")
  have "r = Inr ()" using run swallow_total [of "iterate (handle_line e country) raw_lines" s]
    by (simp add: follow_logs_def)
  moreover have k: "settled s' \<and> ingested (committed s) (committed s') \<and> calls s' = calls s"
    using movesD [OF follow_logs_moves run] assms by (simp add: keeps_def)
  moreover have "distinct (somes (map ev_transaction_id (events (committed s'))))
      \<and> distinct (somes (map raw_transaction_id (raw_logs (committed s'))))"
    using k by (simp add: settled_def constraints_def)
  ultimately show ?thesis using run unfolding ingested_def by blast
qed

theorem ingest_appends_witness:
  "\<exists>s' new raw. follow_logs (quiet_env\<lparr>json_loads := (\<lambda>t. Inr (JObj [(''transaction'', JList [])]))\<rparr>) (\<lambda>ip. None)
       [[CHR 0x7B], ''noise''] (fresh_session empty_db) = (Inr (), s') \<and> settled s'
     \<and> committed s' = empty_db\<lparr>events := new, raw_logs := raw\<rparr> \<and> list_all event_ok new"
proof -
  have "settled (fresh_session empty_db)" by (simp add: settled_def fresh_session_def)
  from ingest_appends [OF this, of "quiet_env\<lparr>json_loads := (\<lambda>t. Inr (JObj [(''transaction'', JList [])]))\<rparr>"
      "\<lambda>ip. None" "[[CHR 0x7B], ''noise'']"]
  show ?thesis by (auto simp: fresh_session_def empty_db_def)
qed






text \<open>
  A stored raw record is the JSON text of the record when that has at most 64 KB; otherwise
  it is the first 65472 bytes of it as a JSON string, which takes up to six times as much: the
  limit of 64 KB is not kept.
\<close>

theorem raw_record_size:
  "(if utf8_length (json_dumps_text j) \<le> 65536 then raw_text j = json_dumps_text j
    else utf8_length (raw_text j) \<le> 6 * 65472 + 33)
   \<and> (\<exists>j. 65536 < utf8_length (raw_text j))"
proof -
  have "utf8_length (raw_text j) \<le> 6 * 65472 + 33" if "65536 < utf8_length (json_dumps_text j)"
  proof -
    let ?h = "take_bytes 65472 (json_dumps_text j)"
    have "utf8_length (raw_text j) = utf8_length (json_string ?h) + 31"
      using that by (simp add: raw_text_def Let_def RAW_JSON_MAX_BYTES_def wrapped_size)
    then show ?thesis using json_string_size [of ?h] take_bytes_length [of 65472 "json_dumps_text j"] by linarith
  qed
  moreover have "raw_text j = json_dumps_text j" if "utf8_length (json_dumps_text j) \<le> 65536"
    using that by (simp add: raw_text_def Let_def RAW_JSON_MAX_BYTES_def)
  moreover have "65536 < utf8_length (raw_text (JStr (replicate 40000 (CHR 0x22))))"
    unfolding raw_quotes_size by simp
  ultimately show ?thesis by (metis not_le)
qed

end
