(* ===== verification/RawLog.thy ===== *)
theory RawLog
  imports Atomic PyTime "HOL-Library.List_Lexorder"
begin

text \<open>
  Retention of the raw ModSecurity records: the daily pruning with its optional encrypted
  archive, the names of the archives (\<^verbatim>\<open>app/proxy/rawlog_service.py\<close>) and when it is due
  (\<^verbatim>\<open>app/proxy/rawlog_worker.py\<close>).  Whether an archive can be written is an argument, as are the
  files of the archive directory and the reader of ISO times.
\<close>

section \<open>Archives\<close>

definition RAWLOG_ARCHIVE_NAME_RE :: rx where
  "RAWLOG_ARCHIVE_NAME_RE = anchored (Cat (lit ''wardnode-modsec-log-'') (Cat (rep_exact 8 (Cls is_digit))
     (Cat (lit ''-'') (Cat (rep_exact 6 (Cls is_digit)) (lit ''.zip'')))))"

record archive =
  ar_name :: string
  ar_size :: nat
  ar_mtime :: int

text \<open>Sorted by name, the latest first.\<close>

definition list_log_archives :: "archive list \<Rightarrow> archive list" where
  "list_log_archives files =
     rev (sort_key (\<lambda>a. map code (ar_name a)) (rev (filter (\<lambda>a. rx_match RAWLOG_ARCHIVE_NAME_RE (ar_name a) \<noteq> None) files)))"

definition resolve_log_archive_path :: "string \<Rightarrow> string list \<Rightarrow> string \<Rightarrow> py_exn + string" where
  "resolve_log_archive_path dir files name =
     (if rx_match RAWLOG_ARCHIVE_NAME_RE name = None then Inl ValueError
      else if name \<notin> set files then Inl FileNotFoundError
      else Inr (dir @ ''/'' @ name))"

section \<open>Pruning\<close>

record prune_result =
  pr_archived_rows :: nat
  pr_deleted_rows :: nat
  pr_archive_file :: "string option"
  pr_skipped_reason :: "string option"

text \<open>Writing an archive: \<open>None\<close> when it works, otherwise the text of the exception.\<close>

type_synonym zip_writer = "ext_call list \<Rightarrow> string \<Rightarrow> string option"

definition write_archive :: "zip_writer \<Rightarrow> string \<Rightarrow> string \<Rightarrow> string \<Rightarrow> string option sess_op" where
  "write_archive zw name password content s =
     (case zw (calls s) name of
        None \<Rightarrow> (Inr None, s\<lparr>calls := calls s @ [ArchiveWrite name password content]\<rparr>)
      | Some err \<Rightarrow> (Inr (Some err), s))"

definition expired :: "int \<Rightarrow> modsec_raw_log \<Rightarrow> bool" where
  "expired cutoff r \<longleftrightarrow> raw_created_at r < cutoff"

definition expired_rows :: "int \<Rightarrow> db \<Rightarrow> modsec_raw_log list" where
  "expired_rows cutoff d = sort_key raw_created_at (filter (expired cutoff) (raw_logs d))"

definition archive_content :: "modsec_raw_log list \<Rightarrow> string" where
  "archive_content rows = join [newline] (map raw_json rows)"

definition archive_name :: "int \<Rightarrow> string" where
  "archive_name t = ''wardnode-modsec-log-'' @ compact_seconds t @ ''.zip''"

definition iso_json :: "int \<Rightarrow> json" where
  "iso_json t = JStr (isoformat_utc t)"

text \<open>\<open>None\<close>: the pruning is given up; otherwise how many rows went to which file.\<close>

definition archive_expired :: "env \<Rightarrow> zip_writer \<Rightarrow> int \<Rightarrow> int \<Rightarrow> (nat \<times> string option) option sess_op" where
  "archive_expired e zw now_utc cutoff =
     bind (get_secret e ''modsec_rawlog_zip_password'') (\<lambda>password. case password of
       None \<Rightarrow> bind (log_audit e ''rawlog.prune'' (Some ''rawlog'') None
           (Some [(''reason'', JStr ''backup_enabled_but_no_password''), (''cutoff'', iso_json cutoff)]) ''warning'' ''failure'' None)
         (\<lambda>_. ret None)
     | Some pw \<Rightarrow> if pw = [] then bind (log_audit e ''rawlog.prune'' (Some ''rawlog'') None
           (Some [(''reason'', JStr ''backup_enabled_but_no_password''), (''cutoff'', iso_json cutoff)]) ''warning'' ''failure'' None)
         (\<lambda>_. ret None)
       else bind (fetch (\<lambda>s. expired_rows cutoff (working s))) (\<lambda>rows.
         if rows = [] then ret (Some (0, None))
         else bind (write_archive zw (archive_name now_utc) pw (archive_content rows)) (\<lambda>r. case r of
           Some err \<Rightarrow> bind (log_audit e ''rawlog.archive'' (Some ''rawlog_archive'') None
               (Some [(''error'', JStr (take 500 err)), (''cutoff'', iso_json cutoff)]) ''error'' ''failure'' None)
             (\<lambda>_. raise OSError)
         | None \<Rightarrow> bind (log_audit e ''rawlog.archive'' (Some ''rawlog_archive'') (Some (archive_name now_utc))
               (Some [(''rows'', JInt (int (length rows))), (''cutoff'', iso_json cutoff)]) ''info'' ''success'' None)
             (\<lambda>_. ret (Some (length rows, Some (archive_name now_utc)))))))"

text \<open>The text of a database error is left out of the entry.\<close>

definition delete_expired :: "env \<Rightarrow> int \<Rightarrow> nat sess_op" where
  "delete_expired e cutoff =
     catch
       (bind (fetch (\<lambda>s. length (filter (expired cutoff) (raw_logs (working s))))) (\<lambda>n.
        bind (update_db (\<lambda>d. d\<lparr>raw_logs := filter (\<lambda>r. \<not> expired cutoff r) (raw_logs d)\<rparr>)) (\<lambda>_.
        bind (commit e) (\<lambda>_. ret n))))
       (\<lambda>x. bind rollback (\<lambda>_. bind (log_audit e ''rawlog.prune'' (Some ''rawlog'') None
          (Some [(''error'', JStr ''SQLAlchemyError''), (''cutoff'', iso_json cutoff)]) ''error'' ''failure'' None)
        (\<lambda>_. raise x)))"

text \<open>What follows the archive: the deletion, its entry and the time of the run.\<close>

definition finish_prune :: "env \<Rightarrow> int \<Rightarrow> int \<Rightarrow> int \<Rightarrow> nat \<Rightarrow> string option \<Rightarrow> prune_result sess_op" where
  "finish_prune e now_utc cutoff days n file =
           bind (delete_expired e cutoff) (\<lambda>deleted.
           bind (log_audit e ''rawlog.prune'' (Some ''rawlog'') None
             (Some [(''retention_days'', JInt days), (''cutoff'', iso_json cutoff), (''archived_rows'', JInt (int n)),
                (''deleted_rows'', JInt (int deleted)), (''archive_file'', (case file of None \<Rightarrow> JNull | Some f \<Rightarrow> JStr f))])
             ''info'' ''success'' None) (\<lambda>_.
           bind (AppConfig_set e ''modsec_rawlog_last_prune_at'' (Some (isoformat_utc now_utc)) False) (\<lambda>_.
           ret \<lparr>pr_archived_rows = n, pr_deleted_rows = deleted, pr_archive_file = file, pr_skipped_reason = None\<rparr>)))"

definition prune_and_archive :: "env \<Rightarrow> zip_writer \<Rightarrow> int \<Rightarrow> prune_result sess_op" where
  "prune_and_archive e zw now_utc =
     bind (fetch (\<lambda>s. config_int (working s) ''modsec_rawlog_retention_days'' 30)) (\<lambda>days.
     let cutoff = now_utc - days * (24 * hour) in
     if 999999999 < \<bar>days\<bar> \<or> \<not> in_time_range cutoff then raise OverflowError
     else bind (fetch (\<lambda>s. config_get (working s) ''modsec_rawlog_backup_before_prune'' = Some ''1'')) (\<lambda>do_backup.
       bind (if do_backup then archive_expired e zw now_utc cutoff else ret (Some (0, None))) (\<lambda>archived. case archived of
         None \<Rightarrow> ret \<lparr>pr_archived_rows = 0, pr_deleted_rows = 0, pr_archive_file = None,
                    pr_skipped_reason = Some ''backup_enabled_but_no_password''\<rparr>
       | Some (n, file) \<Rightarrow> finish_prune e now_utc cutoff days n file)))"

section \<open>The daily run\<close>

definition is_prune_due :: "int \<Rightarrow> int \<Rightarrow> int option \<Rightarrow> bool" where
  "is_prune_due now_utc prune_hour last_run_at =
     (if hour_of now_utc < prune_hour then False
      else case last_run_at of None \<Rightarrow> True | Some t \<Rightarrow> day_of t < day_of now_utc)"

text \<open>\<open>from_iso\<close> is \<open>datetime.fromisoformat\<close>, giving the local time; \<open>None\<close> is its \<open>ValueError\<close>.\<close>

definition read_last_run :: "(string \<Rightarrow> int option) \<Rightarrow> db \<Rightarrow> int option" where
  "read_last_run from_iso d =
     from_iso (case config_get d ''modsec_rawlog_last_prune_at'' of None \<Rightarrow> [] | Some t \<Rightarrow> t)"

definition prune_tick :: "env \<Rightarrow> (string \<Rightarrow> int option) \<Rightarrow> zip_writer \<Rightarrow> unit sess_op" where
  "prune_tick e from_iso zw =
     bind (fetch working) (\<lambda>d.
       let prune_hour = max 0 (min 23 (config_int d ''modsec_rawlog_prune_hour'' 3)) in
       if \<not> is_prune_due (now e) prune_hour (read_last_run from_iso d) then ret ()
       else catch (bind (prune_and_archive e zw (now e)) (\<lambda>_. ret ())) (\<lambda>_. ret ()))"

definition prune_locked :: "bool \<Rightarrow> env \<Rightarrow> (string \<Rightarrow> int option) \<Rightarrow> zip_writer \<Rightarrow> unit sess_op" where
  "prune_locked got e from_iso zw = (if got then prune_tick e from_iso zw else ret ())"


text \<open>One round of the thread; the end of the application context discards what is pending.\<close>

definition rawlog_round :: "bool \<Rightarrow> env \<Rightarrow> (string \<Rightarrow> int option) \<Rightarrow> zip_writer \<Rightarrow> unit sess_op" where
  "rawlog_round got e from_iso zw =
     bind (catch (prune_locked got e from_iso zw) (\<lambda>_. ret ())) (\<lambda>_. rollback)"

section \<open>Nothing is deleted before it is archived\<close>

lemma log_audit_keeps:
  assumes "settled s"
  obtains t where "log_audit e a b c d f g h s = (Inr (), t)" "settled t" "calls t = calls s"
    "raw_logs (committed t) = raw_logs (committed s)" "configs (committed t) = configs (committed s)"
proof -
  let ?x = "audit_entry e a b c d f g h" and ?t = "snd (log_audit e a b c d f g h s)"
  have w: "working s = committed s" "constraints (committed s)" using assms by (simp_all add: settled_def)
  have "settled ?t \<and> raw_logs (committed ?t) = raw_logs (committed s) \<and> configs (committed ?t) = configs (committed s)"
    using w by (cases rule: store_audit_cases [of s e ?x]) (simp_all add: log_audit_def settled_def)
  moreover have "log_audit e a b c d f g h s = (Inr (), ?t)" "calls ?t = calls s"
    using store_audit_total [of e ?x s] by (simp_all add: log_audit_def store_audit_calls prod_eq_iff)
  ultimately show thesis using that by blast
qed

definition archived :: "int \<Rightarrow> int \<Rightarrow> session \<Rightarrow> session \<Rightarrow> bool" where
  "archived now_utc cutoff s t \<longleftrightarrow> expired_rows cutoff (committed s) = []
     \<or> (\<exists>pw. pw \<noteq> [] \<and> calls t = calls s @
          [ArchiveWrite (archive_name now_utc) pw (archive_content (expired_rows cutoff (committed s)))])"

lemma archive_expired_result:
  assumes "settled s"
  obtains r t where "archive_expired e zw now_utc cutoff s = (r, t)" "settled t"
    "raw_logs (committed t) = raw_logs (committed s)" "\<And>x. r = Inr (Some x) \<Longrightarrow> archived now_utc cutoff s t"
proof (cases "get_secret e ''modsec_rawlog_zip_password'' s")
  case (Pair p s')
  then have s': "s' = s" using get_secret_state [of e "''modsec_rawlog_zip_password''" s] by simp
  show thesis
  proof (cases p)
    case (Inl x)
    then show thesis using that [of "Inl x" s] Pair s' assms by (simp add: archive_expired_def bind_def)
  next
    case (Inr password)
    show thesis
    proof (cases "password = None \<or> password = Some []")
      case True
      obtain t where t: "log_audit e ''rawlog.prune'' (Some ''rawlog'') None
           (Some [(''reason'', JStr ''backup_enabled_but_no_password''), (''cutoff'', iso_json cutoff)]) ''warning'' ''failure'' None s
           = (Inr (), t)" "settled t" "raw_logs (committed t) = raw_logs (committed s)"
        by (rule log_audit_keeps [OF assms])
      have "archive_expired e zw now_utc cutoff s = (Inr None, t)"
        using True Pair Inr s' t(1) by (auto simp: archive_expired_def bind_def)
      then show thesis using that [of "Inr None" t] t by simp
    next
      case False
      then obtain pw where pw: "password = Some pw" "pw \<noteq> []" by auto
      let ?rows = "expired_rows cutoff (committed s)"
      have w: "working s = committed s" using assms by (simp add: settled_def)
      show thesis
      proof (cases "?rows = []")
        case True
        then have "archive_expired e zw now_utc cutoff s = (Inr (Some (0, None)), s)"
          using Pair Inr pw s' by (simp add: archive_expired_def bind_def w)
        then show thesis using that True assms by (simp add: archived_def)
      next
        case rows: False
        show thesis
        proof (cases "zw (calls s) (archive_name now_utc)")
          case (Some err)
          obtain t where t: "log_audit e ''rawlog.archive'' (Some ''rawlog_archive'') None
               (Some [(''error'', JStr (take 500 err)), (''cutoff'', iso_json cutoff)]) ''error'' ''failure'' None s
               = (Inr (), t)" "settled t" "raw_logs (committed t) = raw_logs (committed s)"
            by (rule log_audit_keeps [OF assms])
          have "archive_expired e zw now_utc cutoff s = (Inl OSError, t)"
            using Pair Inr pw s' rows Some t(1) by (simp add: archive_expired_def bind_def w write_archive_def)
          then show thesis using that [of "Inl OSError" t] t by simp
        next
          case None
          let ?s = "s\<lparr>calls := calls s @ [ArchiveWrite (archive_name now_utc) pw (archive_content ?rows)]\<rparr>"
          have "settled ?s" using assms by (simp add: settled_def)
          then obtain t where t: "log_audit e ''rawlog.archive'' (Some ''rawlog_archive'') (Some (archive_name now_utc))
               (Some [(''rows'', JInt (int (length ?rows))), (''cutoff'', iso_json cutoff)]) ''info'' ''success'' None ?s
               = (Inr (), t)" "settled t" "calls t = calls ?s" "raw_logs (committed t) = raw_logs (committed ?s)"
            by (rule log_audit_keeps)
          have "archive_expired e zw now_utc cutoff s = (Inr (Some (length ?rows, Some (archive_name now_utc))), t)"
            using Pair Inr pw s' rows None t(1) by (simp add: archive_expired_def bind_def w write_archive_def)
          then show thesis using that t pw(2) by (auto simp: archived_def)
        qed
      qed
    qed
  qed
qed

text \<open>The deletion happens as a whole or not at all.\<close>

lemma steps_delete: "steps (\<lambda>d d'. raw_logs d' \<in> {raw_logs d, filter (\<lambda>r. \<not> expired cutoff r) (raw_logs d)}) (delete_expired e cutoff)"
proof -
  let ?R = "\<lambda>d d'. raw_logs d' \<in> {raw_logs d, filter (\<lambda>r. \<not> expired cutoff r) (raw_logs d)}"
  have o: "reflp ?R" "transp ?R" by (auto simp: reflp_def transp_def)
  have "steps ?R (bind (fetch (\<lambda>s. length (filter (expired cutoff) (raw_logs (working s))))) (\<lambda>n.
        bind (update_db (\<lambda>d. d\<lparr>raw_logs := filter (\<lambda>r. \<not> expired cutoff r) (raw_logs d)\<rparr>)) (\<lambda>_.
        bind (commit e) (\<lambda>_. ret n))))"
    by (intro steps_bind steps_ret o steps_commit) simp
  moreover have "steps ?R (bind (log_audit e a b c d f g h) (\<lambda>_. raise x))" for a b c d f g h and x :: py_exn
    by (intro steps_bind steps_ret steps_log_audit o) (simp add: add_audit_def)
  ultimately show ?thesis unfolding delete_expired_def by (intro steps_catch_rollback o)
qed

abbreviation same_calls :: "session \<Rightarrow> session \<Rightarrow> bool" where
  "same_calls \<equiv> \<lambda>s t. calls t = calls s"

lemma delete_calls: "calls (snd (delete_expired e cutoff s)) = calls s"
proof -
  have o: "reflp same_calls" "transp same_calls" by (auto simp: reflp_def transp_def)
  have "moves same_calls (commit e)" "moves same_calls rollback" "moves same_calls (update_db f)"
    "moves same_calls (log_audit e a b c d g h i)" for f a b c d g h i
    by (simp_all add: moves_def commit_calls rollback_def update_db_def log_audit_def store_audit_calls)
  then have "moves same_calls (delete_expired e cutoff)"
    unfolding delete_expired_def by (intro moves_catch moves_bind moves_ret o)
  then show ?thesis by (simp add: moves_def)
qed

lemma steps_finish:
  "steps (\<lambda>d d'. raw_logs d' \<in> {raw_logs d, filter (\<lambda>r. \<not> expired cutoff r) (raw_logs d)})
     (finish_prune e now_utc cutoff days n file)"
proof -
  let ?R = "\<lambda>d d'. raw_logs d' \<in> {raw_logs d, filter (\<lambda>r. \<not> expired cutoff r) (raw_logs d)}"
  have o: "reflp ?R" "transp ?R" by (auto simp: reflp_def transp_def)
  show ?thesis unfolding finish_prune_def AppConfig_set_def
    by (intro steps_bind steps_ret steps_delete steps_log_audit steps_commit_only o) (simp_all add: config_put_def)
qed

lemma finish_calls: "calls (snd (finish_prune e now_utc cutoff days n file s)) = calls s"
proof -
  have o: "reflp same_calls" "transp same_calls" by (auto simp: reflp_def transp_def)
  have "moves same_calls (commit e)" "moves same_calls (update_db f)"
    "moves same_calls (log_audit e a b c d g h i)" "moves same_calls (delete_expired e cutoff)" for f a b c d g h i
    by (simp_all add: moves_def commit_calls update_db_def log_audit_def store_audit_calls delete_calls)
  then have "moves same_calls (finish_prune e now_utc cutoff days n file)"
    unfolding finish_prune_def AppConfig_set_def by (intro moves_bind moves_ret o)
  then show ?thesis by (simp add: moves_def)
qed

section \<open>The properties\<close>

text \<open>
  C40: With the backup enabled, a pruning that removes a raw record has written, earlier in the
  same run and under a password, an archive with every record it removes; whatever fails, the
  records are removed all together or not at all, and none that has not expired.
\<close>

theorem archived_before_deletion:
  assumes "settled s" "config_get (committed s) ''modsec_rawlog_backup_before_prune'' = Some ''1''"
    and "cutoff = now_utc - config_int (committed s) ''modsec_rawlog_retention_days'' 30 * (24 * hour)"
  shows "case prune_and_archive e zw now_utc s of (r, t) \<Rightarrow>
     raw_logs (committed t) = raw_logs (committed s)
     \<or> raw_logs (committed t) = filter (\<lambda>x. \<not> expired cutoff x) (raw_logs (committed s))
       \<and> (\<exists>pw. pw \<noteq> [] \<and> calls t = calls s @
            [ArchiveWrite (archive_name now_utc) pw (archive_content (expired_rows cutoff (committed s)))])"
proof -
  let ?d = "committed s" and ?days = "config_int (committed s) ''modsec_rawlog_retention_days'' 30"
  have w: "working s = ?d" using assms(1) by (simp add: settled_def)
  show ?thesis
  proof (cases "999999999 < \<bar>?days\<bar> \<or> \<not> in_time_range cutoff")
    case True
    then show ?thesis by (simp add: prune_and_archive_def bind_def w Let_def assms(3))
  next
    case False
    obtain r1 t1 where a: "archive_expired e zw now_utc cutoff s = (r1, t1)" "settled t1"
      "raw_logs (committed t1) = raw_logs ?d" "\<And>x. r1 = Inr (Some x) \<Longrightarrow> archived now_utc cutoff s t1"
      by (rule archive_expired_result [OF assms(1)]) blast
    have step: "prune_and_archive e zw now_utc s = bind (archive_expired e zw now_utc cutoff) (\<lambda>archived. case archived of
         None \<Rightarrow> ret \<lparr>pr_archived_rows = 0, pr_deleted_rows = 0, pr_archive_file = None,
                    pr_skipped_reason = Some ''backup_enabled_but_no_password''\<rparr>
       | Some (n, fname) \<Rightarrow> finish_prune e now_utc cutoff ?days n fname) s"
      using False assms(2) unfolding assms(3) by (simp add: prune_and_archive_def bind_def [of "fetch _"] w Let_def)
    show ?thesis
    proof (cases "\<exists>n fname. r1 = Inr (Some (n, fname))")
      case False
      then have "snd (prune_and_archive e zw now_utc s) = t1"
        unfolding step using a(1) by (auto simp: bind_def split: sum.splits option.splits)
      then show ?thesis using a(3) by (simp add: case_prod_beta)
    next
      case True
      then obtain n fname where r1: "r1 = Inr (Some (n, fname))" by blast
      have run: "prune_and_archive e zw now_utc s = finish_prune e now_utc cutoff ?days n fname t1"
        unfolding step using a(1) r1 by (simp add: bind_def)
      let ?t = "snd (finish_prune e now_utc cutoff ?days n fname t1)"
      have "raw_logs (committed ?t) \<in> {raw_logs ?d, filter (\<lambda>x. \<not> expired cutoff x) (raw_logs ?d)}"
        using steps_any [OF steps_finish a(2)] a(3) by simp
      moreover have "calls ?t = calls t1" by (rule finish_calls)
      moreover have "archived now_utc cutoff s t1" using a(4) r1 by simp
      moreover have "filter (\<lambda>x. \<not> expired cutoff x) (raw_logs ?d) = raw_logs ?d" if "expired_rows cutoff ?d = []"
      proof -
        have "filter (expired cutoff) (raw_logs ?d) = []" using that by (simp add: expired_rows_def flip: set_empty)
        then show ?thesis by (simp add: filter_empty_conv filter_id_conv)
      qed
      ultimately show ?thesis unfolding run archived_def by (auto simp: case_prod_beta)
    qed
  qed
qed


text \<open>One expired record, the backup enabled and a password set.\<close>

definition expired_demo :: db where
  "expired_demo = empty_db\<lparr>
     raw_logs := [\<lparr>raw_id = 1, raw_transaction_id = None, raw_source_ip = None, raw_rule_id = None,
       raw_json = ''{}'', raw_created_at = 0\<rparr>],
     configs := map (\<lambda>(k, v). \<lparr>cfg_key = k, cfg_value = Some v, cfg_encrypted = False\<rparr>)
       [(''modsec_rawlog_backup_before_prune'', ''1''), (''modsec_rawlog_zip_password'', ''pw''),
        (''modsec_rawlog_retention_days'', ''1'')]\<rparr>"

lemma expired_demo_settled: "settled (fresh_session expired_demo)"
  by (simp add: settled_def fresh_session_def constraints_def expired_demo_def empty_db_def)

lemma expired_demo_config: "config_get expired_demo ''modsec_rawlog_backup_before_prune'' = Some ''1''"
  "config_int expired_demo ''modsec_rawlog_retention_days'' 30 = 1"
  by (code_simp, code_simp)

theorem archived_before_deletion_witness:
  "case prune_and_archive quiet_env (\<lambda>h n. None) (48 * hour) (fresh_session expired_demo) of (r, t) \<Rightarrow>
     raw_logs (committed t) = raw_logs expired_demo
     \<or> (\<exists>pw. pw \<noteq> [] \<and> calls t = [ArchiveWrite (archive_name (48 * hour)) pw (archive_content (expired_rows (24 * hour) expired_demo))])"
  using archived_before_deletion [OF expired_demo_settled, of "24 * hour" "48 * hour" quiet_env "\<lambda>h n. None"]
    expired_demo_config by (auto simp: fresh_session_def)

end
