(* ===== verification/PyUrl.thy ===== *)
theory PyUrl
  imports Prelude
begin

text \<open>
  Python's \<open>urllib.parse\<close> as the program uses it: scheme, network location and path of
  \<open>urlsplit\<close> and \<open>urlparse\<close>, host name and port of the network location.  The check of a host in
  brackets differs between the patch releases of the interpreter and is an argument; it decides
  between an exception and the values below only.
\<close>

record url =
  url_scheme :: string
  url_netloc :: string
  url_path :: string

definition scheme_char :: "char \<Rightarrow> bool" where
  "scheme_char c \<longleftrightarrow> is_alnum c \<or> c \<in> {CHR ''+'', CHR ''-'', CHR ''.''}"

definition clean_url :: "string \<Rightarrow> string" where
  "clean_url s = filter (\<lambda>c. c \<notin> {CHR 0x09, CHR 0x0D, newline}) (dropWhile (\<lambda>c. code c \<le> 32) s)"

definition split_scheme :: "string \<Rightarrow> string \<times> string" where
  "split_scheme u =
     (let i = length (takeWhile (\<lambda>c. c \<noteq> CHR '':'') u) in
      if 0 < i \<and> i < length u \<and> is_alpha (hd u) \<and> list_all scheme_char (take i u)
      then (py_lower (take i u), drop (Suc i) u) else ([], u))"

definition split_netloc :: "string \<Rightarrow> string \<times> string" where
  "split_netloc u = (if take 2 u = ''//''
     then (takeWhile (\<lambda>c. c \<notin> {CHR ''/'', CHR ''?'', CHR ''#''}) (drop 2 u),
           dropWhile (\<lambda>c. c \<notin> {CHR ''/'', CHR ''?'', CHR ''#''}) (drop 2 u))
     else ([], u))"

text \<open>The parameters after a semicolon of the last segment, for the schemes that have them.\<close>

definition USES_PARAMS :: "string list" where
  "USES_PARAMS = [[], ''ftp'', ''hdl'', ''prospero'', ''http'', ''https'', ''shttp'', ''rtsp'', ''rtsps'', ''rtspu'',
     ''sip'', ''sips'', ''mms'', ''sftp'', ''tel'']"

definition last_segment :: "string \<Rightarrow> string" where
  "last_segment p = rev (takeWhile (\<lambda>c. c \<noteq> CHR ''/'') (rev p))"

definition drop_params :: "string \<Rightarrow> string \<Rightarrow> string" where
  "drop_params scheme p =
     (if scheme \<in> set USES_PARAMS
      then take (length p - length (last_segment p)) p @ takeWhile (\<lambda>c. c \<noteq> CHR '';'') (last_segment p)
      else p)"

definition urlparse :: "(string \<Rightarrow> bool) \<Rightarrow> string \<Rightarrow> py_exn + url" where
  "urlparse bracket_ok t =
     (let (scheme, rest) = split_scheme (clean_url t); (netloc, rest') = split_netloc rest;
          opened = CHR ''['' \<in> set netloc; closed = CHR '']'' \<in> set netloc;
          path = takeWhile (\<lambda>c. c \<noteq> CHR ''?'') (takeWhile (\<lambda>c. c \<noteq> CHR ''#'') rest') in
      if opened \<noteq> closed \<or> (opened \<and> closed \<and> \<not> bracket_ok netloc) then Inl ValueError
      else Inr \<lparr>url_scheme = scheme, url_netloc = netloc, url_path = drop_params scheme path\<rparr>)"

text \<open>\<open>_hostinfo\<close>: what stands behind the last \<open>@\<close>, a host in brackets first.\<close>

definition after_last :: "char \<Rightarrow> string \<Rightarrow> string" where
  "after_last c s = rev (takeWhile (\<lambda>x. x \<noteq> c) (rev s))"

definition before :: "char \<Rightarrow> string \<Rightarrow> string" where
  "before c s = takeWhile (\<lambda>x. x \<noteq> c) s"

definition after :: "char \<Rightarrow> string \<Rightarrow> string" where
  "after c s = drop (Suc (length (before c s))) s"

definition host_info :: "string \<Rightarrow> string \<times> string option" where
  "host_info netloc =
     (let info = after_last (CHR ''@'') netloc;
          (host, port) = (if CHR ''['' \<in> set info
             then (let b = after (CHR ''['') info in (before (CHR '']'') b, after (CHR '':'') (after (CHR '']'') b)))
             else (before (CHR '':'') info, after (CHR '':'') info)) in
      (host, if port = [] then None else Some port))"

definition url_hostname :: "url \<Rightarrow> string option" where
  "url_hostname u =
     (let h = fst (host_info (url_netloc u)) in
      if h = [] then None else Some (py_lower (before (CHR ''%'') h) @ drop (length (before (CHR ''%'') h)) h))"

definition url_port :: "url \<Rightarrow> py_exn + int option" where
  "url_port u = (case snd (host_info (url_netloc u)) of
      None \<Rightarrow> Inr None
    | Some t \<Rightarrow> if \<not> list_all is_digit t then Inl ValueError
        else (case py_int t of
            None \<Rightarrow> Inl ValueError
          | Some p \<Rightarrow> if 0 \<le> p \<and> p \<le> 65535 then Inr (Some p) else Inl ValueError))"

end
