(* ===== verification/Web.thy ===== *)
theory Web
  imports Atomic PyUrl
begin

text \<open>
  What the views of the console share: the cookie Flask keeps its session in, the state of a
  request, its answers, the current user (\<^verbatim>\<open>load_user\<close> of \<^verbatim>\<open>app/__init__.py\<close>), the role check
  (\<^verbatim>\<open>app/auth/decorators.py\<close>), and the rules by which a property of the state is carried through
  a view.
\<close>

section \<open>State and answers\<close>

record cookie =
  ck_user :: "string option"
  ck_mfa_user :: "nat option"
  ck_mfa_next :: "string option"
  ck_totp_pending :: "string option"

definition no_cookie :: cookie where
  "no_cookie = \<lparr>ck_user = None, ck_mfa_user = None, ck_mfa_next = None, ck_totp_pending = None\<rparr>"

record visit =
  vi_session :: session
  vi_cookie :: cookie
  vi_draws :: nat

type_synonym 'a view_op = "(visit, 'a) op"
type_synonym form = "(string \<times> string) list"

text \<open>Redirections (to an endpoint, to a target of the request), a template, a JSON answer, a file, an error
  page; a redirection or a template can carry messages.\<close>

datatype 'n reply =
    Goto string "'n option"
  | GotoTarget string
  | Page string "'n option" "string option"
  | Json nat "(string \<times> json) list"
  | Download string string
  | ErrorPage nat

definition on_db :: "'a sess_op \<Rightarrow> 'a view_op" where
  "on_db m v = (case m (vi_session v) of (r, s) \<Rightarrow> (r, v\<lparr>vi_session := s\<rparr>))"

definition table :: "(db \<Rightarrow> 'a) \<Rightarrow> 'a view_op" where
  "table f = fetch (\<lambda>v. f (working (vi_session v)))"

definition set_cookie :: "(cookie \<Rightarrow> cookie) \<Rightarrow> unit view_op" where
  "set_cookie f = modify (\<lambda>v. v\<lparr>vi_cookie := f (vi_cookie v)\<rparr>)"

definition draw :: "(nat \<Rightarrow> 'a) \<Rightarrow> 'a view_op" where
  "draw f v = (Inr (f (vi_draws v)), v\<lparr>vi_draws := Suc (vi_draws v)\<rparr>)"

definition save :: "env \<Rightarrow> (db \<Rightarrow> db) \<Rightarrow> unit view_op" where
  "save e f = on_db (bind (update_db f) (\<lambda>_. commit e))"

text \<open>\<open>request.form[k]\<close>: a field that is not there is a bad request.\<close>

definition need :: "form \<Rightarrow> string \<Rightarrow> string view_op" where
  "need f k = (case map_of f k of None \<Rightarrow> raise BadRequest | Some t \<Rightarrow> ret t)"

definition form_get :: "form \<Rightarrow> string \<Rightarrow> string" where
  "form_get f k = (case map_of f k of None \<Rightarrow> [] | Some t \<Rightarrow> t)"

section \<open>The current user\<close>

definition get_id :: "user \<Rightarrow> string" where
  "get_id u = show_nat (usr_id u) @ CHR '':'' # usr_session_token u"

definition superscript :: "char \<Rightarrow> bool" where
  "superscript c \<longleftrightarrow> code c \<in> {178, 179, 185}"

definition find_user :: "nat \<Rightarrow> db \<Rightarrow> user option" where
  "find_user i d = find (\<lambda>u. usr_id u = i) (users d)"

definition load_user :: "db \<Rightarrow> string \<Rightarrow> py_exn + user option" where
  "load_user d t =
     (let raw = takeWhile (\<lambda>c. c \<noteq> CHR '':'') t; token = drop (Suc (length raw)) t in
      if raw = [] \<or> \<not> list_all (\<lambda>c. is_digit c \<or> superscript c) raw then Inr None
      else (case py_int raw of
              None \<Rightarrow> Inl ValueError
            | Some i \<Rightarrow> Inr (case find_user (nat i) d of
                None \<Rightarrow> None
              | Some u \<Rightarrow> if usr_session_token u \<noteq> token then None else Some u)))"

definition current :: "db \<Rightarrow> cookie \<Rightarrow> py_exn + user option" where
  "current d c = (case ck_user c of None \<Rightarrow> Inr None | Some t \<Rightarrow> load_user d t)"

text \<open>\<open>current_user\<close>, when \<open>is_authenticated\<close>: Flask-Login takes an account that is active.\<close>

definition authenticated :: "db \<Rightarrow> cookie \<Rightarrow> user option" where
  "authenticated d c = (case current d c of
      Inr (Some u) \<Rightarrow> if usr_is_active u then Some u else None
    | _ \<Rightarrow> None)"

definition visiting :: "user option view_op" where
  "visiting v = (case current (working (vi_session v)) (vi_cookie v) of
      Inl x \<Rightarrow> (Inl x, v)
    | Inr _ \<Rightarrow> (Inr (authenticated (working (vi_session v)) (vi_cookie v)), v))"

text \<open>An entry of the audit trail, made by the current user.\<close>

definition audit_as :: "env \<Rightarrow> (env \<Rightarrow> audit_log) \<Rightarrow> unit view_op" where
  "audit_as e entry v =
     (let e' = e\<lparr>current_user := map_option (\<lambda>u. (usr_email u, usr_id u))
            (authenticated (working (vi_session v)) (vi_cookie v))\<rparr> in
      on_db (store_audit e' (entry e')) v)"

definition audit :: "env \<Rightarrow> string \<Rightarrow> string option \<Rightarrow> (string \<times> json) list option \<Rightarrow> string \<Rightarrow> string
    \<Rightarrow> (string \<times> nat option) option \<Rightarrow> unit view_op" where
  "audit e action name detail severity status actor =
     audit_as e (\<lambda>e'. audit_entry e' action (Some ''auth'') name detail severity status actor)"

definition ROLE_ADMIN :: string where "ROLE_ADMIN = ''admin''"
definition ROLE_OPERATOR :: string where "ROLE_OPERATOR = ''operator''"
definition ROLE_READER :: string where "ROLE_READER = ''reader''"
definition ROLES :: "string list" where "ROLES = [ROLE_ADMIN, ROLE_OPERATOR, ROLE_READER]"

definition has_role :: "user \<Rightarrow> string list \<Rightarrow> bool" where
  "has_role u roles \<longleftrightarrow> usr_role u \<in> set roles"

definition login_required :: "(user \<Rightarrow> 'n reply view_op) \<Rightarrow> 'n reply view_op" where
  "login_required f = bind visiting (\<lambda>r. case r of
      None \<Rightarrow> ret (Goto ''auth.login'' None)
    | Some u \<Rightarrow> f u)"

definition roles_required :: "string list \<Rightarrow> (user \<Rightarrow> 'n reply view_op) \<Rightarrow> 'n reply view_op" where
  "roles_required roles f = login_required (\<lambda>u. if \<not> has_role u roles then raise Forbidden else f u)"

section \<open>Requests\<close>

fun error_code :: "py_exn \<Rightarrow> nat" where
  "error_code BadRequest = 400"
| "error_code Forbidden = 403"
| "error_code NotFound = 404"
| "error_code _ = 500"

text \<open>The application between requests: the database, the cookies it has sent, the draws.\<close>

record web =
  w_session :: session
  w_issued :: "cookie list"
  w_draws :: nat

abbreviation w_db :: "web \<Rightarrow> db" where
  "w_db w \<equiv> committed (w_session w)"

definition visit_of :: "cookie \<Rightarrow> web \<Rightarrow> visit" where
  "visit_of c w = \<lparr>vi_session = w_session w, vi_cookie = c, vi_draws = w_draws w\<rparr>"

definition reply_of :: "py_exn + 'n reply \<Rightarrow> 'n reply" where
  "reply_of r = (case r of Inl x \<Rightarrow> ErrorPage (error_code x) | Inr y \<Rightarrow> y)"

definition leave :: "visit \<Rightarrow> web \<Rightarrow> web" where
  "leave v w = \<lparr>w_session = snd (rollback (vi_session v)), w_issued = w_issued w @ [vi_cookie v], w_draws = vi_draws v\<rparr>"

definition serve_view :: "'n reply view_op \<Rightarrow> cookie \<Rightarrow> web \<Rightarrow> 'n reply \<times> web" where
  "serve_view m c w = (case m (visit_of c w) of (r, v) \<Rightarrow> (reply_of r, leave v w))"

section \<open>Carrying a property through a view\<close>

definition holds :: "(visit \<Rightarrow> bool) \<Rightarrow> 'a view_op \<Rightarrow> bool" where
  "holds P m \<longleftrightarrow> moves (\<lambda>v v'. P v \<longrightarrow> P v') m"

lemma implication_order: "reflp (\<lambda>v v'. P v \<longrightarrow> P v')" "transp (\<lambda>v v'. P v \<longrightarrow> P v')"
  by (auto simp: reflp_def transp_def)

lemma holdsI: "(\<And>v. P v \<Longrightarrow> P (snd (m v))) \<Longrightarrow> holds P m"
  by (simp add: holds_def moves_def)

lemma holdsD: "holds P m \<Longrightarrow> m v = (r, v') \<Longrightarrow> P v \<Longrightarrow> P v'"
  by (auto simp: holds_def moves_def dest: spec [of _ v])

lemma holds_bind: "holds P m \<Longrightarrow> (\<And>x. holds P (f x)) \<Longrightarrow> holds P (bind m f)"
  unfolding holds_def by (rule moves_bind [OF implication_order(2)])

lemma holds_catch: "holds P m \<Longrightarrow> (\<And>x. holds P (h x)) \<Longrightarrow> holds P (catch m h)"
  unfolding holds_def by (rule moves_catch [OF implication_order(2)])

text \<open>What only reads.\<close>

lemma snd_lift [simp]: "snd (lift r v) = v"
  by (cases r) simp_all

lemma snd_visiting [simp]: "snd (visiting v) = v"
  by (simp add: visiting_def split: sum.split)

lemma snd_need [simp]: "snd (need f k v) = v"
  by (simp add: need_def split: option.split)

lemma snd_table [simp]: "snd (table f v) = v"
  by (simp add: table_def)

lemma holds_reading: "holds P (ret x)" "holds P (raise e)" "holds P (fetch g)" "holds P (table h)"
  "holds P (lift r)" "holds P (need f k)" "holds P visiting"
  by (rule holdsI; simp add: table_def)+

lemmas holds_control = moves_control [where R = "\<lambda>(v::visit) v'. P v \<longrightarrow> P v'" for P, folded holds_def]

lemma holds_guards:
  "(\<And>u. holds P (f u)) \<Longrightarrow> holds P (login_required f)" "(\<And>u. holds P (f u)) \<Longrightarrow> holds P (roles_required rs f)"
  unfolding login_required_def roles_required_def
  by (auto intro!: holds_bind holds_reading holds_control)

lemmas holds_intros = holds_guards holds_bind holds_catch holds_reading holds_control

lemma bind_snd: "snd (bind m f v) = (case m v of (Inl x, v') \<Rightarrow> v' | (Inr y, v') \<Rightarrow> snd (f y v'))"
  by (simp add: bind_def split: prod.split sum.split)

lemma commit_session: "working (snd (commit e s)) = working s \<and> committed (snd (commit e s)) \<in> {committed s, working s}
    \<and> (constraints (committed s) \<longrightarrow> constraints (committed (snd (commit e s))))"
  by (cases rule: commit_cases [of e s]) auto

lemma save_session:
  assumes "save e f v = (r, v')"
  shows "vi_cookie v' = vi_cookie v" "vi_draws v' = vi_draws v" "working (vi_session v') = f (working (vi_session v))"
    "committed (vi_session v') \<in> {committed (vi_session v), f (working (vi_session v))}"
    "constraints (committed (vi_session v)) \<Longrightarrow> constraints (committed (vi_session v'))"
  using assms commit_session [of e "vi_session v\<lparr>working := f (working (vi_session v))\<rparr>"]
  by (auto simp: save_def on_db_def bind_def update_db_def split: prod.splits)

lemma audit_as_session:
  assumes "audit_as e entry v = (r, v')"
  shows "r = Inr ()" "vi_cookie v' = vi_cookie v" "vi_draws v' = vi_draws v"
    "working (vi_session v') = committed (vi_session v')"
    "\<exists>a. committed (vi_session v') \<in> {committed (vi_session v), add_audit a (committed (vi_session v)), add_audit a (working (vi_session v))}"
    "calls (vi_session v') = calls (vi_session v)"
    "constraints (committed (vi_session v)) \<Longrightarrow> constraints (committed (vi_session v'))"
proof -
  define e' where "e' = e\<lparr>current_user := map_option (\<lambda>u. (usr_email u, usr_id u)) (authenticated (working (vi_session v)) (vi_cookie v))\<rparr>"
  have v': "(r, v') = (fst (store_audit e' (entry e') (vi_session v)), v\<lparr>vi_session := snd (store_audit e' (entry e') (vi_session v))\<rparr>)"
    using assms by (simp add: audit_as_def on_db_def e'_def Let_def split: prod.splits)
  show "vi_cookie v' = vi_cookie v" "vi_draws v' = vi_draws v" using v' by simp_all
  show "r = Inr ()" using v' store_audit_total by simp
  show "working (vi_session v') = committed (vi_session v')" using v' store_audit_settled by simp
  show "calls (vi_session v') = calls (vi_session v)" using v' store_audit_calls by simp
  show "\<exists>a. committed (vi_session v') \<in> {committed (vi_session v), add_audit a (committed (vi_session v)), add_audit a (working (vi_session v))}"
    "constraints (committed (vi_session v)) \<Longrightarrow> constraints (committed (vi_session v'))"
    using v' by (cases rule: store_audit_cases [of "vi_session v" e' "entry e'"]; auto)+
qed

lemma audit_session:
  assumes "audit e a n d sev st act v = (r, v')"
  shows "r = Inr ()" "vi_cookie v' = vi_cookie v" "vi_draws v' = vi_draws v"
    "working (vi_session v') = committed (vi_session v')"
    "users (committed (vi_session v')) \<in> {users (committed (vi_session v)), users (working (vi_session v))}"
    "reset_tokens (committed (vi_session v')) \<in> {reset_tokens (committed (vi_session v)), reset_tokens (working (vi_session v))}"
    "calls (vi_session v') = calls (vi_session v)"
    "constraints (committed (vi_session v)) \<Longrightarrow> constraints (committed (vi_session v'))"
  using audit_as_session [OF assms [unfolded audit_def]] by auto

lemma on_db_cookie [simp]: "vi_cookie (snd (on_db m v)) = vi_cookie v"
  by (simp add: on_db_def split: prod.split)

text \<open>Behind the role check.\<close>

lemma denied:
  assumes "\<And>u. authenticated (working (vi_session v)) (vi_cookie v) = Some u \<Longrightarrow> \<not> has_role u rs"
  shows "snd (roles_required rs f v) = v"
  using assms by (auto simp: roles_required_def login_required_def visiting_def bind_def split: sum.split option.split)

lemma roles_required_cases:
  "snd (roles_required rs f v) = v \<or> (\<exists>u. roles_required rs f v = f u v)"
proof (cases "\<exists>u. authenticated (working (vi_session v)) (vi_cookie v) = Some u \<and> has_role u rs")
  case True
  then show ?thesis
    by (auto simp: roles_required_def login_required_def visiting_def bind_def split: sum.split option.split)
next
  case False
  then show ?thesis using denied by blast
qed

section \<open>Reading a cookie\<close>

lemma find_facts: "find P xs = Some x \<Longrightarrow> x \<in> set xs \<and> P x"
  by (auto simp: find_Some_iff)

lemma load_user_text:
  assumes "load_user d (show_nat i @ CHR '':'' # tok) = Inr (Some u)"
  shows "u \<in> set (users d)" "usr_id u = i" "usr_session_token u = tok"
proof -
  let ?raw = "show_nat i"
  have colon: "CHR '':'' \<notin> set ?raw" using show_nat_digits [of "CHR '':''" i] by (auto simp: is_digit_def)
  then have raw: "takeWhile (\<lambda>c. c \<noteq> CHR '':'') (?raw @ CHR '':'' # tok) = ?raw"
    by (subst takeWhile_append2) auto
  obtain j where j: "py_int ?raw = Some j" "(case find_user (nat j) d of None \<Rightarrow> None
      | Some u \<Rightarrow> if usr_session_token u \<noteq> tok then None else Some u) = Some u"
    using assms by (auto simp: load_user_def raw Let_def split: if_splits option.splits)
  have "py_int ?raw = map_option int (parse_digits ?raw)"
    by (rule py_int_digits) (use show_nat_digits in auto)
  with j(1) have "j = int i"
    by (auto simp: parse_digits_def int_digits_all show_nat_digits split: option.splits if_splits)
  with j(2) have "find_user i d = Some u" "usr_session_token u = tok" by (auto split: option.splits if_splits)
  then show "u \<in> set (users d)" "usr_id u = i" "usr_session_token u = tok"
    using find_facts [of _ "users d" u] by (auto simp: find_user_def)
qed

lemma authenticated_user:
  assumes "authenticated d c = Some u"
  obtains t where "ck_user c = Some t" "load_user d t = Inr (Some u)" "usr_is_active u"
  using assms by (auto simp: authenticated_def current_def split: sum.splits option.splits if_splits)

end
