(* ===== verification/Auth.thy ===== *)
theory Auth
  imports Web
begin

text \<open>
  Accounts, login and second factor: \<^verbatim>\<open>app/auth/routes.py\<close> with the password policy
  (\<^verbatim>\<open>app/auth/password_policy.py\<close>), the account services (\<^verbatim>\<open>app/auth/services.py\<close>); the
  role check and the user loader are in \<^verbatim>\<open>Web\<close>, the views in \<^verbatim>\<open>AuthRoutes\<close>.

  The state of a request is the database session, the cookie of the browser (Flask keeps the
  session in it, signed: it cannot be forged, but an old one can be sent again) and the number
  of random values drawn so far.  The password hash, the random values, the one-time codes and
  Flask's own parts are arguments (\<open>auth_env\<close>).  A request that the CSRF check or the rate
  limit refuses never reaches a view.
\<close>

section \<open>Parameters, cookies, requests and answers\<close>

record auth_env =
  check_hash :: "string \<Rightarrow> string \<Rightarrow> bool"
  make_hash :: "nat \<Rightarrow> string \<Rightarrow> string"
  new_token :: "nat \<Rightarrow> string"
  url_token :: "nat \<Rightarrow> string"
  new_secret :: "nat \<Rightarrow> string"
  totp_verify :: "int \<Rightarrow> string \<Rightarrow> string \<Rightarrow> bool"
  bracket_ok :: "string \<Rightarrow> bool"
  external_url :: "string \<Rightarrow> string"
  public_base_url :: string
  show_token :: bool
  token_minutes :: int

datatype requirement = ReqLength | ReqUpper | ReqLower | ReqDigit | ReqSymbol

text \<open>The messages flashed to the user, in the order of the code.\<close>

datatype notice =
    PasswordsDiffer | WeakPassword "requirement list" | EmailTaken | AdminCreated | BadCredentials
  | LoggedOut | ResetRequested | BadResetLink | PasswordChanged | BadRole | UserCreated
  | AdminNotDeletable | DeleteFailed | UserDeleted | BadCode | SetupExpired | WrongCode | MfaOn
  | WrongPassword | MfaOff

section \<open>Passwords\<close>

definition MIN_LENGTH :: nat where "MIN_LENGTH = 12"

definition REQUIREMENTS :: "(requirement \<times> (string \<Rightarrow> bool)) list" where
  "REQUIREMENTS =
     [(ReqLength, \<lambda>p. MIN_LENGTH \<le> length p), (ReqUpper, \<lambda>p. list_ex is_upper p),
      (ReqLower, \<lambda>p. list_ex is_lower p), (ReqDigit, \<lambda>p. list_ex is_digit p),
      (ReqSymbol, \<lambda>p. list_ex (\<lambda>c. \<not> is_alnum c) p)]"

definition password_errors :: "string \<Rightarrow> requirement list" where
  "password_errors p = map fst (filter (\<lambda>r. \<not> snd r p) REQUIREMENTS)"

definition is_valid_password :: "string \<Rightarrow> bool" where
  "is_valid_password p \<longleftrightarrow> password_errors p = []"

text \<open>The two checks of every form that sets a password.\<close>

definition password_problem :: "string \<Rightarrow> string \<Rightarrow> notice option" where
  "password_problem p confirm =
     (if p \<noteq> confirm then Some PasswordsDiffer
      else if password_errors p \<noteq> [] then Some (WeakPassword (password_errors p)) else None)"

section \<open>Redirection targets\<close>

definition safe_redirect_target :: "auth_env \<Rightarrow> string option \<Rightarrow> py_exn + string option" where
  "safe_redirect_target ae target = (case target of
      None \<Rightarrow> Inr None
    | Some t \<Rightarrow>
        if t = [] then Inr None
        else rbind (urlparse (bracket_ok ae) t) (\<lambda>p.
          Inr (if url_scheme p \<noteq> [] \<or> url_netloc p \<noteq> [] then None else Some t)))"

section \<open>Accounts\<close>

definition admin_exists :: "db \<Rightarrow> bool" where
  "admin_exists d = list_ex (\<lambda>u. usr_role u = ROLE_ADMIN \<and> usr_is_active u) (users d)"

definition canonical :: "string \<Rightarrow> string" where
  "canonical email = py_lower (strip email)"

definition email_exists :: "string \<Rightarrow> db \<Rightarrow> bool" where
  "email_exists email d = list_ex (\<lambda>u. usr_email u = canonical email) (users d)"

definition active_user :: "string \<Rightarrow> db \<Rightarrow> user option" where
  "active_user email d = find (\<lambda>u. usr_email u = canonical email \<and> usr_is_active u) (users d)"

definition update_user :: "nat \<Rightarrow> (user \<Rightarrow> user) \<Rightarrow> db \<Rightarrow> db" where
  "update_user i f d = d\<lparr>users := map (\<lambda>u. if usr_id u = i then f u else u) (users d)\<rparr>"

text \<open>\<open>set_password\<close> draws the salt and a new session token.\<close>

definition set_password :: "string \<Rightarrow> string \<Rightarrow> user \<Rightarrow> user" where
  "set_password hash token u = u\<lparr>usr_password_hash := hash, usr_session_token := token\<rparr>"

definition draw_password :: "auth_env \<Rightarrow> string \<Rightarrow> (user \<Rightarrow> user) view_op" where
  "draw_password ae p =
     bind (draw (\<lambda>n. make_hash ae n p)) (\<lambda>h. bind (draw (new_token ae)) (\<lambda>t. ret (set_password h t)))"

definition check_password :: "auth_env \<Rightarrow> user \<Rightarrow> string \<Rightarrow> bool" where
  "check_password ae u p = check_hash ae (usr_password_hash u) p"

definition new_user :: "env \<Rightarrow> string \<Rightarrow> string \<Rightarrow> string \<Rightarrow> py_exn + user" where
  "new_user e email name role =
     rbind (required e (Some 255) (JStr (canonical email))) (\<lambda>m.
     rbind (required e (Some 160) (JStr (strip name))) (\<lambda>n.
     Inr \<lparr>usr_id = 0, usr_email = m, usr_name = n, usr_password_hash = [], usr_role = role, usr_is_active = True,
          usr_last_login_at = None, usr_totp_secret = None, usr_totp_enabled = False, usr_session_token = []\<rparr>))"

definition add_user :: "user \<Rightarrow> db \<Rightarrow> db" where
  "add_user u d = d\<lparr>users := users d @ [u\<lparr>usr_id := fresh_id (map usr_id (users d))\<rparr>]\<rparr>"

definition create_user :: "auth_env \<Rightarrow> env \<Rightarrow> string \<Rightarrow> string \<Rightarrow> string \<Rightarrow> string \<Rightarrow> unit view_op" where
  "create_user ae e email name password role =
     bind (draw_password ae password) (\<lambda>f.
     bind (lift (new_user e email name role)) (\<lambda>u. save e (add_user (f u))))"

text \<open>
  Deleting a row of the user table: the tokens go with it, the audit entries and the reviewed
  incidents lose the reference (\<open>ON DELETE SET NULL\<close>).
\<close>

definition remove_user :: "nat \<Rightarrow> db \<Rightarrow> db" where
  "remove_user i d =
     d\<lparr>users := filter (\<lambda>u. usr_id u \<noteq> i) (users d),
       reset_tokens := filter (\<lambda>t. rt_user_id t \<noteq> i) (reset_tokens d),
       audits := map (\<lambda>a. if al_actor_id a = Some i then a\<lparr>al_actor_id := None\<rparr> else a) (audits d),
       incidents := map (\<lambda>x. if inc_reviewed_by x = Some i then x\<lparr>inc_reviewed_by := None\<rparr> else x) (incidents d)\<rparr>"

section \<open>Reset tokens\<close>

definition is_expired :: "env \<Rightarrow> reset_token \<Rightarrow> bool" where
  "is_expired e t \<longleftrightarrow> rt_expires_at t \<le> now e"

definition is_usable :: "env \<Rightarrow> reset_token \<Rightarrow> bool" where
  "is_usable e t \<longleftrightarrow> rt_used_at t = None \<and> \<not> is_expired e t"

definition stale :: "env \<Rightarrow> reset_token \<Rightarrow> bool" where
  "stale e t \<longleftrightarrow> rt_used_at t \<noteq> None \<or> rt_expires_at t < now e"

definition purge_expired_reset_tokens :: "env \<Rightarrow> nat view_op" where
  "purge_expired_reset_tokens e =
     bind (table (\<lambda>d. length (filter (stale e) (reset_tokens d)))) (\<lambda>n.
     bind (save e (\<lambda>d. d\<lparr>reset_tokens := filter (\<lambda>t. \<not> stale e t) (reset_tokens d)\<rparr>)) (\<lambda>_. ret n))"

definition add_token :: "reset_token \<Rightarrow> db \<Rightarrow> db" where
  "add_token t d = d\<lparr>reset_tokens := reset_tokens d @ [t\<lparr>rt_id := fresh_id (map rt_id (reset_tokens d))\<rparr>]\<rparr>"

definition create_password_reset_token :: "auth_env \<Rightarrow> env \<Rightarrow> user \<Rightarrow> int \<Rightarrow> string view_op" where
  "create_password_reset_token ae e u minutes =
     bind (purge_expired_reset_tokens e) (\<lambda>_.
     bind (draw (url_token ae)) (\<lambda>raw.
     bind (draw (\<lambda>n. make_hash ae n raw)) (\<lambda>h.
     bind (save e (add_token \<lparr>rt_id = 0, rt_user_id = usr_id u, rt_token_hash = h,
         rt_expires_at = now e + minutes * 60000000, rt_used_at = None, rt_created_at = now e\<rparr>)) (\<lambda>_.
     ret raw))))"

definition find_usable_password_reset_token :: "auth_env \<Rightarrow> env \<Rightarrow> string \<Rightarrow> db \<Rightarrow> reset_token option" where
  "find_usable_password_reset_token ae e raw d =
     find (\<lambda>t. is_usable e t \<and> check_hash ae (rt_token_hash t) raw)
       (sort_key (\<lambda>t. - rt_created_at t) (filter (\<lambda>t. rt_used_at t = None) (reset_tokens d)))"

definition mark_used :: "nat \<Rightarrow> int \<Rightarrow> db \<Rightarrow> db" where
  "mark_used i at d =
     d\<lparr>reset_tokens := map (\<lambda>t. if rt_id t = i then t\<lparr>rt_used_at := Some at\<rparr> else t) (reset_tokens d)\<rparr>"

definition consume_password_reset_token :: "auth_env \<Rightarrow> env \<Rightarrow> reset_token \<Rightarrow> string \<Rightarrow> user view_op" where
  "consume_password_reset_token ae e t password =
     bind (table (find_user (rt_user_id t))) (\<lambda>owner. case owner of
       None \<Rightarrow> raise AttributeError
     | Some u \<Rightarrow>
         bind (draw_password ae password) (\<lambda>f.
         bind (save e (\<lambda>d. mark_used (rt_id t) (now e) (update_user (usr_id u) f d))) (\<lambda>_. ret (f u))))"

end
