(* ===== verification/AuthRoutes.thy ===== *)
theory AuthRoutes
  imports Auth
begin

text \<open>
  The views of \<^verbatim>\<open>app/auth/routes.py\<close>, one definition per route, and a request served: the view
  runs on what the request sees, an exception becomes an error page, the database session is
  closed (what was not committed is gone) and the cookie is sent back.
\<close>

section \<open>Guards\<close>

definition unless_admin :: "notice reply view_op \<Rightarrow> notice reply view_op" where
  "unless_admin m = bind (table admin_exists) (\<lambda>b. if b then ret (Goto ''auth.login'' None) else m)"

definition once_admin :: "notice reply view_op \<Rightarrow> notice reply view_op" where
  "once_admin m = bind (table admin_exists) (\<lambda>b. if \<not> b then ret (Goto ''auth.setup_admin'' None) else m)"

section \<open>Set-up and login\<close>

definition setup_admin :: "notice reply view_op" where
  "setup_admin = unless_admin (ret (Page ''auth/setup.html'' None None))"

definition create_initial_admin :: "auth_env \<Rightarrow> env \<Rightarrow> form \<Rightarrow> notice reply view_op" where
  "create_initial_admin ae e f = unless_admin (
     bind (need f ''password'') (\<lambda>password.
     bind (need f ''password_confirm'') (\<lambda>confirm.
     case password_problem password confirm of
       Some problem \<Rightarrow> ret (Goto ''auth.setup_admin'' (Some problem))
     | None \<Rightarrow>
         bind (need f ''email'') (\<lambda>email.
         bind (table (email_exists email)) (\<lambda>known.
         if known then ret (Goto ''auth.setup_admin'' (Some EmailTaken))
         else
           bind (need f ''name'') (\<lambda>name.
           bind (create_user ae e email name password ROLE_ADMIN) (\<lambda>_.
           ret (Goto ''auth.login'' (Some AdminCreated)))))))))"

definition login :: "notice reply view_op" where
  "login = bind visiting (\<lambda>r. if r \<noteq> None then ret (Goto ''proxy.dashboard'' None)
     else once_admin (ret (Page ''auth/login.html'' None None)))"

text \<open>The end of a login: the time of it is stored, then the cookie names the account.\<close>

definition sign_in :: "env \<Rightarrow> user \<Rightarrow> unit view_op" where
  "sign_in e u =
     bind (save e (update_user (usr_id u) (\<lambda>x. x\<lparr>usr_last_login_at := Some (now e)\<rparr>))) (\<lambda>_.
     set_cookie (\<lambda>c. c\<lparr>ck_user := Some (get_id u)\<rparr>))"

definition after_login :: "auth_env \<Rightarrow> string option \<Rightarrow> notice reply view_op" where
  "after_login ae next_url = bind (lift (safe_redirect_target ae next_url)) (\<lambda>t.
     ret (case t of None \<Rightarrow> Goto ''proxy.dashboard'' None | Some u \<Rightarrow> GotoTarget u))"

text \<open>The account of a login form when its password is right; the password is only read for a known account.\<close>

definition verified_user :: "auth_env \<Rightarrow> form \<Rightarrow> string \<Rightarrow> user option view_op" where
  "verified_user ae f email =
     bind (table (active_user email)) (\<lambda>r. case r of
       None \<Rightarrow> ret None
     | Some u \<Rightarrow> bind (need f ''password'') (\<lambda>p. ret (if check_password ae u p then Some u else None)))"

definition login_post :: "auth_env \<Rightarrow> env \<Rightarrow> form \<Rightarrow> string option \<Rightarrow> notice reply view_op" where
  "login_post ae e f next_url = once_admin (
     bind (need f ''email'') (\<lambda>email.
     bind (verified_user ae f email) (\<lambda>r. case r of
       None \<Rightarrow>
         bind (audit e ''auth.login_fail'' (Some (canonical email)) None ''warning'' ''failure'' (Some (canonical email, None))) (\<lambda>_.
         ret (Goto ''auth.login'' (Some BadCredentials)))
     | Some u \<Rightarrow>
         if usr_totp_enabled u then
           bind (set_cookie (\<lambda>c. c\<lparr>ck_mfa_user := Some (usr_id u), ck_mfa_next := next_url\<rparr>)) (\<lambda>_.
           ret (Goto ''auth.mfa_challenge'' None))
         else
           bind (sign_in e u) (\<lambda>_.
           bind (audit e ''auth.login'' (Some (canonical email)) None ''info'' ''success'' (Some (usr_email u, Some (usr_id u)))) (\<lambda>_.
           after_login ae next_url)))))"

definition logout :: "env \<Rightarrow> notice reply view_op" where
  "logout e =
     bind (audit e ''auth.logout'' None None ''info'' ''success'' None) (\<lambda>_.
     bind (set_cookie (\<lambda>c. c\<lparr>ck_user := None\<rparr>)) (\<lambda>_.
     ret (Goto ''auth.login'' (Some LoggedOut))))"

section \<open>Forgotten passwords\<close>

definition forgot_password :: "notice reply view_op" where
  "forgot_password = once_admin (ret (Page ''auth/forgot_password.html'' None None))"

definition drop_slashes :: "string \<Rightarrow> string" where
  "drop_slashes s = rev (dropWhile (\<lambda>c. c = CHR ''/'') (rev s))"

definition token_url :: "auth_env \<Rightarrow> string \<Rightarrow> string" where
  "token_url ae raw =
     (if public_base_url ae \<noteq> [] then drop_slashes (public_base_url ae) @ ''/auth/reset-password/'' @ raw
      else external_url ae (''/auth/reset-password/'' @ raw))"

text \<open>
  \<open>smtp_configured\<close> and \<open>send_password_reset_email\<close> of \<^verbatim>\<open>app/email.py\<close>: a port that is not a number
  raises before anything is sent, and whatever is raised is swallowed.
\<close>

definition smtp_configured :: "db \<Rightarrow> bool" where
  "smtp_configured d = (case config_get d ''smtp_host'' of None \<Rightarrow> False | Some h \<Rightarrow> h \<noteq> [])"

definition send_password_reset_email :: "string \<Rightarrow> string \<Rightarrow> unit view_op" where
  "send_password_reset_email to_email reset_url =
     bind (table (\<lambda>d. config_number (config_get d ''smtp_port'') 587)) (\<lambda>port. case port of
       None \<Rightarrow> raise ValueError
     | Some _ \<Rightarrow> on_db (external (MailSend to_email reset_url)))"

definition request_reset :: "auth_env \<Rightarrow> env \<Rightarrow> user \<Rightarrow> string option view_op" where
  "request_reset ae e u =
     bind (create_password_reset_token ae e u (token_minutes ae)) (\<lambda>raw.
     bind (if public_base_url ae \<noteq> []
           then catch (bind (table smtp_configured) (\<lambda>b. if b then send_password_reset_email (usr_email u) (token_url ae raw) else ret ()))
                  (\<lambda>_. ret ())
           else ret ()) (\<lambda>_.
     ret (if show_token ae then Some (token_url ae raw) else None)))"

definition forgot_password_post :: "auth_env \<Rightarrow> env \<Rightarrow> form \<Rightarrow> notice reply view_op" where
  "forgot_password_post ae e f = once_admin (
     bind (need f ''email'') (\<lambda>email.
     bind (table (active_user email)) (\<lambda>r.
     bind (case r of None \<Rightarrow> ret None | Some u \<Rightarrow> request_reset ae e u) (\<lambda>reset_url.
     bind (audit e ''auth.password_reset_request'' (Some (canonical email)) None ''info'' ''success'' None) (\<lambda>_.
     ret (case reset_url of
            Some url \<Rightarrow> if url \<noteq> [] then Page ''auth/forgot_password.html'' (Some ResetRequested) (Some url)
                        else Goto ''auth.login'' (Some ResetRequested)
          | None \<Rightarrow> Goto ''auth.login'' (Some ResetRequested)))))))"

definition reset_password :: "auth_env \<Rightarrow> env \<Rightarrow> string \<Rightarrow> notice reply view_op" where
  "reset_password ae e token =
     bind (table (find_usable_password_reset_token ae e token)) (\<lambda>r.
     ret (if r = None then Goto ''auth.forgot_password'' (Some BadResetLink)
          else Page ''auth/reset_password.html'' None (Some token)))"

definition reset_password_post :: "auth_env \<Rightarrow> env \<Rightarrow> string \<Rightarrow> form \<Rightarrow> notice reply view_op" where
  "reset_password_post ae e token f =
     bind (table (find_usable_password_reset_token ae e token)) (\<lambda>r. case r of
       None \<Rightarrow> ret (Goto ''auth.forgot_password'' (Some BadResetLink))
     | Some t \<Rightarrow>
         bind (need f ''password'') (\<lambda>password.
         bind (need f ''password_confirm'') (\<lambda>confirm.
         case password_problem password confirm of
           Some problem \<Rightarrow> ret (Goto ''auth.reset_password'' (Some problem))
         | None \<Rightarrow>
             bind (consume_password_reset_token ae e t password) (\<lambda>u.
             bind (audit e ''auth.password_reset'' (Some (usr_email u)) None ''warning'' ''success''
               (Some (usr_email u, Some (usr_id u)))) (\<lambda>_.
             ret (Goto ''auth.login'' (Some PasswordChanged)))))))"

section \<open>Administration of accounts\<close>

definition users_page :: "notice reply view_op" where
  "users_page = roles_required [ROLE_ADMIN] (\<lambda>_. ret (Page ''auth/users.html'' None None))"

definition create_user_post :: "auth_env \<Rightarrow> env \<Rightarrow> form \<Rightarrow> notice reply view_op" where
  "create_user_post ae e f = roles_required [ROLE_ADMIN] (\<lambda>_.
     bind (need f ''password'') (\<lambda>password.
     bind (need f ''password_confirm'') (\<lambda>confirm.
     case password_problem password confirm of
       Some problem \<Rightarrow> ret (Goto ''auth.users'' (Some problem))
     | None \<Rightarrow>
         bind (need f ''email'') (\<lambda>email.
         bind (table (email_exists email)) (\<lambda>known.
         if known then ret (Goto ''auth.users'' (Some EmailTaken))
         else
           bind (need f ''role'') (\<lambda>role.
           if role \<notin> set ROLES then ret (Goto ''auth.users'' (Some BadRole))
           else
             bind (need f ''name'') (\<lambda>name.
             bind (create_user ae e email name password role) (\<lambda>_.
             bind (audit e ''auth.user_create'' (Some email) (Some [(''role'', JStr role)]) ''info'' ''success'' None) (\<lambda>_.
             ret (Goto ''auth.users'' (Some UserCreated)))))))))))"

definition delete_user_post :: "env \<Rightarrow> nat \<Rightarrow> notice reply view_op" where
  "delete_user_post e i = roles_required [ROLE_ADMIN] (\<lambda>_.
     bind (table (find_user i)) (\<lambda>r. case r of
       None \<Rightarrow> raise NotFound
     | Some u \<Rightarrow>
         if usr_role u = ROLE_ADMIN then ret (Goto ''auth.users'' (Some AdminNotDeletable))
         else
           bind (catch (bind (save e (remove_user i)) (\<lambda>_. ret True)) (\<lambda>_. bind (on_db rollback) (\<lambda>_. ret False))) (\<lambda>deleted.
           let detail = Some [(''role'', JStr (usr_role u))] in
           if deleted then
             bind (audit e ''auth.user_delete'' (Some (usr_email u)) detail ''warning'' ''success'' None) (\<lambda>_.
             ret (Goto ''auth.users'' (Some UserDeleted)))
           else
             bind (audit e ''auth.user_delete'' (Some (usr_email u)) detail ''error'' ''failure'' None) (\<lambda>_.
             ret (Goto ''auth.users'' (Some DeleteFailed))))))"

section \<open>Second factor\<close>

definition mfa_challenge :: "notice reply view_op" where
  "mfa_challenge = bind (fetch (\<lambda>v. ck_mfa_user (vi_cookie v))) (\<lambda>r.
     ret (if r = None then Goto ''auth.login'' None else Page ''auth/mfa_challenge.html'' None None))"

definition clean_code :: "form \<Rightarrow> string" where
  "clean_code f = replace_char (CHR '' '') [] (form_get f ''code'')"

text \<open>The secret of an account; one that cannot be decrypted any more counts as none.\<close>

definition totp_secret_of :: "env \<Rightarrow> user \<Rightarrow> string option" where
  "totp_secret_of e u = (case usr_totp_secret u of
      None \<Rightarrow> None
    | Some t \<Rightarrow> if t = [] then None
        else (case decrypt_secret e (Some t) of Inl _ \<Rightarrow> None | Inr s \<Rightarrow> s))"

definition code_accepted :: "auth_env \<Rightarrow> env \<Rightarrow> user \<Rightarrow> form \<Rightarrow> bool" where
  "code_accepted ae e u f = (case totp_secret_of e u of
      None \<Rightarrow> False
    | Some s \<Rightarrow> s \<noteq> [] \<and> totp_verify ae (now e) s (clean_code f))"

definition forget_challenge :: "unit view_op" where
  "forget_challenge = set_cookie (\<lambda>c. c\<lparr>ck_mfa_user := None, ck_mfa_next := None\<rparr>)"

definition challenged_user :: "nat \<Rightarrow> db \<Rightarrow> user option" where
  "challenged_user i d = (case find_user i d of
      None \<Rightarrow> None
    | Some u \<Rightarrow> if usr_is_active u \<and> usr_totp_enabled u then Some u else None)"

definition pass_challenge :: "auth_env \<Rightarrow> env \<Rightarrow> user \<Rightarrow> notice reply view_op" where
  "pass_challenge ae e u =
     bind (fetch (\<lambda>v. ck_mfa_next (vi_cookie v))) (\<lambda>next_url.
     bind forget_challenge (\<lambda>_.
     bind (sign_in e u) (\<lambda>_.
     bind (audit e ''auth.mfa_ok'' None None ''info'' ''success'' (Some (usr_email u, Some (usr_id u)))) (\<lambda>_.
     after_login ae next_url))))"

definition mfa_verify :: "auth_env \<Rightarrow> env \<Rightarrow> form \<Rightarrow> notice reply view_op" where
  "mfa_verify ae e f =
     bind (fetch (\<lambda>v. ck_mfa_user (vi_cookie v))) (\<lambda>pending. case pending of
       None \<Rightarrow> ret (Goto ''auth.login'' None)
     | Some i \<Rightarrow>
         if i = 0 then ret (Goto ''auth.login'' None)
         else
           bind (table (challenged_user i)) (\<lambda>r. case r of
             None \<Rightarrow> bind forget_challenge (\<lambda>_. ret (Goto ''auth.login'' None))
           | Some u \<Rightarrow>
               if \<not> code_accepted ae e u f then ret (Page ''auth/mfa_challenge.html'' (Some BadCode) None)
               else pass_challenge ae e u))"

definition profile :: "notice reply view_op" where
  "profile = login_required (\<lambda>_. ret (Page ''auth/profile.html'' None None))"

definition mfa_setup_start :: "auth_env \<Rightarrow> notice reply view_op" where
  "mfa_setup_start ae = login_required (\<lambda>_.
     bind (draw (new_secret ae)) (\<lambda>secret.
     bind (set_cookie (\<lambda>c. c\<lparr>ck_totp_pending := Some secret\<rparr>)) (\<lambda>_.
     ret (Goto ''auth.mfa_setup_qr'' None))))"

text \<open>The page shows the secret and its QR code.\<close>

definition mfa_setup_qr :: "notice reply view_op" where
  "mfa_setup_qr = login_required (\<lambda>_.
     bind (fetch (\<lambda>v. ck_totp_pending (vi_cookie v))) (\<lambda>secret.
     ret (case secret of
            None \<Rightarrow> Goto ''auth.profile'' None
          | Some s \<Rightarrow> if s = [] then Goto ''auth.profile'' None else Page ''auth/mfa_setup.html'' None (Some s))))"

definition mfa_enable :: "auth_env \<Rightarrow> env \<Rightarrow> form \<Rightarrow> notice reply view_op" where
  "mfa_enable ae e f = login_required (\<lambda>u.
     bind (fetch (\<lambda>v. ck_totp_pending (vi_cookie v))) (\<lambda>pending.
     if pending = None \<or> pending = Some [] then ret (Goto ''auth.profile'' (Some SetupExpired))
     else if \<not> totp_verify ae (now e) (the pending) (clean_code f) then ret (Goto ''auth.mfa_setup_qr'' (Some WrongCode))
     else
       bind (lift (encrypt_secret e (the pending))) (\<lambda>secret.
       bind (save e (update_user (usr_id u) (\<lambda>x. x\<lparr>usr_totp_secret := Some secret, usr_totp_enabled := True\<rparr>))) (\<lambda>_.
       bind (set_cookie (\<lambda>c. c\<lparr>ck_totp_pending := None\<rparr>)) (\<lambda>_.
       ret (Goto ''auth.profile'' (Some MfaOn)))))))"

definition mfa_disable :: "auth_env \<Rightarrow> env \<Rightarrow> form \<Rightarrow> notice reply view_op" where
  "mfa_disable ae e f = login_required (\<lambda>u.
     if \<not> check_password ae u (form_get f ''password'') then ret (Goto ''auth.profile'' (Some WrongPassword))
     else
       bind (save e (update_user (usr_id u) (\<lambda>x. x\<lparr>usr_totp_secret := None, usr_totp_enabled := False\<rparr>))) (\<lambda>_.
       ret (Goto ''auth.profile'' (Some MfaOff))))"

definition docs :: "notice reply view_op" where
  "docs = login_required (\<lambda>_. ret (Page ''auth/docs.html'' None None))"

section \<open>Requests\<close>

datatype request =
    GetSetup | PostSetup form
  | GetLogin | PostLogin form "string option" | PostLogout
  | GetForgot | PostForgot form
  | GetReset string | PostReset string form
  | GetUsers | PostUsers form | PostDelete nat
  | GetMfa | PostMfa form
  | GetProfile | PostMfaSetup | GetMfaSetup | PostMfaEnable form | PostMfaDisable form | GetDocs

fun view_of :: "auth_env \<Rightarrow> env \<Rightarrow> request \<Rightarrow> notice reply view_op" where
  "view_of ae e GetSetup = setup_admin"
| "view_of ae e (PostSetup f) = create_initial_admin ae e f"
| "view_of ae e GetLogin = login"
| "view_of ae e (PostLogin f next_url) = login_post ae e f next_url"
| "view_of ae e PostLogout = logout e"
| "view_of ae e GetForgot = forgot_password"
| "view_of ae e (PostForgot f) = forgot_password_post ae e f"
| "view_of ae e (GetReset t) = reset_password ae e t"
| "view_of ae e (PostReset t f) = reset_password_post ae e t f"
| "view_of ae e GetUsers = users_page"
| "view_of ae e (PostUsers f) = create_user_post ae e f"
| "view_of ae e (PostDelete i) = delete_user_post e i"
| "view_of ae e GetMfa = mfa_challenge"
| "view_of ae e (PostMfa f) = mfa_verify ae e f"
| "view_of ae e GetProfile = profile"
| "view_of ae e PostMfaSetup = mfa_setup_start ae"
| "view_of ae e GetMfaSetup = mfa_setup_qr"
| "view_of ae e (PostMfaEnable f) = mfa_enable ae e f"
| "view_of ae e (PostMfaDisable f) = mfa_disable ae e f"
| "view_of ae e GetDocs = docs"

definition serve :: "auth_env \<Rightarrow> env \<Rightarrow> cookie \<Rightarrow> request \<Rightarrow> web \<Rightarrow> notice reply \<times> web" where
  "serve ae e c rq w = serve_view (view_of ae e rq) c w"

end
