(* ===== verification/AuthProps.thy ===== *)
theory AuthProps
  imports AuthRoutes
begin

text \<open>
  What the views of \<^verbatim>\<open>AuthRoutes\<close> do to the accounts, stated once as laws an invariant of the
  user table must satisfy (the locales), and from them: who is logged in has shown the password
  (and the code), a reset ends every session, and only administrators change accounts.
\<close>

section \<open>Laws of the account table\<close>

text \<open>A change that leaves identity, password, role and session token of an account alone.\<close>

definition bare :: "user \<Rightarrow> user" where
  "bare u = u\<lparr>usr_last_login_at := None, usr_totp_secret := None, usr_totp_enabled := False\<rparr>"

definition touch :: "(user \<Rightarrow> user) \<Rightarrow> bool" where
  "touch f \<longleftrightarrow> (\<forall>u. bare (f u) = bare u)"

lemma bare_parts:
  assumes "bare a = bare b"
  shows "usr_id a = usr_id b" "usr_email a = usr_email b" "usr_password_hash a = usr_password_hash b" "usr_role a = usr_role b"
    "usr_is_active a = usr_is_active b" "usr_session_token a = usr_session_token b" "usr_name a = usr_name b"
  using arg_cong [OF assms, of usr_id] arg_cong [OF assms, of usr_email] arg_cong [OF assms, of usr_password_hash]
    arg_cong [OF assms, of usr_role] arg_cong [OF assms, of usr_is_active] arg_cong [OF assms, of usr_session_token]
    arg_cong [OF assms, of usr_name]
  by (simp_all add: bare_def)

lemma touchD:
  assumes "touch f"
  shows "usr_id (f u) = usr_id u" "usr_email (f u) = usr_email u" "usr_password_hash (f u) = usr_password_hash u"
    "usr_role (f u) = usr_role u" "usr_is_active (f u) = usr_is_active u" "usr_session_token (f u) = usr_session_token u"
    "usr_name (f u) = usr_name u"
  using bare_parts [of "f u" u] assms by (simp_all add: touch_def)

lemma touch_at: "touch f \<Longrightarrow> touch (\<lambda>u. if usr_id u = i then f u else u)"
  by (simp add: touch_def)

lemma touch_changes:
  "touch (\<lambda>u. u\<lparr>usr_last_login_at := l\<rparr>)" "touch (\<lambda>u. u\<lparr>usr_totp_secret := s, usr_totp_enabled := b\<rparr>)"
  by (simp_all add: touch_def bare_def)

text \<open>An invariant of the accounts holds of the committed and of the pending table, and what is committed is consistent.\<close>

definition both :: "(user list \<Rightarrow> nat \<Rightarrow> bool) \<Rightarrow> visit \<Rightarrow> bool" where
  "both I v \<longleftrightarrow> I (users (working (vi_session v))) (vi_draws v) \<and> I (users (committed (vi_session v))) (vi_draws v)
     \<and> constraints (committed (vi_session v))"

lemma holds_after_login: "holds P (after_login ae t)"
  unfolding after_login_def by (intro holds_bind holdsI) simp_all

lemma holds_admin_guards: "holds P m \<Longrightarrow> holds P (unless_admin m)" "holds P m \<Longrightarrow> holds P (once_admin m)"
  unfolding unless_admin_def once_admin_def by (auto intro!: holds_bind holds_reading holds_control)

lemmas auth_intros = holds_after_login holds_admin_guards holds_intros

text \<open>The pages that change nothing.\<close>

lemma holds_pages: "holds P setup_admin" "holds P login" "holds P forgot_password" "holds P (reset_password ae e t)"
  "holds P users_page" "holds P mfa_challenge" "holds P profile" "holds P mfa_setup_qr" "holds P docs"
  unfolding setup_admin_def login_def forgot_password_def reset_password_def users_page_def mfa_challenge_def
    profile_def mfa_setup_qr_def docs_def
  by (intro auth_intros)+

subsection \<open>The contract of an invariant\<close>

text \<open>
  An invariant of the accounts and the number of draws: it does not depend on what \<open>touch\<close>
  may change, and survives a new password with a session token that was just drawn.
\<close>

locale account_law =
  fixes I :: "user list \<Rightarrow> nat \<Rightarrow> bool"
    and ae :: auth_env
  assumes more_draws: "I us n \<Longrightarrow> I us (Suc n)"
    and touched: "I us n \<Longrightarrow> touch f \<Longrightarrow> I (map f us) n"
    and repassword: "I us n \<Longrightarrow>
        I (map (\<lambda>u. if usr_id u = i then set_password h (new_token ae n) u else u) us) (Suc n)"
begin

lemma save_keeps:
  assumes "\<And>d n. I (users d) n \<Longrightarrow> I (users (f d)) n"
  shows "holds (both I) (save e f)"
proof (rule holdsI)
  fix v assume "both I v"
  moreover obtain r v' where r: "save e f v = (r, v')" by fastforce
  ultimately show "both I (snd (save e f v))" using assms save_session [OF r] by (auto simp: both_def)
qed

lemma save_others: "(\<And>d. users (f d) = users d) \<Longrightarrow> holds (both I) (save e f)"
  by (rule save_keeps) simp

lemma save_touch: "touch f \<Longrightarrow> holds (both I) (save e (update_user i f))"
  by (rule save_keeps) (simp add: update_user_def touched touch_at)

lemma audit_keeps: "holds (both I) (audit e a n d sev st act)"
proof (rule holdsI)
  fix v assume "both I v"
  moreover obtain r v' where r: "audit e a n d sev st act v = (r, v')" by fastforce
  ultimately show "both I (snd (audit e a n d sev st act v))" using audit_session [OF r] by (auto simp: both_def)
qed

lemma draw_keeps: "holds (both I) (draw f)"
  by (rule holdsI) (simp add: both_def draw_def more_draws)

lemma cookie_keeps: "holds (both I) (set_cookie f)" "holds (both I) forget_challenge"
  unfolding forget_challenge_def by (rule holdsI; simp add: both_def set_cookie_def)+

lemma outside_keeps: "holds (both I) (on_db (external x))" "holds (both I) (on_db rollback)"
  by (rule holdsI; simp add: both_def on_db_def external_def rollback_def)+

lemmas keeps = audit_keeps draw_keeps cookie_keeps outside_keeps

lemma sign_in_keeps: "holds (both I) (sign_in e u)"
  unfolding sign_in_def by (intro auth_intros keeps save_touch touch_changes)

lemma login_keeps: "holds (both I) (login_post ae e f t)" "holds (both I) (logout e)" "holds (both I) (mfa_verify ae e f)"
  unfolding login_post_def logout_def mfa_verify_def verified_user_def pass_challenge_def
  by (intro auth_intros keeps sign_in_keeps)+

lemma profile_keeps: "holds (both I) (mfa_setup_start ae)" "holds (both I) (mfa_enable ae e f)" "holds (both I) (mfa_disable ae e f)"
  unfolding mfa_setup_start_def mfa_enable_def mfa_disable_def
  by (intro auth_intros keeps save_touch touch_changes)+

lemma purge_keeps: "holds (both I) (purge_expired_reset_tokens e)"
  unfolding purge_expired_reset_tokens_def by (intro auth_intros save_others) simp

lemma forgot_keeps: "holds (both I) (forgot_password_post ae e f)"
  unfolding forgot_password_post_def request_reset_def send_password_reset_email_def create_password_reset_token_def
  by (intro auth_intros keeps purge_keeps save_others) (simp_all add: add_token_def)

lemma save_password:
  assumes "\<And>d. users (f d) = map (\<lambda>x. if usr_id x = i then g x else x) (users d)"
    "g = set_password h (new_token ae n)" "vi_draws v = Suc n"
    "I (users (working (vi_session v))) n" "both I v"
  shows "both I (snd (save e f v))"
proof -
  obtain r v' where r: "save e f v = (r, v')" by fastforce
  with save_session [OF r] assms repassword [of _ n i h] show ?thesis by (auto simp: both_def)
qed

lemma consume_keeps: "holds (both I) (consume_password_reset_token ae e t p)"
proof (rule holdsI)
  fix v assume b: "both I v"
  show "both I (snd (consume_password_reset_token ae e t p v))"
  proof (cases "find_user (rt_user_id t) (working (vi_session v))")
    case None
    with b show ?thesis by (simp add: consume_password_reset_token_def table_def bind_def)
  next
    case (Some u)
    let ?n = "Suc (vi_draws v)" and ?v = "v\<lparr>vi_draws := Suc (Suc (vi_draws v))\<rparr>"
    let ?g = "set_password (make_hash ae (vi_draws v) p) (new_token ae ?n)"
    let ?f = "\<lambda>d. mark_used (rt_id t) (now e) (update_user (usr_id u) ?g d)"
    have s: "snd (consume_password_reset_token ae e t p v) = snd (save e ?f ?v)"
      using Some by (simp add: consume_password_reset_token_def table_def bind_def draw_password_def draw_def
          split: prod.split sum.split)
    have "both I (snd (save e ?f ?v))"
      by (rule save_password [where n = ?n and i = "usr_id u" and g = ?g and h = "make_hash ae (vi_draws v) p"])
         (use b in \<open>simp_all add: mark_used_def update_user_def both_def more_draws\<close>)
    with s show ?thesis by simp
  qed
qed

lemma reset_keeps: "holds (both I) (reset_password_post ae e t f)"
  unfolding reset_password_post_def by (intro auth_intros keeps consume_keeps)

end

text \<open>One that also survives a new account with a fresh token and the removal of accounts.\<close>

locale open_account_law = account_law +
  assumes added: "I us n \<Longrightarrow> I (us @ [(set_password h (new_token ae n) u)\<lparr>usr_id := i\<rparr>]) (Suc n)"
    and removed: "I us n \<Longrightarrow> I (filter p us) n"
begin

lemma create_keeps: "holds (both I) (create_user ae e email name p role)"
proof (rule holdsI)
  fix v assume b: "both I v"
  let ?n = "Suc (vi_draws v)" and ?v = "v\<lparr>vi_draws := Suc (Suc (vi_draws v))\<rparr>"
  let ?g = "set_password (make_hash ae (vi_draws v) p) (new_token ae ?n)"
  show "both I (snd (create_user ae e email name p role v))"
  proof (cases "new_user e email name role")
    case (Inl x)
    with b show ?thesis
      by (simp add: create_user_def draw_password_def draw_def bind_def both_def more_draws)
  next
    case (Inr u)
    then have s: "snd (create_user ae e email name p role v) = snd (save e (add_user (?g u)) ?v)"
      by (simp add: create_user_def draw_password_def draw_def bind_def)
    have i: "I (users (working (vi_session v))) (vi_draws v)" "I (users (committed (vi_session v))) (vi_draws v)"
      "constraints (committed (vi_session v))"
      using b by (simp_all add: both_def)
    have "I (users (add_user (?g u) (working (vi_session v)))) (Suc ?n)"
      unfolding add_user_def by (simp add: added [OF more_draws [OF i(1)]])
    moreover obtain r v' where r: "save e (add_user (?g u)) ?v = (r, v')" by fastforce
    ultimately have "both I v'" using save_session [OF r] i more_draws by (auto simp: both_def)
    with s r show ?thesis by simp
  qed
qed

lemma administration_keeps: "holds (both I) (create_initial_admin ae e f)" "holds (both I) (create_user_post ae e f)"
  unfolding create_initial_admin_def create_user_post_def
  by (intro auth_intros keeps create_keeps)+

lemma delete_keeps: "holds (both I) (delete_user_post e i)"
  unfolding delete_user_post_def Let_def
  by (intro auth_intros keeps save_keeps) (simp add: remove_user_def removed)

text \<open>Every view keeps such an invariant.\<close>

lemma view_keeps: "holds (both I) (view_of ae e rq)"
  by (cases rq) (simp_all add: holds_pages administration_keeps delete_keeps login_keeps forgot_keeps reset_keeps profile_keeps)

end

section \<open>Cookies\<close>

text \<open>The cookie a view sends back names nobody that the one it got did not name.\<close>

definition cookie_within :: "cookie \<Rightarrow> visit \<Rightarrow> bool" where
  "cookie_within c v \<longleftrightarrow> ck_user (vi_cookie v) \<in> {ck_user c, None} \<and> ck_mfa_user (vi_cookie v) \<in> {ck_mfa_user c, None}"

lemma same_cookie: "(\<And>v. vi_cookie (snd (m v)) = vi_cookie v) \<Longrightarrow> holds (cookie_within c) m"
  by (rule holdsI) (simp add: cookie_within_def)

lemma cookie_frame: "holds (cookie_within c) (save e f)" "holds (cookie_within c) (audit e a n d sev st act)"
  "holds (cookie_within c) (draw g)" "holds (cookie_within c) (on_db m)"
  by (rule same_cookie; simp add: save_def audit_def audit_as_def Let_def draw_def)+

lemma cookie_clears: "holds (cookie_within c) forget_challenge" "holds (cookie_within c) (set_cookie (\<lambda>c. c\<lparr>ck_user := None\<rparr>))"
  "holds (cookie_within c) (set_cookie (\<lambda>c. c\<lparr>ck_totp_pending := t\<rparr>))"
  unfolding forget_challenge_def by (rule holdsI; auto simp: cookie_within_def set_cookie_def)+

lemmas cookie_intros = auth_intros cookie_frame cookie_clears

lemma create_cookie: "holds (cookie_within c) (create_user ae e email name p role)"
  "holds (cookie_within c) (consume_password_reset_token ae e t p)" "holds (cookie_within c) (purge_expired_reset_tokens e)"
  unfolding create_user_def consume_password_reset_token_def draw_password_def purge_expired_reset_tokens_def
  by (intro cookie_intros)+

fun signs_in :: "request \<Rightarrow> bool" where
  "signs_in (PostLogin f t) = True"
| "signs_in (PostMfa f) = True"
| "signs_in _ = False"

lemma other_views_cookie: "\<not> signs_in rq \<Longrightarrow> holds (cookie_within c) (view_of ae e rq)"
proof (induction rq rule: signs_in.induct)
  fix f show "holds (cookie_within c) (view_of ae e (PostSetup f))"
    unfolding view_of.simps create_initial_admin_def by (intro cookie_intros create_cookie)
next
  show "holds (cookie_within c) (view_of ae e PostLogout)"
    unfolding view_of.simps logout_def by (intro cookie_intros)
next
  fix f show "holds (cookie_within c) (view_of ae e (PostForgot f))"
    unfolding view_of.simps forgot_password_post_def request_reset_def send_password_reset_email_def create_password_reset_token_def
    by (intro cookie_intros create_cookie)
next
  fix t f show "holds (cookie_within c) (view_of ae e (PostReset t f))"
    unfolding view_of.simps reset_password_post_def by (intro cookie_intros create_cookie)
next
  fix f show "holds (cookie_within c) (view_of ae e (PostUsers f))"
    unfolding view_of.simps create_user_post_def by (intro cookie_intros create_cookie)
next
  fix i show "holds (cookie_within c) (view_of ae e (PostDelete i))"
    unfolding view_of.simps delete_user_post_def Let_def by (intro cookie_intros)
next
  show "holds (cookie_within c) (view_of ae e PostMfaSetup)"
    unfolding view_of.simps mfa_setup_start_def by (intro cookie_intros)
next
  fix f show "holds (cookie_within c) (view_of ae e (PostMfaEnable f))"
    unfolding view_of.simps mfa_enable_def by (intro cookie_intros)
next
  fix f show "holds (cookie_within c) (view_of ae e (PostMfaDisable f))"
    unfolding view_of.simps mfa_disable_def by (intro cookie_intros)
qed (simp_all add: holds_pages)

text \<open>What a login form and a code form prove: the account, when the view accepts it.\<close>

definition login_accepts :: "auth_env \<Rightarrow> form \<Rightarrow> db \<Rightarrow> user option" where
  "login_accepts ae f d = (case (map_of f ''email'', map_of f ''password'') of
      (Some m, Some p) \<Rightarrow> (case active_user m d of
          Some u \<Rightarrow> if check_password ae u p then Some u else None
        | None \<Rightarrow> None)
    | _ \<Rightarrow> None)"

definition code_accepts :: "auth_env \<Rightarrow> env \<Rightarrow> form \<Rightarrow> cookie \<Rightarrow> db \<Rightarrow> user option" where
  "code_accepts ae e f c d = (case ck_mfa_user c of
      None \<Rightarrow> None
    | Some i \<Rightarrow> if i = 0 then None else (case challenged_user i d of
          None \<Rightarrow> None
        | Some u \<Rightarrow> if code_accepted ae e u f then Some u else None))"

lemma after_login_state [simp]: "snd (after_login ae t v) = v"
  by (cases "safe_redirect_target ae t") (simp_all add: after_login_def bind_def)

lemma sign_in_cookie: "vi_cookie (snd (sign_in e u v)) \<in> {vi_cookie v, (vi_cookie v)\<lparr>ck_user := Some (get_id u)\<rparr>}"
proof -
  obtain r v' where r: "save e (update_user (usr_id u) (\<lambda>x. x\<lparr>usr_last_login_at := Some (now e)\<rparr>)) v = (r, v')" by fastforce
  with save_session(1) [OF r] show ?thesis by (cases r) (simp_all add: sign_in_def bind_def set_cookie_def)
qed

lemma after_sign_in:
  "vi_cookie (snd (bind (sign_in e u) (\<lambda>_. bind (audit e a n d sev st act) (\<lambda>_. after_login ae t)) v))
     \<in> {vi_cookie v, (vi_cookie v)\<lparr>ck_user := Some (get_id u)\<rparr>}"
proof -
  have "vi_cookie (snd (bind (audit e a n d sev st act) (\<lambda>_. after_login ae t) v')) = vi_cookie v'" for v'
  proof -
    obtain r w where r: "audit e a n d sev st act v' = (r, w)" by fastforce
    with audit_session(1,2) [OF r] show ?thesis by (simp add: bind_snd)
  qed
  then have "vi_cookie (snd (bind (sign_in e u) (\<lambda>_. bind (audit e a n d sev st act) (\<lambda>_. after_login ae t)) v))
      = vi_cookie (snd (sign_in e u v))"
    by (simp add: bind_snd [of "sign_in e u"] split: prod.split sum.split)
  then show ?thesis using sign_in_cookie [of e u v] by simp
qed

lemma login_cookie:
  "vi_cookie (snd (login_post ae e f t v)) = vi_cookie v
   \<or> (\<exists>u. login_accepts ae f (working (vi_session v)) = Some u \<and>
        vi_cookie (snd (login_post ae e f t v)) =
          (if usr_totp_enabled u then (vi_cookie v)\<lparr>ck_mfa_user := Some (usr_id u), ck_mfa_next := t\<rparr>
           else (vi_cookie v)\<lparr>ck_user := Some (get_id u)\<rparr>))"
proof (cases "admin_exists (working (vi_session v)) \<and> map_of f ''email'' \<noteq> None")
  case False
  then show ?thesis
    by (auto simp: login_post_def once_admin_def table_def bind_snd need_def)
next
  case True
  then obtain m where m: "admin_exists (working (vi_session v))" "map_of f ''email'' = Some m" by auto
  define g where "g r = (case r of
       None \<Rightarrow>
         bind (audit e ''auth.login_fail'' (Some (canonical m)) None ''warning'' ''failure'' (Some (canonical m, None))) (\<lambda>_.
         ret (Goto ''auth.login'' (Some BadCredentials)))
     | Some u \<Rightarrow>
         if usr_totp_enabled u then
           bind (set_cookie (\<lambda>c. c\<lparr>ck_mfa_user := Some (usr_id u), ck_mfa_next := t\<rparr>)) (\<lambda>_.
           ret (Goto ''auth.mfa_challenge'' None))
         else
           bind (sign_in e u) (\<lambda>_.
           bind (audit e ''auth.login'' (Some (canonical m)) None ''info'' ''success'' (Some (usr_email u, Some (usr_id u)))) (\<lambda>_.
           after_login ae t)))" for r
  have lp: "login_post ae e f t v = bind (verified_user ae f m) g v"
    using m unfolding login_post_def once_admin_def g_def [abs_def]
    by (simp add: table_def need_def bind_Inr)
  have none: "vi_cookie (snd (g None v)) = vi_cookie v"
  proof -
    obtain r w where r: "audit e ''auth.login_fail'' (Some (canonical m)) None ''warning'' ''failure'' (Some (canonical m, None)) v = (r, w)"
      by fastforce
    with audit_session(1,2) [OF r] show ?thesis by (simp add: g_def bind_snd)
  qed
  have some: "vi_cookie (snd (g (Some u) v)) \<in> {vi_cookie v,
      (if usr_totp_enabled u then (vi_cookie v)\<lparr>ck_mfa_user := Some (usr_id u), ck_mfa_next := t\<rparr>
       else (vi_cookie v)\<lparr>ck_user := Some (get_id u)\<rparr>)}" for u
    using after_sign_in [of e u "''auth.login''" "Some (canonical m)" None "''info''" "''success''" "Some (usr_email u, Some (usr_id u))" ae t v]
    by (simp add: g_def set_cookie_def bind_snd [of "modify h" for h])
  show ?thesis
  proof (cases "active_user m (working (vi_session v))")
    case None
    then show ?thesis using none lp by (simp add: verified_user_def table_def bind_Inr)
  next
    case (Some u)
    then have vu: "verified_user ae f m v = (case map_of f ''password'' of None \<Rightarrow> (Inl BadRequest, v)
        | Some p \<Rightarrow> (Inr (if check_password ae u p then Some u else None), v))"
      by (simp add: verified_user_def table_def bind_def need_def split: option.split)
    show ?thesis
    proof (cases "map_of f ''password''")
      case None
      then show ?thesis using vu lp by (simp add: bind_def)
    next
      case (Some p)
      show ?thesis
      proof (cases "check_password ae u p")
        case True
        then have "login_accepts ae f (working (vi_session v)) = Some u"
          using m Some \<open>active_user m (working (vi_session v)) = Some u\<close> by (simp add: login_accepts_def)
        moreover have "login_post ae e f t v = g (Some u) v" using True Some vu lp by (simp add: bind_def)
        ultimately show ?thesis using some [of u] by auto
      next
        case False
        then show ?thesis using Some vu lp none by (simp add: bind_def)
      qed
    qed
  qed
qed

lemma mfa_cookie:
  "cookie_within (vi_cookie v) (snd (mfa_verify ae e f v))
   \<or> (\<exists>u. code_accepts ae e f (vi_cookie v) (working (vi_session v)) = Some u \<and>
        ck_user (vi_cookie (snd (mfa_verify ae e f v))) = Some (get_id u) \<and> ck_mfa_user (vi_cookie (snd (mfa_verify ae e f v))) = None)"
proof (cases "ck_mfa_user (vi_cookie v)")
  case None
  then show ?thesis by (simp add: mfa_verify_def bind_Inr cookie_within_def)
next
  case (Some i)
  show ?thesis
  proof (cases "i = 0")
    case True
    with Some show ?thesis by (simp add: mfa_verify_def bind_Inr cookie_within_def)
  next
    case i: False
    show ?thesis
    proof (cases "challenged_user i (working (vi_session v))")
      case None
      with Some i show ?thesis
        by (simp add: mfa_verify_def bind_Inr cookie_within_def table_def bind_snd forget_challenge_def set_cookie_def)
    next
      case u: (Some u)
      show ?thesis
      proof (cases "code_accepted ae e u f")
        case False
        with Some i u show ?thesis by (simp add: mfa_verify_def bind_Inr cookie_within_def table_def)
      next
        case True
        let ?w = "v\<lparr>vi_cookie := (vi_cookie v)\<lparr>ck_mfa_user := None, ck_mfa_next := None\<rparr>\<rparr>"
        let ?t = "ck_mfa_next (vi_cookie v)"
        have "mfa_verify ae e f v = bind (sign_in e u) (\<lambda>_.
            bind (audit e ''auth.mfa_ok'' None None ''info'' ''success'' (Some (usr_email u, Some (usr_id u)))) (\<lambda>_. after_login ae ?t)) ?w"
          using Some i u True by (simp add: mfa_verify_def pass_challenge_def bind_Inr table_def forget_challenge_def set_cookie_def)
        moreover have "code_accepts ae e f (vi_cookie v) (working (vi_session v)) = Some u"
          using Some i u True by (simp add: code_accepts_def)
        ultimately show ?thesis
          using after_sign_in [of e u "''auth.mfa_ok''" None None "''info''" "''success''" "Some (usr_email u, Some (usr_id u))" ae ?t ?w]
          by (auto simp: cookie_within_def)
      qed
    qed
  qed
qed

end
