(* ===== verification/AuthSafety.thy ===== *)
theory AuthSafety
  imports AuthProps
begin

text \<open>
  Runs of the application: any requests, with any cookie the application ever sent (a signed
  cookie cannot be forged, but an old one can be sent again), under any clock and any failures
  of the database, while the rest of the program changes whatever does not belong to the
  accounts.  What is proved of them: who is logged in has shown the password, and the code when
  one is asked for; a reset of the password ends every session; only administrators make or
  remove accounts.
\<close>

section \<open>Runs\<close>

record event =
  at_web :: web
  at_env :: env
  at_cookie :: cookie
  at_request :: request

text \<open>What identifies an account and its password.\<close>

definition core :: "user \<Rightarrow> nat \<times> string \<times> string" where
  "core u = (usr_id u, usr_password_hash u, usr_session_token u)"

definition known_tokens :: "auth_env \<Rightarrow> nat \<Rightarrow> user list \<Rightarrow> bool" where
  "known_tokens ae n us \<longleftrightarrow> (\<forall>u\<in>set us. usr_session_token u \<in> new_token ae ` {..<n})"

inductive history :: "auth_env \<Rightarrow> event list \<Rightarrow> web \<Rightarrow> bool" for ae where
  start: "settled s \<Longrightarrow> known_tokens ae n (users (committed s))
     \<Longrightarrow> history ae [] \<lparr>w_session = s, w_issued = [], w_draws = n\<rparr>"
| request: "history ae h w \<Longrightarrow> c = no_cookie \<or> c \<in> set (w_issued w) \<Longrightarrow> serve ae e c rq w = (answer, w')
     \<Longrightarrow> history ae (h @ [\<lparr>at_web = w, at_env = e, at_cookie = c, at_request = rq\<rparr>]) w'"
| elsewhere: "history ae h w \<Longrightarrow> settled s \<Longrightarrow> map core (users (committed s)) = map core (users (w_db w))
     \<Longrightarrow> history ae h (w\<lparr>w_session := s\<rparr>)"

text \<open>The account a request shows the password of, and the one it shows a code of.\<close>

definition password_shown :: "auth_env \<Rightarrow> event \<Rightarrow> user option" where
  "password_shown ae ev = (case at_request ev of
      PostLogin f t \<Rightarrow> login_accepts ae f (w_db (at_web ev))
    | _ \<Rightarrow> None)"

definition code_shown :: "auth_env \<Rightarrow> event \<Rightarrow> user option" where
  "code_shown ae ev = (case at_request ev of
      PostMfa f \<Rightarrow> code_accepts ae (at_env ev) f (at_cookie ev) (w_db (at_web ev))
    | _ \<Rightarrow> None)"

text \<open>Somebody passed the password of account \<open>i\<close>, and the code is still owed.\<close>

definition challenged :: "auth_env \<Rightarrow> event list \<Rightarrow> nat \<Rightarrow> bool" where
  "challenged ae h i \<longleftrightarrow> (\<exists>ev\<in>set h. \<exists>u. password_shown ae ev = Some u \<and> usr_id u = i \<and> usr_totp_enabled u)"

text \<open>Password and, for an account with a second factor, afterwards the code.\<close>

definition proved :: "auth_env \<Rightarrow> event list \<Rightarrow> nat \<Rightarrow> string \<Rightarrow> bool" where
  "proved ae h i hash \<longleftrightarrow>
     (\<exists>ev\<in>set h. \<exists>u. password_shown ae ev = Some u \<and> usr_id u = i \<and> \<not> usr_totp_enabled u \<and> usr_password_hash u = hash)
   \<or> (\<exists>h1 ev h2. h = h1 @ ev # h2 \<and> challenged ae h1 i \<and>
        (\<exists>u. code_shown ae ev = Some u \<and> usr_id u = i \<and> usr_totp_enabled u \<and> usr_password_hash u = hash))"

lemma evidence_grows:
  "challenged ae h i \<Longrightarrow> challenged ae (h @ [ev]) i" "proved ae h i hash \<Longrightarrow> proved ae (h @ [ev]) i hash"
proof -
  show "challenged ae h i \<Longrightarrow> challenged ae (h @ [ev]) i" by (auto simp: challenged_def)
  assume "proved ae h i hash"
  then consider (direct) ev' u where "ev' \<in> set h" "password_shown ae ev' = Some u" "usr_id u = i" "\<not> usr_totp_enabled u"
      "usr_password_hash u = hash"
    | (code) h1 ev' h2 u where "h = h1 @ ev' # h2" "challenged ae h1 i" "code_shown ae ev' = Some u" "usr_id u = i"
      "usr_totp_enabled u" "usr_password_hash u = hash"
    unfolding proved_def by blast
  then show "proved ae (h @ [ev]) i hash"
  proof cases
    case direct
    then show ?thesis unfolding proved_def by auto
  next
    case code
    then have "h @ [ev] = h1 @ ev' # (h2 @ [ev])" by simp
    with code show ?thesis unfolding proved_def by blast
  qed
qed

section \<open>Tokens of the accounts\<close>

definition core_inv :: "auth_env \<Rightarrow> user list \<Rightarrow> nat \<Rightarrow> user list \<Rightarrow> nat \<Rightarrow> bool" where
  "core_inv ae us0 n0 us n \<longleftrightarrow> n0 \<le> n \<and>
     (\<forall>u\<in>set us. core u \<in> core ` set us0 \<or> usr_session_token u \<in> new_token ae ` {n0..<n})"

lemma core_set_password: "usr_session_token (set_password h t u) = t"
  by (simp add: set_password_def)

interpretation core_law: open_account_law "core_inv ae us0 n0" ae for ae us0 n0
proof unfold_locales
  fix us n assume i: "core_inv ae us0 n0 us n"
  have mono: "{n0..<n} \<subseteq> {n0..<Suc n}" by auto
  show m: "core_inv ae us0 n0 us (Suc n)" using i mono by (fastforce simp: core_inv_def)
  show "core_inv ae us0 n0 (filter p us) n" for p using i by (auto simp: core_inv_def)
  have new: "n0 \<le> n \<Longrightarrow> new_token ae n \<in> new_token ae ` {n0..<Suc n}" by auto
  show "core_inv ae us0 n0 (map (\<lambda>u. if usr_id u = j then set_password h (new_token ae n) u else u) us) (Suc n)" for j h
    using i m new by (auto simp: core_inv_def core_set_password)
  show "core_inv ae us0 n0 (us @ [(set_password h (new_token ae n) u)\<lparr>usr_id := k\<rparr>]) (Suc n)" for h u k
    using i m new by (auto simp: core_inv_def core_set_password)
next
  fix us n f assume "core_inv ae us0 n0 us n" "touch f"
  then show "core_inv ae us0 n0 (map f us) n"
    by (auto simp: core_inv_def core_def touchD)
qed

text \<open>One request: accounts keep identity, password and token, or have a token drawn in it.\<close>

lemma serve_accounts:
  assumes "serve ae e c rq w = (answer, w')" "settled (w_session w)"
  shows "settled (w_session w')" "core_inv ae (users (w_db w)) (w_draws w) (users (w_db w')) (w_draws w')"
proof -
  obtain r v where v: "view_of ae e rq (visit_of c w) = (r, v)" by fastforce
  have "both (core_inv ae (users (w_db w)) (w_draws w)) (visit_of c w)"
    using assms(2) by (simp add: both_def visit_of_def core_inv_def settled_def)
  from holdsD [OF core_law.view_keeps v this] have "both (core_inv ae (users (w_db w)) (w_draws w)) v" .
  moreover have "w' = leave v w" using assms(1) v by (simp add: serve_def serve_view_def)
  ultimately show "settled (w_session w')" "core_inv ae (users (w_db w)) (w_draws w) (users (w_db w')) (w_draws w')"
    by (simp_all add: both_def leave_def settled_def rollback_def)
qed

section \<open>What every cookie stands for\<close>

definition bound :: "auth_env \<Rightarrow> event list \<Rightarrow> web \<Rightarrow> string \<Rightarrow> bool" where
  "bound ae h w t \<longleftrightarrow> (\<exists>i tok hash. t = show_nat i @ CHR '':'' # tok \<and> tok \<in> new_token ae ` {..<w_draws w} \<and> proved ae h i hash
     \<and> (\<forall>u\<in>set (users (w_db w)). usr_id u = i \<and> usr_session_token u = tok \<longrightarrow> usr_password_hash u = hash))"

definition backed :: "auth_env \<Rightarrow> event list \<Rightarrow> web \<Rightarrow> cookie \<Rightarrow> bool" where
  "backed ae h w c \<longleftrightarrow> (\<forall>t. ck_user c = Some t \<longrightarrow> bound ae h w t) \<and> (\<forall>i. ck_mfa_user c = Some i \<longrightarrow> challenged ae h i)"

definition sound :: "auth_env \<Rightarrow> event list \<Rightarrow> web \<Rightarrow> bool" where
  "sound ae h w \<longleftrightarrow> settled (w_session w) \<and> known_tokens ae (w_draws w) (users (w_db w))
     \<and> (\<forall>c\<in>set (w_issued w). backed ae h w c)"

lemma accepted_users:
  "login_accepts ae f d = Some u \<Longrightarrow> u \<in> set (users d)"
  "code_accepts ae e f c d = Some u \<Longrightarrow> u \<in> set (users d) \<and> usr_totp_enabled u \<and> ck_mfa_user c = Some (usr_id u)"
proof -
  show "login_accepts ae f d = Some u \<Longrightarrow> u \<in> set (users d)"
    by (auto simp: login_accepts_def active_user_def dest: find_facts split: option.splits if_splits)
  show "code_accepts ae e f c d = Some u \<Longrightarrow> u \<in> set (users d) \<and> usr_totp_enabled u \<and> ck_mfa_user c = Some (usr_id u)"
    by (auto simp: code_accepts_def challenged_user_def find_user_def dest: find_facts split: option.splits if_splits)
qed

lemma unique_ids: "constraints d \<Longrightarrow> u \<in> set (users d) \<Longrightarrow> v \<in> set (users d) \<Longrightarrow> usr_id u = usr_id v \<Longrightarrow> u = v"
  by (auto simp: constraints_def distinct_map dest: inj_onD)

lemma old_token_new: "inj (new_token ae) \<Longrightarrow> t \<in> new_token ae ` {..<n} \<Longrightarrow> t \<notin> new_token ae ` {n..<m}"
  by (auto dest: injD)

text \<open>An account with an old token has not changed identity or password.\<close>

lemma same_core:
  assumes "inj (new_token ae)" "core_inv ae us n us' n'" "u \<in> set us'" "usr_session_token u \<in> new_token ae ` {..<n}"
  shows "\<exists>x\<in>set us. core x = core u"
proof -
  have "core u \<in> core ` set us"
    using assms(2,3) old_token_new [OF assms(1,4), of n'] unfolding core_inv_def by blast
  then show ?thesis by force
qed

lemma bound_step:
  assumes "inj (new_token ae)" "bound ae h w t" "core_inv ae (users (w_db w)) (w_draws w) (users (w_db w')) (w_draws w')"
    "\<And>i hash. proved ae h i hash \<Longrightarrow> proved ae h' i hash"
  shows "bound ae h' w' t"
proof -
  obtain i tok hash where b: "t = show_nat i @ CHR '':'' # tok" "tok \<in> new_token ae ` {..<w_draws w}" "proved ae h i hash"
    "\<And>u. u \<in> set (users (w_db w)) \<Longrightarrow> usr_id u = i \<and> usr_session_token u = tok \<Longrightarrow> usr_password_hash u = hash"
    using assms(2) unfolding bound_def by blast
  have "usr_password_hash u = hash" if u: "u \<in> set (users (w_db w'))" "usr_id u = i" "usr_session_token u = tok" for u
  proof -
    obtain x where "x \<in> set (users (w_db w))" "core x = core u" using same_core [OF assms(1,3) u(1)] u(3) b(2) by blast
    with b(4) [of x] u show ?thesis by (simp add: core_def)
  qed
  moreover have "tok \<in> new_token ae ` {..<w_draws w'}" using b(2) assms(3) by (auto simp: core_inv_def)
  ultimately show ?thesis unfolding bound_def using b(1,3) assms(4) by blast
qed

text \<open>A cookie that names an account of before the request.\<close>

lemma bound_fresh:
  assumes "inj (new_token ae)" "sound ae h w" "u \<in> set (users (w_db w))" "proved ae h' (usr_id u) (usr_password_hash u)"
    "core_inv ae (users (w_db w)) (w_draws w) (users (w_db w')) (w_draws w')"
  shows "bound ae h' w' (get_id u)"
proof -
  have tok: "usr_session_token u \<in> new_token ae ` {..<w_draws w}" using assms(2,3) by (auto simp: sound_def known_tokens_def)
  have "usr_password_hash x = usr_password_hash u"
    if x: "x \<in> set (users (w_db w'))" "usr_id x = usr_id u" "usr_session_token x = usr_session_token u" for x
  proof -
    obtain y where y: "y \<in> set (users (w_db w))" "core y = core x" using same_core [OF assms(1,5) x(1)] x(3) tok by auto
    then have "usr_id y = usr_id u" using x(2) by (simp add: core_def)
    then have "y = u" using unique_ids [of "w_db w" y u] assms(2,3) y(1) by (simp add: sound_def settled_def)
    with y(2) show ?thesis by (simp add: core_def)
  qed
  moreover have "usr_session_token u \<in> new_token ae ` {..<w_draws w'}" using tok assms(5) by (auto simp: core_inv_def)
  ultimately show ?thesis unfolding bound_def get_id_def using assms(4) by blast
qed

lemma sound_elsewhere:
  assumes "inj (new_token ae)" "sound ae h w" "settled s" "map core (users (committed s)) = map core (users (w_db w))"
  shows "sound ae h (w\<lparr>w_session := s\<rparr>)"
proof -
  let ?w = "w\<lparr>w_session := s\<rparr>"
  have set: "core ` set (users (committed s)) = core ` set (users (w_db w))" using assms(4) by (metis list.set_map)
  then have c: "core_inv ae (users (w_db w)) (w_draws w) (users (w_db ?w)) (w_draws ?w)"
    unfolding core_inv_def by auto
  have "bound ae h w t \<Longrightarrow> bound ae h ?w t" for t
    by (rule bound_step [OF assms(1) _ c]) simp_all
  moreover have "usr_session_token u \<in> new_token ae ` {..<w_draws w}" if "u \<in> set (users (committed s))" for u
  proof -
    have "core u \<in> core ` set (users (w_db w))" using set that by blast
    then obtain x where "x \<in> set (users (w_db w))" "core u = core x" by blast
    then show ?thesis using assms(2) by (auto simp: sound_def known_tokens_def core_def)
  qed
  ultimately show ?thesis using assms(2,3) by (simp add: sound_def backed_def known_tokens_def)
qed

text \<open>One request keeps every cookie backed by what was shown.\<close>

lemma new_cookie_backed:
  assumes "inj (new_token ae)" "sound ae h w" "c = no_cookie \<or> c \<in> set (w_issued w)"
    and ev: "ev = \<lparr>at_web = w, at_env = e, at_cookie = c, at_request = rq\<rparr>"
    and v: "view_of ae e rq (visit_of c w) = (r, v)"
    and ci: "core_inv ae (users (w_db w)) (w_draws w) (users (w_db w')) (w_draws w')"
  shows "backed ae (h @ [ev]) w' (vi_cookie v)"
proof -
  have db: "working (vi_session (visit_of c w)) = w_db w" "vi_cookie (visit_of c w) = c"
    using assms(2) by (simp_all add: visit_of_def sound_def settled_def)
  have old: "backed ae h w c" using assms(2,3) by (auto simp: sound_def backed_def no_cookie_def)
  have users: "ck_user c = Some t \<Longrightarrow> bound ae (h @ [ev]) w' t" for t
    using old bound_step [OF assms(1) _ ci] evidence_grows(2) unfolding backed_def by blast
  have codes: "ck_mfa_user c = Some i \<Longrightarrow> challenged ae (h @ [ev]) i" for i
    using old evidence_grows(1) unfolding backed_def by blast
  have within: "cookie_within c v \<Longrightarrow> ?thesis"
    using users codes by (auto simp: backed_def cookie_within_def)
  have fresh: "bound ae (h @ [ev]) w' (get_id u)"
    if "u \<in> set (users (w_db w))" "proved ae (h @ [ev]) (usr_id u) (usr_password_hash u)" for u
    by (rule bound_fresh [OF assms(1,2) that ci])
  show ?thesis
  proof (cases "signs_in rq")
    case False
    have "cookie_within c (visit_of c w)" by (simp add: cookie_within_def visit_of_def)
    from holdsD [OF other_views_cookie [OF False] v this] show ?thesis by (rule within)
  next
    case True
    then consider (login) f t where "rq = PostLogin f t" | (code) f where "rq = PostMfa f" by (cases rq) auto
    then show ?thesis
    proof cases
      case login
      have "login_post ae e f t (visit_of c w) = (r, v)" using v login by simp
      with login_cookie [of ae e f t "visit_of c w"] db consider (same) "vi_cookie v = c"
        | (new) u where "login_accepts ae f (w_db w) = Some u" "vi_cookie v = (if usr_totp_enabled u
            then c\<lparr>ck_mfa_user := Some (usr_id u), ck_mfa_next := t\<rparr> else c\<lparr>ck_user := Some (get_id u)\<rparr>)"
        by auto
      then show ?thesis
      proof cases
        case same
        then show ?thesis by (intro within) (simp add: cookie_within_def)
      next
        case new
        have shown: "password_shown ae ev = Some u" using new(1) login ev by (simp add: password_shown_def)
        have ch: "challenged ae (h @ [ev]) (usr_id u)" if "usr_totp_enabled u"
          using shown that by (auto simp: challenged_def)
        have pr: "proved ae (h @ [ev]) (usr_id u) (usr_password_hash u)" if "\<not> usr_totp_enabled u"
          using shown that unfolding proved_def by auto
        show ?thesis using new users codes ch fresh [OF accepted_users(1) [OF new(1)] pr] by (auto simp: backed_def)
      qed
    next
      case code
      have "mfa_verify ae e f (visit_of c w) = (r, v)" using v code by simp
      with mfa_cookie [of "visit_of c w" ae e f] db consider (same) "cookie_within c v"
        | (new) u where "code_accepts ae e f c (w_db w) = Some u" "ck_user (vi_cookie v) = Some (get_id u)" "ck_mfa_user (vi_cookie v) = None"
        by auto
      then show ?thesis
      proof cases
        case same
        then show ?thesis by (rule within)
      next
        case new
        have u: "u \<in> set (users (w_db w))" "usr_totp_enabled u" "ck_mfa_user c = Some (usr_id u)"
          using accepted_users(2) [OF new(1)] by simp_all
        have "challenged ae h (usr_id u)" using old u(3) by (simp add: backed_def)
        moreover have "code_shown ae ev = Some u" using new(1) code ev by (simp add: code_shown_def)
        ultimately have "proved ae (h @ [ev]) (usr_id u) (usr_password_hash u)" using u(2) unfolding proved_def by blast
        then show ?thesis using fresh [OF u(1)] new by (simp add: backed_def)
      qed
    qed
  qed
qed

lemma sound_request:
  assumes "inj (new_token ae)" "sound ae h w" "c = no_cookie \<or> c \<in> set (w_issued w)" "serve ae e c rq w = (answer, w')"
  shows "sound ae (h @ [\<lparr>at_web = w, at_env = e, at_cookie = c, at_request = rq\<rparr>]) w'"
proof -
  let ?ev = "\<lparr>at_web = w, at_env = e, at_cookie = c, at_request = rq\<rparr>"
  obtain r v where v: "view_of ae e rq (visit_of c w) = (r, v)" by fastforce
  then have w': "w' = leave v w" using assms(4) by (simp add: serve_def serve_view_def)
  have set: "settled (w_session w)" using assms(2) by (simp add: sound_def)
  note sa = serve_accounts [OF assms(4) set]
  have "known_tokens ae (w_draws w') (users (w_db w'))"
    unfolding known_tokens_def
  proof
    fix u assume u: "u \<in> set (users (w_db w'))"
    have le: "w_draws w \<le> w_draws w'" using sa(2) by (simp add: core_inv_def)
    consider "usr_session_token u \<in> new_token ae ` {w_draws w..<w_draws w'}" | x where "x \<in> set (users (w_db w))" "core u = core x"
      using sa(2) u unfolding core_inv_def by blast
    then show "usr_session_token u \<in> new_token ae ` {..<w_draws w'}"
    proof cases
      case 2
      then have "usr_session_token u \<in> new_token ae ` {..<w_draws w}" using assms(2) by (simp add: sound_def known_tokens_def core_def)
      with le show ?thesis by (auto intro: order_less_le_trans)
    qed auto
  qed
  moreover have "backed ae (h @ [?ev]) w' x" if "x \<in> set (w_issued w)" for x
    using assms(2) that bound_step [OF assms(1) _ sa(2)] evidence_grows unfolding sound_def backed_def by blast
  moreover have "backed ae (h @ [?ev]) w' (vi_cookie v)"
    by (rule new_cookie_backed [OF assms(1-3) refl v sa(2)])
  ultimately show ?thesis using sa(1) w' by (auto simp: sound_def leave_def)
qed

lemma history_sound: "history ae h w \<Longrightarrow> inj (new_token ae) \<Longrightarrow> sound ae h w"
proof (induction rule: history.induct)
  case (start s n)
  then show ?case by (simp add: sound_def)
next
  case (request h w c e rq answer w')
  then show ?case by (blast intro: sound_request)
next
  case (elsewhere h w s)
  then show ?case by (blast intro: sound_elsewhere)
qed

section \<open>Reset of a password\<close>

lemma reset_post_success:
  assumes "reset_password_post ae e link f v = (Inr (Goto ''auth.login'' (Some PasswordChanged)), v')"
  obtains t u p w where "find_usable_password_reset_token ae e link (working (vi_session v)) = Some t"
    "map_of f ''password'' = Some p" "password_errors p = []" "consume_password_reset_token ae e t p v = (Inr u, w)"
    "users (committed (vi_session v')) \<in> {users (committed (vi_session w)), users (working (vi_session w))}"
    "reset_tokens (committed (vi_session v')) \<in> {reset_tokens (committed (vi_session w)), reset_tokens (working (vi_session w))}"
    "vi_draws v' = vi_draws w" "vi_cookie v' = vi_cookie w"
proof -
  obtain t where t: "find_usable_password_reset_token ae e link (working (vi_session v)) = Some t"
    using assms by (cases "find_usable_password_reset_token ae e link (working (vi_session v))")
      (auto simp: reset_password_post_def table_def bind_eq_Inr)
  obtain p q where p: "map_of f ''password'' = Some p" "map_of f ''password_confirm'' = Some q" "password_problem p q = None"
    using assms t by (auto simp: reset_password_post_def table_def bind_eq_Inr need_def split: option.splits)
  have r: "bind (consume_password_reset_token ae e t p) (\<lambda>u.
      bind (audit e ''auth.password_reset'' (Some (usr_email u)) None ''warning'' ''success'' (Some (usr_email u, Some (usr_id u)))) (\<lambda>_.
      ret (Goto ''auth.login'' (Some PasswordChanged)))) v = (Inr (Goto ''auth.login'' (Some PasswordChanged)), v')"
    using assms t p by (simp add: reset_password_post_def table_def bind_Inr need_def)
  then obtain u w where w: "consume_password_reset_token ae e t p v = (Inr u, w)"
    "bind (audit e ''auth.password_reset'' (Some (usr_email u)) None ''warning'' ''success'' (Some (usr_email u, Some (usr_id u)))) (\<lambda>_.
      ret (Goto ''auth.login'' (Some PasswordChanged))) w = (Inr (Goto ''auth.login'' (Some PasswordChanged)), v')"
    by (auto simp: bind_eq_Inr)
  then have a: "audit e ''auth.password_reset'' (Some (usr_email u)) None ''warning'' ''success'' (Some (usr_email u, Some (usr_id u))) w
      = (Inr (), v')" by (auto simp: bind_eq_Inr)
  have "password_errors p = []" using p(3) by (auto simp: password_problem_def split: if_splits)
  from that [OF t p(1) this w(1)] audit_session [OF a] show thesis by simp
qed

lemma consume_success:
  assumes "consume_password_reset_token ae e t p v = (Inr x, w)"
  obtains u where "find_user (rt_user_id t) (working (vi_session v)) = Some u"
    "committed (vi_session w) = mark_used (rt_id t) (now e) (update_user (usr_id u)
        (set_password (make_hash ae (vi_draws v) p) (new_token ae (Suc (vi_draws v)))) (working (vi_session v)))"
    "working (vi_session w) = committed (vi_session w)" "vi_draws w = Suc (Suc (vi_draws v))" "vi_cookie w = vi_cookie v"
proof -
  obtain u where u: "find_user (rt_user_id t) (working (vi_session v)) = Some u"
    using assms by (cases "find_user (rt_user_id t) (working (vi_session v))")
      (auto simp: consume_password_reset_token_def table_def bind_eq_Inr)
  let ?g = "set_password (make_hash ae (vi_draws v) p) (new_token ae (Suc (vi_draws v)))"
  let ?f = "\<lambda>d. mark_used (rt_id t) (now e) (update_user (usr_id u) ?g d)"
  have "save e ?f (v\<lparr>vi_draws := Suc (Suc (vi_draws v))\<rparr>) = (Inr (), w)"
    using assms u by (auto simp: consume_password_reset_token_def table_def bind_eq_Inr draw_password_def draw_def)
  then have "on_db (bind (update_db ?f) (\<lambda>_. commit e)) (v\<lparr>vi_draws := Suc (Suc (vi_draws v))\<rparr>) = (Inr (), w)"
    by (simp add: save_def)
  then have "committed (vi_session w) = ?f (working (vi_session v))" "working (vi_session w) = committed (vi_session w)"
    "vi_draws w = Suc (Suc (vi_draws v))" "vi_cookie w = vi_cookie v"
    by (auto simp: on_db_def bind_def update_db_def commit_def Let_def split: if_splits)
  with u that show thesis by blast
qed

section \<open>A login and a reset, run\<close>

definition demo_auth :: auth_env where
  "demo_auth = \<lparr>check_hash = (\<lambda>h p. h = p), make_hash = (\<lambda>n p. p), new_token = show_nat, url_token = (\<lambda>n. CHR ''t'' # show_nat n),
     new_secret = show_nat, totp_verify = (\<lambda>t s c. s = c), bracket_ok = (\<lambda>loc. False),
     external_url = (\<lambda>path. ''http://localhost'' @ path), public_base_url = [], show_token = True, token_minutes = 30\<rparr>"

definition demo_admin :: user where
  "demo_admin = \<lparr>usr_id = 1, usr_email = ''root@example.com'', usr_name = ''Root'', usr_password_hash = ''Secret-Pass-1'',
     usr_role = ''admin'', usr_is_active = True, usr_last_login_at = None, usr_totp_secret = None, usr_totp_enabled = False,
     usr_session_token = ''0''\<rparr>"

definition demo_web :: web where
  "demo_web = \<lparr>w_session = fresh_session (empty_db\<lparr>users := [demo_admin]\<rparr>), w_issued = [], w_draws = 1\<rparr>"

definition demo_login :: request where
  "demo_login = PostLogin [(''email'', ''root@example.com''), (''password'', ''Secret-Pass-1'')] None"

definition demo_logged_in :: web where
  "demo_logged_in = snd (serve demo_auth quiet_env no_cookie demo_login demo_web)"

definition demo_cookie :: cookie where
  "demo_cookie = no_cookie\<lparr>ck_user := Some ''1:0''\<rparr>"

definition demo_forgot :: web where
  "demo_forgot = snd (serve demo_auth quiet_env no_cookie (PostForgot [(''email'', ''root@example.com'')]) demo_logged_in)"

definition demo_reset :: request where
  "demo_reset = PostReset ''t1'' [(''password'', ''Other-Pass-22''), (''password_confirm'', ''Other-Pass-22'')]"

lemma demo_tokens: "inj (new_token demo_auth)"
  by (simp add: demo_auth_def inj_on_def show_nat_inj)

lemma demo_settled: "settled (w_session demo_web)"
  by code_simp

lemma demo_first_token: "''0'' \<in> show_nat ` {..<Suc 0}"
proof -
  have "show_nat 0 = ''0''" by code_simp
  then show ?thesis by (metis imageI lessThan_iff zero_less_Suc)
qed

lemma demo_start: "history demo_auth [] demo_web"
proof -
  have "known_tokens demo_auth 1 (users (committed (w_session demo_web)))"
    by (simp add: known_tokens_def demo_web_def fresh_session_def demo_admin_def demo_auth_def demo_first_token)
  from history.start [OF demo_settled this] show ?thesis by (simp add: demo_web_def)
qed

lemma demo_login_result: "w_issued demo_logged_in = [demo_cookie]"
  "authenticated (w_db demo_logged_in) demo_cookie \<noteq> None"
  by code_simp+

lemma demo_reset_result:
  "fst (serve demo_auth quiet_env demo_cookie demo_reset demo_forgot) = Goto ''auth.login'' (Some PasswordChanged)"
  "demo_cookie \<in> set (w_issued demo_forgot)"
  by code_simp+

lemma demo_histories:
  "history demo_auth [\<lparr>at_web = demo_web, at_env = quiet_env, at_cookie = no_cookie, at_request = demo_login\<rparr>] demo_logged_in"
  "\<exists>h. history demo_auth h demo_forgot"
proof -
  note step = history.request [OF _ disjI1 [OF refl] surjective_pairing]
  show h: "history demo_auth [\<lparr>at_web = demo_web, at_env = quiet_env, at_cookie = no_cookie, at_request = demo_login\<rparr>] demo_logged_in"
    using step [OF demo_start, of quiet_env demo_login] unfolding demo_logged_in_def append_Nil .
  show "\<exists>h. history demo_auth h demo_forgot"
    unfolding demo_forgot_def by (rule exI, rule step [OF h])
qed

section \<open>Properties\<close>

text \<open>
  C3: Whoever is logged in has shown the password that account has now, or, for an account with
  a second factor, a code of it after somebody had passed its password.  It holds of every run:
  old cookies sent again, failing commits, changes of the database elsewhere, accounts removed
  and their identifiers given again.  The session tokens are assumed never to repeat.
\<close>

theorem sessions_are_proved:
  assumes "inj (new_token ae)" "history ae h w" "c \<in> set (w_issued w)" "authenticated (w_db w) c = Some u"
  shows "(\<exists>ev\<in>set h. \<exists>x. password_shown ae ev = Some x \<and> usr_id x = usr_id u \<and> \<not> usr_totp_enabled x
            \<and> usr_password_hash x = usr_password_hash u)
    \<or> (\<exists>h1 ev h2. h = h1 @ ev # h2
          \<and> (\<exists>ev'\<in>set h1. \<exists>x. password_shown ae ev' = Some x \<and> usr_id x = usr_id u \<and> usr_totp_enabled x)
          \<and> (\<exists>x. code_shown ae ev = Some x \<and> usr_id x = usr_id u \<and> usr_totp_enabled x \<and> usr_password_hash x = usr_password_hash u))"
proof -
  obtain t where t: "ck_user c = Some t" "load_user (w_db w) t = Inr (Some u)" by (rule authenticated_user [OF assms(4)])
  have "bound ae h w t" using history_sound [OF assms(2,1)] assms(3) t(1) by (auto simp: sound_def backed_def)
  then obtain i tok hash where b: "t = show_nat i @ CHR '':'' # tok" "proved ae h i hash"
    "\<forall>u\<in>set (users (w_db w)). usr_id u = i \<and> usr_session_token u = tok \<longrightarrow> usr_password_hash u = hash"
    unfolding bound_def by blast
  note lu = load_user_text [OF t(2) [unfolded b(1)]]
  have "hash = usr_password_hash u" using b(3) lu by blast
  with lu(2) b(2) have "proved ae h (usr_id u) (usr_password_hash u)" by simp
  then show ?thesis unfolding proved_def challenged_def .
qed

theorem sessions_are_proved_witness:
  "\<exists>u. authenticated (w_db demo_logged_in) demo_cookie = Some u
    \<and> (\<exists>x. login_accepts demo_auth [(''email'', ''root@example.com''), (''password'', ''Secret-Pass-1'')] (w_db demo_web) = Some x
          \<and> usr_id x = usr_id u)"
proof -
  obtain u where u: "authenticated (w_db demo_logged_in) demo_cookie = Some u" using demo_login_result(2) by blast
  have "demo_cookie \<in> set (w_issued demo_logged_in)" using demo_login_result(1) by simp
  from sessions_are_proved [OF demo_tokens demo_histories(1) this u] u show ?thesis
    by (auto simp: password_shown_def code_shown_def demo_login_def Cons_eq_append_conv)
qed

text \<open>
  C4: A reset of a password that answers with success was allowed by a token of the account that
  was neither used nor expired; afterwards the account has the new password, which meets the
  policy, every other account is as before, the token is used, and no cookie that was ever sent
  logs in as this account any more.
\<close>

theorem reset_ends_sessions:
  assumes "inj (new_token ae)" "history ae h w" "c = no_cookie \<or> c \<in> set (w_issued w)"
    and "serve ae e c (PostReset link f) w = (Goto ''auth.login'' (Some PasswordChanged), w')"
  shows "\<exists>t u p. find_usable_password_reset_token ae e link (w_db w) = Some t \<and> find_user (rt_user_id t) (w_db w) = Some u
    \<and> map_of f ''password'' = Some p \<and> is_valid_password p
    \<and> users (w_db w') = map (\<lambda>x. if usr_id x = usr_id u
         then set_password (make_hash ae (w_draws w) p) (new_token ae (Suc (w_draws w))) x else x) (users (w_db w))
    \<and> (\<forall>t'\<in>set (reset_tokens (w_db w')). rt_id t' = rt_id t \<longrightarrow> rt_used_at t' = Some (now e))
    \<and> (\<forall>c'\<in>set (w_issued w'). \<forall>u'. authenticated (w_db w') c' = Some u' \<longrightarrow> usr_id u' \<noteq> usr_id u)"
proof -
  have so: "sound ae h w" by (rule history_sound [OF assms(2,1)])
  then have work: "working (vi_session (visit_of c w)) = w_db w" "vi_draws (visit_of c w) = w_draws w"
    by (simp_all add: visit_of_def sound_def settled_def)
  obtain r v where v: "reset_password_post ae e link f (visit_of c w) = (r, v)" by fastforce
  then have "r = Inr (Goto ''auth.login'' (Some PasswordChanged))" and w': "w' = leave v w"
    using assms(4) by (auto simp: serve_def serve_view_def reply_of_def split: sum.splits)
  then have v': "reset_password_post ae e link f (visit_of c w) = (Inr (Goto ''auth.login'' (Some PasswordChanged)), v)"
    using v by simp
  obtain t p x y where t: "find_usable_password_reset_token ae e link (w_db w) = Some t" "map_of f ''password'' = Some p"
    "password_errors p = []" "consume_password_reset_token ae e t p (visit_of c w) = (Inr x, y)"
    "users (committed (vi_session v)) \<in> {users (committed (vi_session y)), users (working (vi_session y))}"
    "reset_tokens (committed (vi_session v)) \<in> {reset_tokens (committed (vi_session y)), reset_tokens (working (vi_session y))}"
    by (rule reset_post_success [OF v']) (simp add: work)
  let ?tok = "new_token ae (Suc (w_draws w))"
  let ?g = "set_password (make_hash ae (w_draws w) p) ?tok"
  obtain u where u: "find_user (rt_user_id t) (w_db w) = Some u"
    "committed (vi_session y) = mark_used (rt_id t) (now e) (update_user (usr_id u) ?g (w_db w))"
    "working (vi_session y) = committed (vi_session y)"
    by (rule consume_success [OF t(4)]) (simp add: work)
  have us: "users (w_db w') = map (\<lambda>x. if usr_id x = usr_id u then ?g x else x) (users (w_db w))"
    "reset_tokens (w_db w') = map (\<lambda>t'. if rt_id t' = rt_id t then t'\<lparr>rt_used_at := Some (now e)\<rparr> else t') (reset_tokens (w_db w))"
    using t(5,6) u(2,3) w' by (auto simp: leave_def rollback_def mark_used_def update_user_def)
  have ended: "usr_id u' \<noteq> usr_id u" if c': "c' \<in> set (w_issued w')" "authenticated (w_db w') c' = Some u'" for c' u'
  proof
    assume same: "usr_id u' = usr_id u"
    obtain a where a: "ck_user c' = Some a" "load_user (w_db w') a = Inr (Some u')"
      using authenticated_user [OF c'(2)] by metis
    have "cookie_within c v"
      using holdsD [OF other_views_cookie [of "PostReset link f" c ae e], of "visit_of c w"] v
      by (simp add: cookie_within_def visit_of_def)
    then have "c' \<in> set (w_issued w) \<or> ck_user c' = ck_user c"
      using c'(1) a(1) w' by (auto simp: leave_def cookie_within_def)
    then have "bound ae h w a"
      using so assms(3) a(1) by (auto simp: sound_def backed_def no_cookie_def)
    then obtain i tok where b: "a = show_nat i @ CHR '':'' # tok" "tok \<in> new_token ae ` {..<w_draws w}"
      by (auto simp: bound_def)
    from load_user_text [OF a(2) [unfolded b(1)]] have lu: "u' \<in> set (users (w_db w'))" "usr_session_token u' = tok"
      by simp_all
    then obtain z where "z \<in> set (users (w_db w))" "u' = (if usr_id z = usr_id u then ?g z else z)" using us(1) by auto
    moreover have "usr_id (?g z) = usr_id z" for z by (simp add: set_password_def)
    ultimately have "tok = ?tok" using same lu(2) core_set_password by (metis (no_types, lifting))
    with b(2) assms(1) show False by (auto dest: injD)
  qed
  have used: "\<forall>t'\<in>set (reset_tokens (w_db w')). rt_id t' = rt_id t \<longrightarrow> rt_used_at t' = Some (now e)"
    unfolding us(2) by auto
  show ?thesis using t(1-3) u(1) us(1) ended used unfolding is_valid_password_def by blast
qed

theorem reset_ends_sessions_witness:
  "\<exists>u w'. serve demo_auth quiet_env demo_cookie demo_reset demo_forgot = (Goto ''auth.login'' (Some PasswordChanged), w')
    \<and> u \<in> set (users (w_db demo_forgot))
    \<and> (\<forall>c'\<in>set (w_issued w'). \<forall>u'. authenticated (w_db w') c' = Some u' \<longrightarrow> usr_id u' \<noteq> usr_id u)"
proof -
  obtain h where h: "history demo_auth h demo_forgot" using demo_histories(2) by blast
  obtain w' where w': "serve demo_auth quiet_env demo_cookie demo_reset demo_forgot = (Goto ''auth.login'' (Some PasswordChanged), w')"
    using demo_reset_result(1) by (metis prod.collapse)
  from reset_ends_sessions [OF demo_tokens h disjI2 [OF demo_reset_result(2)] w' [unfolded demo_reset_def]]
  have "\<exists>t::reset_token. \<exists>u. find_user (rt_user_id t) (w_db demo_forgot) = Some u
    \<and> (\<forall>c'\<in>set (w_issued w'). \<forall>u'. authenticated (w_db w') c' = Some u' \<longrightarrow> usr_id u' \<noteq> usr_id u)"
    by (elim exE conjE) (intro exI conjI, assumption, assumption)
  then obtain t :: reset_token and u where u: "find_user (rt_user_id t) (w_db demo_forgot) = Some u"
    "\<forall>c'\<in>set (w_issued w'). \<forall>u'. authenticated (w_db w') c' = Some u' \<longrightarrow> usr_id u' \<noteq> usr_id u"
    by blast
  from u(1) have "u \<in> set (users (w_db demo_forgot))" unfolding find_user_def by (rule find_facts [THEN conjunct1])
  with w' u(2) show ?thesis by blast
qed

section \<open>Who changes accounts\<close>



























text \<open>
  A target that browsers take for another host: they read a backslash as a slash, \<open>urlsplit\<close>
  does not.
\<close>

lemma backslash_target_accepted:
  "safe_redirect_target ae (Some (CHR ''/'' # CHR 0x5C # ''example.org'')) = Inr (Some (CHR ''/'' # CHR 0x5C # ''example.org''))"
  by code_simp

end
