(* ===== verification/SiteConfig.thy ===== *)
theory SiteConfig
  imports Atomic PyUrl "HOL-Library.List_Lexorder"
begin

text \<open>
  The rows every site has, made when they are first needed: rule settings, traffic policy,
  security headers, extra directives, bot protection (\<^verbatim>\<open>app/proxy/services.py\<close>,
  \<^verbatim>\<open>app/proxy/security_headers.py\<close>, \<^verbatim>\<open>app/proxy/nginx_extra.py\<close>), and the catalogue of rule
  categories (\<^verbatim>\<open>app/proxy/catalog.py\<close>).
\<close>

section \<open>Upstreams\<close>

definition parse_upstream_host_port :: "(string \<Rightarrow> bool) \<Rightarrow> string \<Rightarrow> py_exn + string option \<times> int" where
  "parse_upstream_host_port bracket_ok upstream_url =
     rbind (urlparse bracket_ok upstream_url) (\<lambda>parsed.
     rbind (url_port parsed) (\<lambda>port.
     Inr (url_hostname parsed,
          case port of Some p \<Rightarrow> p | None \<Rightarrow> if url_scheme parsed = ''https'' then 443 else 80)))"

definition LOCAL_UPSTREAM_HOSTS :: "string list" where
  "LOCAL_UPSTREAM_HOSTS = [''host.docker.internal'', ''127.0.0.1'', ''localhost'']"

definition is_local_upstream :: "(string \<Rightarrow> bool) \<Rightarrow> string \<Rightarrow> py_exn + bool" where
  "is_local_upstream bracket_ok upstream_url =
     rbind (parse_upstream_host_port bracket_ok upstream_url) (\<lambda>p.
     Inr (case fst p of None \<Rightarrow> False | Some h \<Rightarrow> h \<in> set LOCAL_UPSTREAM_HOSTS))"

section \<open>Rule categories\<close>

definition default_category :: "string \<Rightarrow> string \<Rightarrow> string \<Rightarrow> string \<Rightarrow> bool \<Rightarrow> rule_category" where
  "default_category key name description crs_tag enabled =
     \<lparr>rc_id = 0, rc_key = key, rc_name = name, rc_description = description, rc_crs_tag = crs_tag, rc_enabled_by_default = enabled\<rparr>"

definition DEFAULT_RULE_CATEGORIES :: "rule_category list" where
  "DEFAULT_RULE_CATEGORIES =
     [
      default_category ''protocol'' (''Protocol enforcement'')
        (''Validaciones de protocolo HTTP, metodos, headers y formato de request.'') ''OWASP_CRS/PROTOCOL-ENFORCEMENT'' False,
      default_category ''method-enforcement'' (''Method enforcement'')
        (''Control de metodos HTTP permitidos y restricciones de metodo.'') ''OWASP_CRS/METHOD-ENFORCEMENT'' False,
      default_category ''protocol-attack'' (''Protocol attack'')
        (''Abusos del protocolo HTTP como request smuggling, splitting o evasion.'') ''OWASP_CRS/PROTOCOL-ATTACK'' False,
      default_category ''multipart'' (''Multipart attack'')
        (''Validaciones especificas de multipart/form-data y cargas de archivo.'') ''OWASP_CRS/MULTIPART-ATTACK'' False,
      default_category ''dos'' (''DoS protection'')
        (''Reglas CRS de proteccion contra denegacion de servicio a nivel aplicacion.'') ''OWASP_CRS/DOS-PROTECTION'' False,
      default_category ''ip-reputation'' (''IP reputation'')
        (''Reglas de reputacion de IP incluidas en CRS.'') ''OWASP_CRS/IP-REPUTATION'' False,
      default_category ''scanner'' (''Scanner detection'')
        (''Deteccion de scanners, crawlers agresivos y herramientas automatizadas.'') ''OWASP_CRS/AUTOMATION'' False,
      default_category ''sqli'' (''SQL injection'')
        (''Reglas OWASP CRS para patrones de inyeccion SQL.'') ''attack-sqli'' False,
      default_category ''xss'' (''Cross-site scripting'')
        (''Reglas OWASP CRS para payloads y vectores XSS.'') ''attack-xss'' False,
      default_category ''lfi'' (''Local file inclusion'')
        (''Intentos de incluir o leer archivos locales sensibles.'') ''attack-lfi'' False,
      default_category ''rfi'' (''Remote file inclusion'')
        (''Intentos de inclusion remota de recursos maliciosos.'') ''attack-rfi'' False,
      default_category ''rce'' (''Remote command execution'')
        (''Patrones asociados a ejecucion remota de comandos.'') ''attack-rce'' False,
      default_category ''php'' (''PHP attack'')
        (''Patrones especificos de ataques contra aplicaciones PHP.'') ''attack-php'' False,
      default_category ''java'' (''Java attack'')
        (''Patrones especificos de ataques contra aplicaciones Java.'') ''attack-java'' False,
      default_category ''nodejs'' (''Node.js attack'')
        (''Patrones especificos de ataques contra aplicaciones Node.js.'') ''attack-nodejs'' False,
      default_category ''session-fixation'' (''Session fixation'')
        (''Intentos de fijacion o abuso de identificadores de sesion.'') ''attack-session-fixation'' False,
      default_category ''data-leakage'' (''Filtraci'' @ [CHR 0xF3] @ ''n de datos'')
        (''Inspecci'' @ [CHR 0xF3] @ ''n de respuestas HTTP en busca de datos sensibles (errores SQL, stack traces, versiones de servidor). Puede generar falsos positivos en APIs que devuelven logs de seguridad como Grafana/Loki.'') ''OWASP_CRS/DATA-LEAKAGES'' False,
      default_category ''correlation'' (''Correlaci'' @ [CHR 0xF3] @ ''n de ataques'')
        (''Reglas de correlaci'' @ [CHR 0xF3] @ ''n que consolidan eventos de ataque al final de la transacci'' @ [CHR 0xF3] @ ''n. Desactivar solo si se observan falsos positivos en el cierre de requests.'') ''OWASP_CRS/CORRELATION'' False]"

definition add_category :: "rule_category \<Rightarrow> db \<Rightarrow> db" where
  "add_category c d = d\<lparr>categories := categories d @ [c\<lparr>rc_id := fresh_id (map rc_id (categories d))\<rparr>]\<rparr>"

definition missing_categories :: "db \<Rightarrow> rule_category list" where
  "missing_categories d = filter (\<lambda>c. rc_key c \<notin> set (map rc_key (categories d))) DEFAULT_RULE_CATEGORIES"

definition ensure_default_rule_categories :: "env \<Rightarrow> unit sess_op" where
  "ensure_default_rule_categories e =
     bind (update_db (\<lambda>d. fold add_category (missing_categories d) d)) (\<lambda>_. commit e)"

definition by_name :: "rule_category list \<Rightarrow> rule_category list" where
  "by_name cs = sort_key (\<lambda>c. map code (rc_name c)) cs"

definition settings_of :: "nat \<Rightarrow> db \<Rightarrow> rule_setting list" where
  "settings_of i d = filter (\<lambda>r. rs_site_id r = i) (rule_settings d)"

definition missing_settings :: "nat \<Rightarrow> db \<Rightarrow> rule_setting list" where
  "missing_settings i d =
     map (\<lambda>c. \<lparr>rs_site_id = i, rs_category_id = rc_id c, rs_enabled = rc_enabled_by_default c\<rparr>)
       (filter (\<lambda>c. rc_id c \<notin> set (map rs_category_id (settings_of i d))) (by_name (categories d)))"

definition sync_site_rule_settings :: "env \<Rightarrow> nat \<Rightarrow> unit sess_op" where
  "sync_site_rule_settings e i =
     bind (update_db (\<lambda>d. d\<lparr>rule_settings := rule_settings d @ missing_settings i d\<rparr>)) (\<lambda>_. commit e)"

section \<open>One row per site\<close>

definition default_policy :: "nat \<Rightarrow> traffic_policy" where
  "default_policy i = \<lparr>tp_site_id = i, tp_rate_limit_enabled = True, tp_requests_per_second = 50, tp_burst = 100,
     tp_nodelay = True, tp_conn_limit_enabled = True, tp_max_connections = 20, tp_key_strategy = ''ip''\<rparr>"

definition default_extra :: "nat \<Rightarrow> nginx_extra" where
  "default_extra i = \<lparr>nx_site_id = i, nx_enabled = False, nx_server_snippet = [], nx_location_snippet = []\<rparr>"

definition default_bot :: "nat \<Rightarrow> bot_protection" where
  "default_bot i = \<lparr>bp_site_id = i, bp_enabled = False\<rparr>"

definition find_policy :: "nat \<Rightarrow> db \<Rightarrow> traffic_policy option" where
  "find_policy i d = find (\<lambda>r. tp_site_id r = i) (traffic_policies d)"

definition find_extra :: "nat \<Rightarrow> db \<Rightarrow> nginx_extra option" where
  "find_extra i d = find (\<lambda>r. nx_site_id r = i) (nginx_extras d)"

definition find_bot :: "nat \<Rightarrow> db \<Rightarrow> bot_protection option" where
  "find_bot i d = find (\<lambda>r. bp_site_id r = i) (bot_protections d)"

text \<open>The row that \<open>ensure\<close> returns.\<close>

definition policy_of :: "nat \<Rightarrow> db \<Rightarrow> traffic_policy" where
  "policy_of i d = (case find_policy i d of Some p \<Rightarrow> p | None \<Rightarrow> default_policy i)"

definition extra_of :: "nat \<Rightarrow> db \<Rightarrow> nginx_extra" where
  "extra_of i d = (case find_extra i d of Some x \<Rightarrow> x | None \<Rightarrow> default_extra i)"

definition bot_of :: "nat \<Rightarrow> db \<Rightarrow> bot_protection" where
  "bot_of i d = (case find_bot i d of Some b \<Rightarrow> b | None \<Rightarrow> default_bot i)"

definition ensure_site_traffic_policy :: "env \<Rightarrow> nat \<Rightarrow> unit sess_op" where
  "ensure_site_traffic_policy e i =
     bind (fetch (\<lambda>s. find_policy i (working s))) (\<lambda>r. if r = None
       then bind (update_db (\<lambda>d. d\<lparr>traffic_policies := traffic_policies d @ [default_policy i]\<rparr>)) (\<lambda>_. commit e)
       else ret ())"

definition ensure_site_nginx_extra_config :: "env \<Rightarrow> nat \<Rightarrow> unit sess_op" where
  "ensure_site_nginx_extra_config e i =
     bind (fetch (\<lambda>s. find_extra i (working s))) (\<lambda>r. if r = None
       then bind (update_db (\<lambda>d. d\<lparr>nginx_extras := nginx_extras d @ [default_extra i]\<rparr>)) (\<lambda>_. commit e)
       else ret ())"

definition ensure_site_bot_protection :: "env \<Rightarrow> nat \<Rightarrow> unit sess_op" where
  "ensure_site_bot_protection e i =
     bind (fetch (\<lambda>s. find_bot i (working s))) (\<lambda>r. if r = None
       then bind (update_db (\<lambda>d. d\<lparr>bot_protections := bot_protections d @ [default_bot i]\<rparr>)) (\<lambda>_. commit e)
       else ret ())"

section \<open>Security headers\<close>

text \<open>A quote character inside a text of the program.\<close>

abbreviation quoted :: "string \<Rightarrow> string" where
  "quoted s \<equiv> CHR 0x27 # s @ [CHR 0x27]"

definition CONSOLE_CSP :: string where
  "CONSOLE_CSP = ''default-src '' @ quoted ''self'' @ ''; ''
     @ ''script-src '' @ quoted ''self'' @ '' '' @ quoted ''unsafe-inline'' @ '' '' @ quoted ''unsafe-eval''
     @ '' https://cdn.jsdelivr.net https://unpkg.com; ''
     @ ''style-src '' @ quoted ''self'' @ '' '' @ quoted ''unsafe-inline'' @ '' https://cdn.jsdelivr.net https://fonts.googleapis.com; ''
     @ ''font-src '' @ quoted ''self'' @ '' https://fonts.gstatic.com https://cdn.jsdelivr.net data:; ''
     @ ''img-src '' @ quoted ''self'' @ '' data:; ''
     @ ''connect-src '' @ quoted ''self'' @ ''; ''
     @ ''frame-ancestors '' @ quoted ''none''"

definition SITE_CSP :: string where
  "SITE_CSP = ''default-src '' @ quoted ''self'' @ ''; '' @ ''img-src '' @ quoted ''self'' @ '' data:; ''
     @ ''style-src '' @ quoted ''self'' @ '' '' @ quoted ''unsafe-inline'' @ ''; '' @ ''frame-ancestors '' @ quoted ''none''"

definition STALE_CONSOLE_CSP_VALUES :: "string list" where
  "STALE_CONSOLE_CSP_VALUES = [''default-src '' @ quoted ''self'', SITE_CSP]"

text \<open>Name, value and whether the header is enabled; all of them are sent always.\<close>

definition DEFAULT_SECURITY_HEADERS :: "(string \<times> string \<times> bool) list" where
  "DEFAULT_SECURITY_HEADERS =
     [(''X-Content-Type-Options'', ''nosniff'', True),
      (''X-Frame-Options'', ''DENY'', True),
      (''Referrer-Policy'', ''strict-origin-when-cross-origin'', True),
      (''Permissions-Policy'', ''camera=(), microphone=(), geolocation=()'', True),
      (''X-XSS-Protection'', ''1; mode=block'', True),
      (''Strict-Transport-Security'', ''max-age=31536000; includeSubDomains'', False),
      (''Content-Security-Policy'', SITE_CSP, False)]"

definition headers_of :: "nat \<Rightarrow> db \<Rightarrow> security_header list" where
  "headers_of i d = sort_key sh_position (filter (\<lambda>h. sh_site_id h = i) (security_headers d))"

text \<open>\<open>existing\<close> keeps the last header of every name, compared in lower case.\<close>

definition header_named :: "string \<Rightarrow> nat \<Rightarrow> db \<Rightarrow> security_header option" where
  "header_named name i d = find (\<lambda>h. py_lower (sh_name h) = name) (rev (headers_of i d))"

definition default_header :: "site \<Rightarrow> nat \<Rightarrow> string \<times> string \<times> bool \<Rightarrow> security_header" where
  "default_header st position item =
     \<lparr>sh_id = 0, sh_site_id = site_id st, sh_name = fst item,
      sh_value = (if fst item = ''Content-Security-Policy'' \<and> site_is_console st then CONSOLE_CSP else fst (snd item)),
      sh_enabled = snd (snd item), sh_always = True, sh_position = int position, sh_is_default = True\<rparr>"

definition missing_headers :: "site \<Rightarrow> db \<Rightarrow> security_header list" where
  "missing_headers st d =
     map (\<lambda>(position, item). default_header st position item)
       (filter (\<lambda>(position, item). header_named (py_lower (fst item)) (site_id st) d = None)
         (enumerate 1 DEFAULT_SECURITY_HEADERS))"

definition add_header :: "security_header \<Rightarrow> db \<Rightarrow> db" where
  "add_header h d = d\<lparr>security_headers := security_headers d @ [h\<lparr>sh_id := fresh_id (map sh_id (security_headers d))\<rparr>]\<rparr>"

definition stale_csp :: "site \<Rightarrow> db \<Rightarrow> security_header option" where
  "stale_csp st d = (case header_named ''content-security-policy'' (site_id st) d of
      None \<Rightarrow> None
    | Some h \<Rightarrow> if site_is_console st \<and> sh_is_default h \<and> sh_value h \<in> set STALE_CONSOLE_CSP_VALUES then Some h else None)"

definition refresh_csp :: "site \<Rightarrow> db \<Rightarrow> db" where
  "refresh_csp st d = (case stale_csp st d of
      None \<Rightarrow> d
    | Some h \<Rightarrow> d\<lparr>security_headers := map (\<lambda>x. if sh_id x = sh_id h then x\<lparr>sh_value := CONSOLE_CSP\<rparr> else x) (security_headers d)\<rparr>)"

definition ensure_site_security_headers :: "env \<Rightarrow> site \<Rightarrow> unit sess_op" where
  "ensure_site_security_headers e st =
     bind (fetch working) (\<lambda>d.
     if missing_headers st d \<noteq> [] \<or> stale_csp st d \<noteq> None
     then bind (update_db (\<lambda>d. fold add_header (missing_headers st d) (refresh_csp st d))) (\<lambda>_. commit e)
     else ret ())"

end
