(* ===== verification/NginxConf.thy ===== *)
theory NginxConf
  imports Prelude
begin

text \<open>
  How the proxy lexes the files the console writes.  Nginx is not part of the repository; what the
  rendering relies on is its documented lexical grammar: words separated by blanks, directives that
  end with a semicolon or open a block, comments from \<open>#\<close> to the end of the line, words in single
  or double quotes, the backslash that protects the next character, \<open>${\<close> inside a word.  The
  grammar is written as a machine that takes one character at a time; a reader of configurations
  is anything that agrees with it where it accepts (\<open>conf_reader\<close>).

  \<open>lexes a ts\<close>: the text \<open>a\<close>, put anywhere between two directives, adds the tokens \<open>ts\<close>; texts
  with this property are put together by concatenation.
\<close>

section \<open>The grammar\<close>

datatype conf_token = Word string | Semi | Open | Close

text \<open>Where the machine stands; inside a word the flags tell of a pending backslash and of a \<open>$\<close>
  just read, and the characters are kept in reverse.\<close>

datatype place =
    Between
  | Comment
  | InWord bool bool string
  | InQuotes char bool string
  | AfterQuotes

definition conf_blank :: "char \<Rightarrow> bool" where
  "conf_blank c \<longleftrightarrow> c \<in> {CHR '' '', CHR 0x09, CHR 0x0D, CHR 0x0A}"

definition quote_char :: "char \<Rightarrow> bool" where
  "quote_char c \<longleftrightarrow> c = CHR 0x22 \<or> c = CHR 0x27"

text \<open>The value of a word: the backslash goes before a quote or a backslash, and \<open>\t\<close>, \<open>\r\<close>,
  \<open>\n\<close> are the control characters.\<close>

fun unescape :: "string \<Rightarrow> string" where
  "unescape (c # d # s) =
     (if c \<noteq> CHR 0x5C then c # unescape (d # s)
      else if quote_char d \<or> d = CHR 0x5C then d # unescape s
      else if d = CHR ''t'' then CHR 0x09 # unescape s
      else if d = CHR ''r'' then CHR 0x0D # unescape s
      else if d = CHR ''n'' then CHR 0x0A # unescape s
      else c # d # unescape s)"
| "unescape s = s"

definition mark :: "char \<Rightarrow> conf_token option" where
  "mark c = (if c = CHR '';'' then Some Semi else if c = CHR ''{'' then Some Open else None)"

definition ends_word :: "char \<Rightarrow> bool" where
  "ends_word c \<longleftrightarrow> conf_blank c \<or> mark c \<noteq> None"

definition mark_list :: "char \<Rightarrow> conf_token list" where
  "mark_list c = (case mark c of None \<Rightarrow> [] | Some t \<Rightarrow> [t])"

fun conf_step :: "place \<Rightarrow> char \<Rightarrow> (conf_token list \<times> place) option" where
  "conf_step Between c =
     (if ends_word c then Some (mark_list c, Between)
      else if c = CHR ''}'' then Some ([Close], Between)
      else if c = CHR ''#'' then Some ([], Comment)
      else if quote_char c then Some ([], InQuotes c False [])
      else Some ([], InWord (c = CHR 0x5C) (c = CHR ''$'') [c]))"
| "conf_step Comment c = Some ([], if c = newline then Between else Comment)"
| "conf_step (InWord esc var w) c =
     (if esc then Some ([], InWord False False (c # w))
      else if c = CHR ''{'' \<and> var then Some ([], InWord False True (c # w))
      else if ends_word c then Some (Word (unescape (rev w)) # mark_list c, Between)
      else Some ([], InWord (c = CHR 0x5C) (c = CHR ''$'') (c # w)))"
| "conf_step (InQuotes q esc w) c =
     (if esc then Some ([], InQuotes q False (c # w))
      else if c = q then Some ([Word (unescape (rev w))], AfterQuotes)
      else Some ([], InQuotes q (c = CHR 0x5C) (c # w)))"
| "conf_step AfterQuotes c =
     (if ends_word c then Some (mark_list c, Between)
      else if c = CHR '')'' then Some ([], InWord False False [c])
      else None)"

fun conf_run :: "place \<Rightarrow> string \<Rightarrow> (conf_token list \<times> place) option" where
  "conf_run p [] = Some ([], p)"
| "conf_run p (c # s) = (case conf_step p c of None \<Rightarrow> None
     | Some (ts, q) \<Rightarrow> (case conf_run q s of None \<Rightarrow> None | Some (us, r) \<Rightarrow> Some (ts @ us, r)))"

definition conf_tokens :: "string \<Rightarrow> conf_token list option" where
  "conf_tokens s = (case conf_run Between s of Some (ts, Between) \<Rightarrow> Some ts | _ \<Rightarrow> None)"

section \<open>Texts that can be put together\<close>

definition lexes :: "string \<Rightarrow> conf_token list \<Rightarrow> bool" where
  "lexes a ts \<longleftrightarrow> conf_run Between a = Some (ts, Between)"

lemma conf_run_append:
  "conf_run p a = Some (ts, q) \<Longrightarrow> conf_run p (a @ b)
     = (case conf_run q b of None \<Rightarrow> None | Some (us, r) \<Rightarrow> Some (ts @ us, r))"
proof (induction a arbitrary: p ts)
  case (Cons c a)
  then show ?case by (auto split: option.splits)
qed (auto split: option.splits)

lemma conf_run_snoc: "conf_run p a = Some (ts, q) \<Longrightarrow> conf_step q c = Some (us, r)
    \<Longrightarrow> conf_run p (a @ [c]) = Some (ts @ us, r)"
  by (simp add: conf_run_append)

lemma lexes_Nil [simp]: "lexes [] ts \<longleftrightarrow> ts = []"
  by (auto simp: lexes_def)

lemma lexes_append: "lexes a ts \<Longrightarrow> lexes b us \<Longrightarrow> lexes (a @ b) (ts @ us)"
  by (simp add: lexes_def conf_run_append)

lemma lexes_concat: "list_all2 lexes as tss \<Longrightarrow> lexes (concat as) (concat tss)"
  by (induction rule: list_all2_induct) (simp_all add: lexes_append)

lemma conf_tokens_lexes: "lexes s ts \<Longrightarrow> conf_tokens s = Some ts"
  by (simp add: lexes_def conf_tokens_def)

text \<open>A reader agrees with the grammar.\<close>

locale conf_reader =
  fixes tokens_of :: "string \<Rightarrow> conf_token list option"
  assumes documented: "conf_run Between s = Some (ts, Between) \<Longrightarrow> tokens_of s = Some ts"
begin

lemma tokens_lexes: "lexes s ts \<Longrightarrow> tokens_of s = Some ts"
  by (simp add: lexes_def documented)

text \<open>What is rendered by parts is read by parts.\<close>

lemma tokens_append: "lexes a ts \<Longrightarrow> lexes b us \<Longrightarrow> tokens_of (a @ b) = Some (ts @ us)"
  by (intro tokens_lexes lexes_append)

end

interpretation grammar: conf_reader conf_tokens
  by unfold_locales (simp add: conf_tokens_def)

section \<open>Words\<close>

definition bare_char :: "char \<Rightarrow> bool" where
  "bare_char c \<longleftrightarrow> \<not> ends_word c \<and> c \<noteq> CHR 0x5C"

text \<open>A word that stands for itself without quotes.\<close>

definition bare :: "string \<Rightarrow> bool" where
  "bare w \<longleftrightarrow> w \<noteq> [] \<and> list_all bare_char w \<and> hd w \<noteq> CHR ''#'' \<and> hd w \<noteq> CHR ''}'' \<and> \<not> quote_char (hd w)"

lemma unescape_bare: "CHR 0x5C \<notin> set s \<Longrightarrow> unescape s = s"
  by (induction s rule: unescape.induct) auto

lemma in_word:
  "list_all bare_char w \<Longrightarrow> conf_run (InWord False v u) w
     = Some ([], InWord False (if w = [] then v else last w = CHR ''$'') (rev w @ u))"
proof (induction w arbitrary: v u)
  case (Cons c w)
  then show ?case by (cases "w = []") (auto simp: bare_char_def ends_word_def mark_def)
qed simp

lemma run_bare: "bare w \<Longrightarrow> conf_run Between w = Some ([], InWord False (last w = CHR ''$'') (rev w))"
proof (cases w)
  case (Cons c s)
  assume "bare w"
  with Cons show ?thesis
    by (cases "s = []") (auto simp: bare_def bare_char_def in_word)
qed (simp add: bare_def)

lemma bare_unescape: "bare w \<Longrightarrow> unescape w = w"
  by (rule unescape_bare) (auto simp: bare_def bare_char_def list_all_iff)

text \<open>A bare word and the character that ends it.\<close>

lemma lexes_word:
  assumes "bare w" "ends_word c" "c \<noteq> CHR ''{''"
  shows "lexes (w @ [c]) (Word w # mark_list c)"
  unfolding lexes_def
  using conf_run_snoc [OF run_bare [OF assms(1)], of c] assms by (simp add: bare_unescape)

lemma lexes_word_open: "bare w \<Longrightarrow> lexes (w @ '' {'') [Word w, Open]"
  using lexes_append [OF lexes_word [of w "CHR '' ''"], of "''{''" "[Open]"]
  by (simp add: ends_word_def conf_blank_def mark_list_def mark_def lexes_def)

lemma lexes_word_semi: "bare w \<Longrightarrow> lexes (w @ '';'') [Word w, Semi]"
  using lexes_word [of w "CHR '';''"] by (simp add: ends_word_def mark_list_def mark_def)

lemma lexes_word_space: "bare w \<Longrightarrow> lexes (w @ '' '') [Word w]"
  using lexes_word [of w "CHR '' ''"] by (simp add: ends_word_def mark_list_def mark_def conf_blank_def)

lemma bare_append: "bare a \<Longrightarrow> list_all bare_char b \<Longrightarrow> bare (a @ b)"
  by (simp add: bare_def)

lemma digits_bare: "list_all bare_char (show_nat n)"
proof -
  have "is_digit c \<Longrightarrow> bare_char c" for c
    by (auto simp: bare_char_def ends_word_def conf_blank_def mark_def is_digit_def)
  then show ?thesis using show_nat_digits by (auto simp: list_all_iff)
qed

lemma int_bare: "list_all bare_char (show_int i)"
  using digits_bare by (auto simp: show_int_def bare_char_def ends_word_def conf_blank_def mark_def)

lemma number_bare: "bare (show_nat n)" "bare (show_int i)"
proof -
  have "is_digit c \<Longrightarrow> c \<noteq> CHR ''#'' \<and> c \<noteq> CHR ''}'' \<and> \<not> quote_char c" for c
    by (auto simp: is_digit_def quote_char_def)
  moreover have "is_digit (hd (show_nat k))" for k using show_nat_digits [of _ k] by simp
  ultimately show "bare (show_nat n)" "bare (show_int i)"
    using digits_bare int_bare by (auto simp: bare_def show_int_def quote_char_def)
qed

section \<open>Words in quotes\<close>

text \<open>The text between two quotes \<open>q\<close>: no bare \<open>q\<close>, no backslash left open at the end.\<close>

fun quotable :: "char \<Rightarrow> string \<Rightarrow> bool" where
  "quotable q [] \<longleftrightarrow> True"
| "quotable q [c] \<longleftrightarrow> c \<noteq> q \<and> c \<noteq> CHR 0x5C"
| "quotable q (c # d # s) \<longleftrightarrow> (if c = CHR 0x5C then quotable q s else c \<noteq> q \<and> quotable q (d # s))"

lemma in_quotes: "quotable q s \<Longrightarrow> q \<noteq> CHR 0x5C
    \<Longrightarrow> conf_run (InQuotes q False w) s = Some ([], InQuotes q False (rev s @ w))"
  by (induction q s arbitrary: w rule: quotable.induct) (auto split: if_splits)

lemma run_quoted:
  assumes "quote_char q" "quotable q s"
  shows "conf_run Between (q # s @ [q]) = Some ([Word (unescape s)], AfterQuotes)"
proof -
  have "q \<noteq> CHR 0x5C" using assms by (auto simp: quote_char_def)
  then have "conf_run (InQuotes q False []) s = Some ([], InQuotes q False (rev s))"
    using in_quotes [OF assms(2), of "[]"] by simp
  then have "conf_run (InQuotes q False []) (s @ [q]) = Some ([] @ [Word (unescape s)], AfterQuotes)"
    by (rule conf_run_snoc) simp
  moreover have "conf_step Between q = Some ([], InQuotes q False [])"
    using assms(1) by (auto simp: quote_char_def ends_word_def conf_blank_def mark_def)
  ultimately show ?thesis by simp
qed

lemma lexes_quoted:
  assumes "quote_char q" "quotable q s" "ends_word c"
  shows "lexes (q # s @ [q, c]) (Word (unescape s) # mark_list c)"
  unfolding lexes_def
  using conf_run_snoc [OF run_quoted [OF assms(1,2)], of c] assms(3) by simp

text \<open>Text without the quote is quotable unless it ends in a backslash.\<close>

lemma quotable_free: "q \<notin> set s \<Longrightarrow> s = [] \<or> last s \<noteq> CHR 0x5C \<Longrightarrow> quotable q s"
  by (induction q s rule: quotable.induct) (auto split: if_splits)

lemma quotable_append: "quotable q a \<Longrightarrow> quotable q b \<Longrightarrow> quotable q (a @ b)"
proof (induction q a rule: quotable.induct)
  case (2 q c)
  then show ?case by (cases b) auto
qed auto

section \<open>Directives\<close>

text \<open>A configuration as directives and blocks; \<open>Given\<close> is text taken as it is.\<close>

datatype directive =
    Simple "string list"
  | Block "string list" "directive list"
  | Given "conf_token list"

fun dir_tokens :: "directive \<Rightarrow> conf_token list" where
  "dir_tokens (Simple ws) = map Word ws @ [Semi]"
| "dir_tokens (Block ws ds) = map Word ws @ [Open] @ concat (map dir_tokens ds) @ [Close]"
| "dir_tokens (Given ts) = ts"

definition conf_meaning :: "directive list \<Rightarrow> conf_token list" where
  "conf_meaning ds = concat (map dir_tokens ds)"

lemma conf_meaning_simps [simp]:
  "conf_meaning [] = []" "conf_meaning (d # ds) = dir_tokens d @ conf_meaning ds"
  "conf_meaning (ds @ es) = conf_meaning ds @ conf_meaning es"
  by (simp_all add: conf_meaning_def)

text \<open>Lines of text, and the directives they mean together.\<close>

definition with_newlines :: "string list \<Rightarrow> string" where
  "with_newlines ls = concat (map (\<lambda>l. l @ [newline]) ls)"

definition means :: "string list \<Rightarrow> directive list \<Rightarrow> bool" where
  "means ls ds \<longleftrightarrow> lexes (with_newlines ls) (conf_meaning ds)"

lemma join_lines: "ls \<noteq> [] \<Longrightarrow> join [newline] ls @ [newline] = with_newlines ls"
  by (induction "[newline]" ls rule: join.induct) (auto simp: with_newlines_def)

text \<open>A text whose last line is empty ends with a line feed.\<close>

lemma join_ended: "ls \<noteq> [] \<Longrightarrow> join [newline] (ls @ [[]]) = with_newlines ls"
  by (induction "[newline]" ls rule: join.induct) (auto simp: with_newlines_def)

lemma lexes_newline: "lexes [newline] []"
  by (simp add: lexes_def newline_def ends_word_def conf_blank_def mark_list_def mark_def)

lemma means_Nil: "means [] []"
  by (simp add: means_def with_newlines_def)

lemma means_blank: "means [[]] []"
  by (simp add: means_def with_newlines_def lexes_newline)

lemma means_append: "means ls ds \<Longrightarrow> means ms es \<Longrightarrow> means (ls @ ms) (ds @ es)"
  using lexes_append by (fastforce simp: means_def with_newlines_def)

lemma means_Cons: "means [l] ds \<Longrightarrow> means ls es \<Longrightarrow> means (l # ls) (ds @ es)"
  using means_append [of "[l]" ds ls es] by simp

lemma means_concat: "list_all2 (\<lambda>l ds. means [l] ds) ls dss \<Longrightarrow> means ls (concat dss)"
  by (induction rule: list_all2_induct) (auto intro: means_Nil means_Cons)

lemma means_map: "(\<And>x. x \<in> set xs \<Longrightarrow> means [f x] [g x]) \<Longrightarrow> means (map f xs) (map g xs)"
  by (induction xs) (auto intro: means_Nil means_Cons [of _ "[_]", simplified])

lemma means_join: "means ls ds \<Longrightarrow> means [join [newline] ls] ds"
  by (cases "ls = []") (auto simp: means_def with_newlines_def lexes_newline join_lines [unfolded with_newlines_def])

lemma means_text: "means ls ds \<Longrightarrow> ls \<noteq> [] \<Longrightarrow> lexes (join [newline] (ls @ [[]])) (conf_meaning ds)"
  by (simp add: means_def join_ended)

text \<open>Reading line by line, for lines that do not vary.\<close>

fun lex_lines :: "string list \<Rightarrow> conf_token list option" where
  "lex_lines [] = Some []"
| "lex_lines (l # ls) = (case conf_run Between (l @ [newline]) of
      Some (ts, Between) \<Rightarrow> map_option (append ts) (lex_lines ls)
    | _ \<Rightarrow> None)"

lemma read_lines_lexes: "lex_lines ls = Some ts \<Longrightarrow> lexes (with_newlines ls) ts"
proof (induction ls arbitrary: ts)
  case (Cons l ls)
  then obtain us vs where "lexes (l @ [newline]) us" "lex_lines ls = Some vs" "ts = us @ vs"
    by (auto simp: lexes_def split: option.splits prod.splits place.splits)
  with Cons.IH lexes_append show ?case by (fastforce simp: with_newlines_def)
qed (simp add: with_newlines_def)

lemma means_lex: "lex_lines ls = Some (conf_meaning ds) \<Longrightarrow> means ls ds"
  by (simp add: means_def read_lines_lexes)

text \<open>A directive whose last word varies, the line that opens a block, a block.\<close>

lemma semi_newline: "bare w \<Longrightarrow> lexes (w @ [CHR '';'', newline]) [Word w, Semi]"
  using lexes_append [OF lexes_word_semi lexes_newline] by simp

lemma means_simple:
  assumes "lexes a (map Word ws)" "bare w"
  shows "means [a @ w @ '';''] [Simple (ws @ [w])]"
  using lexes_append [OF assms(1) semi_newline [OF assms(2)]]
  by (simp add: means_def with_newlines_def)

lemma means_block:
  assumes "lexes a (map Word ws)" "bare w" "means ls ds" "lexes z [Close]"
  shows "means ([a @ w @ '' {''] @ ls @ [z]) [Block (ws @ [w]) ds]"
proof -
  have "lexes (a @ (w @ '' {'') @ [newline]) (map Word ws @ [Word w, Open] @ [])"
    by (intro lexes_append assms lexes_word_open lexes_newline)
  moreover have "lexes (with_newlines ls @ z @ [newline]) (conf_meaning ds @ [Close] @ [])"
    using assms(3) by (intro lexes_append assms lexes_newline) (simp add: means_def)
  ultimately show ?thesis
    using lexes_append by (fastforce simp: means_def with_newlines_def conf_meaning_def)
qed

end
