(* ===== verification/NginxRender.thy ===== *)
theory NginxRender
  imports SiteConfig RuleValidation NginxConf
begin

text \<open>
  The files of the proxy, written from the tables (\<^verbatim>\<open>app/proxy/services.py\<close>,
  \<^verbatim>\<open>app/proxy/geoip_blocklist.py\<close>): one function per function of the code, the templates line by
  line.  The two HTML pages are arguments; the dash in two comments is written as its UTF-8 bytes.
\<close>

section \<open>What the console is configured with\<close>

record proxy_env =
  px_brackets :: "string \<Rightarrow> bool"
  px_console_url :: string
  px_geoip_db :: string
  px_geoip_exists :: bool
  px_challenge_page :: string
  px_block_page :: string

definition plain_proxy :: proxy_env where
  "plain_proxy = \<lparr>px_brackets = (\<lambda>n. True), px_console_url = ''http://console:5000'', px_geoip_db = [],
     px_geoip_exists = False, px_challenge_page = [], px_block_page = []\<rparr>"

definition LONG_DASH :: string where
  "LONG_DASH = [CHR 0xE2, CHR 0x80, CHR 0x94]"

definition dq :: string where "dq = [CHR 0x22]"
definition sq :: string where "sq = [CHR 0x27]"

text \<open>The scheme and the location a site is proxied to.\<close>

definition upstream_parts :: "proxy_env \<Rightarrow> site \<Rightarrow> py_exn + string \<times> string" where
  "upstream_parts px st =
     rbind (urlparse (px_brackets px) (site_upstream_url st)) (\<lambda>u.
     Inr (if url_scheme u = [] then ''http'' else url_scheme u,
          if url_netloc u = [] then url_path u else url_netloc u))"

section \<open>Traffic\<close>

definition traffic_key :: "traffic_policy \<Rightarrow> string" where
  "traffic_key p = (if tp_key_strategy p = ''forwarded_for'' then ''$http_x_forwarded_for'' else ''$binary_remote_addr'')"

definition zone_lines :: "site \<Rightarrow> traffic_policy \<Rightarrow> string list" where
  "zone_lines st p =
     (if tp_rate_limit_enabled p
      then [''limit_req_zone '' @ traffic_key p @ '' zone=req_site_'' @ show_nat (site_id st) @ '':10m rate=''
            @ show_int (tp_requests_per_second p) @ ''r/s;''] else [])
     @ (if tp_conn_limit_enabled p
        then [''limit_conn_zone '' @ traffic_key p @ '' zone=conn_site_'' @ show_nat (site_id st) @ '':10m;''] else [])"

definition sites_by_id :: "db \<Rightarrow> site list" where
  "sites_by_id d = sort_key site_id (sites d)"

definition render_traffic_zones :: "db \<Rightarrow> string" where
  "render_traffic_zones d =
     join [newline] (''# Generated by WardNode. Do not edit manually.''
       # concat (map (\<lambda>st. zone_lines st (policy_of (site_id st) d)) (sites_by_id d))) @ [newline]"

definition traffic_lines :: "nat \<Rightarrow> traffic_policy \<Rightarrow> string list" where
  "traffic_lines i p =
     (if tp_rate_limit_enabled p
      then [''        limit_req zone=req_site_'' @ show_nat i @ '' burst='' @ show_int (tp_burst p)
            @ (if tp_nodelay p then '' nodelay'' else []) @ '';''] else [])
     @ (if tp_conn_limit_enabled p
        then [''        limit_conn conn_site_'' @ show_nat i @ '' '' @ show_int (tp_max_connections p) @ '';''] else [])"

definition render_location_traffic_directives :: "db \<Rightarrow> site \<Rightarrow> string" where
  "render_location_traffic_directives d st = join [newline] (traffic_lines (site_id st) (policy_of (site_id st) d))"

section \<open>Security headers\<close>

definition HSTS_VALUES :: "(string \<times> string) list" where
  "HSTS_VALUES = [(''1y'', ''max-age=31536000''),
     (''1y-sub'', ''max-age=31536000; includeSubDomains''),
     (''1y-sub-preload'', ''max-age=31536000; includeSubDomains; preload'')]"

definition DEDUP_SECURITY_HEADERS :: "string list" where
  "DEDUP_SECURITY_HEADERS =
     [''strict-transport-security'', ''content-security-policy'', ''content-security-policy-report-only'',
      ''x-frame-options'', ''x-content-type-options'', ''referrer-policy'', ''permissions-policy'',
      ''x-xss-protection'', ''x-permitted-cross-domain-policies'', ''cross-origin-opener-policy'',
      ''cross-origin-resource-policy'', ''cross-origin-embedder-policy'']"

definition escape_nginx_header_value :: "string \<Rightarrow> string" where
  "escape_nginx_header_value v =
     replace_char (CHR 0x22) [CHR 0x5C, CHR 0x22] (replace_char (CHR 0x5C) [CHR 0x5C, CHR 0x5C] v)"

definition hide_line :: "string \<Rightarrow> string" where
  "hide_line name = ''    proxy_hide_header '' @ name @ '';''"

definition add_line :: "string \<Rightarrow> string \<Rightarrow> bool \<Rightarrow> string" where
  "add_line name raw always = ''    add_header '' @ name @ '' '' @ dq @ raw @ dq @ (if always then '' always'' else []) @ '';''"

text \<open>The headers of the table that are sent: the enabled ones, without the one the select has.\<close>

definition sent_headers :: "site \<Rightarrow> security_header list \<Rightarrow> security_header list" where
  "sent_headers st hs = filter (\<lambda>h. sh_enabled h
     \<and> \<not> (py_lower (sh_name h) = ''strict-transport-security'' \<and> site_hsts_mode st \<noteq> ''off'')) hs"

definition render_security_headers :: "db \<Rightarrow> site \<Rightarrow> string" where
  "render_security_headers d st =
     (let hs = sent_headers st (headers_of (site_id st) d); hsts = map_of HSTS_VALUES (site_hsts_mode st) in
      join [newline]
       ((if hsts \<noteq> None then [hide_line ''Strict-Transport-Security''] else [])
        @ map (\<lambda>h. hide_line (sh_name h)) (filter (\<lambda>h. py_lower (sh_name h) \<in> set DEDUP_SECURITY_HEADERS) hs)
        @ (case hsts of None \<Rightarrow> [] | Some v \<Rightarrow> [add_line ''Strict-Transport-Security'' v True])
        @ map (\<lambda>h. add_line (sh_name h) (escape_nginx_header_value (sh_value h)) (sh_always h)) hs))"

section \<open>Rules of the firewall\<close>

definition exclusions_of :: "nat \<Rightarrow> db \<Rightarrow> rule_exclusion list" where
  "exclusions_of i d = sort_key we_rule_id (filter (\<lambda>x. we_site_id x = i) (rule_exclusions d))"

definition custom_rules_of :: "nat \<Rightarrow> db \<Rightarrow> custom_rule list" where
  "custom_rules_of i d = sort_key cr_position (filter (\<lambda>r. cr_site_id r = i) (custom_rules d))"

definition exclusion_lines :: "nat \<Rightarrow> db \<Rightarrow> string list" where
  "exclusion_lines i d =
     map (\<lambda>x. ''        SecRuleRemoveById '' @ show_int (we_rule_id x)) (filter we_enabled (exclusions_of i d))"

definition rule_lines :: "string \<Rightarrow> string list" where
  "rule_lines t = map (\<lambda>l. ''        '' @ l) (filter (\<lambda>l. strip l \<noteq> []) (splitlines t))"

definition custom_lines :: "nat \<Rightarrow> db \<Rightarrow> string list" where
  "custom_lines i d = concat (map (\<lambda>r. rule_lines (cr_rule_text r)) (filter cr_enabled (custom_rules_of i d)))"

definition render_rule_exclusions :: "db \<Rightarrow> site \<Rightarrow> string" where
  "render_rule_exclusions d st = join [newline] (exclusion_lines (site_id st) d)"

definition render_custom_rules :: "db \<Rightarrow> site \<Rightarrow> string" where
  "render_custom_rules d st = join [newline] (custom_lines (site_id st) d)"

definition category_tag :: "db \<Rightarrow> rule_setting \<Rightarrow> py_exn + string" where
  "category_tag d r = (case find (\<lambda>c. rc_id c = rs_category_id r) (categories d) of
      None \<Rightarrow> Inl AttributeError
    | Some c \<Rightarrow> Inr (rc_crs_tag c))"

definition disabled_tags :: "db \<Rightarrow> site \<Rightarrow> py_exn + string list" where
  "disabled_tags d st = collect (\<lambda>r. if rs_enabled r then Inr None
     else rbind (category_tag d r) (\<lambda>t. Inr (Some t))) (settings_of (site_id st) d)"

definition disabled_line :: "string \<Rightarrow> string" where
  "disabled_line tag = ''        SecRuleRemoveByTag '' @ dq @ tag @ dq"

section \<open>Certificates and extra directives\<close>

definition certificate_paths :: "site \<Rightarrow> (string \<times> string) option" where
  "certificate_paths st =
     (if site_letsencrypt_enabled st
      then if site_letsencrypt_status st \<noteq> ''active'' then None
           else Some (''/etc/letsencrypt/live/'' @ site_domain st @ ''/fullchain.pem'',
                      ''/etc/letsencrypt/live/'' @ site_domain st @ ''/privkey.pem'')
      else (case (site_certificate_path st, site_certificate_key_path st) of
          (Some c, Some k) \<Rightarrow> if c = [] \<or> k = [] then None else Some (c, k)
        | _ \<Rightarrow> None))"

definition ssl_lines :: "site \<Rightarrow> string list" where
  "ssl_lines st = (case certificate_paths st of
      None \<Rightarrow> []
    | Some (cert, key) \<Rightarrow> [''listen 443 ssl;'', ''    http2 on;'', ''    ssl_certificate '' @ cert @ '';'',
        ''    ssl_certificate_key '' @ key @ '';''])"

definition ssl_block :: "site \<Rightarrow> string" where
  "ssl_block st = join [newline] (ssl_lines st)"

definition render_server_extra :: "db \<Rightarrow> site \<Rightarrow> string" where
  "render_server_extra d st = (let x = extra_of (site_id st) d in
     if \<not> nx_enabled x \<or> strip (nx_server_snippet x) = [] then [] else indent_snippet (nx_server_snippet x) 4)"

definition render_location_extra :: "db \<Rightarrow> site \<Rightarrow> string" where
  "render_location_extra d st = (let x = extra_of (site_id st) d in
     if \<not> nx_enabled x \<or> strip (nx_location_snippet x) = [] then [] else indent_snippet (nx_location_snippet x) 8)"

section \<open>Fixed locations\<close>

definition obs_location :: "string list" where
  "obs_location =
     [''    location /obs/ {'',
      ''        modsecurity off;'',
      ''        auth_request /_wardnode_obs_auth;'',
      ''        auth_request_set $wn_user $upstream_http_x_webauth_user;'',
      ''        auth_request_set $wn_role $upstream_http_x_webauth_role;'',
      ''        proxy_pass http://127.0.0.1:3000$request_uri;'',
      ''        proxy_set_header Host $host;'',
      ''        proxy_set_header X-Real-IP $remote_addr;'',
      ''        proxy_set_header X-Forwarded-For $proxy_add_x_forwarded_for;'',
      ''        proxy_set_header X-Forwarded-Proto $scheme;'',
      ''        proxy_set_header X-WEBAUTH-USER $wn_user;'',
      ''        proxy_set_header X-WEBAUTH-ROLE $wn_role;'',
      ''        proxy_http_version 1.1;'',
      ''        proxy_set_header Upgrade $http_upgrade;'',
      ''        proxy_set_header Connection '' @ dq @ ''upgrade'' @ dq @ '';'',
      ''        proxy_hide_header X-Frame-Options;'',
      ''        proxy_hide_header Content-Security-Policy;'',
      ''        add_header X-Frame-Options '' @ dq @ ''SAMEORIGIN'' @ dq @ '' always;'',
      ''        add_header Content-Security-Policy '' @ dq @ ''frame-ancestors '' @ sq @ ''self'' @ sq @ dq @ '' always;'',
      ''        proxy_read_timeout 300s;'',
      ''    }'',
      [],
      ''    location = /_wardnode_obs_auth {'',
      ''        internal;'',
      ''        modsecurity off;'',
      ''        proxy_pass http://127.0.0.1:5000/modules/obs/auth;'',
      ''        proxy_pass_request_body off;'',
      ''        proxy_set_header Content-Length '' @ dq @ dq @ '';'',
      ''        proxy_set_header X-Original-URI $request_uri;'',
      ''        proxy_set_header X-Forwarded-Proto $scheme;'',
      ''        proxy_set_header Host $host;'',
      ''    }'', [], []]"

definition render_obs_location :: "site \<Rightarrow> string" where
  "render_obs_location st = (if \<not> site_is_console st then [] else join [newline] obs_location)"

definition forwarding_lines :: "string list" where
  "forwarding_lines =
     [''        proxy_set_header Host $host;'',
      ''        proxy_set_header X-Real-IP $remote_addr;'',
      ''        proxy_set_header X-Forwarded-For $proxy_add_x_forwarded_for;'',
      ''        proxy_set_header X-Forwarded-Proto $scheme;'',
      ''        proxy_http_version 1.1;'']"

definition proxy_pass_line :: "string \<times> string \<Rightarrow> string" where
  "proxy_pass_line up = ''        proxy_pass '' @ fst up @ ''://'' @ snd up @ '';''"

definition render_console_admin_location :: "proxy_env \<Rightarrow> site \<Rightarrow> py_exn + string" where
  "render_console_admin_location px st =
     (if \<not> site_is_console st then Inr []
      else rbind (upstream_parts px st) (\<lambda>up. Inr (join [newline]
        ([''    location ~* ^/(proxy|modules|audit|auth)/ {'', ''        modsecurity off;'', proxy_pass_line up]
         @ forwarding_lines @ [''    }'', [], []]))))"

definition rstrip_slash :: "string \<Rightarrow> string" where
  "rstrip_slash s = rev (dropWhile (\<lambda>c. c = CHR ''/'') (rev s))"

definition render_bot_challenge_location :: "proxy_env \<Rightarrow> string" where
  "render_bot_challenge_location px = join [newline]
     [[],
      ''    location = /_wn_challenge/verify {'',
      ''        modsecurity off;'',
      ''        proxy_pass '' @ rstrip_slash (px_console_url px) @ ''/proxy/bot-verify;'',
      ''        proxy_set_header Host localhost;'',
      ''        proxy_set_header X-Real-IP $remote_addr;'',
      ''        proxy_set_header X-Forwarded-For $proxy_add_x_forwarded_for;'',
      ''        proxy_set_header X-Forwarded-Proto $scheme;'',
      ''        proxy_http_version 1.1;'',
      ''        proxy_read_timeout 10s;'',
      ''    }'',
      [],
      ''    location /_wn_challenge/ {'',
      ''        modsecurity off;'',
      ''        alias /etc/nginx/generated/challenge/;'',
      ''        index challenge.html;'',
      ''        try_files $uri /challenge.html =404;'',
      ''        add_header Cache-Control '' @ dq @ ''no-cache, no-store, must-revalidate'' @ dq @ '' always;'',
      ''    }'',
      []]"

definition render_bot_check :: string where
  "render_bot_check = join [newline]
     [''        if ($cookie_wn_bot != '' @ dq @ ''ward_cleared_v1'' @ dq @ '') {'',
      ''            return 302 /_wn_challenge/?ret=$request_uri;'',
      ''        }'']"

definition render_waf_block_location :: string where
  "render_waf_block_location = join [newline]
     [[],
      ''    error_page 403 /wn-blocked-403.html;'',
      [],
      ''    location = /wn-blocked-403.html {'',
      ''        root /etc/nginx/generated/error-pages;'',
      ''        internal;'',
      ''        add_header Cache-Control '' @ dq @ ''no-cache, no-store, must-revalidate'' @ dq @ '' always;'',
      ''    }'',
      []]"

section \<open>A site\<close>

definition acme_lines :: "string list" where
  "acme_lines = [''    location /.well-known/acme-challenge/ {'', ''        root /var/www/certbot;'', ''    }'', []]"

text \<open>The parameter of \<open>modsecurity_rules\<close>, between the quotes.\<close>

definition engine_rules :: "db \<Rightarrow> site \<Rightarrow> string list \<Rightarrow> string" where
  "engine_rules d st tags = join [newline]
     [[], ''        SecRuleEngine '' @ (if site_waf_enabled st then ''On'' else ''DetectionOnly''),
      join [newline] (map disabled_line tags), render_rule_exclusions d st, render_custom_rules d st, ''    '']"

text \<open>The server block of a site; the two templates that hold it differ in the lines that listen.\<close>

definition server_lines :: "proxy_env \<Rightarrow> db \<Rightarrow> site \<Rightarrow> string list \<Rightarrow> string list \<Rightarrow> string \<Rightarrow> string \<times> string \<Rightarrow> string list" where
  "server_lines px d st listen tags admin up =
     [''server {''] @ listen @
     [''    server_name '' @ site_domain st @ '';'',
      [],
      ''    if ($geo_blocked_site_'' @ show_nat (site_id st) @ '') {'',
      ''        return 444;'',
      ''    }'',
      [],
      ''    modsecurity on;'',
      ''    modsecurity_rules '' @ sq @ engine_rules d st tags @ sq @ '';'',
      [],
      ''    access_log /var/log/nginx/access.json json_combined;'',
      ''    error_log /var/log/nginx/error.log warn;'',
      [],
      render_security_headers d st,
      render_server_extra d st,
      (if bp_enabled (bot_of (site_id st) d) then render_bot_challenge_location px else []),
      render_waf_block_location,
      render_obs_location st,
      admin] @ acme_lines @
     [''    location / {'',
      (if bp_enabled (bot_of (site_id st) d) then render_bot_check else []),
      render_location_traffic_directives d st,
      render_location_extra d st,
      proxy_pass_line up] @ forwarding_lines @
     [''    }'', ''}'', []]"

definition redirect_lines :: "site \<Rightarrow> string list" where
  "redirect_lines st =
     [''server {'', ''    listen 80;'', ''    server_name '' @ site_domain st @ '';'', []] @ acme_lines @
     [''    location / {'', ''        return 301 https://$host$request_uri;'', ''    }'', ''}'', []]"

definition render_site_config :: "proxy_env \<Rightarrow> db \<Rightarrow> site \<Rightarrow> py_exn + string" where
  "render_site_config px d st =
     rbind (upstream_parts px st) (\<lambda>up.
     rbind (disabled_tags d st) (\<lambda>tags.
     rbind (render_console_admin_location px st) (\<lambda>admin.
     let block = ssl_block st; tls_active = strip block \<noteq> [];
         https_server = join [newline] (server_lines px d st
           [''    '' @ (if tls_active then block else ''listen 80;'')] tags admin up) in
     Inr (if site_force_https st \<and> tls_active
          then join [newline] (redirect_lines st) @ [newline] @ https_server
          else join [newline] (server_lines px d st [''    listen 80;'', ''    '' @ block] tags admin up)))))"

section \<open>The other files\<close>

definition default_server_config :: string where
  "default_server_config = join [newline]
     [''# Generated by WardNode '' @ LONG_DASH @ '' catch-all para rechazar tr'' @ [CHR 0xC3, CHR 0xA1]
        @ ''fico directo a la IP.'',
      ''server {'',
      ''    listen 80 default_server;'',
      ''    server_name _;'',
      [],
      ''    access_log /var/log/nginx/access.json json_combined;'',
      ''    error_log  /var/log/nginx/error.log warn;'',
      [],
      ''    modsecurity on;'',
      ''    modsecurity_rules '' @ sq @ [newline] @ ''        SecRuleEngine On'' @ [newline] @ ''    '' @ sq @ '';'',
      [],
      ''    return 444;'',
      ''}'', []]"

definition path_name :: "string \<Rightarrow> string" where
  "path_name p = (let s = rstrip_slash p in rev (takeWhile (\<lambda>c. c \<noteq> CHR ''/'') (rev s)))"

definition geo_map_lines :: "site \<Rightarrow> string list" where
  "geo_map_lines st =
     [''map $geoip2_country_code $geo_blocked_site_'' @ show_nat (site_id st) @ '' {'',
      ''    default 0;'',
      ''    include /etc/nginx/generated/10-blocklist-site-'' @ show_nat (site_id st) @ ''.map;'',
      ''}'']"

definition geo_none_lines :: "site \<Rightarrow> string list" where
  "geo_none_lines st = [''geo $geo_blocked_site_'' @ show_nat (site_id st) @ '' {'', ''    default 0;'', ''}'']"

definition render_geoip_conf :: "proxy_env \<Rightarrow> db \<Rightarrow> string" where
  "render_geoip_conf px d =
     (let db_filename = (if px_geoip_db px = [] then ''GeoLite2-Country.mmdb'' else path_name (px_geoip_db px)) in
      if px_geoip_db px \<noteq> [] \<and> px_geoip_exists px
      then join [newline]
        ([''# Generated by WardNode '' @ LONG_DASH @ '' GeoIP configuration. Do not edit manually.'',
          ''geoip2 /etc/nginx/geoip/'' @ db_filename @ '' {'',
          ''    auto_reload 24h;'',
          ''    $geoip2_country_code default=XX country iso_code;'',
          ''}'',
          [],
          join [newline] (concat (map geo_map_lines (sites_by_id d))), []])
      else join [newline]
        [''# Generated by WardNode '' @ LONG_DASH @ '' GeoIP unavailable (DB not found). Blocking disabled.'',
         join [newline] (concat (map geo_none_lines (sites_by_id d))), []])"

definition blocked_countries :: "nat \<Rightarrow> db \<Rightarrow> geo_entry list" where
  "blocked_countries i d = filter geo_enabled
     (sort_key (\<lambda>g. map code (geo_country_name g)) (filter (\<lambda>g. geo_site_id g = i) (geo_entries d)))"

definition blocklist_map :: "db \<Rightarrow> site \<Rightarrow> string" where
  "blocklist_map d st = concat
     ((''# WardNode GeoIP blocklist '' @ LONG_DASH @ '' site '' @ show_nat (site_id st) @ '' ('' @ site_domain st
        @ ''). Do not edit.'' @ [newline])
      # map (\<lambda>g. ''    '' @ geo_country_code g @ '' 1;  # '' @ geo_country_name g @ [newline])
          (blocked_countries (site_id st) d))"

section \<open>Writing the files\<close>

text \<open>
  The directory of generated files as a function of what was written and deleted in it; \<open>base\<close> is
  what it held at first.
\<close>

fun conf_names :: "string list \<Rightarrow> ext_call list \<Rightarrow> string list" where
  "conf_names base [] = base"
| "conf_names base (FileWrite n t # cs) = conf_names (if n \<in> set base then base else base @ [n]) cs"
| "conf_names base (FileDelete n # cs) = conf_names (filter (\<lambda>m. m \<noteq> n) base) cs"
| "conf_names base (c # cs) = conf_names base cs"

definition glob :: "string \<Rightarrow> string \<Rightarrow> string \<Rightarrow> bool" where
  "glob prefix suffix n \<longleftrightarrow> starts_with prefix n \<and> ends_with suffix n \<and> length prefix + length suffix \<le> length n"

definition unlink_all :: "string list \<Rightarrow> string \<Rightarrow> string \<Rightarrow> unit sess_op" where
  "unlink_all base prefix suffix =
     bind (fetch (\<lambda>s. filter (glob prefix suffix) (conf_names base (calls s)))) (iterate (\<lambda>n. external (FileDelete n)))"

definition safe_name :: "string \<Rightarrow> string" where
  "safe_name v = (let t = map (\<lambda>c. if uni_alnum c then c else CHR ''-'') v in
     rev (dropWhile (\<lambda>c. c = CHR ''-'') (rev (dropWhile (\<lambda>c. c = CHR ''-'') t))))"

definition site_file :: "site \<Rightarrow> string" where
  "site_file st = ''site-'' @ show_nat (site_id st) @ ''-'' @ safe_name (site_domain st) @ ''.conf''"

definition map_file :: "site \<Rightarrow> string" where
  "map_file st = ''10-blocklist-site-'' @ show_nat (site_id st) @ ''.map''"

definition sites_by_domain :: "db \<Rightarrow> site list" where
  "sites_by_domain d = sort_key (\<lambda>s. map code (site_domain s)) (sites d)"

definition write_file :: "string \<Rightarrow> (db \<Rightarrow> string) \<Rightarrow> string sess_op" where
  "write_file name f = bind (fetch (\<lambda>s. f (working s))) (\<lambda>t. bind (external (FileWrite name t)) (\<lambda>_. ret name))"

definition write_blocklist_conf :: "site list \<Rightarrow> string list sess_op" where
  "write_blocklist_conf sts = run_all (map (\<lambda>st. write_file (map_file st) (\<lambda>d. blocklist_map d st)) sts)"

definition ensure_site_rows :: "env \<Rightarrow> site \<Rightarrow> unit sess_op" where
  "ensure_site_rows e st =
     bind (ensure_site_traffic_policy e (site_id st)) (\<lambda>_.
     bind (ensure_site_security_headers e st) (\<lambda>_.
     bind (ensure_site_nginx_extra_config e (site_id st)) (\<lambda>_.
     ensure_site_bot_protection e (site_id st))))"

definition write_site :: "proxy_env \<Rightarrow> env \<Rightarrow> site \<Rightarrow> string sess_op" where
  "write_site px e st =
     bind (ensure_site_rows e st) (\<lambda>_.
     bind (fetch working) (\<lambda>d.
     bind (lift (render_site_config px d st)) (\<lambda>t.
     bind (external (FileWrite (site_file st) t)) (\<lambda>_. ret (site_file st)))))"

definition ensure_policies :: "env \<Rightarrow> unit sess_op" where
  "ensure_policies e = bind (fetch (\<lambda>s. sites_by_id (working s))) (iterate (\<lambda>st. ensure_site_traffic_policy e (site_id st)))"

definition render_nginx_configs :: "proxy_env \<Rightarrow> env \<Rightarrow> string list \<Rightarrow> string list sess_op" where
  "render_nginx_configs px e base =
     bind (unlink_all base ''site-'' ''.conf'') (\<lambda>_.
     bind (write_file ''challenge/challenge.html'' (\<lambda>d. px_challenge_page px)) (\<lambda>_.
     bind (write_file ''error-pages/wn-blocked-403.html'' (\<lambda>d. px_block_page px)) (\<lambda>_.
     bind (ensure_policies e) (\<lambda>_.
     bind (write_file ''00-zones.conf'' render_traffic_zones) (\<lambda>zones.
     bind (write_file ''00-geoip.conf'' (render_geoip_conf px)) (\<lambda>geoip.
     bind (write_file ''01-default-server.conf'' (\<lambda>d. default_server_config)) (\<lambda>default.
     bind (unlink_all base ''10-blocklist-site-'' ''.map'') (\<lambda>_.
     bind (fetch (\<lambda>s. sites_by_domain (working s))) (\<lambda>sts.
     bind (run_all (map (write_site px e) sts)) (\<lambda>files.
     bind (fetch (\<lambda>s. sites (working s))) (\<lambda>all.
     bind (write_blocklist_conf all) (\<lambda>maps.
     ret ([zones, geoip, default] @ files @ maps)))))))))))))"

end
