(* ===== verification/NginxProps.thy ===== *)
theory NginxProps
  imports NginxRender
begin

text \<open>
  What the rendered configuration of a site means to the proxy: the directives \<open>site_plan\<close> lists,
  block by block, and nothing else, for every site whose values are words of the grammar
  (\<open>config_safe\<close>); what the validators of the forms guarantee of these values, and what they let
  through.
\<close>

section \<open>The directives of a site\<close>

definition add_header_directive :: "string \<Rightarrow> string \<Rightarrow> bool \<Rightarrow> directive" where
  "add_header_directive name v always = Simple ([''add_header'', name, v] @ (if always then [''always''] else []))"

definition header_plan :: "db \<Rightarrow> site \<Rightarrow> directive list" where
  "header_plan d st =
     (let hs = sent_headers st (headers_of (site_id st) d); hsts = map_of HSTS_VALUES (site_hsts_mode st) in
      (if hsts \<noteq> None then [Simple [''proxy_hide_header'', ''Strict-Transport-Security'']] else [])
      @ map (\<lambda>h. Simple [''proxy_hide_header'', sh_name h]) (filter (\<lambda>h. py_lower (sh_name h) \<in> set DEDUP_SECURITY_HEADERS) hs)
      @ (case hsts of None \<Rightarrow> [] | Some v \<Rightarrow> [add_header_directive ''Strict-Transport-Security'' v True])
      @ map (\<lambda>h. add_header_directive (sh_name h) (sh_value h) (sh_always h)) hs)"

definition forwarding_plan :: "directive list" where
  "forwarding_plan =
     [Simple [''proxy_set_header'', ''Host'', ''$host''],
      Simple [''proxy_set_header'', ''X-Real-IP'', ''$remote_addr''],
      Simple [''proxy_set_header'', ''X-Forwarded-For'', ''$proxy_add_x_forwarded_for''],
      Simple [''proxy_set_header'', ''X-Forwarded-Proto'', ''$scheme''],
      Simple [''proxy_http_version'', ''1.1'']]"

definition proxy_to :: "string \<times> string \<Rightarrow> directive" where
  "proxy_to up = Simple [''proxy_pass'', fst up @ ''://'' @ snd up]"

definition traffic_plan :: "nat \<Rightarrow> traffic_policy \<Rightarrow> directive list" where
  "traffic_plan i p =
     (if tp_rate_limit_enabled p
      then [Simple ([''limit_req'', ''zone=req_site_'' @ show_nat i, ''burst='' @ show_int (tp_burst p)]
              @ (if tp_nodelay p then [''nodelay''] else []))] else [])
     @ (if tp_conn_limit_enabled p
        then [Simple [''limit_conn'', ''conn_site_'' @ show_nat i, show_int (tp_max_connections p)]] else [])"

definition tls_plan :: "site \<Rightarrow> directive list" where
  "tls_plan st = (case certificate_paths st of
      None \<Rightarrow> []
    | Some (cert, key) \<Rightarrow> [Simple [''listen'', ''443'', ''ssl''], Simple [''http2'', ''on''],
        Simple [''ssl_certificate'', cert], Simple [''ssl_certificate_key'', key]])"

definition obs_plan :: "directive list" where
  "obs_plan =
     [Block [''location'', ''/obs/'']
       [Simple [''modsecurity'', ''off''],
        Simple [''auth_request'', ''/_wardnode_obs_auth''],
        Simple [''auth_request_set'', ''$wn_user'', ''$upstream_http_x_webauth_user''],
        Simple [''auth_request_set'', ''$wn_role'', ''$upstream_http_x_webauth_role''],
        Simple [''proxy_pass'', ''http://127.0.0.1:3000$request_uri''],
        Simple [''proxy_set_header'', ''Host'', ''$host''],
        Simple [''proxy_set_header'', ''X-Real-IP'', ''$remote_addr''],
        Simple [''proxy_set_header'', ''X-Forwarded-For'', ''$proxy_add_x_forwarded_for''],
        Simple [''proxy_set_header'', ''X-Forwarded-Proto'', ''$scheme''],
        Simple [''proxy_set_header'', ''X-WEBAUTH-USER'', ''$wn_user''],
        Simple [''proxy_set_header'', ''X-WEBAUTH-ROLE'', ''$wn_role''],
        Simple [''proxy_http_version'', ''1.1''],
        Simple [''proxy_set_header'', ''Upgrade'', ''$http_upgrade''],
        Simple [''proxy_set_header'', ''Connection'', ''upgrade''],
        Simple [''proxy_hide_header'', ''X-Frame-Options''],
        Simple [''proxy_hide_header'', ''Content-Security-Policy''],
        Simple [''add_header'', ''X-Frame-Options'', ''SAMEORIGIN'', ''always''],
        Simple [''add_header'', ''Content-Security-Policy'', ''frame-ancestors '' @ sq @ ''self'' @ sq, ''always''],
        Simple [''proxy_read_timeout'', ''300s'']],
      Block [''location'', ''='', ''/_wardnode_obs_auth'']
       [Simple [''internal''],
        Simple [''modsecurity'', ''off''],
        Simple [''proxy_pass'', ''http://127.0.0.1:5000/modules/obs/auth''],
        Simple [''proxy_pass_request_body'', ''off''],
        Simple [''proxy_set_header'', ''Content-Length'', []],
        Simple [''proxy_set_header'', ''X-Original-URI'', ''$request_uri''],
        Simple [''proxy_set_header'', ''X-Forwarded-Proto'', ''$scheme''],
        Simple [''proxy_set_header'', ''Host'', ''$host'']]]"

text \<open>\<open>pass\<close> is what the line with \<open>proxy_pass\<close> means.\<close>

definition admin_plan :: "directive list \<Rightarrow> directive" where
  "admin_plan pass = Block [''location'', ''~*'', ''^/(proxy|modules|audit|auth)/'']
     ([Simple [''modsecurity'', ''off'']] @ pass @ forwarding_plan)"

definition challenge_plan :: "proxy_env \<Rightarrow> directive list" where
  "challenge_plan px =
     [Block [''location'', ''='', ''/_wn_challenge/verify'']
       [Simple [''modsecurity'', ''off''],
        Simple [''proxy_pass'', rstrip_slash (px_console_url px) @ ''/proxy/bot-verify''],
        Simple [''proxy_set_header'', ''Host'', ''localhost''],
        Simple [''proxy_set_header'', ''X-Real-IP'', ''$remote_addr''],
        Simple [''proxy_set_header'', ''X-Forwarded-For'', ''$proxy_add_x_forwarded_for''],
        Simple [''proxy_set_header'', ''X-Forwarded-Proto'', ''$scheme''],
        Simple [''proxy_http_version'', ''1.1''],
        Simple [''proxy_read_timeout'', ''10s'']],
      Block [''location'', ''/_wn_challenge/'']
       [Simple [''modsecurity'', ''off''],
        Simple [''alias'', ''/etc/nginx/generated/challenge/''],
        Simple [''index'', ''challenge.html''],
        Simple [''try_files'', ''$uri'', ''/challenge.html'', ''=404''],
        Simple [''add_header'', ''Cache-Control'', ''no-cache, no-store, must-revalidate'', ''always'']]]"

definition bot_check_plan :: directive where
  "bot_check_plan = Block [''if'', ''($cookie_wn_bot'', ''!='', ''ward_cleared_v1'', '')'']
     [Simple [''return'', ''302'', ''/_wn_challenge/?ret=$request_uri'']]"

definition block_page_plan :: "directive list" where
  "block_page_plan =
     [Simple [''error_page'', ''403'', ''/wn-blocked-403.html''],
      Block [''location'', ''='', ''/wn-blocked-403.html'']
       [Simple [''root'', ''/etc/nginx/generated/error-pages''], Simple [''internal''],
        Simple [''add_header'', ''Cache-Control'', ''no-cache, no-store, must-revalidate'', ''always'']]]"

definition acme_plan :: directive where
  "acme_plan = Block [''location'', ''/.well-known/acme-challenge/''] [Simple [''root'', ''/var/www/certbot'']]"

text \<open>The directives of the extra snippets are those the operator wrote.\<close>

definition snippet_tokens :: "string \<Rightarrow> conf_token list" where
  "snippet_tokens t = (case conf_tokens (t @ [newline]) of None \<Rightarrow> [] | Some ts \<Rightarrow> ts)"

definition server_plan :: "proxy_env \<Rightarrow> db \<Rightarrow> site \<Rightarrow> directive list \<Rightarrow> string list \<Rightarrow> directive list \<Rightarrow> directive" where
  "server_plan px d st listen tags pass = Block [''server'']
     (listen
      @ [Simple [''server_name'', site_domain st],
         Block [''if'', ''($geo_blocked_site_'' @ show_nat (site_id st) @ '')''] [Simple [''return'', ''444'']],
         Simple [''modsecurity'', ''on''],
         Simple [''modsecurity_rules'', unescape (engine_rules d st tags)],
         Simple [''access_log'', ''/var/log/nginx/access.json'', ''json_combined''],
         Simple [''error_log'', ''/var/log/nginx/error.log'', ''warn'']]
      @ header_plan d st
      @ [Given (snippet_tokens (render_server_extra d st))]
      @ (if bp_enabled (bot_of (site_id st) d) then challenge_plan px else [])
      @ block_page_plan
      @ (if site_is_console st then obs_plan else [])
      @ (if site_is_console st then [admin_plan pass] else [])
      @ [acme_plan,
         Block [''location'', ''/'']
           ((if bp_enabled (bot_of (site_id st) d) then [bot_check_plan] else [])
            @ traffic_plan (site_id st) (policy_of (site_id st) d)
            @ [Given (snippet_tokens (render_location_extra d st))] @ pass
            @ forwarding_plan)])"

definition redirect_plan :: "site \<Rightarrow> directive" where
  "redirect_plan st = Block [''server'']
     [Simple [''listen'', ''80''], Simple [''server_name'', site_domain st], acme_plan,
      Block [''location'', ''/''] [Simple [''return'', ''301'', ''https://$host$request_uri'']]]"

definition site_plan :: "proxy_env \<Rightarrow> db \<Rightarrow> site \<Rightarrow> string list \<Rightarrow> directive list \<Rightarrow> directive list" where
  "site_plan px d st tags pass =
     (if certificate_paths st = None then [server_plan px d st [Simple [''listen'', ''80'']] tags pass]
      else if site_force_https st then [redirect_plan st, server_plan px d st (tls_plan st) tags pass]
      else [server_plan px d st (Simple [''listen'', ''80''] # tls_plan st) tags pass])"

section \<open>Values that are words of the grammar\<close>

definition quiet_snippet :: "string \<Rightarrow> bool" where
  "quiet_snippet t \<longleftrightarrow> (case conf_tokens (t @ [newline]) of None \<Rightarrow> False | Some ts \<Rightarrow> True)"

definition certificates_safe :: "site \<Rightarrow> bool" where
  "certificates_safe st = (case certificate_paths st of None \<Rightarrow> True | Some (c, k) \<Rightarrow> bare c \<and> bare k)"

definition rules_safe :: "db \<Rightarrow> site \<Rightarrow> string list \<Rightarrow> bool" where
  "rules_safe d st tags \<longleftrightarrow> list_all (\<lambda>t. CHR 0x27 \<notin> set t) tags
     \<and> list_all (\<lambda>r. CHR 0x27 \<notin> set (cr_rule_text r)) (filter cr_enabled (custom_rules_of (site_id st) d))"

definition config_safe :: "proxy_env \<Rightarrow> db \<Rightarrow> site \<Rightarrow> string list \<Rightarrow> bool" where
  "config_safe px d st tags \<longleftrightarrow>
     bare (site_domain st)
     \<and> bare (rstrip_slash (px_console_url px) @ ''/proxy/bot-verify'')
     \<and> certificates_safe st \<and> rules_safe d st tags
     \<and> list_all (\<lambda>h. bare (sh_name h)) (sent_headers st (headers_of (site_id st) d))
     \<and> quiet_snippet (render_server_extra d st) \<and> quiet_snippet (render_location_extra d st)"

section \<open>The pieces\<close>

text \<open>What does not vary is read by the machine itself.\<close>

lemma fixed_means:
  "means forwarding_lines forwarding_plan" "means obs_location obs_plan" "means acme_lines [acme_plan]"
  by (rule means_lex; code_simp)+

lemma fixed_texts: "means [render_bot_check] [bot_check_plan]" "means [render_waf_block_location] block_page_plan"
  unfolding render_bot_check_def render_waf_block_location_def by (rule means_join, rule means_lex, code_simp)+

lemma fixed_heads:
  "lexes ''    if '' [Word ''if'']" "lexes ''    server_name '' [Word ''server_name'']"
  "lexes ''        proxy_pass '' [Word ''proxy_pass'']" "lexes ''    }'' [Close]" "lexes ''}'' [Close]"
  "lexes ''    ssl_certificate '' [Word ''ssl_certificate'']" "lexes ''    ssl_certificate_key '' [Word ''ssl_certificate_key'']"
  "lexes ''    proxy_hide_header '' [Word ''proxy_hide_header'']" "lexes ''    add_header '' [Word ''add_header'']"
  "lexes ''    modsecurity_rules '' [Word ''modsecurity_rules'']" "lexes ''        limit_req '' [Word ''limit_req'']"
  "lexes ''        limit_conn '' [Word ''limit_conn'']" "lexes ''    location '' [Word ''location'']"
  "lexes ''    location ~* '' [Word ''location'', Word ''~*'']" "lexes ''    location = '' [Word ''location'', Word ''='']"
  "lexes '' always;'' [Word ''always'', Semi]" "lexes '' nodelay;'' [Word ''nodelay'', Semi]"
  by code_simp+

lemma domain_line: "bare w \<Longrightarrow> means [''    server_name '' @ w @ '';''] [Simple [''server_name'', w]]"
  using means_simple [of "''    server_name ''" "[''server_name'']" w] by (simp add: fixed_heads)


lemma geo_block:
  "means [''    if ($geo_blocked_site_'' @ show_nat i @ '') {'', ''        return 444;'', ''    }'']
     [Block [''if'', ''($geo_blocked_site_'' @ show_nat i @ '')''] [Simple [''return'', ''444'']]]"
proof -
  have "bare ''($geo_blocked_site_''" by code_simp
  then have "bare (''($geo_blocked_site_'' @ show_nat i @ '')'')"
    using digits_bare [of i]
    by (intro bare_append) (simp_all add: bare_char_def ends_word_def conf_blank_def mark_def)
  moreover have "means [''        return 444;''] [Simple [''return'', ''444'']]" by (rule means_lex) code_simp
  ultimately show ?thesis
    using means_block [of "''    if ''" "[''if'']" "''($geo_blocked_site_'' @ show_nat i @ '')''"
        "[''        return 444;'']" "[Simple [''return'', ''444'']]" "''    }''"]
    by (simp add: fixed_heads)
qed

subsection \<open>Headers\<close>

text \<open>What the proxy lexes back of an escaped value is the value.\<close>

lemma escape_concat: "escape_nginx_header_value v
    = concat (map (\<lambda>c. if c = CHR 0x5C then [CHR 0x5C, CHR 0x5C] else if c = CHR 0x22 then [CHR 0x5C, CHR 0x22] else [c]) v)"
  by (induction v) (simp_all add: escape_nginx_header_value_def replace_char_def)

lemma escape_quotable: "quotable (CHR 0x22) (escape_nginx_header_value v)"
  unfolding escape_concat
proof (induction v)
  case (Cons c v)
  then show ?case using quotable_append [of "CHR 0x22" "[c]"] by auto
qed simp

lemma unescape_escape: "unescape (escape_nginx_header_value v) = v"
  unfolding escape_concat
proof (induction v)
  case (Cons c v)
  show ?case
  proof (cases "concat (map (\<lambda>c. if c = CHR 0x5C then [CHR 0x5C, CHR 0x5C]
        else if c = CHR 0x22 then [CHR 0x5C, CHR 0x22] else [c]) v)")
    case Nil
    with Cons show ?thesis by (auto simp: quote_char_def)
  next
    case (Cons d s)
    with Cons.IH show ?thesis by (auto simp: quote_char_def)
  qed
qed simp

lemma hide_means: "bare n \<Longrightarrow> means [hide_line n] [Simple [''proxy_hide_header'', n]]"
  using means_simple [of "''    proxy_hide_header ''" "[''proxy_hide_header'']" n] by (simp add: fixed_heads hide_line_def)

lemma add_means:
  assumes "bare n" "quotable (CHR 0x22) raw"
  shows "means [add_line n raw always] [add_header_directive n (unescape raw) always]"
proof -
  have q: "quote_char (CHR 0x22)" by (simp add: quote_char_def)
  have head: "lexes (''    add_header '' @ n @ '' '') ([Word ''add_header''] @ [Word n])"
    by (intro lexes_append fixed_heads lexes_word_space assms)
  have "lexes (dq @ raw @ dq @ (if always then '' always'' else []) @ '';'' @ [newline])
     ([Word (unescape raw)] @ (if always then [Word ''always''] else []) @ [Semi])"
  proof (cases always)
    case True
    have "lexes ((CHR 0x22 # raw @ [CHR 0x22, CHR '' '']) @ ''always;'' @ [newline]) ([Word (unescape raw)] @ [Word ''always'', Semi] @ [])"
    proof (intro lexes_append lexes_newline)
      show "lexes (CHR 0x22 # raw @ [CHR 0x22, CHR '' '']) [Word (unescape raw)]"
        using lexes_quoted [OF q assms(2), of "CHR '' ''"] by (simp add: ends_word_def conf_blank_def mark_list_def mark_def)
      show "lexes ''always;'' [Word ''always'', Semi]" by code_simp
    qed
    with True show ?thesis by (simp add: dq_def)
  next
    case False
    have "lexes ((CHR 0x22 # raw @ [CHR 0x22, CHR '';'']) @ [newline]) ([Word (unescape raw), Semi] @ [])"
    proof (intro lexes_append lexes_newline)
      show "lexes (CHR 0x22 # raw @ [CHR 0x22, CHR '';'']) [Word (unescape raw), Semi]"
        using lexes_quoted [OF q assms(2), of "CHR '';''"] by (simp add: ends_word_def conf_blank_def mark_list_def mark_def)
    qed
    with False show ?thesis by (simp add: dq_def)
  qed
  from lexes_append [OF head this] show ?thesis
    by (cases always) (simp_all add: means_def with_newlines_def add_line_def add_header_directive_def conf_meaning_def)
qed

lemma hsts_quotable: "(m, v) \<in> set HSTS_VALUES \<Longrightarrow> quotable (CHR 0x22) v \<and> unescape v = v"
  by (auto simp: HSTS_VALUES_def)

lemma header_means:
  assumes "list_all (\<lambda>h. bare (sh_name h)) (sent_headers st (headers_of (site_id st) d))"
  shows "means [render_security_headers d st] (header_plan d st)"
proof -
  let ?hs = "sent_headers st (headers_of (site_id st) d)"
  have h: "h \<in> set ?hs \<Longrightarrow> bare (sh_name h)" for h using assms by (auto simp: list_all_iff)
  have sts: "bare ''Strict-Transport-Security''" by code_simp
  have hide: "means (map (\<lambda>h. hide_line (sh_name h)) (filter P ?hs))
      (map (\<lambda>h. Simple [''proxy_hide_header'', sh_name h]) (filter P ?hs))" for P
    by (rule means_map) (use h hide_means in auto)
  have add: "means (map (\<lambda>h. add_line (sh_name h) (escape_nginx_header_value (sh_value h)) (sh_always h)) ?hs)
      (map (\<lambda>h. add_header_directive (sh_name h) (sh_value h) (sh_always h)) ?hs)"
    by (rule means_map) (use h add_means [OF _ escape_quotable, unfolded unescape_escape] in blast)
  show ?thesis
  proof (cases "map_of HSTS_VALUES (site_hsts_mode st)")
    case None
    then show ?thesis unfolding render_security_headers_def header_plan_def Let_def
      using means_append [OF hide add] by (intro means_join) simp
  next
    case (Some v)
    then have v: "quotable (CHR 0x22) v" "unescape v = v" using hsts_quotable map_of_SomeD by fast+
    have "means ([hide_line ''Strict-Transport-Security''] @ map (\<lambda>h. hide_line (sh_name h)) (filter (\<lambda>h. py_lower (sh_name h) \<in> set DEDUP_SECURITY_HEADERS) ?hs)
         @ [add_line ''Strict-Transport-Security'' v True]
         @ map (\<lambda>h. add_line (sh_name h) (escape_nginx_header_value (sh_value h)) (sh_always h)) ?hs)
      ([Simple [''proxy_hide_header'', ''Strict-Transport-Security'']]
         @ map (\<lambda>h. Simple [''proxy_hide_header'', sh_name h]) (filter (\<lambda>h. py_lower (sh_name h) \<in> set DEDUP_SECURITY_HEADERS) ?hs)
         @ [add_header_directive ''Strict-Transport-Security'' (unescape v) True]
         @ map (\<lambda>h. add_header_directive (sh_name h) (sh_value h) (sh_always h)) ?hs)"
      by (intro means_append hide add hide_means add_means v sts)
    with Some v show ?thesis unfolding render_security_headers_def header_plan_def Let_def
      by (intro means_join) simp
  qed
qed

subsection \<open>Rules, certificates, traffic\<close>

lemma engine_quotable:
  assumes "rules_safe d st tags"
  shows "quotable (CHR 0x27) (engine_rules d st tags)"
proof (rule quotable_free)
  have rules: "CHR 0x27 \<notin> set l" if "l \<in> set (custom_lines (site_id st) d)" for l
    using that assms splitlines_set
    by (fastforce simp: custom_lines_def rule_lines_def rules_safe_def list_all_iff)
  have tags: "CHR 0x27 \<notin> set l" if "l \<in> set (map disabled_line tags)" for l
    using that assms by (auto simp: disabled_line_def dq_def rules_safe_def list_all_iff)
  have "CHR 0x27 \<notin> set (show_nat n)" for n using show_nat_digits [of "CHR 0x27" n] by (auto simp: is_digit_def)
  then have "CHR 0x27 \<notin> set (show_int i)" for i by (simp add: show_int_def)
  then have excl: "CHR 0x27 \<notin> set l" if "l \<in> set (exclusion_lines (site_id st) d)" for l
    using that by (auto simp: exclusion_lines_def)
  have nl: "CHR 0x27 \<noteq> newline" by (simp add: newline_def)
  have j: "(\<And>l. l \<in> set ls \<Longrightarrow> CHR 0x27 \<notin> set l) \<Longrightarrow> CHR 0x27 \<notin> set (join [newline] ls)" for ls
    using set_join [of "[newline]" ls] nl by auto
  show "CHR 0x27 \<notin> set (engine_rules d st tags)"
    unfolding engine_rules_def render_rule_exclusions_def render_custom_rules_def
    using j [of "custom_lines (site_id st) d", OF rules] j [of "map disabled_line tags", OF tags]
      j [of "exclusion_lines (site_id st) d", OF excl] nl by simp
  show "engine_rules d st tags = [] \<or> last (engine_rules d st tags) \<noteq> CHR 0x5C"
    by (simp add: engine_rules_def)
qed

lemma engine_means:
  assumes "rules_safe d st tags"
  shows "means [''    modsecurity_rules '' @ sq @ engine_rules d st tags @ sq @ '';'']
    [Simple [''modsecurity_rules'', unescape (engine_rules d st tags)]]"
proof -
  have "lexes (CHR 0x27 # engine_rules d st tags @ [CHR 0x27, CHR '';'']) [Word (unescape (engine_rules d st tags)), Semi]"
    using lexes_quoted [OF _ engine_quotable [OF assms], of "CHR '';''"]
    by (simp add: quote_char_def ends_word_def mark_list_def mark_def)
  from lexes_append [OF fixed_heads(10) lexes_append [OF this lexes_newline]] show ?thesis
    by (simp add: means_def with_newlines_def sq_def)
qed

lemma strip_Cons_ne: "\<not> is_space c \<Longrightarrow> strip (c # s) \<noteq> []"
  by (simp add: strip_def lstrip_def rstrip_def dropWhile_append)

lemma tls_means:
  assumes "certificates_safe st" "certificate_paths st \<noteq> None"
  shows "means [''    '' @ ssl_block st] (tls_plan st)" "strip (ssl_block st) \<noteq> []"
proof -
  obtain c k where ck: "certificate_paths st = Some (c, k)" "bare c" "bare k"
    using assms by (auto simp: certificates_safe_def split: option.splits)
  have "means [''    listen 443 ssl;'', ''    http2 on;''] [Simple [''listen'', ''443'', ''ssl''], Simple [''http2'', ''on'']]"
    by (rule means_lex) code_simp
  moreover have "means [''    ssl_certificate '' @ c @ '';''] [Simple [''ssl_certificate'', c]]"
    "means [''    ssl_certificate_key '' @ k @ '';''] [Simple [''ssl_certificate_key'', k]]"
    using means_simple [of "''    ssl_certificate ''" "[''ssl_certificate'']" c]
      means_simple [of "''    ssl_certificate_key ''" "[''ssl_certificate_key'']" k] ck by (simp_all add: fixed_heads)
  ultimately have "means ([''    listen 443 ssl;'', ''    http2 on;''] @ [''    ssl_certificate '' @ c @ '';''] @ [''    ssl_certificate_key '' @ k @ '';''])
      ([Simple [''listen'', ''443'', ''ssl''], Simple [''http2'', ''on'']] @ [Simple [''ssl_certificate'', c]] @ [Simple [''ssl_certificate_key'', k]])"
    by (intro means_append)
  from means_join [OF this] show "means [''    '' @ ssl_block st] (tls_plan st)"
    by (simp add: ssl_block_def ssl_lines_def tls_plan_def ck)
  obtain u where "ssl_block st = CHR ''l'' # u" by (simp add: ssl_block_def ssl_lines_def ck)
  then show "strip (ssl_block st) \<noteq> []" by (simp add: strip_Cons_ne is_space_def)
qed

lemma no_tls: "certificate_paths st = None \<Longrightarrow> ssl_block st = []"
  by (simp add: ssl_block_def ssl_lines_def)

lemma traffic_means: "means [render_location_traffic_directives d st] (traffic_plan (site_id st) (policy_of (site_id st) d))"
proof -
  let ?p = "policy_of (site_id st) d" and ?i = "show_nat (site_id st)"
  have zone: "bare (''zone=req_site_'' @ ?i)" "bare (''burst='' @ show_int (tp_burst ?p))" "bare (''conn_site_'' @ ?i)"
    by (intro bare_append digits_bare int_bare; code_simp)+
  have "lexes (''        limit_req '' @ (''zone=req_site_'' @ ?i) @ '' '') ([Word ''limit_req''] @ [Word (''zone=req_site_'' @ ?i)])"
    by (intro lexes_append fixed_heads lexes_word_space zone)
  note rate = this
  have rate2: "lexes ((''        limit_req '' @ (''zone=req_site_'' @ ?i) @ '' '') @ (''burst='' @ show_int (tp_burst ?p)) @ '' '')
      (([Word ''limit_req''] @ [Word (''zone=req_site_'' @ ?i)]) @ [Word (''burst='' @ show_int (tp_burst ?p))])"
    by (intro lexes_append rate lexes_word_space zone)
  have r1: "means [(''        limit_req '' @ (''zone=req_site_'' @ ?i) @ '' '') @ (''burst='' @ show_int (tp_burst ?p)) @ '';'']
      [Simple ([''limit_req'', ''zone=req_site_'' @ ?i] @ [''burst='' @ show_int (tp_burst ?p)])]"
    using rate zone(2) by (intro means_simple) simp_all
  have "bare ''nodelay''" by code_simp
  then have r2: "means [((''        limit_req '' @ (''zone=req_site_'' @ ?i) @ '' '') @ (''burst='' @ show_int (tp_burst ?p)) @ '' '') @ ''nodelay'' @ '';'']
      [Simple ([''limit_req'', ''zone=req_site_'' @ ?i, ''burst='' @ show_int (tp_burst ?p)] @ [''nodelay''])]"
    using rate2 by (intro means_simple) simp_all
  have a: "means (if tp_rate_limit_enabled ?p
      then [''        limit_req zone=req_site_'' @ ?i @ '' burst='' @ show_int (tp_burst ?p)
            @ (if tp_nodelay ?p then '' nodelay'' else []) @ '';''] else [])
     (if tp_rate_limit_enabled ?p
      then [Simple ([''limit_req'', ''zone=req_site_'' @ ?i, ''burst='' @ show_int (tp_burst ?p)]
              @ (if tp_nodelay ?p then [''nodelay''] else []))] else [])"
    using r1 r2 by (simp add: means_Nil)
  have "lexes (''        limit_conn '' @ (''conn_site_'' @ ?i) @ '' '') ([Word ''limit_conn''] @ [Word (''conn_site_'' @ ?i)])"
    by (intro lexes_append fixed_heads lexes_word_space zone)
  then have c1: "means [(''        limit_conn '' @ (''conn_site_'' @ ?i) @ '' '') @ show_int (tp_max_connections ?p) @ '';'']
      [Simple ([''limit_conn'', ''conn_site_'' @ ?i] @ [show_int (tp_max_connections ?p)])]"
    by (intro means_simple) (simp_all add: number_bare)
  have b: "means (if tp_conn_limit_enabled ?p
        then [''        limit_conn conn_site_'' @ ?i @ '' '' @ show_int (tp_max_connections ?p) @ '';''] else [])
     (if tp_conn_limit_enabled ?p
        then [Simple [''limit_conn'', ''conn_site_'' @ ?i, show_int (tp_max_connections ?p)]] else [])"
    using c1 by (simp add: means_Nil)
  show ?thesis
    unfolding render_location_traffic_directives_def traffic_lines_def traffic_plan_def
    by (intro means_join means_append a b)
qed

lemma admin_means:
  assumes "means [proxy_pass_line up] pass"
  shows "means [join [newline] ([''    location ~* ^/(proxy|modules|audit|auth)/ {'', ''        modsecurity off;'', proxy_pass_line up]
         @ forwarding_lines @ [''    }'', [], []])] [admin_plan pass]"
proof -
  have off: "means [''        modsecurity off;''] [Simple [''modsecurity'', ''off'']]" by (rule means_lex) code_simp
  have "bare ''^/(proxy|modules|audit|auth)/''" by code_simp
  then have "means ([''    location ~* '' @ ''^/(proxy|modules|audit|auth)/'' @ '' {''] @
        ([''        modsecurity off;''] @ [proxy_pass_line up] @ forwarding_lines) @ [''    }''])
      [Block ([''location'', ''~*''] @ [''^/(proxy|modules|audit|auth)/'']) ([Simple [''modsecurity'', ''off'']] @ pass @ forwarding_plan)]"
    using fixed_heads(14)
    by (intro means_block means_append off assms fixed_means fixed_heads) simp_all
  from means_append [OF this means_append [OF means_blank means_blank]] show ?thesis
    by (intro means_join) (simp add: admin_plan_def)
qed

lemma challenge_means:
  assumes "bare (rstrip_slash (px_console_url px) @ ''/proxy/bot-verify'')"
  shows "means [render_bot_challenge_location px] (challenge_plan px)"
proof -
  let ?w = "rstrip_slash (px_console_url px) @ ''/proxy/bot-verify''"
  have p: "means [''        proxy_pass '' @ ?w @ '';''] [Simple ([''proxy_pass''] @ [?w])]"
    by (rule means_simple) (simp_all add: fixed_heads assms)
  have v: "bare ''/_wn_challenge/verify''" by code_simp
  have "means [''        modsecurity off;''] [Simple [''modsecurity'', ''off'']]"
    "means [''        proxy_set_header Host localhost;'',
      ''        proxy_set_header X-Real-IP $remote_addr;'',
      ''        proxy_set_header X-Forwarded-For $proxy_add_x_forwarded_for;'',
      ''        proxy_set_header X-Forwarded-Proto $scheme;'',
      ''        proxy_http_version 1.1;'',
      ''        proxy_read_timeout 10s;'']
     [Simple [''proxy_set_header'', ''Host'', ''localhost''],
        Simple [''proxy_set_header'', ''X-Real-IP'', ''$remote_addr''],
        Simple [''proxy_set_header'', ''X-Forwarded-For'', ''$proxy_add_x_forwarded_for''],
        Simple [''proxy_set_header'', ''X-Forwarded-Proto'', ''$scheme''],
        Simple [''proxy_http_version'', ''1.1''],
        Simple [''proxy_read_timeout'', ''10s'']]"
    "means [[],
      ''    location /_wn_challenge/ {'',
      ''        modsecurity off;'',
      ''        alias /etc/nginx/generated/challenge/;'',
      ''        index challenge.html;'',
      ''        try_files $uri /challenge.html =404;'',
      ''        add_header Cache-Control '' @ dq @ ''no-cache, no-store, must-revalidate'' @ dq @ '' always;'',
      ''    }'',
      []] [Block [''location'', ''/_wn_challenge/'']
       [Simple [''modsecurity'', ''off''],
        Simple [''alias'', ''/etc/nginx/generated/challenge/''],
        Simple [''index'', ''challenge.html''],
        Simple [''try_files'', ''$uri'', ''/challenge.html'', ''=404''],
        Simple [''add_header'', ''Cache-Control'', ''no-cache, no-store, must-revalidate'', ''always'']]]"
    by (rule means_lex; code_simp)+
  note fixed = this
  have "means ([[]] @ ([''    location = '' @ ''/_wn_challenge/verify'' @ '' {''] @
        ([''        modsecurity off;''] @ [''        proxy_pass '' @ ?w @ '';''] @
         [''        proxy_set_header Host localhost;'',
          ''        proxy_set_header X-Real-IP $remote_addr;'',
          ''        proxy_set_header X-Forwarded-For $proxy_add_x_forwarded_for;'',
          ''        proxy_set_header X-Forwarded-Proto $scheme;'',
          ''        proxy_http_version 1.1;'',
          ''        proxy_read_timeout 10s;'']) @ [''    }'']) @
      [[],
      ''    location /_wn_challenge/ {'',
      ''        modsecurity off;'',
      ''        alias /etc/nginx/generated/challenge/;'',
      ''        index challenge.html;'',
      ''        try_files $uri /challenge.html =404;'',
      ''        add_header Cache-Control '' @ dq @ ''no-cache, no-store, must-revalidate'' @ dq @ '' always;'',
      ''    }'',
      []])
    ([] @ [Block ([''location'', ''=''] @ [''/_wn_challenge/verify''])
       ([Simple [''modsecurity'', ''off'']] @ [Simple ([''proxy_pass''] @ [?w])] @
        [Simple [''proxy_set_header'', ''Host'', ''localhost''],
        Simple [''proxy_set_header'', ''X-Real-IP'', ''$remote_addr''],
        Simple [''proxy_set_header'', ''X-Forwarded-For'', ''$proxy_add_x_forwarded_for''],
        Simple [''proxy_set_header'', ''X-Forwarded-Proto'', ''$scheme''],
        Simple [''proxy_http_version'', ''1.1''],
        Simple [''proxy_read_timeout'', ''10s'']])] @
     [Block [''location'', ''/_wn_challenge/'']
       [Simple [''modsecurity'', ''off''],
        Simple [''alias'', ''/etc/nginx/generated/challenge/''],
        Simple [''index'', ''challenge.html''],
        Simple [''try_files'', ''$uri'', ''/challenge.html'', ''=404''],
        Simple [''add_header'', ''Cache-Control'', ''no-cache, no-store, must-revalidate'', ''always'']]])"
    using fixed_heads(15)
    by (intro means_append means_block means_blank fixed p v fixed_heads) simp_all
  then show ?thesis
    unfolding render_bot_challenge_location_def by (intro means_join) (simp add: challenge_plan_def)
qed


subsection \<open>The whole file\<close>

lemma quiet_means: "quiet_snippet t \<Longrightarrow> means [t] [Given (snippet_tokens t)]"
  by (auto simp: quiet_snippet_def snippet_tokens_def conf_tokens_def means_def with_newlines_def lexes_def conf_meaning_def
      split: option.splits place.splits)

lemma when_means: "(b \<Longrightarrow> means [l] ds) \<Longrightarrow> means [if b then l else []] (if b then ds else [])"
  by (simp add: means_blank)

text \<open>The text of a server block, closed before its last line feed.\<close>

definition server_body :: "proxy_env \<Rightarrow> db \<Rightarrow> site \<Rightarrow> string list \<Rightarrow> string list \<Rightarrow> string \<Rightarrow> string \<times> string \<Rightarrow> string list" where
  "server_body px d st listen tags admin up =
     listen @ [''    server_name '' @ site_domain st @ '';''] @ [[]] @
     [''    if ($geo_blocked_site_'' @ show_nat (site_id st) @ '') {'', ''        return 444;'', ''    }''] @ [[]] @
     [''    modsecurity on;''] @
     [''    modsecurity_rules '' @ sq @ engine_rules d st tags @ sq @ '';''] @
     [[], ''    access_log /var/log/nginx/access.json json_combined;'', ''    error_log /var/log/nginx/error.log warn;'', []] @
     [render_security_headers d st] @ [render_server_extra d st] @
     [if bp_enabled (bot_of (site_id st) d) then render_bot_challenge_location px else []] @
     [render_waf_block_location] @ [render_obs_location st] @ [admin] @ acme_lines @
     ([''    location '' @ ''/'' @ '' {''] @
      ([if bp_enabled (bot_of (site_id st) d) then render_bot_check else []] @
       [render_location_traffic_directives d st] @ [render_location_extra d st] @ [proxy_pass_line up] @ forwarding_lines) @
      [''    }''])"

lemma server_lines_body:
  "server_lines px d st listen tags admin up = ([[] @ ''server'' @ '' {''] @ server_body px d st listen tags admin up @ [''}'']) @ [[]]"
  by (simp add: server_lines_def server_body_def)

lemma server_means:
  assumes "config_safe px d st tags" "means listen lds" "means [proxy_pass_line up] pass"
    and "means [admin] (if site_is_console st then [admin_plan pass] else [])"
  shows "lexes (join [newline] (server_lines px d st listen tags admin up)) (conf_meaning [server_plan px d st lds tags pass])"
proof -
  have safe: "bare (site_domain st)" 
      "bare (rstrip_slash (px_console_url px) @ ''/proxy/bot-verify'')" "rules_safe d st tags"
      "list_all (\<lambda>h. bare (sh_name h)) (sent_headers st (headers_of (site_id st) d))"
      "quiet_snippet (render_server_extra d st)" "quiet_snippet (render_location_extra d st)"
    using assms(1) by (simp_all add: config_safe_def)
  have on: "means [''    modsecurity on;''] [Simple [''modsecurity'', ''on'']]"
    "means [[], ''    access_log /var/log/nginx/access.json json_combined;'', ''    error_log /var/log/nginx/error.log warn;'', []]
       [Simple [''access_log'', ''/var/log/nginx/access.json'', ''json_combined''], Simple [''error_log'', ''/var/log/nginx/error.log'', ''warn'']]"
    by (rule means_lex; code_simp)+
  have obs: "means [render_obs_location st] (if site_is_console st then obs_plan else [])"
    unfolding render_obs_location_def using means_join [OF fixed_means(2)] means_blank by simp
  have words: "bare ''/''" "bare ''server''" by code_simp+
  let ?b = "bp_enabled (bot_of (site_id st) d)"
  have "means (server_body px d st listen tags admin up)
    (lds @ [Simple [''server_name'', site_domain st]] @ [] @
     [Block [''if'', ''($geo_blocked_site_'' @ show_nat (site_id st) @ '')''] [Simple [''return'', ''444'']]] @ [] @
     [Simple [''modsecurity'', ''on'']] @ [Simple [''modsecurity_rules'', unescape (engine_rules d st tags)]] @
     [Simple [''access_log'', ''/var/log/nginx/access.json'', ''json_combined''], Simple [''error_log'', ''/var/log/nginx/error.log'', ''warn'']] @
     header_plan d st @ [Given (snippet_tokens (render_server_extra d st))] @
     (if ?b then challenge_plan px else []) @ block_page_plan @ (if site_is_console st then obs_plan else []) @
     (if site_is_console st then [admin_plan pass] else []) @ [acme_plan] @
     [Block ([''location''] @ [''/''])
        ((if ?b then [bot_check_plan] else []) @ traffic_plan (site_id st) (policy_of (site_id st) d) @
         [Given (snippet_tokens (render_location_extra d st))] @ pass @ forwarding_plan)])"
    unfolding server_body_def
    using fixed_heads(13)
    by (intro means_append means_block assms(2,3,4) domain_line means_blank geo_block on engine_means header_means quiet_means
        when_means challenge_means fixed_texts obs fixed_means traffic_means safe words fixed_heads) simp_all
  then have "means ([[] @ ''server'' @ '' {''] @ server_body px d st listen tags admin up @ [''}''])
      [Block ([] @ [''server'']) (lds @ [Simple [''server_name'', site_domain st]] @ [] @
     [Block [''if'', ''($geo_blocked_site_'' @ show_nat (site_id st) @ '')''] [Simple [''return'', ''444'']]] @ [] @
     [Simple [''modsecurity'', ''on'']] @ [Simple [''modsecurity_rules'', unescape (engine_rules d st tags)]] @
     [Simple [''access_log'', ''/var/log/nginx/access.json'', ''json_combined''], Simple [''error_log'', ''/var/log/nginx/error.log'', ''warn'']] @
     header_plan d st @ [Given (snippet_tokens (render_server_extra d st))] @
     (if ?b then challenge_plan px else []) @ block_page_plan @ (if site_is_console st then obs_plan else []) @
     (if site_is_console st then [admin_plan pass] else []) @ [acme_plan] @
     [Block ([''location''] @ [''/''])
        ((if ?b then [bot_check_plan] else []) @ traffic_plan (site_id st) (policy_of (site_id st) d) @
         [Given (snippet_tokens (render_location_extra d st))] @ pass @ forwarding_plan)])]"
    by (intro means_block words fixed_heads) simp_all
  then have "means ([[] @ ''server'' @ '' {''] @ server_body px d st listen tags admin up @ [''}'']) [server_plan px d st lds tags pass]"
    by (simp add: server_plan_def)
  then show ?thesis unfolding server_lines_body by (rule means_text) simp
qed


lemma redirect_lexes:
  assumes "bare (site_domain st)"
  shows "lexes (join [newline] (redirect_lines st) @ [newline]) (conf_meaning [redirect_plan st])"
proof -
  have l80: "means [''    listen 80;''] [Simple [''listen'', ''80'']]"
    "means [''        return 301 https://$host$request_uri;''] [Simple [''return'', ''301'', ''https://$host$request_uri'']]"
    by (rule means_lex; code_simp)+
  have words: "bare ''/''" "bare ''server''" by code_simp+
  have "means (([[] @ ''server'' @ '' {''] @
      ([''    listen 80;''] @ [''    server_name '' @ site_domain st @ '';''] @ [[]] @ acme_lines @
       ([''    location '' @ ''/'' @ '' {''] @ [''        return 301 https://$host$request_uri;''] @ [''    }''])) @ [''}'']) @ [[]])
    ([Block ([] @ [''server'']) ([Simple [''listen'', ''80'']] @ [Simple [''server_name'', site_domain st]] @ [] @ [acme_plan] @
       [Block ([''location''] @ [''/'']) [Simple [''return'', ''301'', ''https://$host$request_uri'']]])] @ [])"
    using fixed_heads(13)
    by (intro means_append means_block means_blank l80 domain_line fixed_means words assms fixed_heads) simp_all
  then have "means (redirect_lines st) [redirect_plan st]"
    by (simp add: redirect_lines_def redirect_plan_def)
  moreover have "redirect_lines st \<noteq> []" by (simp add: redirect_lines_def)
  ultimately show ?thesis by (simp add: means_def join_lines)
qed

lemma site_config_lexes:
  assumes "upstream_parts px st = Inr up" "disabled_tags d st = Inr tags" "config_safe px d st tags"
    "means [proxy_pass_line up] pass"
  obtains t where "render_site_config px d st = Inr t" "lexes t (conf_meaning (site_plan px d st tags pass))"
proof -
  obtain admin where a: "render_console_admin_location px st = Inr admin"
      "means [admin] (if site_is_console st then [admin_plan pass] else [])"
    using admin_means [OF assms(4)] assms(1) means_blank
    by (cases "site_is_console st") (auto simp: render_console_admin_location_def simp del: join.simps append_Cons append.simps)
  have l80: "means [''    listen 80;''] [Simple [''listen'', ''80'']]" by (rule means_lex) code_simp
  note server = server_means [OF assms(3) _ assms(4) a(2)]
  show ?thesis
  proof (cases "certificate_paths st")
    case None
    have "means [''    listen 80;'', ''    '' @ ssl_block st] [Simple [''listen'', ''80'']]"
      using means_append [OF l80, of "[''    '']" "[]"] no_tls [OF None]
        means_lex [of "[''    '']" "[]"] by (simp add: ends_word_def conf_blank_def mark_list_def mark_def newline_def)
    from server [OF this] None show ?thesis
      by (intro that) (simp_all add: render_site_config_def assms a no_tls site_plan_def Let_def strip_def lstrip_def rstrip_def)
  next
    case (Some p)
    then have tls: "means [''    '' @ ssl_block st] (tls_plan st)" "strip (ssl_block st) \<noteq> []"
      using tls_means assms(3) by (auto simp: config_safe_def)
    show ?thesis
    proof (cases "site_force_https st")
      case True
      have redirect: "lexes (join [newline] (redirect_lines st) @ [newline]) (conf_meaning [redirect_plan st])"
        using assms(3) by (intro redirect_lexes) (simp add: config_safe_def)
      from lexes_append [OF redirect server [OF tls(1)]] True Some tls(2) show ?thesis
        by (intro that) (simp_all add: render_site_config_def assms a site_plan_def Let_def)
    next
      case False
      from server [OF means_append [OF l80 tls(1)]] False Some tls(2) show ?thesis
        by (intro that) (simp_all add: render_site_config_def assms a site_plan_def Let_def)
    qed
  qed
qed


section \<open>What the proxy lexes\<close>


definition sample_site :: site where
  "sample_site = \<lparr>site_id = 1, site_name = ''Shop'', site_domain = ''shop.example'', site_upstream_url = ''http://10.0.0.5:8080'',
     site_waf_enabled = True, site_letsencrypt_enabled = True, site_letsencrypt_status = ''active'', site_letsencrypt_error = None,
     site_certificate_path = None, site_certificate_key_path = None, site_is_console = False, site_force_https = True,
     site_hsts_mode = ''1y'', site_host_port_blocked = False\<rparr>"

definition sample_db :: db where
  "sample_db = empty_db\<lparr>sites := [sample_site],
     categories := [\<lparr>rc_id = 3, rc_key = ''sqli'', rc_name = ''SQL injection'', rc_description = [], rc_crs_tag = ''attack-sqli'', rc_enabled_by_default = False\<rparr>],
     rule_settings := [\<lparr>rs_site_id = 1, rs_category_id = 3, rs_enabled = False\<rparr>],
     security_headers := [\<lparr>sh_id = 1, sh_site_id = 1, sh_name = ''X-Quote'', sh_value = [CHR 0x22, CHR '';'', CHR 0x5C],
       sh_enabled = True, sh_always = True, sh_position = 1, sh_is_default = False\<rparr>],
     custom_rules := [\<lparr>cr_id = 1, cr_site_id = 1, cr_name = ''r'', cr_rule_text = ''SecAction id:1000001,pass'', cr_enabled = True, cr_position = 1\<rparr>]\<rparr>"



section \<open>A value that is no word\<close>

text \<open>Characters that stay in the network location of a URL.\<close>

definition location_char :: "char \<Rightarrow> bool" where
  "location_char c \<longleftrightarrow> c \<notin> {CHR ''/'', CHR ''?'', CHR ''#'', CHR ''['', CHR '']'', CHR 0x09, CHR 0x0D, newline}"

lemma upstream_parts_http:
  assumes "site_upstream_url st = ''http://'' @ n" "list_all location_char n" "n \<noteq> []"
  shows "upstream_parts px st = Inr (''http'', n)"
proof -
  have n: "filter (\<lambda>c. c \<notin> {CHR 0x09, CHR 0x0D, newline}) n = n" "takeWhile (\<lambda>c. c \<noteq> CHR ''/'' \<and> c \<noteq> CHR ''?'' \<and> c \<noteq> CHR ''#'') n = n"
    "CHR ''['' \<notin> set n" "CHR '']'' \<notin> set n"
    using assms(2) by (auto simp: list_all_iff location_char_def filter_id_conv takeWhile_eq_all_conv)
  from n(1,2) have c: "clean_url (''http://'' @ n) = ''http://'' @ n" "fst (split_netloc (''//'' @ n)) = n"
    by (simp_all add: clean_url_def split_netloc_def newline_def)
  obtain r where "split_netloc (''//'' @ n) = (n, r)" using c(2) by (cases "split_netloc (''//'' @ n)") simp
  moreover have "split_scheme (''http://'' @ n) = (''http'', ''//'' @ n)"
    by (simp add: split_scheme_def scheme_char_def chars py_lower_def lower_char_def)
  ultimately show ?thesis using assms(1,3) n(3,4)
    by (simp add: upstream_parts_def urlparse_def c(1) del: append_Cons append.simps)
qed

text \<open>
  C16: The address of an upstream is not checked before it is rendered: an upstream \<open>http://h;x\<close>, where
  \<open>h\<close> is a word and \<open>x\<close> any text of directives without the characters that end a network location,
  is rendered into a file read as proxying to \<open>http://h\<close> followed by the directives of \<open>x\<close>, in every
  location that proxies.
\<close>
theorem upstream_adds_directives:
  assumes "conf_reader reader" "site_upstream_url st = ''http://'' @ h @ '';'' @ x" "bare h"
    "list_all location_char (h @ x)" "conf_tokens (x @ '';'') = Some ts"
    "disabled_tags d st = Inr tags" "config_safe px d st tags"
  shows "\<exists>t. render_site_config px d st = Inr t
    \<and> reader t = Some (conf_meaning (site_plan px d st tags [proxy_to (''http'', h), Given ts]))"
proof -
  have up: "upstream_parts px st = Inr (''http'', h @ '';'' @ x)"
    using assms(2-4) by (intro upstream_parts_http) (auto simp: location_char_def newline_def)
  have "bare (''http://'' @ h)"
  proof (rule bare_append)
    show "bare ''http://''" by code_simp
    show "list_all bare_char h" using assms(3) by (simp add: bare_def)
  qed
  then have "means [''        proxy_pass '' @ (''http://'' @ h) @ '';''] [Simple ([''proxy_pass''] @ [''http://'' @ h])]"
    by (intro means_simple) (simp_all add: fixed_heads)
  then have "lexes (''        proxy_pass http://'' @ h @ '';'') ([Word ''proxy_pass''] @ [Word (''http://'' @ h), Semi])"
    using lexes_append [OF fixed_heads(3) lexes_word_semi [OF \<open>bare (''http://'' @ h)\<close>]] by simp
  moreover have "lexes (x @ '';'') ts"
    using assms(5) by (auto simp: conf_tokens_def lexes_def split: option.splits place.splits)
  ultimately have "lexes ((''        proxy_pass http://'' @ h @ '';'') @ (x @ '';'') @ [newline])
      (([Word ''proxy_pass''] @ [Word (''http://'' @ h), Semi]) @ ts @ [])"
    using lexes_append [OF _ lexes_append [OF _ lexes_newline]] by blast
  then have "means [proxy_pass_line (''http'', h @ '';'' @ x)] [proxy_to (''http'', h), Given ts]"
    by (simp add: means_def with_newlines_def proxy_pass_line_def proxy_to_def conf_meaning_def)
  from site_config_lexes [OF up assms(6,7) this] conf_reader.tokens_lexes [OF assms(1)] show ?thesis by blast
qed

definition hostile_site :: site where
  "hostile_site = sample_site\<lparr>site_upstream_url := ''http://h; deny all''\<rparr>"

lemma hostile_facts:
  "disabled_tags sample_db hostile_site = Inr [''attack-sqli'']" "config_safe plain_proxy sample_db hostile_site [''attack-sqli'']"
  "bare ''h''" "list_all location_char (''h'' @ '' deny all'')"
  "conf_tokens ('' deny all'' @ '';'') = Some [Word ''deny'', Word ''all'', Semi]"
  by code_simp+

theorem upstream_adds_directives_witness:
  "\<exists>t. render_site_config plain_proxy sample_db hostile_site = Inr t
    \<and> conf_tokens t = Some (conf_meaning (site_plan plain_proxy sample_db hostile_site [''attack-sqli'']
        [proxy_to (''http'', ''h''), Given [Word ''deny'', Word ''all'', Semi]]))"
  by (rule upstream_adds_directives [OF grammar.conf_reader_axioms _ hostile_facts(3-5,1,2)]) (simp add: hostile_site_def)

end
