(* ===== verification/Countries.thy ===== *)
theory Countries
  imports Prelude
begin

text \<open>
  The countries a site can be closed to, with the names the console shows
  (\<^verbatim>\<open>app/proxy/geoip_blocklist.py\<close>).
\<close>

definition COUNTRY_NAMES :: "(string \<times> string) list" where
  "COUNTRY_NAMES =
     [(''AD'', ''Andorra''), (''AE'', ''Emiratos '' @ [CHR 0xC1] @ ''rabes Unidos''),
      (''AF'', ''Afganist'' @ [CHR 0xE1] @ ''n''), (''AG'', ''Antigua y Barbuda''), (''AL'', ''Albania''),
      (''AM'', ''Armenia''), (''AO'', ''Angola''), (''AR'', ''Argentina''), (''AT'', ''Austria''),
      (''AU'', ''Australia''), (''AZ'', ''Azerbaiy'' @ [CHR 0xE1] @ ''n''), (''BA'', ''Bosnia y Herzegovina''),
      (''BD'', ''Banglad'' @ [CHR 0xE9] @ ''s''), (''BE'', ''B'' @ [CHR 0xE9] @ ''lgica''),
      (''BF'', ''Burkina Faso''), (''BG'', ''Bulgaria''), (''BH'', ''Bar'' @ [CHR 0xE9] @ ''in''),
      (''BI'', ''Burundi''), (''BJ'', ''Ben'' @ [CHR 0xED] @ ''n''), (''BN'', ''Brun'' @ [CHR 0xE9] @ ''i''),
      (''BO'', ''Bolivia''), (''BR'', ''Brasil''), (''BS'', ''Bahamas''), (''BT'', ''But'' @ [CHR 0xE1] @ ''n''),
      (''BW'', ''Botsuana''), (''BY'', ''Bielorrusia''), (''BZ'', ''Belice''), (''CA'', ''Canad'' @ [CHR 0xE1]),
      (''CD'', ''Congo (RDC)''), (''CF'', ''Rep. Centroafricana''), (''CG'', ''Congo''), (''CH'', ''Suiza''),
      (''CI'', ''Costa de Marfil''), (''CL'', ''Chile''), (''CM'', ''Camer'' @ [CHR 0xFA] @ ''n''),
      (''CN'', ''China''), (''CO'', ''Colombia''), (''CR'', ''Costa Rica''), (''CU'', ''Cuba''),
      (''CV'', ''Cabo Verde''), (''CY'', ''Chipre''), (''CZ'', ''Chequia''), (''DE'', ''Alemania''),
      (''DJ'', ''Yibuti''), (''DK'', ''Dinamarca''), (''DO'', ''Rep'' @ [CHR 0xFA] @ ''blica Dominicana''),
      (''DZ'', ''Argelia''), (''EC'', ''Ecuador''), (''EE'', ''Estonia''), (''EG'', ''Egipto''),
      (''ER'', ''Eritrea''), (''ES'', ''Espa'' @ [CHR 0xF1] @ ''a''), (''ET'', ''Etiop'' @ [CHR 0xED] @ ''a''),
      (''FI'', ''Finlandia''), (''FJ'', ''Fiyi''), (''FR'', ''Francia''), (''GA'', ''Gab'' @ [CHR 0xF3] @ ''n''),
      (''GB'', ''Reino Unido''), (''GE'', ''Georgia''), (''GH'', ''Ghana''), (''GM'', ''Gambia''),
      (''GN'', ''Guinea''), (''GQ'', ''Guinea Ecuatorial''), (''GR'', ''Grecia''), (''GT'', ''Guatemala''),
      (''GW'', ''Guinea-Bis'' @ [CHR 0xE1] @ ''u''), (''GY'', ''Guyana''), (''HN'', ''Honduras''),
      (''HR'', ''Croacia''), (''HT'', ''Hait'' @ [CHR 0xED]), (''HU'', ''Hungr'' @ [CHR 0xED] @ ''a''),
      (''ID'', ''Indonesia''), (''IE'', ''Irlanda''), (''IL'', ''Israel''), (''IN'', ''India''), (''IQ'', ''Irak''),
      (''IR'', ''Ir'' @ [CHR 0xE1] @ ''n''), (''IS'', ''Islandia''), (''IT'', ''Italia''), (''JM'', ''Jamaica''),
      (''JO'', ''Jordania''), (''JP'', ''Jap'' @ [CHR 0xF3] @ ''n''), (''KE'', ''Kenia''),
      (''KG'', ''Kirguist'' @ [CHR 0xE1] @ ''n''), (''KH'', ''Camboya''), (''KI'', ''Kiribati''),
      (''KM'', ''Comoras''), (''KN'', ''San Crist'' @ [CHR 0xF3] @ ''bal y Nieves''), (''KP'', ''Corea del Norte''),
      (''KR'', ''Corea del Sur''), (''KW'', ''Kuwait''), (''KZ'', ''Kazajist'' @ [CHR 0xE1] @ ''n''),
      (''LA'', ''Laos''), (''LB'', ''L'' @ [CHR 0xED] @ ''bano''), (''LC'', ''Santa Luc'' @ [CHR 0xED] @ ''a''),
      (''LI'', ''Liechtenstein''), (''LK'', ''Sri Lanka''), (''LR'', ''Liberia''), (''LS'', ''Lesoto''),
      (''LT'', ''Lituania''), (''LU'', ''Luxemburgo''), (''LV'', ''Letonia''), (''LY'', ''Libia''),
      (''MA'', ''Marruecos''), (''MC'', ''M'' @ [CHR 0xF3] @ ''naco''), (''MD'', ''Moldavia''),
      (''ME'', ''Montenegro''), (''MG'', ''Madagascar''), (''MK'', ''Macedonia del Norte''), (''ML'', ''Mali''),
      (''MM'', ''Myanmar''), (''MN'', ''Mongolia''), (''MR'', ''Mauritania''), (''MT'', ''Malta''),
      (''MU'', ''Mauricio''), (''MV'', ''Maldivas''), (''MW'', ''Malaui''), (''MX'', ''M'' @ [CHR 0xE9] @ ''xico''),
      (''MY'', ''Malasia''), (''MZ'', ''Mozambique''), (''NA'', ''Namibia''), (''NE'', ''N'' @ [CHR 0xED] @ ''ger''),
      (''NG'', ''Nigeria''), (''NI'', ''Nicaragua''), (''NL'', ''Pa'' @ [CHR 0xED] @ ''ses Bajos''),
      (''NO'', ''Noruega''), (''NP'', ''Nepal''), (''NR'', ''Nauru''), (''NZ'', ''Nueva Zelanda''),
      (''OM'', ''Om'' @ [CHR 0xE1] @ ''n''), (''PA'', ''Panam'' @ [CHR 0xE1]), (''PE'', ''Per'' @ [CHR 0xFA]),
      (''PG'', ''Pap'' @ [CHR 0xFA] @ ''a Nueva Guinea''), (''PH'', ''Filipinas''),
      (''PK'', ''Pakist'' @ [CHR 0xE1] @ ''n''), (''PL'', ''Polonia''), (''PT'', ''Portugal''), (''PW'', ''Palaos''),
      (''PY'', ''Paraguay''), (''QA'', ''Catar''), (''RO'', ''Ruman'' @ [CHR 0xED] @ ''a''), (''RS'', ''Serbia''),
      (''RU'', ''Rusia''), (''RW'', ''Ruanda''), (''SA'', ''Arabia Saudita''),
      (''SB'', ''Islas Salom'' @ [CHR 0xF3] @ ''n''), (''SC'', ''Seychelles''),
      (''SD'', ''Sud'' @ [CHR 0xE1] @ ''n''), (''SE'', ''Suecia''), (''SG'', ''Singapur''), (''SI'', ''Eslovenia''),
      (''SK'', ''Eslovaquia''), (''SL'', ''Sierra Leona''), (''SM'', ''San Marino''), (''SN'', ''Senegal''),
      (''SO'', ''Somalia''), (''SR'', ''Surinam''), (''SS'', ''Sud'' @ [CHR 0xE1] @ ''n del Sur''),
      (''ST'', ''Santo Tom'' @ [CHR 0xE9] @ '' y Pr'' @ [CHR 0xED] @ ''ncipe''), (''SV'', ''El Salvador''),
      (''SY'', ''Siria''), (''SZ'', ''Esuatini''), (''TD'', ''Chad''), (''TG'', ''Togo''), (''TH'', ''Tailandia''),
      (''TJ'', ''Tayikist'' @ [CHR 0xE1] @ ''n''), (''TL'', ''Timor Oriental''),
      (''TM'', ''Turkmenist'' @ [CHR 0xE1] @ ''n''), (''TN'', ''T'' @ [CHR 0xFA] @ ''nez''), (''TO'', ''Tonga''),
      (''TR'', ''Turqu'' @ [CHR 0xED] @ ''a''), (''TT'', ''Trinidad y Tobago''), (''TV'', ''Tuvalu''),
      (''TZ'', ''Tanzania''), (''UA'', ''Ucrania''), (''UG'', ''Uganda''), (''US'', ''Estados Unidos''),
      (''UY'', ''Uruguay''), (''UZ'', ''Uzbekist'' @ [CHR 0xE1] @ ''n''), (''VA'', ''Ciudad del Vaticano''),
      (''VC'', ''San Vicente''), (''VE'', ''Venezuela''), (''VN'', ''Vietnam''), (''VU'', ''Vanuatu''),
      (''WS'', ''Samoa''), (''YE'', ''Yemen''), (''ZA'', ''Sud'' @ [CHR 0xE1] @ ''frica''), (''ZM'', ''Zambia''),
      (''ZW'', ''Zimbabue'')]"

definition country_name :: "string \<Rightarrow> string" where
  "country_name c = (case map_of COUNTRY_NAMES c of None \<Rightarrow> c | Some n \<Rightarrow> n)"

end
