(* ===== verification/SiteViews.thy ===== *)
theory SiteViews
  imports Web NginxRender Countries
begin

text \<open>
  The views on the protected sites (\<^verbatim>\<open>app/proxy/routes.py\<close>, first part): creating a site, its
  switches, TLS with Let's Encrypt (\<open>provision_letsencrypt\<close> of \<^verbatim>\<open>app/proxy/services.py\<close>), traffic
  policy, the reload of Nginx (\<open>reload_nginx\<close> of \<^verbatim>\<open>app/proxy/geoip_blocklist.py\<close>).  The Docker
  engine, certbot, the Nginx binary and the presence of the agent's socket are arguments; disks do
  not fail.  A failed commit has rolled its transaction back, which is why the handler that swallows
  the exceptions of \<open>_apply_nginx\<close> leaves nothing pending.
\<close>

section \<open>Parameters and messages\<close>

record site_env =
  se_proxy :: proxy_env
  se_files :: "string list"
  se_container :: string
  se_exec :: "ext_call list \<Rightarrow> string \<Rightarrow> string + (int \<times> string)"
  se_certbot :: "ext_call list \<Rightarrow> string \<Rightarrow> string option"
  se_nginx :: "nginx_binary option"
  se_wf_socket :: bool

datatype port_outcome = PortVerified int | PortUnverified int | PortOpen int json

datatype site_notice =
    NoConsoleSite | WfNeeded | PortReserved int | BadDomain
  | SiteAdded | SiteAddedWith port_outcome
  | BotState bool | WafState bool | BadCategoryIds | CategoriesSaved | TlsSaved
  | BadNumber string | OutOfBounds string int int | BadKeyStrategy | PolicySaved
  | BadHeaderIds | UnknownHeader | HeaderProblem header_error | HeadersSaved
  | BadRuleIds | UnknownRule | RuleProblem rule_error | RulesSaved
  | SnippetProblem snippet_error | ExtraSaved
  | ConsoleNotDeletable | SiteDeleted string
  | ConsoleUpstream | UpstreamEmpty | UpstreamSame | UpstreamSaved | UpstreamSavedWith port_outcome
  | BadCountry | CountryBack string | CountryAdded string | CountryRemoved string | NotReloaded string
  | BadExclusionIds | UnknownExclusion | ExclusionProblem exclusion_error | ExclusionKnown int
  | ExclusionsSaved | ExclusionRemoved int
  | DomainRequired | ConsoleSaved | ConsolePortSecured string

type_synonym site_view = "site_notice list reply view_op"

definition site_page :: "nat \<Rightarrow> site_notice list \<Rightarrow> site_notice list reply" where
  "site_page i ns = Goto (''proxy.site_detail/'' @ show_nat i) (Some ns)"

definition sites_page :: "site_notice list \<Rightarrow> site_notice list reply" where
  "sites_page ns = Goto ''proxy.sites_list'' (Some ns)"

section \<open>Forms, tables, Docker\<close>

definition form_bool :: "form \<Rightarrow> string \<Rightarrow> bool" where
  "form_bool f k \<longleftrightarrow> form_get f k \<noteq> []"

definition form_list :: "form \<Rightarrow> string \<Rightarrow> string list" where
  "form_list f k = map snd (filter (\<lambda>p. fst p = k) f)"

text \<open>\<open>int(v) for v in form.getlist(k)\<close>; \<open>None\<close> is the \<open>ValueError\<close>.\<close>

definition form_ints :: "form \<Rightarrow> string \<Rightarrow> int list option" where
  "form_ints f k = (let vs = map py_int (form_list f k) in if None \<in> set vs then None else Some (map the vs))"

definition find_site :: "nat \<Rightarrow> db \<Rightarrow> site option" where
  "find_site i d = find (\<lambda>s. site_id s = i) (sites d)"

definition with_site :: "nat \<Rightarrow> (site \<Rightarrow> 'a view_op) \<Rightarrow> 'a view_op" where
  "with_site i f = bind (table (find_site i)) (\<lambda>r. case r of None \<Rightarrow> raise NotFound | Some st \<Rightarrow> f st)"

definition update_site :: "nat \<Rightarrow> (site \<Rightarrow> site) \<Rightarrow> db \<Rightarrow> db" where
  "update_site i f d = d\<lparr>sites := map (\<lambda>s. if site_id s = i then f s else s) (sites d)\<rparr>"

definition docker_exec :: "site_env \<Rightarrow> string \<Rightarrow> (string + (int \<times> string)) sess_op" where
  "docker_exec se cmd s =
     (Inr (se_exec se (calls s) cmd), s\<lparr>calls := calls s @ [DockerExec (se_container se) cmd]\<rparr>)"

definition reload_nginx :: "site_env \<Rightarrow> (bool \<times> string) sess_op" where
  "reload_nginx se =
     bind (docker_exec se ''nginx -t'') (\<lambda>r. case r of
        Inl x \<Rightarrow> ret (False, x)
      | Inr (exit_code, output) \<Rightarrow>
          if exit_code \<noteq> 0 then ret (False, strip output)
          else bind (docker_exec se ''nginx -s reload'') (\<lambda>r. case r of
             Inl x \<Rightarrow> ret (False, x)
           | Inr (exit_code, output) \<Rightarrow> ret (if exit_code = 0 then (True, []) else (False, strip output))))"

definition render_files :: "site_env \<Rightarrow> env \<Rightarrow> string list sess_op" where
  "render_files se e = render_nginx_configs (se_proxy se) e (se_files se)"

text \<open>
  \<open>_apply_nginx\<close> lets every exception pass.  Whatever was pending before has been committed by the
  callers; the rows that rendering itself adds are lost when their commit fails, as a failed flush
  undoes the transaction.
\<close>

definition apply_nginx :: "site_env \<Rightarrow> env \<Rightarrow> unit sess_op" where
  "apply_nginx se e =
     catch (bind (render_files se e) (\<lambda>_. bind (reload_nginx se) (\<lambda>_. ret ()))) (\<lambda>_. rollback)"

definition audit_site :: "env \<Rightarrow> string \<Rightarrow> string \<Rightarrow> (string \<times> json) list \<Rightarrow> string \<Rightarrow> unit view_op" where
  "audit_site e action domain detail severity =
     audit_as e (\<lambda>e'. audit_entry e' action (Some ''site'') (Some domain) (Some detail) severity ''success'' None)"

abbreviation operators :: "string list" where
  "operators \<equiv> [ROLE_ADMIN, ROLE_OPERATOR]"

section \<open>Creating a site\<close>

definition RESERVED_PORTS :: "int list" where
  "RESERVED_PORTS = [22, 80, 443, 5000]"

definition se_brackets :: "site_env \<Rightarrow> string \<Rightarrow> bool" where
  "se_brackets se = px_brackets (se_proxy se)"

text \<open>What is said of an upstream on this host, in \<open>create_site\<close> and in \<open>update_site_upstream\<close>.\<close>

definition upstream_problem :: "site_env \<Rightarrow> string \<Rightarrow> site_notice option view_op" where
  "upstream_problem se u =
     bind (lift (is_local_upstream (se_brackets se) u)) (\<lambda>is_local.
     if \<not> is_local then ret None
     else bind (table (\<lambda>d. config_get d ''module_wf_enabled'')) (\<lambda>m.
       if m \<noteq> Some ''1'' then ret (Some WfNeeded)
       else bind (lift (parse_upstream_host_port (se_brackets se) u)) (\<lambda>p.
         ret (if snd p \<in> set RESERVED_PORTS then Some (PortReserved (snd p)) else None))))"

text \<open>Asking the agent to close the port, and the mark on the site when it has verified it.\<close>

definition block_port :: "site_env \<Rightarrow> env \<Rightarrow> nat \<Rightarrow> string \<Rightarrow> port_outcome view_op" where
  "block_port se e i u =
     bind (lift (parse_upstream_host_port (se_brackets se) u)) (\<lambda>p.
     bind (on_db (send_command e ''protect_host_port'' [(''port'', JInt (snd p))])) (\<lambda>res.
     let ok = jtruthy (jget_default ''ok'' JNull res);
         verified = jtruthy (jget_default ''blocked'' (jget_default ''ok'' JNull res) res) in
     if ok \<and> verified
     then bind (save e (update_site i (\<lambda>s. s\<lparr>site_host_port_blocked := True\<rparr>))) (\<lambda>_. ret (PortVerified (snd p)))
     else if ok then ret (PortUnverified (snd p))
     else ret (PortOpen (snd p) (jget_default ''error'' (JStr []) res))))"

definition text_or_none :: "form \<Rightarrow> string \<Rightarrow> json" where
  "text_or_none f k = (let t = form_get f k in if t = [] then JNull else JStr t)"

definition new_site :: "env \<Rightarrow> string \<Rightarrow> string \<Rightarrow> string \<Rightarrow> form \<Rightarrow> py_exn + site" where
  "new_site e name domain upstream f =
     rbind (site_validate_domain (Some domain)) (\<lambda>dom.
     rbind (required e (Some 120) (JStr name)) (\<lambda>name'.
     rbind (required e (Some 500) (JStr upstream)) (\<lambda>up.
     rbind (nullable e (Some 500) (text_or_none f ''custom_certificate_path'')) (\<lambda>cert.
     rbind (nullable e (Some 500) (text_or_none f ''custom_certificate_key_path'')) (\<lambda>key.
     Inr \<lparr>site_id = 0, site_name = name', site_domain = dom, site_upstream_url = up,
          site_waf_enabled = form_bool f ''waf_enabled'', site_letsencrypt_enabled = form_bool f ''letsencrypt_enabled'',
          site_letsencrypt_status = ''none'', site_letsencrypt_error = None, site_certificate_path = cert,
          site_certificate_key_path = key, site_is_console = False, site_force_https = False, site_hsts_mode = ''off'',
          site_host_port_blocked = False\<rparr>)))))"

definition add_site :: "site \<Rightarrow> db \<Rightarrow> db" where
  "add_site st d = d\<lparr>sites := sites d @ [st]\<rparr>"

definition ensure_new_site :: "site_env \<Rightarrow> env \<Rightarrow> site \<Rightarrow> unit sess_op" where
  "ensure_new_site se e st =
     bind (sync_site_rule_settings e (site_id st)) (\<lambda>_.
     bind (ensure_site_traffic_policy e (site_id st)) (\<lambda>_.
     bind (ensure_site_security_headers e st) (\<lambda>_.
     bind (ensure_site_nginx_extra_config e (site_id st)) (\<lambda>_.
     apply_nginx se e))))"

definition finish_site :: "site_env \<Rightarrow> env \<Rightarrow> site \<Rightarrow> site_view" where
  "finish_site se e st =
     bind (on_db (ensure_new_site se e st)) (\<lambda>_.
     bind (audit_site e ''site.create'' (site_domain st)
       [(''upstream'', JStr (site_upstream_url st)), (''waf'', JBool (site_waf_enabled st))] ''info'') (\<lambda>_.
     bind (lift (is_local_upstream (se_brackets se) (site_upstream_url st))) (\<lambda>is_local.
     if is_local \<and> se_wf_socket se
     then bind (block_port se e (site_id st) (site_upstream_url st)) (\<lambda>n. ret (site_page (site_id st) [SiteAddedWith n]))
     else ret (site_page (site_id st) [SiteAdded]))))"

definition create_site :: "site_env \<Rightarrow> env \<Rightarrow> form \<Rightarrow> site_view" where
  "create_site se e f = roles_required operators (\<lambda>_.
     bind (table (\<lambda>d. config_get d ''console_site_id'')) (\<lambda>console.
     if console = None \<or> console = Some [] then ret (sites_page [NoConsoleSite])
     else bind (need f ''upstream_url'') (\<lambda>up.
       bind (upstream_problem se (strip up)) (\<lambda>problem. case problem of
          Some n \<Rightarrow> ret (sites_page [n])
        | None \<Rightarrow>
            bind (need f ''domain'') (\<lambda>dom.
            if \<not> is_valid_domain (py_lower (strip dom)) then ret (sites_page [BadDomain])
            else bind (need f ''name'') (\<lambda>name.
              bind (lift (new_site e (strip name) (py_lower (strip dom)) (strip up) f)) (\<lambda>st0.
              bind (table (\<lambda>d. fresh_id (map site_id (sites d)))) (\<lambda>i.
              let st = st0\<lparr>site_id := i\<rparr> in
              bind (save e (add_site st)) (\<lambda>_. finish_site se e st)))))))))"

section \<open>Switches\<close>

definition site_detail :: "site_env \<Rightarrow> env \<Rightarrow> nat \<Rightarrow> site_view" where
  "site_detail se e i = roles_required [ROLE_ADMIN, ROLE_OPERATOR, ROLE_READER] (\<lambda>_.
     with_site i (\<lambda>st.
       bind (on_db (bind (sync_site_rule_settings e i) (\<lambda>_. ensure_site_rows e st))) (\<lambda>_.
       bind (lift (is_local_upstream (se_brackets se) (site_upstream_url st))) (\<lambda>_.
       ret (Page ''proxy/site_detail.html'' None None)))))"

definition set_bot :: "nat \<Rightarrow> bool \<Rightarrow> db \<Rightarrow> db" where
  "set_bot i b d = d\<lparr>bot_protections := map (\<lambda>r. if bp_site_id r = i then r\<lparr>bp_enabled := b\<rparr> else r) (bot_protections d)\<rparr>"

definition update_site_bot_protection :: "site_env \<Rightarrow> env \<Rightarrow> nat \<Rightarrow> form \<Rightarrow> site_view" where
  "update_site_bot_protection se e i f = roles_required operators (\<lambda>_.
     with_site i (\<lambda>st.
       let b = form_bool f ''bot_protection_enabled'' in
       bind (on_db (ensure_site_bot_protection e i)) (\<lambda>_.
       bind (save e (set_bot i b)) (\<lambda>_.
       bind (on_db (apply_nginx se e)) (\<lambda>_.
       ret (site_page i [BotState b]))))))"

definition update_site_waf :: "site_env \<Rightarrow> env \<Rightarrow> nat \<Rightarrow> form \<Rightarrow> site_view" where
  "update_site_waf se e i f = roles_required operators (\<lambda>_.
     with_site i (\<lambda>st.
       let b = form_bool f ''waf_enabled'' in
       bind (save e (update_site i (\<lambda>s. s\<lparr>site_waf_enabled := b\<rparr>))) (\<lambda>_.
       bind (on_db (apply_nginx se e)) (\<lambda>_.
       bind (audit_site e ''site.waf_toggle'' (site_domain st) [(''waf_enabled'', JBool b)] ''info'') (\<lambda>_.
       ret (site_page i [WafState b]))))))"

definition set_rules :: "nat \<Rightarrow> int list \<Rightarrow> db \<Rightarrow> db" where
  "set_rules i enabled d = d\<lparr>rule_settings := map (\<lambda>r. if rs_site_id r = i
     then r\<lparr>rs_enabled := (int (rs_category_id r) \<in> set enabled)\<rparr> else r) (rule_settings d)\<rparr>"

definition update_site_rules :: "site_env \<Rightarrow> env \<Rightarrow> nat \<Rightarrow> form \<Rightarrow> site_view" where
  "update_site_rules se e i f = roles_required operators (\<lambda>_.
     with_site i (\<lambda>st. case form_ints f ''category_ids'' of
        None \<Rightarrow> ret (site_page i [BadCategoryIds])
      | Some enabled \<Rightarrow>
          bind (save e (set_rules i enabled)) (\<lambda>_.
          bind (on_db (apply_nginx se e)) (\<lambda>_.
          ret (site_page i [CategoriesSaved])))))"

section \<open>TLS\<close>

definition HSTS_MODES :: "string list" where
  "HSTS_MODES = [''off'', ''1y'', ''1y-sub'', ''1y-sub-preload'']"

definition hsts_choice :: "form \<Rightarrow> string" where
  "hsts_choice f = (case map_of f ''hsts_mode'' of
      None \<Rightarrow> ''off''
    | Some m \<Rightarrow> if m \<in> set HSTS_MODES then m else ''off'')"

definition set_tls :: "form \<Rightarrow> string option \<Rightarrow> string option \<Rightarrow> site \<Rightarrow> site" where
  "set_tls f cert key s =
     (let le = form_bool f ''letsencrypt_enabled'';
          s1 = s\<lparr>site_letsencrypt_enabled := le, site_certificate_path := cert, site_certificate_key_path := key,
                 site_force_https := form_bool f ''force_https'', site_hsts_mode := hsts_choice f\<rparr>;
          s2 = (if le \<and> site_letsencrypt_status s \<noteq> ''active''
                then s1\<lparr>site_letsencrypt_status := ''pending'', site_letsencrypt_error := None\<rparr> else s1) in
      if \<not> le \<and> site_letsencrypt_enabled s
      then s2\<lparr>site_letsencrypt_status := ''none'', site_letsencrypt_error := None\<rparr> else s2)"

definition update_site_tls :: "site_env \<Rightarrow> env \<Rightarrow> nat \<Rightarrow> form \<Rightarrow> site_view" where
  "update_site_tls se e i f = roles_required operators (\<lambda>_.
     with_site i (\<lambda>st.
       bind (lift (nullable e (Some 500) (text_or_none f ''custom_certificate_path''))) (\<lambda>cert.
       bind (lift (nullable e (Some 500) (text_or_none f ''custom_certificate_key_path''))) (\<lambda>key.
       bind (save e (update_site i (set_tls f cert key))) (\<lambda>_.
       bind (on_db (apply_nginx se e)) (\<lambda>_.
       ret (site_page i [TlsSaved])))))))"

definition bad_email :: string where
  "bad_email = ''El email no es v'' @ [CHR 0xE1] @ ''lido para el certificado Let'' @ [CHR 0x27] @ ''s Encrypt.''"

definition no_challenge :: "string \<Rightarrow> string" where
  "no_challenge err = ''Nginx no recarg'' @ [CHR 0xF3] @ '' para servir el challenge ACME: '' @ err"

definition certbot_command :: "site \<Rightarrow> string \<Rightarrow> string" where
  "certbot_command st email = ''certonly --webroot -w /var/www/certbot -d '' @ site_domain st @ '' --email '' @ email
     @ '' --agree-tos --non-interactive''"

definition run_certbot :: "site_env \<Rightarrow> string \<Rightarrow> string option sess_op" where
  "run_certbot se cmd s =
     (Inr (se_certbot se (calls s) cmd), s\<lparr>calls := calls s @ [DockerExec ''certbot/certbot:latest'' cmd]\<rparr>)"

definition provision_letsencrypt :: "site_env \<Rightarrow> env \<Rightarrow> site \<Rightarrow> string \<Rightarrow> (bool \<times> string) sess_op" where
  "provision_letsencrypt se e st email =
     (if \<not> is_valid_email email then ret (False, bad_email)
      else bind (render_files se e) (\<lambda>_.
        bind (reload_nginx se) (\<lambda>(ok, err).
        if \<not> ok then ret (False, no_challenge err)
        else bind (run_certbot se (certbot_command st email)) (\<lambda>r. ret (case r of
             None \<Rightarrow> (True, []) | Some msg \<Rightarrow> (False, msg))))))"

definition set_le :: "string \<Rightarrow> string option \<Rightarrow> site \<Rightarrow> site" where
  "set_le status err s = s\<lparr>site_letsencrypt_status := status, site_letsencrypt_error := err\<rparr>"

definition cert_not_loaded :: "string \<Rightarrow> string" where
  "cert_not_loaded err = ''Certificado emitido pero nginx no carg'' @ [CHR 0xF3] @ '' el config TLS: '' @ err"

definition json_error :: "nat \<Rightarrow> string \<Rightarrow> 'n reply" where
  "json_error st t = Json st [(''ok'', JBool False), (''error'', JStr t)]"

definition provision_cert :: "site_env \<Rightarrow> env \<Rightarrow> nat \<Rightarrow> site_view" where
  "provision_cert se e i = roles_required operators (\<lambda>u.
     with_site i (\<lambda>st.
     if \<not> site_letsencrypt_enabled st
     then ret (json_error 400 (''Let'' @ [CHR 0x27] @ ''s Encrypt no habilitado para este sitio''))
     else if usr_email u = [] then ret (json_error 400 ''El usuario no tiene email configurado'')
     else
       bind (save e (update_site i (set_le ''pending'' None))) (\<lambda>_.
       bind (on_db (provision_letsencrypt se e st (usr_email u))) (\<lambda>(ok, err).
       if ok then
         bind (save e (update_site i (\<lambda>s. (set_le ''active'' None s)\<lparr>site_force_https := True\<rparr>))) (\<lambda>_.
         bind (on_db (render_files se e)) (\<lambda>_.
         bind (on_db (reload_nginx se)) (\<lambda>(ok, err).
         if \<not> ok
         then bind (save e (update_site i (set_le ''error'' (Some (cert_not_loaded err))))) (\<lambda>_.
              ret (json_error 500 (cert_not_loaded err)))
         else ret (Json 200 [(''ok'', JBool True)]))))
       else bind (save e (update_site i (set_le ''error'' (Some err)))) (\<lambda>_. ret (json_error 500 err))))))"

section \<open>Traffic policy\<close>

text \<open>\<open>_bounded_int\<close>: the number, or the message.\<close>

definition bounded_int :: "form \<Rightarrow> string \<Rightarrow> int \<Rightarrow> int \<Rightarrow> site_notice + int" where
  "bounded_int f k minimum maximum = (case Option.bind (map_of f k) py_int of
      None \<Rightarrow> Inl (BadNumber k)
    | Some v \<Rightarrow> if v < minimum \<or> v > maximum then Inl (OutOfBounds k minimum maximum) else Inr v)"

definition complaint :: "site_notice + int \<Rightarrow> site_notice list" where
  "complaint r = (case r of Inl n \<Rightarrow> [n] | Inr v \<Rightarrow> [])"

definition value_of :: "site_notice + int \<Rightarrow> int" where
  "value_of r = (case r of Inl n \<Rightarrow> 0 | Inr v \<Rightarrow> v)"

definition key_choice :: "form \<Rightarrow> string" where
  "key_choice f = (case map_of f ''key_strategy'' of None \<Rightarrow> ''ip'' | Some k \<Rightarrow> k)"

definition set_policy :: "nat \<Rightarrow> (traffic_policy \<Rightarrow> traffic_policy) \<Rightarrow> db \<Rightarrow> db" where
  "set_policy i g d = d\<lparr>traffic_policies := map (\<lambda>p. if tp_site_id p = i then g p else p) (traffic_policies d)\<rparr>"

definition policy_fields :: "form \<Rightarrow> int \<Rightarrow> int \<Rightarrow> int \<Rightarrow> traffic_policy \<Rightarrow> traffic_policy" where
  "policy_fields f rps burst conns p = p\<lparr>tp_rate_limit_enabled := form_bool f ''rate_limit_enabled'',
     tp_requests_per_second := rps, tp_burst := burst, tp_nodelay := form_bool f ''nodelay'',
     tp_conn_limit_enabled := form_bool f ''conn_limit_enabled'', tp_max_connections := conns,
     tp_key_strategy := key_choice f\<rparr>"

definition update_site_traffic_policy :: "site_env \<Rightarrow> env \<Rightarrow> nat \<Rightarrow> form \<Rightarrow> site_view" where
  "update_site_traffic_policy se e i f = roles_required operators (\<lambda>_.
     with_site i (\<lambda>st.
       bind (on_db (ensure_site_traffic_policy e i)) (\<lambda>_.
       let rps = bounded_int f ''requests_per_second'' 1 5000; burst = bounded_int f ''burst'' 0 20000;
           conns = bounded_int f ''max_connections'' 1 50000;
           problems = complaint rps @ complaint burst @ complaint conns in
       if problems \<noteq> [] then ret (site_page i problems)
       else if key_choice f \<notin> {''ip'', ''forwarded_for''} then ret (site_page i [BadKeyStrategy])
       else
         bind (save e (set_policy i (policy_fields f (value_of rps) (value_of burst) (value_of conns)))) (\<lambda>_.
         bind (on_db (apply_nginx se e)) (\<lambda>_.
         ret (site_page i [PolicySaved]))))))"

end
