(* ===== verification/SiteForms.thy ===== *)
theory SiteForms
  imports SiteViews
begin

text \<open>
  The views on the protected sites (\<^verbatim>\<open>app/proxy/routes.py\<close>, second part): headers, custom
  rules, extra directives, rendering, deletion, upstream, closed countries, rule exclusions, the
  site of the console; and a request to them served.
\<close>

section \<open>Security headers\<close>

definition header_by_id :: "nat \<Rightarrow> int \<Rightarrow> db \<Rightarrow> security_header option" where
  "header_by_id i k d = find (\<lambda>h. int (sh_id h) = k) (headers_of i d)"

text \<open>A header of the form: its row if it is one of the site, name, value, enabled, always.\<close>

record header_entry =
  he_id :: nat
  he_name :: string
  he_value :: string
  he_enabled :: bool
  he_always :: bool

definition posted_header :: "form \<Rightarrow> int list \<Rightarrow> int list \<Rightarrow> nat \<Rightarrow> int \<Rightarrow> header_entry" where
  "posted_header f enabled_ids always_ids hid k =
     (let enabled = k \<in> set enabled_ids in
      \<lparr>he_id = hid, he_name = strip (form_get f (''header_name_'' @ show_int k)),
       he_value = strip (form_get f (''header_value_'' @ show_int k)),
       he_enabled = enabled, he_always = (enabled \<and> k \<in> set always_ids)\<rparr>)"

fun header_updates :: "(int \<Rightarrow> nat option) \<Rightarrow> (nat \<Rightarrow> int \<Rightarrow> header_entry) \<Rightarrow> int list \<Rightarrow> site_notice list \<times> header_entry list" where
  "header_updates known entry [] = ([], [])"
| "header_updates known entry (k # ks) =
     (let (errors, updates) = header_updates known entry ks in
      case known k of
        None \<Rightarrow> (UnknownHeader # errors, updates)
      | Some hid \<Rightarrow> (let h = entry hid k in
          (map HeaderProblem (validate_security_header (he_name h) (he_value h)) @ errors, h # updates)))"

definition custom_entries :: "form \<Rightarrow> header_entry list" where
  "custom_entries f =
     filter (\<lambda>h. he_name h \<noteq> [] \<or> he_value h \<noteq> [] \<or> he_enabled h)
       (map (\<lambda>(index, name, value).
          let enabled = show_nat index \<in> set (form_list f ''custom_header_enabled'') in
          \<lparr>he_id = 0, he_name = strip name, he_value = strip value, he_enabled = enabled,
           he_always = (enabled \<and> show_nat index \<in> set (form_list f ''custom_header_always''))\<rparr>)
        (enumerate 0 (List.zip (form_list f ''custom_header_name'') (form_list f ''custom_header_value''))))"

definition entry_problems :: "header_entry list \<Rightarrow> site_notice list" where
  "entry_problems hs = concat (map (\<lambda>h. map HeaderProblem (validate_security_header (he_name h) (he_value h))) hs)"

definition write_header :: "header_entry \<Rightarrow> db \<Rightarrow> db" where
  "write_header h d = d\<lparr>security_headers := map (\<lambda>r. if sh_id r = he_id h
     then r\<lparr>sh_name := he_name h, sh_value := he_value h, sh_enabled := he_enabled h, sh_always := he_always h,
            sh_is_default := False\<rparr> else r) (security_headers d)\<rparr>"

definition next_header_position :: "nat \<Rightarrow> db \<Rightarrow> int" where
  "next_header_position i d = (let ps = map sh_position (headers_of i d) in (if ps = [] then 0 else Max (set ps)) + 1)"

definition append_header :: "nat \<Rightarrow> int \<times> header_entry \<Rightarrow> db \<Rightarrow> db" where
  "append_header i ph d = add_header \<lparr>sh_id = 0, sh_site_id = i, sh_name = he_name (snd ph), sh_value = he_value (snd ph),
     sh_enabled = he_enabled (snd ph), sh_always = he_always (snd ph), sh_position = fst ph, sh_is_default = False\<rparr> d"

definition write_headers :: "nat \<Rightarrow> header_entry list \<Rightarrow> header_entry list \<Rightarrow> db \<Rightarrow> db" where
  "write_headers i updates new d =
     (let d1 = fold write_header updates d; p = next_header_position i d1 in
      fold (append_header i) (map (\<lambda>(k, h). (p + int k, h)) (enumerate 0 new)) d1)"

definition update_site_security_headers :: "site_env \<Rightarrow> env \<Rightarrow> nat \<Rightarrow> form \<Rightarrow> site_view" where
  "update_site_security_headers se e i f = roles_required operators (\<lambda>_.
     with_site i (\<lambda>st.
       bind (on_db (ensure_site_security_headers e st)) (\<lambda>_.
       case (form_ints f ''enabled_header_ids'', form_ints f ''always_header_ids'', form_ints f ''header_ids'') of
         (Some enabled_ids, Some always_ids, Some header_ids) \<Rightarrow>
           bind (table (\<lambda>d. header_updates (\<lambda>k. map_option sh_id (header_by_id i k d))
                   (posted_header f enabled_ids always_ids) header_ids)) (\<lambda>(errors, updates).
           let new = custom_entries f; problems = errors @ entry_problems new in
           if problems \<noteq> [] then ret (site_page i problems)
           else bind (save e (write_headers i updates new)) (\<lambda>_.
                bind (on_db (apply_nginx se e)) (\<lambda>_. ret (site_page i [HeadersSaved]))))
       | _ \<Rightarrow> ret (site_page i [BadHeaderIds]))))"

section \<open>Custom rules\<close>

record rule_entry =
  re_id :: nat
  re_name :: string
  re_text :: string
  re_enabled :: bool

fun rule_updates :: "(int \<Rightarrow> nat option) \<Rightarrow> form \<Rightarrow> int list \<Rightarrow> int list \<Rightarrow> py_exn + site_notice list \<times> rule_entry list" where
  "rule_updates known f enabled_ids [] = Inr ([], [])"
| "rule_updates known f enabled_ids (k # ks) =
     (case known k of
        None \<Rightarrow> rbind (rule_updates known f enabled_ids ks) (\<lambda>(errors, updates). Inr (UnknownRule # errors, updates))
      | Some rid \<Rightarrow>
          let name = strip (form_get f (''rule_name_'' @ show_int k)); t = strip (form_get f (''rule_text_'' @ show_int k)) in
          rbind (validate_custom_rule name t) (\<lambda>ps.
          rbind (rule_updates known f enabled_ids ks) (\<lambda>(errors, updates).
          Inr (map RuleProblem ps @ errors,
               \<lparr>re_id = rid, re_name = name, re_text = t, re_enabled = (k \<in> set enabled_ids)\<rparr> # updates))))"

definition write_rule :: "rule_entry \<Rightarrow> db \<Rightarrow> db" where
  "write_rule r d = d\<lparr>custom_rules := map (\<lambda>x. if cr_id x = re_id r
     then x\<lparr>cr_name := re_name r, cr_rule_text := re_text r, cr_enabled := re_enabled r\<rparr> else x) (custom_rules d)\<rparr>"

definition next_rule_position :: "nat \<Rightarrow> db \<Rightarrow> int" where
  "next_rule_position i d = (let ps = map cr_position (custom_rules_of i d) in (if ps = [] then 0 else Max (set ps)) + 1)"

definition append_rule :: "nat \<Rightarrow> string \<Rightarrow> string \<Rightarrow> bool \<Rightarrow> db \<Rightarrow> db" where
  "append_rule i name t enabled d = d\<lparr>custom_rules := custom_rules d @
     [\<lparr>cr_id = fresh_id (map cr_id (custom_rules d)), cr_site_id = i, cr_name = name, cr_rule_text = t, cr_enabled = enabled,
       cr_position = next_rule_position i d\<rparr>]\<rparr>"

definition update_site_custom_rules :: "site_env \<Rightarrow> env \<Rightarrow> nat \<Rightarrow> form \<Rightarrow> site_view" where
  "update_site_custom_rules se e i f = roles_required operators (\<lambda>_.
     with_site i (\<lambda>st.
       case (form_ints f ''enabled_rule_ids'', form_ints f ''rule_ids'') of
         (Some enabled_ids, Some rule_ids) \<Rightarrow>
           bind (table (\<lambda>d k. map_option cr_id (find (\<lambda>r. int (cr_id r) = k) (custom_rules_of i d)))) (\<lambda>known.
           bind (lift (rule_updates known f enabled_ids rule_ids)) (\<lambda>(errors, updates).
           let name = strip (form_get f ''new_rule_name''); t = strip (form_get f ''new_rule_text'');
               enabled = form_bool f ''new_rule_enabled''; create_new = name \<noteq> [] \<or> t \<noteq> [] \<or> enabled in
           bind (lift (if create_new then validate_custom_rule name t else Inr [])) (\<lambda>ps.
           let problems = errors @ map RuleProblem ps in
           if problems \<noteq> [] then ret (site_page i problems)
           else bind (save e (\<lambda>d. let d1 = fold write_rule updates d in
                     if create_new then append_rule i name t enabled d1 else d1)) (\<lambda>_.
                bind (on_db (apply_nginx se e)) (\<lambda>_. ret (site_page i [RulesSaved]))))))
       | _ \<Rightarrow> ret (site_page i [BadRuleIds])))"

section \<open>Extra directives\<close>

definition set_extra :: "nat \<Rightarrow> bool \<Rightarrow> string \<Rightarrow> string \<Rightarrow> db \<Rightarrow> db" where
  "set_extra i enabled server location d = d\<lparr>nginx_extras := map (\<lambda>x. if nx_site_id x = i
     then x\<lparr>nx_enabled := enabled, nx_server_snippet := server, nx_location_snippet := location\<rparr> else x) (nginx_extras d)\<rparr>"

definition update_site_nginx_extra :: "site_env \<Rightarrow> env \<Rightarrow> nat \<Rightarrow> form \<Rightarrow> site_view" where
  "update_site_nginx_extra se e i f = roles_required operators (\<lambda>_.
     with_site i (\<lambda>st.
       bind (on_db (ensure_site_nginx_extra_config e i)) (\<lambda>_.
       let server = strip (form_get f ''server_snippet''); location = strip (form_get f ''location_snippet'') in
       bind (lift (validate_nginx_extra_config (se_nginx se) server location)) (\<lambda>errors.
       if errors \<noteq> [] then ret (site_page i (map SnippetProblem errors))
       else bind (save e (set_extra i (form_bool f ''enabled'') server location)) (\<lambda>_.
            bind (on_db (apply_nginx se e)) (\<lambda>_. ret (site_page i [ExtraSaved])))))))"

section \<open>Rendering, deletion\<close>

definition audit_render :: "env \<Rightarrow> (string \<times> json) list \<Rightarrow> string \<Rightarrow> string \<Rightarrow> unit view_op" where
  "audit_render e detail severity status =
     audit_as e (\<lambda>e'. audit_entry e' ''system.nginx_render'' (Some ''system'') (Some ''nginx'') (Some detail) severity status None)"

definition render_configs :: "site_env \<Rightarrow> env \<Rightarrow> site_view" where
  "render_configs se e = roles_required operators (\<lambda>_.
     bind (on_db (render_files se e)) (\<lambda>files.
     bind (on_db (reload_nginx se)) (\<lambda>(ok, err).
     if ok then
       bind (audit_render e [(''files'', JInt (int (length files)))] ''info'' ''success'') (\<lambda>_.
       ret (Json 200 [(''ok'', JBool True), (''files'', JInt (int (length files)))]))
     else
       bind (audit_render e [(''error'', JStr err)] ''error'' ''failure'') (\<lambda>_.
       ret (json_error 500 (if err = [] then ''No se pudo recargar nginx'' else err))))))"

definition remove_site :: "nat \<Rightarrow> db \<Rightarrow> db" where
  "remove_site i d = d\<lparr>sites := filter (\<lambda>s. site_id s \<noteq> i) (sites d),
     rule_settings := filter (\<lambda>r. rs_site_id r \<noteq> i) (rule_settings d),
     events := filter (\<lambda>v. ev_site_id v \<noteq> Some i) (events d),
     traffic_policies := filter (\<lambda>p. tp_site_id p \<noteq> i) (traffic_policies d),
     security_headers := filter (\<lambda>h. sh_site_id h \<noteq> i) (security_headers d),
     nginx_extras := filter (\<lambda>x. nx_site_id x \<noteq> i) (nginx_extras d),
     custom_rules := filter (\<lambda>r. cr_site_id r \<noteq> i) (custom_rules d),
     bot_protections := filter (\<lambda>b. bp_site_id b \<noteq> i) (bot_protections d),
     geo_entries := filter (\<lambda>g. geo_site_id g \<noteq> i) (geo_entries d),
     rule_exclusions := filter (\<lambda>x. we_site_id x \<noteq> i) (rule_exclusions d)\<rparr>"

definition unprotect :: "env \<Rightarrow> int \<Rightarrow> unit view_op" where
  "unprotect e port = bind (on_db (send_command e ''unprotect_host_port'' [(''port'', JInt port)])) (\<lambda>_. ret ())"

definition delete_site :: "site_env \<Rightarrow> env \<Rightarrow> nat \<Rightarrow> site_view" where
  "delete_site se e i = roles_required [ROLE_ADMIN] (\<lambda>_.
     with_site i (\<lambda>st.
     if site_is_console st then ret (site_page i [ConsoleNotDeletable])
     else
       bind (if site_host_port_blocked st \<and> se_wf_socket se
             then bind (lift (parse_upstream_host_port (se_brackets se) (site_upstream_url st))) (\<lambda>p.
                  if snd p \<noteq> 0 then unprotect e (snd p) else ret ())
             else ret ()) (\<lambda>_.
       bind (save e (remove_site i)) (\<lambda>_.
       bind (on_db (apply_nginx se e)) (\<lambda>_.
       bind (audit_site e ''site.delete'' (site_domain st) [(''name'', JStr (site_name st))] ''warning'') (\<lambda>_.
       ret (Goto ''proxy.dashboard'' (Some [SiteDeleted (site_name st)]))))))))"

section \<open>The upstream of a site\<close>

definition move_port :: "site_env \<Rightarrow> env \<Rightarrow> site \<Rightarrow> int \<Rightarrow> string \<Rightarrow> site_notice view_op" where
  "move_port se e old old_port new =
     (if \<not> se_wf_socket se then ret UpstreamSaved
      else
        bind (if site_host_port_blocked old
              then bind (lift (is_local_upstream (se_brackets se) (site_upstream_url old))) (\<lambda>b. if b then unprotect e old_port else ret ())
              else ret ()) (\<lambda>_.
        bind (lift (is_local_upstream (se_brackets se) new)) (\<lambda>b.
        if b then bind (block_port se e (site_id old) new) (\<lambda>n. ret (UpstreamSavedWith n))
        else ret UpstreamSaved)))"

definition change_upstream :: "site_env \<Rightarrow> env \<Rightarrow> site \<Rightarrow> string \<Rightarrow> site_view" where
  "change_upstream se e st new =
     bind (lift (parse_upstream_host_port (se_brackets se) (site_upstream_url st))) (\<lambda>old.
     bind (lift (required e (Some 500) (JStr new))) (\<lambda>up.
     bind (save e (update_site (site_id st) (\<lambda>s. s\<lparr>site_upstream_url := up, site_host_port_blocked := False\<rparr>))) (\<lambda>_.
     bind (on_db (apply_nginx se e)) (\<lambda>_.
     bind (audit_site e ''site.upstream_update'' (site_domain st)
       [(''old'', JStr (site_upstream_url st)), (''new'', JStr new)] ''warning'') (\<lambda>_.
     bind (move_port se e st (snd old) new) (\<lambda>n.
     ret (site_page (site_id st) [n])))))))"

definition update_site_upstream :: "site_env \<Rightarrow> env \<Rightarrow> nat \<Rightarrow> form \<Rightarrow> site_view" where
  "update_site_upstream se e i f = roles_required operators (\<lambda>_.
     with_site i (\<lambda>st.
     let new = strip (form_get f ''upstream_url'') in
     if site_is_console st then ret (site_page i [ConsoleUpstream])
     else if new = [] then ret (site_page i [UpstreamEmpty])
     else bind (upstream_problem se new) (\<lambda>problem. case problem of
          Some n \<Rightarrow> ret (site_page i [n])
        | None \<Rightarrow>
            if new = site_upstream_url st then ret (site_page i [UpstreamSame])
            else change_upstream se e st new)))"

section \<open>Closed countries\<close>

definition geo_key :: "nat \<Rightarrow> string \<Rightarrow> geo_entry \<Rightarrow> bool" where
  "geo_key i c g \<longleftrightarrow> geo_site_id g = i \<and> geo_country_code g = c"

definition close_country :: "nat \<Rightarrow> string \<Rightarrow> db \<Rightarrow> db" where
  "close_country i c d =
     (if find (geo_key i c) (geo_entries d) \<noteq> None
      then d\<lparr>geo_entries := map (\<lambda>g. if geo_key i c g then g\<lparr>geo_enabled := True\<rparr> else g) (geo_entries d)\<rparr>
      else d\<lparr>geo_entries := geo_entries d @
        [\<lparr>geo_site_id = i, geo_country_code = c, geo_country_name = country_name c, geo_enabled = True\<rparr>]\<rparr>)"

definition publish_countries :: "site_env \<Rightarrow> site \<Rightarrow> site_notice list view_op" where
  "publish_countries se st =
     bind (on_db (write_blocklist_conf [st])) (\<lambda>_.
     bind (on_db (reload_nginx se)) (\<lambda>(ok, err).
     ret (if ok then [] else [NotReloaded (if err = [] then ''socket no disponible en modo local'' else err)])))"

definition geo_blocklist_add :: "site_env \<Rightarrow> env \<Rightarrow> nat \<Rightarrow> form \<Rightarrow> site_view" where
  "geo_blocklist_add se e i f = roles_required operators (\<lambda>_.
     with_site i (\<lambda>st.
     let c = py_upper (strip (form_get f ''country_code'')) in
     if length c \<noteq> 2 then ret (site_page i [BadCountry])
     else bind (table (\<lambda>d. find (geo_key i c) (geo_entries d))) (\<lambda>existing.
       bind (save e (close_country i c)) (\<lambda>_.
       bind (publish_countries se st) (\<lambda>ns.
       ret (site_page i ((if existing \<noteq> None then CountryBack (country_name c) else CountryAdded (country_name c)) # ns)))))))"

definition geo_blocklist_remove :: "site_env \<Rightarrow> env \<Rightarrow> nat \<Rightarrow> string \<Rightarrow> site_view" where
  "geo_blocklist_remove se e i country = roles_required operators (\<lambda>_.
     with_site i (\<lambda>st.
     bind (table (\<lambda>d. find (geo_key i (py_upper country)) (geo_entries d))) (\<lambda>r. case r of
        None \<Rightarrow> raise NotFound
      | Some g \<Rightarrow>
          bind (save e (\<lambda>d. d\<lparr>geo_entries := filter (\<lambda>x. \<not> geo_key i (py_upper country) x) (geo_entries d)\<rparr>)) (\<lambda>_.
          bind (publish_countries se st) (\<lambda>ns.
          ret (site_page i (ns @ [CountryRemoved (geo_country_name g)])))))))"

section \<open>Rule exclusions\<close>

definition set_exclusion :: "nat \<Rightarrow> bool \<Rightarrow> db \<Rightarrow> db" where
  "set_exclusion k b d = d\<lparr>rule_exclusions := map (\<lambda>x. if we_id x = k then x\<lparr>we_enabled := b\<rparr> else x) (rule_exclusions d)\<rparr>"

text \<open>The loop over the exclusions of the form; \<open>None\<close> is the early return at an unknown one.\<close>

fun toggle_exclusions :: "nat \<Rightarrow> int list \<Rightarrow> int list \<Rightarrow> (int \<times> bool) list \<Rightarrow> (int \<times> bool) list option view_op" where
  "toggle_exclusions i enabled [] toggled = ret (Some toggled)"
| "toggle_exclusions i enabled (k # ks) toggled =
     bind (table (\<lambda>d. find (\<lambda>x. int (we_id x) = k) (exclusions_of i d))) (\<lambda>r. case r of
        None \<Rightarrow> ret None
      | Some x \<Rightarrow>
          if we_enabled x \<noteq> (k \<in> set enabled)
          then bind (on_db (update_db (set_exclusion (we_id x) (k \<in> set enabled)))) (\<lambda>_.
               toggle_exclusions i enabled ks (toggled @ [(we_rule_id x, k \<in> set enabled)]))
          else toggle_exclusions i enabled ks toggled)"

definition audit_exclusion :: "env \<Rightarrow> user \<Rightarrow> string \<Rightarrow> string \<Rightarrow> json \<Rightarrow> unit view_op" where
  "audit_exclusion e u action domain detail =
     audit_as e (\<lambda>e'. audit_text_entry e' action (Some ''site'') (Some domain) (py_repr detail) ''warning'' ''success''
       (Some (usr_email u, None)))"

definition toggled_json :: "(int \<times> bool) list \<Rightarrow> json" where
  "toggled_json ts = JObj [(''toggled'', JList (map (\<lambda>(k, b). JObj [(''rule_id'', JInt k), (''enabled'', JBool b)]) ts))]"

definition add_exclusion :: "nat \<Rightarrow> int \<Rightarrow> string \<Rightarrow> db \<Rightarrow> db" where
  "add_exclusion i rid comment d = d\<lparr>rule_exclusions := rule_exclusions d @
     [\<lparr>we_id = fresh_id (map we_id (rule_exclusions d)), we_site_id = i, we_rule_id = rid,
       we_comment = (if comment = [] then None else Some (take 200 comment)), we_enabled = True\<rparr>]\<rparr>"

definition finish_exclusions :: "site_env \<Rightarrow> env \<Rightarrow> nat \<Rightarrow> site_view" where
  "finish_exclusions se e i =
     bind (save e (\<lambda>d. d)) (\<lambda>_. bind (on_db (apply_nginx se e)) (\<lambda>_. ret (site_page i [ExclusionsSaved])))"

definition new_exclusion :: "site_env \<Rightarrow> env \<Rightarrow> user \<Rightarrow> site \<Rightarrow> form \<Rightarrow> site_view" where
  "new_exclusion se e u st f =
     (let raw = strip (form_get f ''new_exclusion_rule_id''); comment = strip (form_get f ''new_exclusion_comment'') in
      if raw = [] then finish_exclusions se e (site_id st)
      else bind (lift (validate_rule_exclusion (Some raw) comment)) (\<lambda>(rule_id, errs).
        if errs \<noteq> [] then ret (site_page (site_id st) (map ExclusionProblem errs))
        else case rule_id of
          None \<Rightarrow> raise TypeError
        | Some rid \<Rightarrow>
            bind (table (\<lambda>d. find (\<lambda>x. we_site_id x = site_id st \<and> we_rule_id x = rid) (rule_exclusions d))) (\<lambda>existing.
            if existing \<noteq> None then ret (site_page (site_id st) [ExclusionKnown rid])
            else bind (on_db (update_db (add_exclusion (site_id st) rid comment))) (\<lambda>_.
              bind (audit_exclusion e u ''waf.rule_exclusion.add'' (site_domain st)
                (JObj [(''rule_id'', JInt rid), (''comment'', JStr comment)])) (\<lambda>_.
              finish_exclusions se e (site_id st))))))"

definition update_site_rule_exclusions :: "site_env \<Rightarrow> env \<Rightarrow> nat \<Rightarrow> form \<Rightarrow> site_view" where
  "update_site_rule_exclusions se e i f = roles_required operators (\<lambda>u.
     with_site i (\<lambda>st.
       case (form_ints f ''enabled_exclusion_ids'', form_ints f ''exclusion_ids'') of
         (Some enabled, Some ids) \<Rightarrow>
           bind (toggle_exclusions i enabled ids []) (\<lambda>r. case r of
              None \<Rightarrow> ret (site_page i [UnknownExclusion])
            | Some toggled \<Rightarrow>
                bind (if toggled \<noteq> [] then audit_exclusion e u ''waf.rule_exclusion.toggle'' (site_domain st) (toggled_json toggled)
                      else ret ()) (\<lambda>_.
                new_exclusion se e u st f))
       | _ \<Rightarrow> ret (site_page i [BadExclusionIds])))"

definition remove_site_rule_exclusion :: "site_env \<Rightarrow> env \<Rightarrow> nat \<Rightarrow> nat \<Rightarrow> site_view" where
  "remove_site_rule_exclusion se e i k = roles_required operators (\<lambda>u.
     with_site i (\<lambda>st.
     bind (table (\<lambda>d. find (\<lambda>x. we_id x = k \<and> we_site_id x = i) (rule_exclusions d))) (\<lambda>r. case r of
        None \<Rightarrow> raise NotFound
      | Some x \<Rightarrow>
          bind (save e (\<lambda>d. d\<lparr>rule_exclusions := filter (\<lambda>y. we_id y \<noteq> k) (rule_exclusions d)\<rparr>)) (\<lambda>_.
          bind (on_db (apply_nginx se e)) (\<lambda>_.
          bind (audit_exclusion e u ''waf.rule_exclusion.remove'' (site_domain st) (JObj [(''rule_id'', JInt (we_rule_id x))])) (\<lambda>_.
          ret (site_page i [ExclusionRemoved (we_rule_id x)])))))))"

section \<open>The site of the console\<close>

definition console_row :: "db \<Rightarrow> site option" where
  "console_row d =
     (let by_id = (case config_get d ''console_site_id'' of
          None \<Rightarrow> None
        | Some t \<Rightarrow> if t \<noteq> [] \<and> list_all is_digit t then Option.bind (py_int t) (\<lambda>k. find_site (nat k) d) else None) in
      case by_id of Some st \<Rightarrow> Some st | None \<Rightarrow> find site_is_console (sites d))"

definition console_site :: "nat \<Rightarrow> site" where
  "console_site i = \<lparr>site_id = i, site_name = ''WardNode Console'', site_domain = [], site_upstream_url = [],
     site_waf_enabled = False, site_letsencrypt_enabled = False, site_letsencrypt_status = ''none'',
     site_letsencrypt_error = None, site_certificate_path = None, site_certificate_key_path = None,
     site_is_console = True, site_force_https = False, site_hsts_mode = ''off'', site_host_port_blocked = False\<rparr>"

definition console_fields :: "string \<Rightarrow> string \<Rightarrow> site \<Rightarrow> site" where
  "console_fields domain upstream s = s\<lparr>site_domain := domain, site_upstream_url := upstream, site_is_console := True\<rparr>"

definition put_console :: "nat \<Rightarrow> string \<Rightarrow> string \<Rightarrow> db \<Rightarrow> db" where
  "put_console i domain upstream d =
     (if find_site i d = None then add_site (console_fields domain upstream (console_site i)) d
      else update_site i (console_fields domain upstream) d)"

definition console_port :: "form \<Rightarrow> string" where
  "console_port f = (let t = strip (case map_of f ''console_port'' of None \<Rightarrow> ''5000'' | Some t \<Rightarrow> t) in
     if t = [] then ''5000'' else t)"

definition set_config :: "env \<Rightarrow> string \<Rightarrow> string \<Rightarrow> unit view_op" where
  "set_config e k v = on_db (AppConfig_set e k (Some v) False)"

definition finish_console :: "site_env \<Rightarrow> env \<Rightarrow> nat \<Rightarrow> string \<Rightarrow> bool \<Rightarrow> site_view" where
  "finish_console se e i domain first_setup =
     bind (set_config e ''console_site_id'' (show_nat i)) (\<lambda>_.
     bind (table (\<lambda>d. events d \<noteq> [])) (\<lambda>has_events.
     bind (if first_setup \<and> has_events then set_config e ''waf_reset_offer_pending'' ''1'' else ret ()) (\<lambda>_.
     bind (table (\<lambda>d. config_get d ''module_wf_enabled'')) (\<lambda>m.
     if m = Some ''1'' \<and> se_wf_socket se
     then bind (on_db (send_command e ''secure_console_port'' [])) (\<lambda>_.
          ret (GotoTarget (''http://'' @ domain @ ''/auth/login?reason=port_secured'')))
     else ret (site_page i [ConsoleSaved])))))"

definition save_console_site :: "site_env \<Rightarrow> env \<Rightarrow> form \<Rightarrow> site_view" where
  "save_console_site se e f = roles_required [ROLE_ADMIN] (\<lambda>_.
     let domain = py_lower (strip (form_get f ''console_domain'')) in
     if domain = [] then ret (Goto ''proxy.settings'' (Some [DomainRequired]))
     else if \<not> is_valid_domain domain then ret (Goto ''proxy.settings'' (Some [BadDomain]))
     else
       bind (table console_row) (\<lambda>row.
       bind (table (\<lambda>d. case row of Some st \<Rightarrow> site_id st | None \<Rightarrow> fresh_id (map site_id (sites d)))) (\<lambda>i.
       bind (lift (site_validate_domain (Some domain))) (\<lambda>dom.
       bind (lift (required e (Some 500) (JStr (''http://console:'' @ console_port f)))) (\<lambda>up.
       bind (save e (put_console i dom up)) (\<lambda>_.
       finish_console se e i domain (row = None)))))))"

section \<open>Requests\<close>

datatype site_request =
    CreateSite form | SitePage nat | SetBot nat form | SetWaf nat form | SetRules nat form | SetTls nat form
  | ProvisionCert nat | SetPolicy nat form | SetHeaders nat form | SetCustomRules nat form | SetExtra nat form
  | Render | DeleteSite nat | SetUpstream nat form | CloseCountry nat form | OpenCountry nat string
  | SetExclusions nat form | RemoveExclusion nat nat | SetConsole form

fun site_view_of :: "site_env \<Rightarrow> env \<Rightarrow> site_request \<Rightarrow> site_view" where
  "site_view_of se e (CreateSite f) = create_site se e f"
| "site_view_of se e (SitePage i) = site_detail se e i"
| "site_view_of se e (SetBot i f) = update_site_bot_protection se e i f"
| "site_view_of se e (SetWaf i f) = update_site_waf se e i f"
| "site_view_of se e (SetRules i f) = update_site_rules se e i f"
| "site_view_of se e (SetTls i f) = update_site_tls se e i f"
| "site_view_of se e (ProvisionCert i) = provision_cert se e i"
| "site_view_of se e (SetPolicy i f) = update_site_traffic_policy se e i f"
| "site_view_of se e (SetHeaders i f) = update_site_security_headers se e i f"
| "site_view_of se e (SetCustomRules i f) = update_site_custom_rules se e i f"
| "site_view_of se e (SetExtra i f) = update_site_nginx_extra se e i f"
| "site_view_of se e Render = render_configs se e"
| "site_view_of se e (DeleteSite i) = delete_site se e i"
| "site_view_of se e (SetUpstream i f) = update_site_upstream se e i f"
| "site_view_of se e (CloseCountry i f) = geo_blocklist_add se e i f"
| "site_view_of se e (OpenCountry i c) = geo_blocklist_remove se e i c"
| "site_view_of se e (SetExclusions i f) = update_site_rule_exclusions se e i f"
| "site_view_of se e (RemoveExclusion i k) = remove_site_rule_exclusion se e i k"
| "site_view_of se e (SetConsole f) = save_console_site se e f"

definition serve_site :: "site_env \<Rightarrow> env \<Rightarrow> cookie \<Rightarrow> site_request \<Rightarrow> web \<Rightarrow> site_notice list reply \<times> web" where
  "serve_site se e c rq w = serve_view (site_view_of se e rq) c w"

end
