(* ===== verification/Keeping.thy ===== *)
theory Keeping
  imports Web
begin

text \<open>
  A property of the session that an operation keeps, whatever fails in it, and how it is carried
  from the operations of a session into the views.
\<close>

definition keeps :: "(session \<Rightarrow> bool) \<Rightarrow> 'a sess_op \<Rightarrow> bool" where
  "keeps Q m \<longleftrightarrow> moves (\<lambda>s s'. Q s \<longrightarrow> Q s') m"

lemma keeps_relation: "reflp (\<lambda>s s'. Q s \<longrightarrow> Q s')" "transp (\<lambda>s s'. Q s \<longrightarrow> Q s')"
  by (auto simp: reflp_def transp_def)

lemma keepsI: "(\<And>s. Q s \<Longrightarrow> Q (snd (m s))) \<Longrightarrow> keeps Q m"
  by (simp add: keeps_def moves_def)

lemma keepsD: "keeps Q m \<Longrightarrow> Q s \<Longrightarrow> Q (snd (m s))"
  by (simp add: keeps_def moves_def)

lemma keeps_bind: "keeps Q m \<Longrightarrow> (\<And>x. keeps Q (f x)) \<Longrightarrow> keeps Q (bind m f)"
  unfolding keeps_def by (rule moves_bind [OF keeps_relation(2)])

lemma keeps_catch: "keeps Q m \<Longrightarrow> (\<And>x. keeps Q (h x)) \<Longrightarrow> keeps Q (catch m h)"
  unfolding keeps_def by (rule moves_catch [OF keeps_relation(2)])

lemma keeps_iterate: "(\<And>x. x \<in> set xs \<Longrightarrow> keeps Q (f x)) \<Longrightarrow> keeps Q (iterate f xs)"
  unfolding keeps_def by (rule moves_iterate [OF keeps_relation])

lemma keeps_run_all: "(\<And>m. m \<in> set ms \<Longrightarrow> keeps Q m) \<Longrightarrow> keeps Q (run_all ms)"
  unfolding keeps_def by (rule moves_run_all [OF keeps_relation])

lemma keeps_reading: "keeps Q (ret x)" "keeps Q (raise y)" "keeps Q (fetch g)" "keeps Q (lift r)"
  by (rule keepsI; simp add: lift_def split: sum.split)+

lemmas keeps_control = moves_control [where R = "\<lambda>(s::session) s'. Q s \<longrightarrow> Q s'" for Q, folded keeps_def]

lemma holds_on_db: "keeps Q m \<Longrightarrow> holds (\<lambda>v. Q (vi_session v)) (on_db m)"
  by (rule holdsI) (auto simp: on_db_def dest: keepsD split: prod.split)

section \<open>A property of the tables\<close>

text \<open>It holds of the pending and of the committed tables, and the constraints of the committed ones.\<close>

definition tables :: "(db \<Rightarrow> bool) \<Rightarrow> session \<Rightarrow> bool" where
  "tables I s \<longleftrightarrow> I (working s) \<and> I (committed s) \<and> constraints (committed s)"

lemma tables_update: "(\<And>d. I d \<Longrightarrow> I (f d)) \<Longrightarrow> keeps (tables I) (update_db f)"
  by (rule keepsI) (simp add: tables_def update_db_def)

lemma tables_commit: "keeps (tables I) (commit e)"
proof (rule keepsI)
  fix s assume "tables I s"
  then show "tables I (snd (commit e s))" by (cases rule: commit_cases [of e s]) (simp_all add: tables_def)
qed

lemma tables_rollback: "keeps (tables I) rollback"
  by (rule keepsI) (simp add: tables_def rollback_def)

lemma tables_outside:
  "(\<And>s. working (snd (m s)) = working s \<and> committed (snd (m s)) = committed s) \<Longrightarrow> keeps (tables I) m"
  by (rule keepsI) (simp add: tables_def)

lemmas tables_intros = keeps_bind keeps_catch keeps_iterate keeps_run_all keeps_reading keeps_control
  tables_commit tables_rollback tables_update

lemma tables_store_audit: "(\<And>d. I d \<Longrightarrow> I (add_audit a d)) \<Longrightarrow> keeps (tables I) (store_audit e a)"
  unfolding store_audit_def by (intro tables_intros)

lemma tables_log_audit:
  "(\<And>d a. I d \<Longrightarrow> I (add_audit a d)) \<Longrightarrow> keeps (tables I) (log_audit e action rt rn detail sev st actor)"
  unfolding log_audit_def by (intro tables_store_audit)

lemma holds_tables_save: "(\<And>d. I d \<Longrightarrow> I (f d)) \<Longrightarrow> holds (\<lambda>v. tables I (vi_session v)) (save e f)"
  unfolding save_def by (intro holds_on_db tables_intros)

lemma holds_tables_audit: "(\<And>d a. I d \<Longrightarrow> I (add_audit a d)) \<Longrightarrow> holds (\<lambda>v. tables I (vi_session v)) (audit_as e entry)"
  by (rule holdsI, unfold audit_as_def Let_def, rule holdsD [OF holds_on_db [OF tables_store_audit] surjective_pairing])

text \<open>A request: the session after it is settled again.\<close>

lemma serve_view_tables:
  assumes "holds (\<lambda>v. tables I (vi_session v)) m" "settled (w_session w)" "I (w_db w)" "serve_view m c w = (answer, w')"
  shows "I (w_db w')" "settled (w_session w')"
proof -
  have "tables I (vi_session (visit_of c w))" using assms(2,3) by (simp add: tables_def settled_def visit_of_def)
  then have v: "tables I (vi_session (snd (m (visit_of c w))))" using assms(1) by (simp add: holds_def moves_def)
  have w': "w_session w' = snd (rollback (vi_session (snd (m (visit_of c w)))))"
    using assms(4) by (auto simp: serve_view_def leave_def split: prod.splits)
  show "I (w_db w')" "settled (w_session w')" using v by (simp_all add: w' rollback_def settled_def tables_def)
qed

end
