(* ===== verification/SiteSafety.thy ===== *)
theory SiteSafety
  imports SiteForms Keeping
begin

text \<open>
  What every request to the views on sites keeps: each stored row has passed its validator
  (\<open>stored_ok\<close>), the accounts and reset tokens are left alone, and a site is marked as closed to the
  outside only after the agent has said so.  \<open>tame\<close> is what one change of the tables must satisfy;
  the change is carried through the views by the rules of \<^verbatim>\<open>Web\<close> and \<^verbatim>\<open>Keeping\<close>.
\<close>

section \<open>Rows that have passed their validators\<close>

definition site_ok :: "site \<Rightarrow> bool" where
  "site_ok s \<longleftrightarrow> hostname (site_domain s) \<and> site_hsts_mode s \<in> set HSTS_MODES"

definition policy_ok :: "traffic_policy \<Rightarrow> bool" where
  "policy_ok p \<longleftrightarrow> 1 \<le> tp_requests_per_second p \<and> tp_requests_per_second p \<le> 5000 \<and> 0 \<le> tp_burst p \<and> tp_burst p \<le> 20000
     \<and> 1 \<le> tp_max_connections p \<and> tp_max_connections p \<le> 50000 \<and> tp_key_strategy p \<in> {''ip'', ''forwarded_for''}"

definition header_text_ok :: "string \<Rightarrow> string \<Rightarrow> bool" where
  "header_text_ok name v \<longleftrightarrow> validate_security_header name v = [] \<and> newline \<notin> set name"

definition header_ok :: "security_header \<Rightarrow> bool" where
  "header_ok h \<longleftrightarrow> header_text_ok (sh_name h) (sh_value h)"

definition rule_ok :: "custom_rule \<Rightarrow> bool" where
  "rule_ok r \<longleftrightarrow> validate_custom_rule (cr_name r) (cr_rule_text r) = Inr []"

definition extra_ok :: "nginx_extra \<Rightarrow> bool" where
  "extra_ok x \<longleftrightarrow> validate_snippet_lines (nx_server_snippet x) ''server'' = Inr []
     \<and> validate_snippet_lines (nx_location_snippet x) ''location'' = Inr []"

definition exclusion_ok :: "rule_exclusion \<Rightarrow> bool" where
  "exclusion_ok x \<longleftrightarrow> CRS_RULE_ID_MIN \<le> we_rule_id x \<and> we_rule_id x \<le> CRS_RULE_ID_MAX
     \<and> we_rule_id x \<notin> set CRITICAL_CRS_RULE_IDS"

definition geo_ok :: "geo_entry \<Rightarrow> bool" where
  "geo_ok g \<longleftrightarrow> length (geo_country_code g) = 2"

definition category_ok :: "rule_category \<Rightarrow> bool" where
  "category_ok c \<longleftrightarrow> rc_crs_tag c \<in> rc_crs_tag ` set DEFAULT_RULE_CATEGORIES"

definition stored_ok :: "db \<Rightarrow> bool" where
  "stored_ok d \<longleftrightarrow> list_all site_ok (sites d) \<and> list_all policy_ok (traffic_policies d)
     \<and> list_all header_ok (security_headers d) \<and> list_all rule_ok (custom_rules d) \<and> list_all extra_ok (nginx_extras d)
     \<and> list_all exclusion_ok (rule_exclusions d) \<and> list_all geo_ok (geo_entries d) \<and> list_all category_ok (categories d)"

section \<open>One change of the tables\<close>

text \<open>The sites marked as closed.\<close>

definition marked :: "db \<Rightarrow> nat set" where
  "marked d = site_id ` {s \<in> set (sites d). site_host_port_blocked s}"

definition tamely :: "db \<Rightarrow> db \<Rightarrow> bool" where
  "tamely d d' \<longleftrightarrow> (stored_ok d \<longrightarrow> stored_ok d' \<and> users d' = users d \<and> reset_tokens d' = reset_tokens d
     \<and> marked d' \<subseteq> marked d)"

definition tame :: "(db \<Rightarrow> db) \<Rightarrow> bool" where
  "tame f \<longleftrightarrow> (\<forall>d. tamely d (f d))"

lemma tamely_trans: "tamely d d' \<Longrightarrow> tamely d' d'' \<Longrightarrow> tamely d d''"
  by (auto simp: tamely_def)

lemma tameI:
  assumes "\<And>d. stored_ok d \<Longrightarrow> stored_ok (f d)" "\<And>d. users (f d) = users d" "\<And>d. reset_tokens (f d) = reset_tokens d"
    "\<And>d. sites (f d) = sites d"
  shows "tame f"
  using assms by (simp add: tame_def tamely_def marked_def)

lemma tame_id: "tame (\<lambda>d. d)"
  by (rule tameI) simp_all

lemma tame_comp: "tame f \<Longrightarrow> tame g \<Longrightarrow> tame (\<lambda>d. g (f d))"
  unfolding tame_def by (blast intro: tamely_trans)

lemma tame_fold: "(\<And>x. x \<in> set xs \<Longrightarrow> tame (f x)) \<Longrightarrow> tame (fold f xs)"
proof (induction xs)
  case (Cons x xs)
  then have "tame (\<lambda>d. fold f xs (f x d))" by (intro tame_comp [of "f x" "fold f xs"]) simp_all
  then show ?case by (simp add: comp_def)
qed (simp add: tame_def tamely_def)

lemma tame_audit: "tame (add_audit a)"
  by (rule tameI) (simp_all add: stored_ok_def add_audit_def)

lemma tame_config: "tame (config_put k v enc)"
  by (rule tameI) (simp_all add: stored_ok_def config_put_def)

lemma tame_settings: "tame (\<lambda>d. d\<lparr>rule_settings := f d\<rparr>)" "tame (set_rules i ks)"
  by (rule tameI; simp add: stored_ok_def set_rules_def)+

lemma tame_bot: "tame (\<lambda>d. d\<lparr>bot_protections := bot_protections d @ [b]\<rparr>)" "tame (set_bot i x)"
  by (rule tameI; simp add: stored_ok_def set_bot_def)+

lemma tame_policy: "tame (\<lambda>d. d\<lparr>traffic_policies := traffic_policies d @ [default_policy i]\<rparr>)"
  by (rule tameI) (simp_all add: stored_ok_def default_policy_def policy_ok_def)

lemma tame_set_policy: "(\<And>p. policy_ok p \<Longrightarrow> policy_ok (g p)) \<Longrightarrow> tame (set_policy i g)"
  by (rule tameI) (auto simp: stored_ok_def set_policy_def list_all_iff)

lemma extra_default: "extra_ok (default_extra i)"
  unfolding extra_ok_def default_extra_def by simp code_simp

lemma tame_extra: "tame (\<lambda>d. d\<lparr>nginx_extras := nginx_extras d @ [default_extra i]\<rparr>)"
  by (rule tameI) (simp_all add: stored_ok_def extra_default)

lemma tame_set_extra:
  "validate_snippet_lines sv ''server'' = Inr [] \<Longrightarrow> validate_snippet_lines lc ''location'' = Inr [] \<Longrightarrow> tame (set_extra i b sv lc)"
  by (rule tameI) (auto simp: stored_ok_def set_extra_def list_all_iff extra_ok_def)

lemma tame_add_header: "header_ok h \<Longrightarrow> tame (add_header h)"
  by (rule tameI) (simp_all add: stored_ok_def add_header_def header_ok_def)

lemma in_enumerate: "(k, x) \<in> set (enumerate n xs) \<Longrightarrow> x \<in> set xs"
  by (metis image_eqI map_snd_enumerate set_map snd_conv)

definition value_ok :: "string \<Rightarrow> bool" where
  "value_ok v \<longleftrightarrow> v \<noteq> [] \<and> length v \<le> 1000 \<and> list_all (\<lambda>c. \<not> invalid_value_char c) v"

definition name_ok :: "string \<Rightarrow> bool" where
  "name_ok n \<longleftrightarrow> matches HEADER_NAME_RE n \<and> length n \<le> 120 \<and> newline \<notin> set n"

lemma header_text_ok_iff: "header_text_ok n v \<longleftrightarrow> name_ok n \<and> value_ok v"
  by (auto simp: header_text_ok_def validate_security_header_iff name_ok_def value_ok_def)

lemma name_okI: "n \<noteq> [] \<Longrightarrow> list_all header_name_char n \<Longrightarrow> length n \<le> 120 \<Longrightarrow> name_ok n"
  by (auto simp: name_ok_def header_name_iff list_all_iff header_name_char_def chars squote_def)

lemma console_csp_ok: "value_ok CONSOLE_CSP"
  by (simp add: value_ok_def CONSOLE_CSP_def invalid_value_char_def)

lemma default_texts_ok: "list_all (\<lambda>i. name_ok (fst i) \<and> value_ok (fst (snd i))) DEFAULT_SECURITY_HEADERS"
  by (simp add: DEFAULT_SECURITY_HEADERS_def SITE_CSP_def value_ok_def invalid_value_char_def name_okI header_name_char_def chars)

lemma default_header_ok: "item \<in> set DEFAULT_SECURITY_HEADERS \<Longrightarrow> header_ok (default_header st k item)"
  using default_texts_ok console_csp_ok by (auto simp: header_ok_def header_text_ok_iff default_header_def list_all_iff)

lemma tame_refresh: "tame (refresh_csp st)"
proof (rule tameI)
  have "header_ok (x\<lparr>sh_value := CONSOLE_CSP\<rparr>)" if "header_ok x" for x
    using that console_csp_ok by (simp add: header_ok_def header_text_ok_iff)
  then show "stored_ok d \<Longrightarrow> stored_ok (refresh_csp st d)" for d
    by (auto simp: stored_ok_def refresh_csp_def list_all_iff split: option.split)
qed (simp_all add: refresh_csp_def split: option.split)

lemma tame_ensure_headers: "tame (\<lambda>d. fold add_header (missing_headers st d) (refresh_csp st d))"
  unfolding tame_def
proof
  fix d
  have ok: "header_ok h" if "h \<in> set (missing_headers st d)" for h
    using that by (auto simp: missing_headers_def intro!: default_header_ok dest: in_enumerate)
  then have "tame (fold add_header (missing_headers st d))" by (intro tame_fold tame_add_header)
  with tame_refresh [of st] show "tamely d (fold add_header (missing_headers st d) (refresh_csp st d))"
    unfolding tame_def by (blast intro: tamely_trans)
qed

lemma tame_update_site:
  assumes "\<And>s. site_ok s \<Longrightarrow> site_ok (f s)" "\<And>s. site_id (f s) = site_id s"
    "\<And>s. site_host_port_blocked (f s) \<Longrightarrow> site_host_port_blocked s"
  shows "tame (update_site i f)"
  using assms by (auto simp: tame_def tamely_def marked_def update_site_def stored_ok_def list_all_iff split: if_splits) (metis (mono_tags, lifting) CollectI image_eqI)?

lemma tame_add_site: "site_ok s \<Longrightarrow> \<not> site_host_port_blocked s \<Longrightarrow> tame (add_site s)"
  by (auto simp: tame_def tamely_def marked_def add_site_def stored_ok_def)

lemma tame_remove: "tame (remove_site i)"
  by (auto simp: tame_def tamely_def marked_def remove_site_def stored_ok_def list_all_iff)

lemma tame_write_header: "header_text_ok (he_name h) (he_value h) \<Longrightarrow> tame (write_header h)"
  by (rule tameI) (auto simp: stored_ok_def write_header_def list_all_iff header_ok_def)

lemma tame_append_header: "header_text_ok (he_name (snd ph)) (he_value (snd ph)) \<Longrightarrow> tame (append_header i ph)"
  unfolding append_header_def by (rule tame_add_header) (simp add: header_ok_def)

lemma tame_write_headers:
  assumes "\<And>h. h \<in> set updates \<union> set new \<Longrightarrow> header_text_ok (he_name h) (he_value h)"
  shows "tame (write_headers i updates new)"
proof -
  have "tame (fold write_header updates)" by (intro tame_fold tame_write_header assms) simp
  moreover have "tame (fold (append_header i) (map (\<lambda>(k, h). (p + int k, h)) (enumerate 0 new)))" for p
    by (intro tame_fold tame_append_header assms) (auto dest: in_enumerate)
  ultimately show ?thesis unfolding write_headers_def Let_def tame_def using tamely_trans by blast
qed

lemma tame_write_rule: "validate_custom_rule (re_name r) (re_text r) = Inr [] \<Longrightarrow> tame (write_rule r)"
  by (rule tameI) (auto simp: stored_ok_def write_rule_def list_all_iff rule_ok_def)

lemma tame_append_rule: "validate_custom_rule n t = Inr [] \<Longrightarrow> tame (append_rule i n t b)"
  by (rule tameI) (auto simp: stored_ok_def append_rule_def rule_ok_def)

lemma tame_exclusions: "tame (set_exclusion k b)" "tame (\<lambda>d. d\<lparr>rule_exclusions := filter P (rule_exclusions d)\<rparr>)"
  by (rule tameI; auto simp: stored_ok_def set_exclusion_def list_all_iff exclusion_ok_def)+

lemma tame_add_exclusion: "validate_rule_exclusion (Some raw) c = Inr (Some rid, []) \<Longrightarrow> tame (add_exclusion i rid c)"
  by (rule tameI)
     (auto simp: stored_ok_def add_exclusion_def exclusion_ok_def validate_rule_exclusion_def Let_def split: if_splits option.splits)

lemma tame_geo: "length c = 2 \<Longrightarrow> tame (close_country i c)" "tame (\<lambda>d. d\<lparr>geo_entries := filter P (geo_entries d)\<rparr>)"
  by (rule tameI; auto simp: stored_ok_def close_country_def list_all_iff geo_ok_def)+

lemma tame_console: "hostname w \<Longrightarrow> tame (put_console i w up)"
  unfolding put_console_def
  by (auto simp: tame_def tamely_def marked_def stored_ok_def list_all_iff add_site_def update_site_def site_ok_def console_fields_def console_site_def HSTS_MODES_def)


section \<open>Through the operations of a session\<close>

text \<open>The agent was asked, from the call with number \<open>n0\<close> on, to close a port, and has answered that it is.\<close>

definition says_closed :: "(string \<times> json) list \<Rightarrow> bool" where
  "says_closed res \<longleftrightarrow> jtruthy (jget_default ''ok'' JNull res)
     \<and> jtruthy (jget_default ''blocked'' (jget_default ''ok'' JNull res) res)"

definition port_verified :: "env \<Rightarrow> nat \<Rightarrow> ext_call list \<Rightarrow> bool" where
  "port_verified e n0 cs \<longleftrightarrow> (\<exists>k p. n0 \<le> k \<and> k < length cs \<and> cs ! k = AgentCall ''protect_host_port'' [(''port'', JInt p)]
     \<and> says_closed (agent_reply e (take k cs) ''protect_host_port'' [(''port'', JInt p)]))"

lemma port_verified_more: "port_verified e n0 cs \<Longrightarrow> port_verified e n0 (cs @ ds)"
  by (force simp: port_verified_def nth_append)

definition table_inv :: "env \<Rightarrow> db \<Rightarrow> nat \<Rightarrow> ext_call list \<Rightarrow> db \<Rightarrow> bool" where
  "table_inv e d0 n0 cs d \<longleftrightarrow> stored_ok d \<and> users d = users d0 \<and> reset_tokens d = reset_tokens d0
     \<and> (marked d \<subseteq> marked d0 \<or> port_verified e n0 cs)"

definition site_inv :: "env \<Rightarrow> db \<Rightarrow> nat \<Rightarrow> session \<Rightarrow> bool" where
  "site_inv e d0 n0 s \<longleftrightarrow> table_inv e d0 n0 (calls s) (working s) \<and> table_inv e d0 n0 (calls s) (committed s)
     \<and> constraints (committed s) \<and> n0 \<le> length (calls s)"

lemma table_inv_tame: "table_inv e d0 n0 cs d \<Longrightarrow> tame f \<Longrightarrow> table_inv e d0 n0 cs (f d)"
  by (auto simp: table_inv_def tame_def tamely_def)

lemma table_inv_more: "table_inv e d0 n0 cs d \<Longrightarrow> table_inv e d0 n0 (cs @ ds) d"
  by (auto simp: table_inv_def port_verified_more)

text \<open>What acts on the tables or the outside.\<close>

abbreviation inv_keeps :: "env \<Rightarrow> db \<Rightarrow> nat \<Rightarrow> 'a sess_op \<Rightarrow> bool" where
  "inv_keeps e d0 n0 m \<equiv> keeps (site_inv e d0 n0) m"

lemma keeps_update: "tame f \<Longrightarrow> inv_keeps e d0 n0 (update_db f)"
  by (rule keepsI) (simp add: site_inv_def update_db_def table_inv_tame)

lemma keeps_commit: "inv_keeps e d0 n0 (commit e')"
proof (rule keepsI)
  fix s assume "site_inv e d0 n0 s"
  then show "site_inv e d0 n0 (snd (commit e' s))"
    by (cases rule: commit_cases [of e' s]) (simp_all add: site_inv_def)
qed

lemma keeps_rolled_back: "inv_keeps e d0 n0 rollback"
  by (rule keepsI) (simp add: site_inv_def rollback_def)

lemma keeps_call:
  "(\<And>s. working (snd (m s)) = working s \<and> committed (snd (m s)) = committed s \<and> (\<exists>c. calls (snd (m s)) = calls s @ c))
     \<Longrightarrow> inv_keeps e d0 n0 m"
proof (rule keepsI)
  fix s assume m: "\<And>s. working (snd (m s)) = working s \<and> committed (snd (m s)) = committed s \<and> (\<exists>c. calls (snd (m s)) = calls s @ c)"
    and s: "site_inv e d0 n0 s"
  obtain c where "calls (snd (m s)) = calls s @ c" using m by blast
  with m [of s] s show "site_inv e d0 n0 (snd (m s))" by (auto simp: site_inv_def table_inv_more)
qed

lemma keeps_outside: "inv_keeps e d0 n0 (external c)" "inv_keeps e d0 n0 (send_command e' a args)"
  "inv_keeps e d0 n0 (docker_exec se cmd)" "inv_keeps e d0 n0 (run_certbot se cmd)"
  by (rule keeps_call; simp add: external_def send_command_def docker_exec_def run_certbot_def)+

lemmas keeps_intros = keeps_bind keeps_catch keeps_iterate keeps_run_all keeps_reading keeps_control
  keeps_commit keeps_rolled_back keeps_outside

lemma keeps_site_rows: "inv_keeps e d0 n0 (sync_site_rule_settings e' i)" "inv_keeps e d0 n0 (ensure_site_traffic_policy e' i)"
  "inv_keeps e d0 n0 (ensure_site_nginx_extra_config e' i)" "inv_keeps e d0 n0 (ensure_site_bot_protection e' i)"
  unfolding sync_site_rule_settings_def ensure_site_traffic_policy_def ensure_site_nginx_extra_config_def
    ensure_site_bot_protection_def
  by (intro keeps_intros keeps_update tame_settings tame_policy tame_extra tame_bot)+

lemma keeps_headers: "inv_keeps e d0 n0 (ensure_site_security_headers e' st)"
  unfolding ensure_site_security_headers_def by (intro keeps_intros keeps_update tame_ensure_headers)

lemma keeps_files: "inv_keeps e d0 n0 (write_file n f)" "inv_keeps e d0 n0 (unlink_all base a b)"
  "inv_keeps e d0 n0 (write_blocklist_conf sts)"
  unfolding write_blocklist_conf_def write_file_def unlink_all_def by (intro keeps_intros; fastforce intro: keeps_intros)+

lemma keeps_render: "inv_keeps e d0 n0 (render_nginx_configs px e' base)"
proof -
  have site: "inv_keeps e d0 n0 (write_site px e' st)" for st
    unfolding write_site_def ensure_site_rows_def by (intro keeps_intros keeps_site_rows keeps_headers)
  have sites: "inv_keeps e d0 n0 (run_all (map (write_site px e') sts))" for sts
    using site by (intro keeps_run_all) auto
  have policies: "inv_keeps e d0 n0 (ensure_policies e')"
    unfolding ensure_policies_def by (intro keeps_intros keeps_site_rows)
  show ?thesis unfolding render_nginx_configs_def
    by (intro keeps_bind keeps_files sites policies keeps_reading)
qed

lemma keeps_nginx: "inv_keeps e d0 n0 (render_files se e')" "inv_keeps e d0 n0 (reload_nginx se)" "inv_keeps e d0 n0 (apply_nginx se e')"
proof -
  show 1: "inv_keeps e d0 n0 (render_files se e')" unfolding render_files_def by (rule keeps_render)
  show 2: "inv_keeps e d0 n0 (reload_nginx se)" unfolding reload_nginx_def by (intro keeps_intros)
  show "inv_keeps e d0 n0 (apply_nginx se e')" unfolding apply_nginx_def by (intro keeps_intros 1 2)
qed

section \<open>Through the views\<close>

abbreviation inv_holds :: "env \<Rightarrow> db \<Rightarrow> nat \<Rightarrow> 'a view_op \<Rightarrow> bool" where
  "inv_holds e d0 n0 m \<equiv> holds (\<lambda>v. site_inv e d0 n0 (vi_session v)) m"

lemma holds_save: "tame f \<Longrightarrow> inv_holds e d0 n0 (save e' f)"
  unfolding save_def by (intro holds_on_db keeps_intros keeps_update)

lemma holds_audit: "inv_holds e d0 n0 (audit_as e' entry)"
proof (rule holdsI)
  fix v :: visit assume v: "site_inv e d0 n0 (vi_session v)"
  obtain r v' where r: "audit_as e' entry v = (r, v')" by fastforce
  obtain a where "committed (vi_session v') \<in> {committed (vi_session v), add_audit a (committed (vi_session v)),
      add_audit a (working (vi_session v))}" using audit_as_session(5) [OF r] by blast
  with audit_as_session [OF r] v show "site_inv e d0 n0 (vi_session (snd (audit_as e' entry v)))"
    using table_inv_tame [OF _ tame_audit] by (auto simp: site_inv_def r)
qed

lemma holds_with_site: "(\<And>st. inv_holds e d0 n0 (f st)) \<Longrightarrow> inv_holds e d0 n0 (with_site i f)"
  unfolding with_site_def by (intro holds_intros)

lemmas site_intros = holds_intros holds_on_db holds_save holds_audit holds_with_site keeps_site_rows keeps_headers keeps_nginx
  keeps_files keeps_outside tame_settings tame_bot tame_extra tame_exclusions tame_remove tame_geo tame_id

lemma save_calls:
  assumes "save e f v = (r, v')"
  shows "calls (vi_session v') = calls (vi_session v)"
proof -
  let ?s = "vi_session v\<lparr>working := f (working (vi_session v))\<rparr>"
  have "calls (vi_session (snd (save e f v))) = calls (vi_session v)"
    by (cases rule: commit_cases [of e ?s]) (simp_all add: save_def on_db_def bind_def update_db_def)
  then show ?thesis using assms by simp
qed

text \<open>Only here a site becomes marked.\<close>

lemma holds_mark:
  assumes "port_verified e n0 (calls (vi_session v))" "site_inv e d0 n0 (vi_session v)"
  shows "site_inv e d0 n0 (vi_session (snd (save e (update_site i (\<lambda>s. s\<lparr>site_host_port_blocked := True\<rparr>)) v)))"
proof -
  let ?f = "update_site i (\<lambda>s. s\<lparr>site_host_port_blocked := True\<rparr>)"
  obtain r v' where sv: "save e ?f v = (r, v')" by fastforce
  have "table_inv e d0 n0 (calls (vi_session v)) (?f d)" if "table_inv e d0 n0 (calls (vi_session v)) d" for d
    using that assms(1) by (auto simp: table_inv_def update_site_def stored_ok_def list_all_iff site_ok_def)
  with assms(2) save_calls [OF sv] save_session(3-5) [OF sv] show ?thesis by (auto simp: site_inv_def sv)
qed

lemma holds_block_port: "inv_holds e d0 n0 (block_port se e i u)"
proof (rule holdsI)
  fix v :: visit assume v: "site_inv e d0 n0 (vi_session v)"
  show "site_inv e d0 n0 (vi_session (snd (block_port se e i u v)))"
  proof (cases "parse_upstream_host_port (se_brackets se) u")
    case (Inl x)
    with v show ?thesis by (simp add: block_port_def)
  next
    case (Inr p)
    let ?args = "[(''port'', JInt (snd p))]" and ?s = "vi_session v"
    let ?res = "agent_reply e (calls ?s) ''protect_host_port'' ?args"
    obtain v1 where v1: "on_db (send_command e ''protect_host_port'' ?args) v = (Inr ?res, v1)"
        "vi_session v1 = ?s\<lparr>calls := calls ?s @ [AgentCall ''protect_host_port'' ?args]\<rparr>"
      by (simp add: on_db_def send_command_def)
    have inv1: "site_inv e d0 n0 (vi_session v1)" using v v1(2) by (simp add: site_inv_def table_inv_more)
    let ?rest = "\<lambda>res. let ok = jtruthy (jget_default ''ok'' JNull res);
         verified = jtruthy (jget_default ''blocked'' (jget_default ''ok'' JNull res) res) in
       if ok \<and> verified
       then bind (save e (update_site i (\<lambda>s. s\<lparr>site_host_port_blocked := True\<rparr>))) (\<lambda>_. ret (PortVerified (snd p)))
       else if ok then ret (PortUnverified (snd p))
       else ret (PortOpen (snd p) (jget_default ''error'' (JStr []) res))"
    have run: "block_port se e i u v = ?rest ?res v1"
      unfolding block_port_def Inr lift_simps bind_ret by (rule bind_Inr [of "on_db (send_command e ''protect_host_port'' ?args)" v, OF v1(1)])
    show ?thesis
    proof (cases "says_closed ?res")
      case True
      have "port_verified e n0 (calls (vi_session v1))"
        using True v v1(2)
        by (auto simp: port_verified_def site_inv_def intro!: exI [of _ "length (calls ?s)"] exI [of _ "snd p"])
      note marked = holds_mark [OF this inv1, of i]
      have "snd (block_port se e i u v) = snd (save e (update_site i (\<lambda>s. s\<lparr>site_host_port_blocked := True\<rparr>)) v1)"
        using True unfolding run says_closed_def Let_def by (auto simp: bind_snd split: prod.split sum.split)
      with marked show ?thesis by simp
    next
      case False
      then have "snd (block_port se e i u v) = v1" unfolding run says_closed_def Let_def by auto
      with inv1 show ?thesis by simp
    qed
  qed
qed


lemma holds_upstream_problem: "inv_holds e d0 n0 (upstream_problem se u)"
  unfolding upstream_problem_def by (intro holds_intros)

lemma new_site_ok: "new_site e' n dm u f = Inr st \<Longrightarrow> site_ok (st\<lparr>site_id := i\<rparr>) \<and> \<not> site_host_port_blocked st"
  using site_validate_domain_sound by (auto simp: new_site_def rbind_eq_Inr site_ok_def HSTS_MODES_def)

lemma holds_lift: "(\<And>x. r = Inr x \<Longrightarrow> inv_holds e d0 n0 (f x)) \<Longrightarrow> inv_holds e d0 n0 (bind (lift r) f)"
  by (cases r) (auto intro: holds_reading)

lemma holds_create: "inv_holds e d0 n0 (create_site se e f)"
proof -
  have new: "inv_holds e d0 n0 (ensure_x)" if "ensure_x = on_db (ensure_new_site se e st)" for ensure_x st
    unfolding that ensure_new_site_def by (intro holds_on_db keeps_bind keeps_site_rows keeps_headers keeps_nginx)
  have finish: "inv_holds e d0 n0 (finish_site se e st)" for st
    unfolding finish_site_def audit_site_def
    by (intro holds_bind holds_control holds_reading holds_audit holds_block_port new [OF refl])
  show ?thesis unfolding create_site_def Let_def
    by (intro holds_guards holds_bind holds_lift holds_control holds_reading holds_upstream_problem holds_save finish tame_add_site)
       (auto dest: new_site_ok)
qed

lemma holds_detail: "inv_holds e d0 n0 (site_detail se e i)"
  unfolding site_detail_def ensure_site_rows_def
  by (intro holds_guards holds_with_site holds_bind holds_on_db keeps_bind keeps_site_rows keeps_headers holds_reading)

lemma holds_switches: "inv_holds e d0 n0 (update_site_bot_protection se e i f)" "inv_holds e d0 n0 (update_site_waf se e i f)"
  "inv_holds e d0 n0 (update_site_rules se e i f)"
  unfolding update_site_bot_protection_def update_site_waf_def update_site_rules_def audit_site_def Let_def
  by (intro holds_guards holds_with_site holds_bind holds_on_db keeps_site_rows keeps_nginx holds_reading holds_control holds_save
      holds_audit tame_bot tame_settings tame_update_site; simp add: site_ok_def)+

lemma hsts_choice_ok: "hsts_choice f \<in> set HSTS_MODES"
  by (auto simp: hsts_choice_def HSTS_MODES_def split: option.split)

lemma set_tls_fields: "site_id (set_tls f c k s) = site_id s" "site_domain (set_tls f c k s) = site_domain s"
  "site_host_port_blocked (set_tls f c k s) = site_host_port_blocked s" "site_hsts_mode (set_tls f c k s) = hsts_choice f"
  by (simp_all add: set_tls_def Let_def)

lemma holds_tls: "inv_holds e d0 n0 (update_site_tls se e i f)"
  unfolding update_site_tls_def
  by (intro holds_guards holds_with_site holds_bind holds_on_db keeps_nginx holds_reading holds_control holds_save tame_update_site)
     (simp_all add: site_ok_def set_tls_fields hsts_choice_ok)

lemma tame_set_le: "tame (update_site i (set_le t m))" "tame (update_site i (\<lambda>s. (set_le t m s)\<lparr>site_force_https := True\<rparr>))"
  by (rule tame_update_site; simp add: set_le_def site_ok_def)+

lemma holds_provision: "inv_holds e d0 n0 (provision_cert se e i)"
proof -
  have "inv_keeps e d0 n0 (provision_letsencrypt se e st m)" for st m
    unfolding provision_letsencrypt_def by (intro keeps_bind keeps_control keeps_reading keeps_nginx keeps_outside)
  then show ?thesis unfolding provision_cert_def
    by (intro holds_guards holds_with_site holds_bind holds_on_db keeps_nginx holds_reading holds_control holds_save tame_set_le)
qed

lemma bounded_int_Inr: "bounded_int f k a b = Inr v \<Longrightarrow> a \<le> v \<and> v \<le> b"
  by (auto simp: bounded_int_def split: option.splits if_splits)

lemma no_complaint: "complaint r = [] \<Longrightarrow> r = Inr (value_of r)"
  by (cases r) (auto simp: complaint_def value_of_def)

lemma holds_policy: "inv_holds e d0 n0 (update_site_traffic_policy se e i f)"
proof -
  let ?r = "bounded_int f ''requests_per_second'' 1 5000" and ?b = "bounded_int f ''burst'' 0 20000"
    and ?c = "bounded_int f ''max_connections'' 1 50000"
  have ok: "tame (set_policy i (policy_fields f (value_of ?r) (value_of ?b) (value_of ?c)))"
    if "\<not> complaint ?r @ complaint ?b @ complaint ?c \<noteq> []" "\<not> key_choice f \<notin> {''ip'', ''forwarded_for''}"
  proof (rule tame_set_policy)
    fix p :: traffic_policy
    have "complaint ?r = []" "complaint ?b = []" "complaint ?c = []" using that(1) by simp_all
    note n = this [THEN no_complaint]
    show "policy_ok (policy_fields f (value_of ?r) (value_of ?b) (value_of ?c) p)"
      using bounded_int_Inr [OF n(1)] bounded_int_Inr [OF n(2)] bounded_int_Inr [OF n(3)] that(2)
      by (simp add: policy_ok_def policy_fields_def)
  qed
  show ?thesis unfolding update_site_traffic_policy_def Let_def
    by (intro holds_guards holds_with_site holds_bind holds_on_db keeps_site_rows keeps_nginx holds_reading holds_control holds_save ok)
qed


lemma strip_no_newline: "matches HEADER_NAME_RE (strip n) \<Longrightarrow> newline \<notin> set (strip n)"
proof
  assume m: "matches HEADER_NAME_RE (strip n)" and nl: "newline \<in> set (strip n)"
  have "\<not> header_name_char newline" by (simp add: header_name_char_def chars squote_def)
  with m nl obtain w where w: "strip n = w @ [newline]" by (auto simp: header_name_iff list_all_iff)
  then have "is_space (last (strip n))" by (simp add: is_space_def newline_def)
  moreover have "strip n \<noteq> []" using w by simp
  ultimately show False using strip_last by blast
qed

lemma stripped_header_ok: "validate_security_header (strip n) v = [] \<Longrightarrow> header_text_ok (strip n) v"
  using strip_no_newline by (simp add: header_text_ok_def validate_security_header_iff)

lemma posted_header_ok:
  assumes "validate_security_header (he_name (posted_header f xs ys hid k)) (he_value (posted_header f xs ys hid k)) = []"
  shows "header_text_ok (he_name (posted_header f xs ys hid k)) (he_value (posted_header f xs ys hid k))"
proof -
  obtain n where n: "he_name (posted_header f xs ys hid k) = strip n" by (simp add: posted_header_def Let_def)
  from assms show ?thesis unfolding n by (rule stripped_header_ok)
qed

lemma header_updates_ok:
  "header_updates known (posted_header f xs ys) ks = ([], us) \<Longrightarrow> h \<in> set us \<Longrightarrow> header_text_ok (he_name h) (he_value h)"
proof (induction ks arbitrary: us)
  case (Cons k ks)
  from Cons.prems(1) obtain hid vs where "header_updates known (posted_header f xs ys) ks = ([], vs)"
      "us = posted_header f xs ys hid k # vs"
      "validate_security_header (he_name (posted_header f xs ys hid k)) (he_value (posted_header f xs ys hid k)) = []"
    by (auto simp: Let_def split: prod.splits option.splits)
  with Cons show ?case by (auto intro: posted_header_ok)
qed simp

lemma custom_entries_stripped: "h \<in> set (custom_entries f) \<Longrightarrow> \<exists>n. he_name h = strip n"
  unfolding custom_entries_def Let_def set_filter set_map case_prod_unfold
  by (elim CollectE conjE imageE) (simp only: header_entry.simps, rule exI, rule refl)

lemma custom_entries_ok:
  assumes "entry_problems (custom_entries f) = []" "h \<in> set (custom_entries f)"
  shows "header_text_ok (he_name h) (he_value h)"
proof -
  have "validate_security_header (he_name h) (he_value h) = []" using assms by (auto simp: entry_problems_def)
  moreover obtain n where n: "he_name h = strip n" using custom_entries_stripped [OF assms(2)] by blast
  ultimately show ?thesis using stripped_header_ok [of n] by simp
qed

lemma holds_set_headers: "inv_holds e d0 n0 (update_site_security_headers se e i f)"
proof -
  have save: "inv_holds e d0 n0 (bind (table (\<lambda>d. header_updates (\<lambda>k. map_option sh_id (header_by_id i k d))
                   (posted_header f xs ys) zs)) (\<lambda>(errors, updates).
           let new = custom_entries f; problems = errors @ entry_problems new in
           if problems \<noteq> [] then ret (site_page i problems)
           else bind (save e (write_headers i updates new)) (\<lambda>_.
                bind (on_db (apply_nginx se e)) (\<lambda>_. ret (site_page i [HeadersSaved])))))" for xs ys zs
  proof (rule holdsI)
    fix v :: visit assume v: "site_inv e d0 n0 (vi_session v)"
    obtain errors updates where u: "header_updates (\<lambda>k. map_option sh_id (header_by_id i k (working (vi_session v))))
        (posted_header f xs ys) zs = (errors, updates)" by fastforce
    show "site_inv e d0 n0 (vi_session (snd (bind (table (\<lambda>d. header_updates (\<lambda>k. map_option sh_id (header_by_id i k d))
                   (posted_header f xs ys) zs)) (\<lambda>(errors, updates).
           let new = custom_entries f; problems = errors @ entry_problems new in
           if problems \<noteq> [] then ret (site_page i problems)
           else bind (save e (write_headers i updates new)) (\<lambda>_.
                bind (on_db (apply_nginx se e)) (\<lambda>_. ret (site_page i [HeadersSaved])))) v)))"
    proof (cases "errors @ entry_problems (custom_entries f) = []")
      case True
      then have "tame (write_headers i updates (custom_entries f))"
        using header_updates_ok u custom_entries_ok by (intro tame_write_headers) auto
      then have "inv_holds e d0 n0 (bind (save e (write_headers i updates (custom_entries f))) (\<lambda>_.
                bind (on_db (apply_nginx se e)) (\<lambda>_. ret (site_page i [HeadersSaved]))))"
        by (intro holds_bind holds_save holds_on_db keeps_nginx holds_reading)
      then show ?thesis using True v by (simp add: table_def u bind_def [of "fetch _"] holds_def moves_def)
    next
      case False
      with v show ?thesis by (simp add: table_def u bind_def)
    qed
  qed
  show ?thesis unfolding update_site_security_headers_def
    by (intro holds_guards holds_with_site holds_bind [of _ "on_db _"] holds_on_db keeps_headers holds_control save holds_reading)
qed

lemma rule_updates_ok:
  "rule_updates known f xs ks = Inr ([], us) \<Longrightarrow> r \<in> set us \<Longrightarrow> validate_custom_rule (re_name r) (re_text r) = Inr []"
proof (induction ks arbitrary: us)
  case (Cons k ks)
  then show ?case by (auto simp: Let_def rbind_eq_Inr split: prod.splits option.splits)
qed simp

lemma holds_custom_rules: "inv_holds e d0 n0 (update_site_custom_rules se e i f)"
proof -
  let ?n = "strip (form_get f ''new_rule_name'')" and ?t = "strip (form_get f ''new_rule_text'')"
  let ?b = "form_bool f ''new_rule_enabled''"
  let ?c = "?n \<noteq> [] \<or> ?t \<noteq> [] \<or> ?b"
  have ok: "tame (\<lambda>d. let d1 = fold write_rule us d in if ?c then append_rule i ?n ?t ?b d1 else d1)"
    if "rule_updates known f xs ks = Inr x" "x = (es, us)"
      "(if ?c then validate_custom_rule ?n ?t else Inr []) = Inr ps" "\<not> es @ map RuleProblem ps \<noteq> []"
    for known xs ks x es us ps
  proof -
    have rules: "tame (fold write_rule us)" using rule_updates_ok that by (intro tame_fold tame_write_rule) auto
    show ?thesis
    proof (cases ?c)
      case True
      with that have "validate_custom_rule ?n ?t = Inr []" by auto
      from tame_comp [OF rules tame_append_rule [OF this]] True show ?thesis by (simp add: Let_def)
    next
      case False
      with rules show ?thesis by (simp add: Let_def)
    qed
  qed
  show ?thesis unfolding update_site_custom_rules_def Let_def [of "strip _"] Let_def [of "form_bool _ _"] Let_def [of "_ \<or> _"] Let_def [of "_ @ _"]
    by (intro holds_guards holds_with_site holds_bind [of _ "table _"] holds_lift holds_bind [of _ "save _ _"] holds_bind [of _ "on_db _"]
        holds_on_db keeps_nginx holds_control holds_save ok holds_reading)
qed

lemma holds_extra: "inv_holds e d0 n0 (update_site_nginx_extra se e i f)"
proof -
  have ok: "tame (set_extra i b sv lc)" if "validate_nginx_extra_config ng sv lc = Inr es" "\<not> es \<noteq> []" for b sv lc ng es
    using that by (intro tame_set_extra) (auto simp: validate_nginx_extra_config_def split: sum.splits if_splits)
  show ?thesis unfolding update_site_nginx_extra_def Let_def
    by (intro holds_guards holds_with_site holds_bind [of _ "on_db _"] holds_lift holds_bind [of _ "save _ _"]
        holds_on_db keeps_site_rows keeps_nginx holds_control holds_save ok holds_reading)
qed

lemma holds_render: "inv_holds e d0 n0 (render_configs se e)"
  unfolding render_configs_def audit_render_def
  by (intro holds_guards holds_bind holds_on_db keeps_nginx holds_control holds_audit holds_reading)

lemma holds_unprotect: "inv_holds e d0 n0 (unprotect e p)"
  unfolding unprotect_def by (intro holds_bind holds_on_db keeps_outside holds_reading)

lemma holds_delete: "inv_holds e d0 n0 (delete_site se e i)"
  unfolding delete_site_def audit_site_def
  by (intro holds_guards holds_with_site holds_bind holds_unprotect holds_on_db keeps_nginx holds_control holds_audit
      holds_save tame_remove holds_reading)

lemma holds_upstream: "inv_holds e d0 n0 (update_site_upstream se e i f)"
proof -
  have move: "inv_holds e d0 n0 (move_port se e st p u)" for st p u
    unfolding move_port_def by (intro holds_control holds_bind holds_unprotect holds_block_port holds_reading)
  have "inv_holds e d0 n0 (change_upstream se e st u)" for st u
    unfolding change_upstream_def audit_site_def
    by (intro holds_bind holds_on_db keeps_nginx holds_audit holds_save move tame_update_site holds_reading)
       (simp_all add: site_ok_def)
  then show ?thesis unfolding update_site_upstream_def Let_def
    by (intro holds_guards holds_with_site holds_bind holds_control holds_upstream_problem holds_reading)
qed

lemma holds_countries: "inv_holds e d0 n0 (geo_blocklist_add se e i f)" "inv_holds e d0 n0 (geo_blocklist_remove se e i c)"
proof -
  have publish: "inv_holds e d0 n0 (publish_countries se st)" for st
    unfolding publish_countries_def by (intro holds_bind holds_on_db keeps_files keeps_nginx holds_control holds_reading)
  show "inv_holds e d0 n0 (geo_blocklist_add se e i f)" unfolding geo_blocklist_add_def Let_def
    by (intro holds_guards holds_with_site holds_control holds_bind publish holds_save tame_geo holds_reading) simp
  show "inv_holds e d0 n0 (geo_blocklist_remove se e i c)" unfolding geo_blocklist_remove_def
    by (intro holds_guards holds_with_site holds_control holds_bind publish holds_save tame_geo holds_reading)
qed

lemma holds_toggle: "inv_holds e d0 n0 (toggle_exclusions i xs ks acc)"
  by (induction i xs ks acc rule: toggle_exclusions.induct)
     (simp_all only: toggle_exclusions.simps, (intro holds_bind holds_control holds_reading holds_on_db keeps_update tame_exclusions; assumption)+)

lemma holds_exclusions: "inv_holds e d0 n0 (update_site_rule_exclusions se e i f)"
  "inv_holds e d0 n0 (remove_site_rule_exclusion se e i k)"
proof -
  have finish: "inv_holds e d0 n0 (finish_exclusions se e j)" for j
    unfolding finish_exclusions_def by (intro holds_bind holds_on_db keeps_nginx holds_save tame_id holds_reading)
  have ok: "tame (add_exclusion j r c)"
    if "validate_rule_exclusion (Some raw) c = Inr p" "p = (q, es)" "\<not> es \<noteq> []" "q = Some r" for j raw c p q es r
    using that by (auto intro: tame_add_exclusion)
  have "inv_holds e d0 n0 (new_exclusion se e u st f)" for u st
    unfolding new_exclusion_def audit_exclusion_def Let_def
    by (intro holds_control holds_lift holds_bind [of _ "table _"] holds_bind [of _ "on_db _"] holds_bind [of _ "audit_as _ _"]
        finish holds_on_db keeps_update ok holds_audit holds_reading)
  then show "inv_holds e d0 n0 (update_site_rule_exclusions se e i f)"
    unfolding update_site_rule_exclusions_def audit_exclusion_def
    by (intro holds_guards holds_with_site holds_control holds_bind holds_toggle holds_audit holds_reading)
  show "inv_holds e d0 n0 (remove_site_rule_exclusion se e i k)"
    unfolding remove_site_rule_exclusion_def audit_exclusion_def
    by (intro holds_guards holds_with_site holds_control holds_bind holds_on_db keeps_nginx holds_audit holds_save
        tame_exclusions holds_reading)
qed

lemma holds_console: "inv_holds e d0 n0 (save_console_site se e f)"
proof -
  have config: "inv_holds e d0 n0 (set_config e k x)" for k x
    unfolding set_config_def AppConfig_set_def by (intro holds_on_db keeps_bind keeps_update tame_config keeps_commit)
  have "inv_holds e d0 n0 (finish_console se e j w b)" for j w b
    unfolding finish_console_def by (intro holds_bind config holds_control holds_on_db keeps_outside holds_reading)
  moreover have "hostname w" if "site_validate_domain (Some x) = Inr w" for x w
    using site_validate_domain_sound [OF that] by simp
  ultimately show ?thesis unfolding save_console_site_def Let_def
    by (intro holds_guards holds_control holds_bind [of _ "table _"] holds_lift holds_bind [of _ "save _ _"] holds_save
        tame_console holds_reading)
qed

lemma site_view_keeps: "inv_holds e d0 n0 (site_view_of se e rq)"
  by (cases rq) (simp_all add: holds_create holds_detail holds_switches holds_tls holds_provision holds_policy
      holds_set_headers holds_custom_rules holds_extra holds_render holds_delete holds_upstream holds_countries
      holds_exclusions holds_console)

section \<open>Requests\<close>

lemma serve_site_inv:
  assumes "settled (w_session w)" "stored_ok (w_db w)" "serve_site se e c rq w = (answer, w')"
  shows "site_inv e (w_db w) (length (calls (w_session w))) (w_session w')" "settled (w_session w')"
proof -
  let ?P = "site_inv e (w_db w) (length (calls (w_session w)))" and ?v = "snd (site_view_of se e rq (visit_of c w))"
  have "?P (vi_session (visit_of c w))"
    using assms(1,2) by (simp add: site_inv_def table_inv_def visit_of_def settled_def)
  then have v: "?P (vi_session ?v)"
    using site_view_keeps [of e "w_db w" "length (calls (w_session w))" se rq] by (simp add: holds_def moves_def)
  have w': "w_session w' = snd (rollback (vi_session ?v))"
    using assms(3) by (auto simp: serve_site_def serve_view_def leave_def split: prod.splits)
  show "?P (w_session w')" using v keepsD [OF keeps_rolled_back] by (simp add: w')
  show "settled (w_session w')" using v by (simp add: w' rollback_def settled_def site_inv_def)
qed

text \<open>Requests one after the other: whoever sends them, whatever the agent, the proxy and the commits do.\<close>

inductive site_step :: "web \<Rightarrow> web \<Rightarrow> bool" where
  served: "serve_site se e c rq w = (answer, w') \<Longrightarrow> site_step w w'"

definition sound_web :: "web \<Rightarrow> bool" where
  "sound_web w \<longleftrightarrow> settled (w_session w) \<and> stored_ok (w_db w)"

lemma site_step_keeps:
  assumes "site_step w w'" "sound_web w"
  shows "sound_web w'" "users (w_db w') = users (w_db w)" "reset_tokens (w_db w') = reset_tokens (w_db w)"
proof -
  obtain se e c rq answer where "serve_site se e c rq w = (answer, w')" using assms(1) by (cases rule: site_step.cases) blast
  note inv = serve_site_inv [OF _ _ this]
  from inv assms(2) show "sound_web w'" "users (w_db w') = users (w_db w)" "reset_tokens (w_db w') = reset_tokens (w_db w)"
    by (simp_all add: sound_web_def site_inv_def table_inv_def)
qed

lemma site_steps_keep:
  "site_step\<^sup>*\<^sup>* w w' \<Longrightarrow> sound_web w
     \<Longrightarrow> sound_web w' \<and> users (w_db w') = users (w_db w) \<and> reset_tokens (w_db w') = reset_tokens (w_db w)"
  by (induction rule: rtranclp_induct) (auto dest: site_step_keeps)

text \<open>
  C7: However many requests are served to the views on sites, by whomever they are sent and whatever
  fails in them, every row that is stored has passed its validator: domains, HSTS modes, traffic
  policies within their bounds, header names and values, ModSecurity rules, extra directives,
  exclusions and countries.  The accounts and the reset tokens are left as they were, and the
  constraints of the tables hold.
\<close>

theorem site_requests_store_valid_rows:
  assumes "site_step\<^sup>*\<^sup>* w w'" "settled (w_session w)" "stored_ok (w_db w)"
  shows "stored_ok (w_db w') \<and> constraints (w_db w') \<and> settled (w_session w')
    \<and> users (w_db w') = users (w_db w) \<and> reset_tokens (w_db w') = reset_tokens (w_db w)"
  using site_steps_keep [OF assms(1)] assms(2,3) by (auto simp: sound_web_def settled_def)

definition site_admin :: user where
  "site_admin = \<lparr>usr_id = 1, usr_email = ''root@example.com'', usr_name = ''Root'', usr_password_hash = ''h'',
     usr_role = ''admin'', usr_is_active = True, usr_last_login_at = None, usr_totp_secret = None, usr_totp_enabled = False,
     usr_session_token = ''0''\<rparr>"

definition shop :: site where
  "shop = \<lparr>site_id = 1, site_name = ''Shop'', site_domain = ''shop.example'', site_upstream_url = ''http://localhost:8080'',
     site_waf_enabled = True, site_letsencrypt_enabled = False, site_letsencrypt_status = ''none'', site_letsencrypt_error = None,
     site_certificate_path = None, site_certificate_key_path = None, site_is_console = False, site_force_https = False,
     site_hsts_mode = ''off'', site_host_port_blocked = False\<rparr>"

definition shop_web :: web where
  "shop_web = \<lparr>w_session = fresh_session (empty_db\<lparr>users := [site_admin], sites := [shop],
       configs := [\<lparr>cfg_key = ''module_wf_enabled'', cfg_value = Some ''1'', cfg_encrypted = False\<rparr>]\<rparr>),
     w_issued = [], w_draws = 1\<rparr>"

definition shop_cookie :: cookie where
  "shop_cookie = no_cookie\<lparr>ck_user := Some ''1:0''\<rparr>"

definition no_docker :: site_env where
  "no_docker = \<lparr>se_proxy = plain_proxy, se_files = [], se_container = ''wardnode-proxy'', se_exec = (\<lambda>_ _. Inl ''no docker''),
     se_certbot = (\<lambda>_ _. Some ''no docker''), se_nginx = None, se_wf_socket = True\<rparr>"

lemma shop_sound: "settled (w_session shop_web)" "stored_ok (w_db shop_web)"
  by code_simp+


definition closing_env :: env where
  "closing_env = quiet_env\<lparr>commit_fails := (\<lambda>k. k = 1), agent_reply := (\<lambda>_ _ _. [(''ok'', JBool True), (''blocked'', JBool True)])\<rparr>"

definition new_port :: site_request where
  "new_port = SetUpstream 1 [(''upstream_url'', ''http://localhost:9000'')]"

definition moved_web :: web where
  "moved_web = snd (serve_site no_docker closing_env shop_cookie new_port shop_web)"

lemma moved_facts:
  "map (\<lambda>s. (site_host_port_blocked s, site_upstream_url s)) (sites (w_db moved_web)) = [(True, ''http://localhost:9000'')]"
  by code_simp

lemma moved_serve: "serve_site no_docker closing_env shop_cookie new_port shop_web
    = (fst (serve_site no_docker closing_env shop_cookie new_port shop_web), moved_web)"
  unfolding moved_web_def by (rule surjective_pairing)

lemma moved_step: "site_step\<^sup>*\<^sup>* shop_web moved_web"
  by (rule r_into_rtranclp, rule served, rule moved_serve)

theorem site_requests_store_valid_rows_witness:
  "stored_ok (w_db moved_web) \<and> map site_upstream_url (sites (w_db moved_web)) = [''http://localhost:9000'']"
proof -
  have "map site_upstream_url (sites (w_db moved_web)) = map snd (map (\<lambda>s. (site_host_port_blocked s, site_upstream_url s)) (sites (w_db moved_web)))"
    by simp
  also have "\<dots> = [''http://localhost:9000'']" unfolding moved_facts by simp
  finally show ?thesis using site_requests_store_valid_rows [OF moved_step shop_sound] by simp
qed



text \<open>Who may ask for what.\<close>

fun allowed :: "site_request \<Rightarrow> string list" where
  "allowed (SitePage i) = [ROLE_ADMIN, ROLE_OPERATOR, ROLE_READER]"
| "allowed (DeleteSite i) = [ROLE_ADMIN]"
| "allowed (SetConsole f) = [ROLE_ADMIN]"
| "allowed rq = [ROLE_ADMIN, ROLE_OPERATOR]"

lemma behind_roles: "\<exists>f. site_view_of se e rq = roles_required (allowed rq) f"
  by (cases rq) (simp_all only: site_view_of.simps allowed.simps create_site_def site_detail_def update_site_bot_protection_def
      update_site_waf_def update_site_rules_def update_site_tls_def provision_cert_def update_site_traffic_policy_def
      update_site_security_headers_def update_site_custom_rules_def update_site_nginx_extra_def render_configs_def
      delete_site_def update_site_upstream_def geo_blocklist_add_def geo_blocklist_remove_def update_site_rule_exclusions_def
      remove_site_rule_exclusion_def save_console_site_def, blast+)

text \<open>
  C8: Nothing is stored, no file of the proxy is written, and no agent, container or certificate
  authority is asked, for a request whose cookie is not that of an active account with a role for
  it: a site is removed and the console's own site set by administrators, everything else on sites
  is changed by administrators and operators.
\<close>

theorem only_operators_change_sites:
  assumes "serve_site se e c rq w = (answer, w')" "settled (w_session w)"
    "w_db w' \<noteq> w_db w \<or> calls (w_session w') \<noteq> calls (w_session w)"
  shows "\<exists>u. authenticated (w_db w) c = Some u \<and> usr_role u \<in> set (allowed rq)"
proof (rule ccontr)
  assume none: "\<nexists>u. authenticated (w_db w) c = Some u \<and> usr_role u \<in> set (allowed rq)"
  obtain f where f: "site_view_of se e rq = roles_required (allowed rq) f" using behind_roles by blast
  have "working (vi_session (visit_of c w)) = w_db w" "vi_cookie (visit_of c w) = c"
    using assms(2) by (simp_all add: visit_of_def settled_def)
  then have "snd (site_view_of se e rq (visit_of c w)) = visit_of c w"
    unfolding f using none by (intro denied) (auto simp: has_role_def)
  then have "w' = leave (visit_of c w) w" using assms(1) by (auto simp: serve_site_def serve_view_def split: prod.splits)
  with assms(3) show False by (simp add: leave_def visit_of_def rollback_def)
qed

theorem only_operators_change_sites_witness:
  "\<exists>u. authenticated (w_db shop_web) shop_cookie = Some u \<and> usr_role u \<in> {''admin'', ''operator''}"
proof -
  have "map (\<lambda>s. (site_host_port_blocked s, site_upstream_url s)) (sites (w_db moved_web))
      \<noteq> map (\<lambda>s. (site_host_port_blocked s, site_upstream_url s)) (sites (w_db shop_web))"
    unfolding moved_facts by (simp add: shop_web_def fresh_session_def shop_def)
  then have "w_db moved_web \<noteq> w_db shop_web" by auto
  then show ?thesis
    using only_operators_change_sites [OF moved_serve shop_sound(1)] by (simp add: new_port_def ROLE_ADMIN_def ROLE_OPERATOR_def)
qed

end
