(* ===== verification/Forms.thy ===== *)
theory Forms
  imports Keeping
begin

text \<open>
  What the forms of the console share: fields with their defaults, numbers, settings stored as text
  or encrypted; and that settings stored by these operations stay encrypted where they must.
\<close>

section \<open>Fields\<close>

definition text_or :: "form \<Rightarrow> string \<Rightarrow> string \<Rightarrow> string" where
  "text_or f k dflt = (let t = strip (case map_of f k of None \<Rightarrow> dflt | Some t \<Rightarrow> t) in if t = [] then dflt else t)"

definition flag :: "form \<Rightarrow> string \<Rightarrow> string" where
  "flag f k = (if form_get f k \<noteq> [] then ''1'' else ''0'')"

definition field_list :: "form \<Rightarrow> string \<Rightarrow> string list" where
  "field_list f k = map snd (filter (\<lambda>p. fst p = k) f)"

text \<open>\<open>isdigit\<close>: a digit in superscript is one, although \<open>int\<close> does not read it.\<close>

definition py_isdigit :: "string \<Rightarrow> bool" where
  "py_isdigit t \<longleftrightarrow> t \<noteq> [] \<and> list_all (\<lambda>c. is_digit c \<or> superscript c) t"

section \<open>Settings\<close>

definition set_text :: "env \<Rightarrow> string \<Rightarrow> string \<Rightarrow> unit view_op" where
  "set_text e k v = on_db (AppConfig_set e k (Some v) False)"

definition set_secret :: "env \<Rightarrow> string \<Rightarrow> string \<Rightarrow> unit view_op" where
  "set_secret e k v = bind (lift (encrypt_secret e v)) (\<lambda>t. on_db (AppConfig_set e k (Some t) True))"

lemma set_text_done:
  assumes "set_text e k v u = (Inr (), u')"
  shows "working (vi_session u') = config_put k (Some v) False (working (vi_session u))"
    "committed (vi_session u') = working (vi_session u')"
  using assms by (auto simp: set_text_def AppConfig_set_def on_db_def bind_def update_db_def commit_def Let_def split: if_splits)

lemma roles_required_Inr:
  "roles_required rs f u = (Inr y, u') \<Longrightarrow> y = Goto ''auth.login'' None \<or> (\<exists>a. f a u = (Inr y, u'))"
  by (auto simp: roles_required_def login_required_def visiting_def bind_def split: sum.splits option.splits if_splits)

lemma set_secret_done:
  assumes "set_secret e k v u = (Inr (), u')"
  shows "\<exists>t. working (vi_session u') = config_put k (Some t) True (working (vi_session u))"
proof (cases "encrypt_secret e v")
  case (Inr t)
  with assms have "working (vi_session u') = config_put k (Some t) True (working (vi_session u))"
    by (auto simp: set_secret_def AppConfig_set_def on_db_def bind_def update_db_def commit_def Let_def lift_def split: if_splits)
  then show ?thesis by blast
qed (use assms in \<open>simp add: set_secret_def bind_def lift_def\<close>)

section \<open>Numbers printed and read back\<close>

lemma int_digits_are: "int_digits s = Some d \<Longrightarrow> \<forall>c\<in>set d. is_digit c"
proof (induction s arbitrary: d rule: int_digits.induct)
  case (2 c)
  then show ?case by (auto split: if_splits)
next
  case (3 c x cs)
  show ?case
  proof (cases "x = CHR ''_''")
    case True
    with "3.prems" obtain d' where "int_digits cs = Some d'" "d = c # d'" "is_digit c" by (auto split: if_splits)
    with "3.IH"(1) True show ?thesis by simp
  next
    case False
    with "3.prems" obtain d' where "int_digits (x # cs) = Some d'" "d = c # d'" "is_digit c" by (auto split: if_splits)
    with "3.IH"(2) False show ?thesis by simp
  qed
qed simp

lemma parse_digits_bound: "parse_digits s = Some m \<Longrightarrow> m < 10 ^ int_limit"
proof -
  assume "parse_digits s = Some m"
  then obtain d where d: "int_digits s = Some d" "length d \<le> int_limit" "m = digits_val d"
    by (auto simp: parse_digits_def split: option.splits if_splits)
  have "m < 10 ^ length d" unfolding d(3) by (rule digits_val_bound) (use int_digits_are [OF d(1)] in blast)
  also have "(10::nat) ^ length d \<le> 10 ^ int_limit" using d(2) by (intro power_increasing) simp_all
  finally show ?thesis .
qed

lemma py_int_bound: "py_int s = Some n \<Longrightarrow> nat \<bar>n\<bar> < 10 ^ int_limit"
  unfolding py_int_def by (cases "strip s") (auto dest: parse_digits_bound split: if_splits)

lemma py_int_shown:
  assumes "py_int s = Some n"
  shows "py_int (show_int n) = Some n"
proof (rule py_int_show_int, rule length_show_nat [OF py_int_bound [OF assms]])
  show "0 < int_limit" by (simp add: int_limit_def)
qed

lemma show_int_ne: "show_int n \<noteq> []"
  by (simp add: show_int_def)

text \<open>Decimals of an \<open>int\<close> without unary numbers.\<close>

function decimals :: "int \<Rightarrow> string" where
  "decimals i = (if i < 10 then [digit_char (nat i)] else decimals (i div 10) @ [digit_char (nat (i mod 10))])"
  by auto
termination by (relation "measure nat") auto

declare decimals.simps [simp del]

lemma decimals_show: "decimals (int n) = show_nat n"
proof (induction n rule: show_nat.induct)
  case (1 n)
  then show ?case
    by (subst decimals.simps, subst show_nat.simps) (simp add: nat_mod_distrib zdiv_int)
qed

lemma show_int_code [code]: "show_int i = (if i < 0 then CHR ''-'' # decimals (- i) else decimals i)"
proof (cases "i < 0")
  case True
  then show ?thesis using decimals_show [of "nat (- i)"] by (simp add: show_int_def)
next
  case False
  then show ?thesis using decimals_show [of "nat i"] by (simp add: show_int_def)
qed

section \<open>Secrets\<close>

text \<open>The keys whose values are secrets.\<close>

definition SECRET_KEYS :: "string list" where
  "SECRET_KEYS = [''maxmind_account_id'', ''maxmind_license_key'', ''smtp_username'', ''smtp_password'', ''modsec_rawlog_zip_password'',
     ''soc_openrouter_api_key'', ''soc_anthropic_api_key'', ''soc_openai_api_key'', ''soc_deepseek_api_key'', ''soc_gemini_api_key'',
     ''soc_abuseipdb_api_key'', ''soc_alert_telegram_token'']"

definition sealed_row :: "(string \<Rightarrow> string) \<Rightarrow> app_config \<Rightarrow> bool" where
  "sealed_row cipher r \<longleftrightarrow> (cfg_key r \<in> set SECRET_KEYS \<longrightarrow> cfg_encrypted r \<and> cfg_value r \<in> range (\<lambda>t. Some (cipher t)))"

definition sealed :: "(string \<Rightarrow> string) \<Rightarrow> db \<Rightarrow> bool" where
  "sealed cipher d \<longleftrightarrow> list_all (sealed_row cipher) (configs d)"

lemma sealed_audit: "sealed cipher d \<Longrightarrow> sealed cipher (add_audit a d)"
  by (simp add: sealed_def)

lemma sealed_put:
  assumes "sealed cipher d" "k \<in> set SECRET_KEYS \<Longrightarrow> enc \<and> v \<in> range (\<lambda>t. Some (cipher t))"
  shows "sealed cipher (config_put k v enc d)"
proof -
  have "list_all (sealed_row cipher) rs \<Longrightarrow> list_all (sealed_row cipher) (put_config k v enc rs)" for rs
    using assms(2) by (induction rs) (auto simp: sealed_row_def)
  then show ?thesis using assms(1) by (simp add: sealed_def config_put_def)
qed

lemma sealed_clear: "sealed cipher d \<Longrightarrow> sealed cipher (clear_secrets d)"
  by (auto simp: sealed_def clear_secrets_def list_all_iff)

abbreviation seals :: "(string \<Rightarrow> string) \<Rightarrow> 'a sess_op \<Rightarrow> bool" where
  "seals cipher m \<equiv> keeps (tables (sealed cipher)) m"

abbreviation view_seals :: "(string \<Rightarrow> string) \<Rightarrow> 'a view_op \<Rightarrow> bool" where
  "view_seals cipher m \<equiv> holds (\<lambda>v. tables (sealed cipher) (vi_session v)) m"

lemma seals_set: "k \<notin> set SECRET_KEYS \<Longrightarrow> seals cipher (AppConfig_set e k v False)"
  unfolding AppConfig_set_def by (intro tables_intros sealed_put) auto

lemma seals_secret:
  assumes "fernet_encrypt e = cipher" "encrypt_secret e v = Inr t" "v \<noteq> []"
  shows "seals cipher (AppConfig_set e k (Some t) True)"
proof -
  have "t = cipher v" using assms by (auto simp: encrypt_secret_def split: if_splits)
  then show ?thesis unfolding AppConfig_set_def by (intro tables_intros sealed_put) auto
qed

lemma view_seals_text: "k \<notin> set SECRET_KEYS \<Longrightarrow> view_seals cipher (set_text e k v)"
  unfolding set_text_def by (intro holds_on_db seals_set)

lemma view_seals_secret: "fernet_encrypt e = cipher \<Longrightarrow> v \<noteq> [] \<Longrightarrow> view_seals cipher (set_secret e k v)"
  unfolding set_secret_def
  by (cases "encrypt_secret e v") (auto intro: holds_reading holds_on_db seals_secret)

lemma view_seals_audit: "view_seals cipher (audit_as e entry)"
  by (rule holds_tables_audit, rule sealed_audit)

lemma seals_log: "seals cipher (log_audit e a rt rn d sev st act)"
  by (rule tables_log_audit, rule sealed_audit)

lemma config_get_audit: "config_get (add_audit a d) k = config_get d k"
  by (simp add: config_get_def)

end
