(* ===== verification/Settings.thy ===== *)
theory Settings
  imports Forms RawLog Syslog
begin

text \<open>
  The views on the settings of the console (\<^verbatim>\<open>app/proxy/routes.py\<close>): credentials, mail, syslog
  forwarding, the retention of raw logs, the reset of secrets and of the overview, the archives.
\<close>

datatype settings_notice =
    NoSecretKey | CredentialsSaved | SmtpSaved
  | HostRequired | BadHost | HostRefused target_check | BadPort | SyslogSaved
  | BadRetention | LogsSaved | BadArchiveName | PruneSkipped string | Pruned nat
  | SecretsCleared nat nat | EventsCleared nat | EventsKept

type_synonym settings_view = "settings_notice reply view_op"

definition settings_page :: "settings_notice option \<Rightarrow> settings_notice reply" where
  "settings_page n = Goto ''proxy.settings'' n"

definition logs_page :: "settings_notice option \<Rightarrow> settings_notice reply" where
  "logs_page n = Goto ''proxy.logs_list'' n"

text \<open>A field that is left empty keeps the secret there is.\<close>

definition renew_secret :: "env \<Rightarrow> string \<Rightarrow> string \<Rightarrow> unit view_op" where
  "renew_secret e k v = (if v \<noteq> [] then set_secret e k v else ret ())"

definition when_encrypted :: "settings_view \<Rightarrow> (unit view_op) \<Rightarrow> settings_view \<Rightarrow> settings_view" where
  "when_encrypted otherwise m next_step =
     bind (catch (bind m (\<lambda>_. ret True)) (\<lambda>x. if x = EncryptionNotConfigured then ret False else raise x)) (\<lambda>ok.
     if ok then next_step else otherwise)"

section \<open>Credentials and mail\<close>

definition settings_save :: "env \<Rightarrow> form \<Rightarrow> settings_view" where
  "settings_save e f = roles_required [ROLE_ADMIN] (\<lambda>_.
     if \<not> fernet_key e then ret (settings_page (Some NoSecretKey))
     else
       let account_id = strip (form_get f ''account_id''); license_key = strip (form_get f ''license_key'') in
       when_encrypted (ret (settings_page (Some NoSecretKey)))
         (bind (renew_secret e ''maxmind_account_id'' account_id) (\<lambda>_. renew_secret e ''maxmind_license_key'' license_key))
         (ret (settings_page (if account_id \<noteq> [] \<or> license_key \<noteq> [] then Some CredentialsSaved else None))))"

definition settings_save_smtp :: "env \<Rightarrow> form \<Rightarrow> settings_view" where
  "settings_save_smtp e f = roles_required [ROLE_ADMIN] (\<lambda>_.
     bind (set_text e ''smtp_host'' (strip (form_get f ''smtp_host''))) (\<lambda>_.
     bind (set_text e ''smtp_port'' (text_or f ''smtp_port'' ''587'')) (\<lambda>_.
     bind (set_text e ''smtp_use_tls'' (flag f ''smtp_use_tls'')) (\<lambda>_.
     bind (set_text e ''smtp_from'' (strip (form_get f ''smtp_from''))) (\<lambda>_.
     when_encrypted (ret (settings_page (Some NoSecretKey)))
       (bind (renew_secret e ''smtp_username'' (strip (form_get f ''smtp_username''))) (\<lambda>_.
        renew_secret e ''smtp_password'' (strip (form_get f ''smtp_password''))))
       (ret (settings_page (Some SmtpSaved))))))))"

section \<open>Syslog\<close>

definition host_char :: "char \<Rightarrow> bool" where
  "host_char c \<longleftrightarrow> is_alnum c \<or> c \<in> {CHR ''.'', CHR ''-'', CHR ''_'', CHR '':'', CHR ''['', CHR '']''}"

definition host_ok :: "string \<Rightarrow> bool" where
  "host_ok h \<longleftrightarrow> 1 \<le> length h \<and> length h \<le> 253 \<and> list_all host_char h"

definition VALID_FACILITIES :: "string list" where
  "VALID_FACILITIES = [''local0'', ''local1'', ''local2'', ''local3'', ''local4'', ''local5'', ''local6'', ''local7'',
     ''kern'', ''user'', ''mail'', ''daemon'', ''auth'', ''syslog'']"

definition VALID_SOURCES :: "string list" where
  "VALID_SOURCES = [''modsecurity'', ''audit'']"

text \<open>\<open>not port.isdigit() or not (1 <= int(port) <= 65535)\<close>: a digit in superscript is one for
  \<open>isdigit\<close> and none for \<open>int\<close>.\<close>

definition port_text :: "string \<Rightarrow> py_exn + bool" where
  "port_text t =
     (if \<not> py_isdigit t then Inr False
      else (case py_int t of None \<Rightarrow> Inl ValueError | Some p \<Rightarrow> Inr (1 \<le> p \<and> p \<le> 65535)))"

definition choose_from :: "string list \<Rightarrow> string \<Rightarrow> form \<Rightarrow> string \<Rightarrow> string" where
  "choose_from options dflt f k = (case map_of f k of None \<Rightarrow> dflt | Some t \<Rightarrow> if t \<in> set options then t else dflt)"

definition chosen_sources :: "form \<Rightarrow> string" where
  "chosen_sources f = join '','' (filter (\<lambda>s. s \<in> set VALID_SOURCES) (split_on (CHR '','') (join '','' (field_list f ''syslog_sources''))))"

definition syslog_entry :: "env \<Rightarrow> string \<Rightarrow> string \<Rightarrow> string \<Rightarrow> string \<Rightarrow> string \<Rightarrow> string \<Rightarrow> env \<Rightarrow> audit_log" where
  "syslog_entry e enabled host port protocol facility sources e' =
     audit_text_entry e' ''settings.syslog_save'' (Some ''config'') (Some ''syslog'')
       (json_dumps e (JObj [(''enabled'', JStr enabled), (''host'', JStr host), (''port'', JStr port),
         (''protocol'', JStr protocol), (''facility'', JStr facility), (''sources'', JStr sources)]))
       (if enabled = ''0'' then ''info'' else ''warning'') ''success'' None"

definition store_syslog :: "env \<Rightarrow> string \<Rightarrow> string \<Rightarrow> string \<Rightarrow> string \<Rightarrow> string \<Rightarrow> string \<Rightarrow> settings_view" where
  "store_syslog e enabled host port protocol facility sources =
     bind (set_text e ''syslog_enabled'' enabled) (\<lambda>_.
     bind (set_text e ''syslog_host'' host) (\<lambda>_.
     bind (set_text e ''syslog_port'' port) (\<lambda>_.
     bind (set_text e ''syslog_protocol'' protocol) (\<lambda>_.
     bind (set_text e ''syslog_facility'' facility) (\<lambda>_.
     bind (set_text e ''syslog_sources'' (if sources = [] then ''modsecurity,audit'' else sources)) (\<lambda>_.
     bind (audit_as e (syslog_entry e enabled host port protocol facility sources)) (\<lambda>_.
     ret (settings_page (Some SyslogSaved)))))))))"

definition settings_save_syslog :: "env \<Rightarrow> (string \<Rightarrow> string list option) \<Rightarrow> form \<Rightarrow> settings_view" where
  "settings_save_syslog e resolve f = roles_required [ROLE_ADMIN] (\<lambda>_.
     let enabled = flag f ''syslog_enabled''; host = strip (form_get f ''syslog_host''); port = text_or f ''syslog_port'' ''514'' in
     if enabled = ''1'' \<and> host = [] then ret (settings_page (Some HostRequired))
     else if host \<noteq> [] \<and> \<not> host_ok host then ret (settings_page (Some BadHost))
     else if enabled = ''1'' \<and> host \<noteq> [] \<and> is_safe_syslog_target (resolve host) \<noteq> TargetOk
     then ret (settings_page (Some (HostRefused (is_safe_syslog_target (resolve host)))))
     else bind (lift (port_text port)) (\<lambda>ok.
       if \<not> ok then ret (settings_page (Some BadPort))
       else store_syslog e enabled host port (choose_from [''udp'', ''tcp''] ''udp'' f ''syslog_protocol'')
              (choose_from VALID_FACILITIES ''local7'' f ''syslog_facility'') (chosen_sources f)))"

section \<open>Raw logs\<close>

definition retention_days :: "form \<Rightarrow> int option" where
  "retention_days f = (case py_int (strip (form_get f ''retention_days'')) of
      None \<Rightarrow> None
    | Some days \<Rightarrow> if days \<le> 0 then None else Some days)"

text \<open>What the form shows for a password that is set.\<close>

definition masked :: "env \<Rightarrow> string option \<Rightarrow> string" where
  "masked e stored = (case stored of
      None \<Rightarrow> []
    | Some t \<Rightarrow> if t = [] then []
        else (case decrypt_secret e (Some t) of
            Inl x \<Rightarrow> []
          | Inr p \<Rightarrow> replicate (max 8 (case p of None \<Rightarrow> 0 | Some q \<Rightarrow> length q)) (CHR ''*'')))"

definition logs_entry :: "env \<Rightarrow> audit_log" where
  "logs_entry e = audit_entry e ''rawlog.config_update'' (Some ''rawlog_config'') None None ''info'' ''success'' None"

definition store_logs :: "env \<Rightarrow> form \<Rightarrow> int \<Rightarrow> bool \<Rightarrow> settings_view" where
  "store_logs e f days changed =
     bind (set_text e ''modsec_rawlog_retention_days'' (show_int days)) (\<lambda>_.
     bind (set_text e ''modsec_rawlog_backup_before_prune'' (flag f ''backup_before_prune'')) (\<lambda>_.
     when_encrypted (ret (logs_page (Some NoSecretKey)))
       (if changed then set_secret e ''modsec_rawlog_zip_password'' (form_get f ''zip_password'') else ret ())
       (bind (on_db (commit e)) (\<lambda>_.
        bind (audit_as e logs_entry) (\<lambda>_.
        ret (logs_page (Some LogsSaved)))))))"

definition logs_config_save :: "env \<Rightarrow> form \<Rightarrow> settings_view" where
  "logs_config_save e f = roles_required [ROLE_ADMIN] (\<lambda>_. case retention_days f of
      None \<Rightarrow> ret (logs_page (Some BadRetention))
    | Some days \<Rightarrow>
        bind (table (\<lambda>d. config_get d ''modsec_rawlog_zip_password'')) (\<lambda>stored.
        let raw_pwd = form_get f ''zip_password''; changed = raw_pwd \<noteq> [] \<and> raw_pwd \<noteq> masked e stored in
        if changed \<and> \<not> fernet_key e then ret (logs_page (Some NoSecretKey)) else store_logs e f days changed))"

definition json_of_text :: "string option \<Rightarrow> json" where
  "json_of_text t = (case t of None \<Rightarrow> JNull | Some s \<Rightarrow> JStr s)"

definition rawlog_prune_now :: "env \<Rightarrow> zip_writer \<Rightarrow> settings_view" where
  "rawlog_prune_now e zw = roles_required [ROLE_ADMIN] (\<lambda>_.
     bind (on_db (prune_and_archive e zw (now e))) (\<lambda>r.
     let skipped = pr_skipped_reason r \<noteq> None \<and> pr_skipped_reason r \<noteq> Some [] in
     bind (audit_as e (\<lambda>e'. audit_entry e' ''rawlog.prune_now'' (Some ''rawlog'') None
       (Some [(''deleted_rows'', JInt (int (pr_deleted_rows r))), (''archived_rows'', JInt (int (pr_archived_rows r))),
          (''archive_file'', json_of_text (pr_archive_file r)), (''skipped_reason'', json_of_text (pr_skipped_reason r))])
       ''info'' (if skipped then ''failure'' else ''success'') None)) (\<lambda>_.
     ret (logs_page (Some (if skipped then PruneSkipped (the (pr_skipped_reason r)) else Pruned (pr_deleted_rows r)))))))"

definition archive_download :: "env \<Rightarrow> string \<Rightarrow> string list \<Rightarrow> string \<Rightarrow> settings_view" where
  "archive_download e dir files name = roles_required [ROLE_ADMIN] (\<lambda>_. case resolve_log_archive_path dir files name of
      Inl x \<Rightarrow> if x = ValueError then ret (logs_page (Some BadArchiveName)) else raise NotFound
    | Inr path \<Rightarrow>
        bind (audit_as e (\<lambda>e'. audit_entry e' ''rawlog.archive_download'' (Some ''rawlog_archive'') (Some name) None ''info'' ''success'' None)) (\<lambda>_.
        ret (Download path name)))"

section \<open>Resets\<close>

definition settings_reset_secrets :: "env \<Rightarrow> settings_view" where
  "settings_reset_secrets e = roles_required [ROLE_ADMIN] (\<lambda>_.
     bind (on_db (reset_encrypted_secrets e)) (\<lambda>r.
     bind (audit_as e (\<lambda>e'. audit_text_entry e' ''settings.reset_secrets'' (Some ''config'') None
       (json_dumps e (JObj [(''cleared_keys'', JList (map JStr (cleared_keys r))), (''totp_reset'', JInt (int (cleared_totp r)))]))
       ''warning'' ''success'' None)) (\<lambda>_.
     ret (settings_page (Some (SecretsCleared (cleared_secrets r) (cleared_totp r)))))))"

definition clear_waf_events :: "env \<Rightarrow> nat view_op" where
  "clear_waf_events e = bind (table (\<lambda>d. length (events d))) (\<lambda>n. bind (save e (\<lambda>d. d\<lparr>events := []\<rparr>)) (\<lambda>_. ret n))"

definition audit_cleared :: "env \<Rightarrow> string \<Rightarrow> nat \<Rightarrow> unit view_op" where
  "audit_cleared e action n = audit_as e (\<lambda>e'. audit_entry e' action (Some ''attack_events'') None
     (Some [(''deleted'', JInt (int n))]) ''warning'' ''success'' None)"

definition settings_clear_waf_events :: "env \<Rightarrow> settings_view" where
  "settings_clear_waf_events e = roles_required [ROLE_ADMIN] (\<lambda>_.
     bind (clear_waf_events e) (\<lambda>n. bind (audit_cleared e ''settings.clear_waf_events'' n) (\<lambda>_.
     ret (settings_page (Some (EventsCleared n))))))"

definition waf_reset_offer_accept :: "env \<Rightarrow> settings_view" where
  "waf_reset_offer_accept e = roles_required [ROLE_ADMIN] (\<lambda>_.
     bind (clear_waf_events e) (\<lambda>n.
     bind (set_text e ''waf_reset_offer_pending'' ''0'') (\<lambda>_.
     bind (audit_cleared e ''console.waf_reset_offer_accept'' n) (\<lambda>_.
     ret (Goto ''proxy.dashboard'' (Some (EventsCleared n)))))))"

definition waf_reset_offer_dismiss :: "env \<Rightarrow> settings_view" where
  "waf_reset_offer_dismiss e = roles_required [ROLE_ADMIN] (\<lambda>_.
     bind (set_text e ''waf_reset_offer_pending'' ''0'') (\<lambda>_. ret (Goto ''proxy.dashboard'' (Some EventsKept))))"

definition dismiss_setup_prompt :: "env \<Rightarrow> settings_view" where
  "dismiss_setup_prompt e = roles_required [ROLE_ADMIN] (\<lambda>_.
     bind (set_text e ''setup_prompt_shown'' ''1'') (\<lambda>_. ret (Json 200 [(''ok'', JBool True)])))"

section \<open>Requests\<close>

datatype settings_request =
    SaveCredentials form | SaveSmtp form | SaveSyslog form | SaveLogs form
  | PruneNow | GetArchive string | ResetSecrets | ClearEvents | AcceptOffer | DismissOffer | DismissPrompt

text \<open>The resolver, the writer of archives, and the directory of archives with its files.\<close>

record settings_env =
  st_resolve :: "string \<Rightarrow> string list option"
  st_zip :: zip_writer
  st_archives :: "string \<times> string list"

fun settings_view_of :: "settings_env \<Rightarrow> env \<Rightarrow> settings_request \<Rightarrow> settings_view" where
  "settings_view_of st e (SaveCredentials f) = settings_save e f"
| "settings_view_of st e (SaveSmtp f) = settings_save_smtp e f"
| "settings_view_of st e (SaveSyslog f) = settings_save_syslog e (st_resolve st) f"
| "settings_view_of st e (SaveLogs f) = logs_config_save e f"
| "settings_view_of st e PruneNow = rawlog_prune_now e (st_zip st)"
| "settings_view_of st e (GetArchive name) = archive_download e (fst (st_archives st)) (snd (st_archives st)) name"
| "settings_view_of st e ResetSecrets = settings_reset_secrets e"
| "settings_view_of st e ClearEvents = settings_clear_waf_events e"
| "settings_view_of st e AcceptOffer = waf_reset_offer_accept e"
| "settings_view_of st e DismissOffer = waf_reset_offer_dismiss e"
| "settings_view_of st e DismissPrompt = dismiss_setup_prompt e"

definition serve_settings :: "settings_env \<Rightarrow> env \<Rightarrow> cookie \<Rightarrow> settings_request \<Rightarrow> web \<Rightarrow> settings_notice reply \<times> web" where
  "serve_settings st e c rq w = serve_view (settings_view_of st e rq) c w"

end
