(* ===== verification/SettingsSafety.thy ===== *)
theory SettingsSafety
  imports Settings
begin

text \<open>
  What the views on the settings keep and what they bring about: submitted secrets are stored
  encrypted only, the syslog settings that were accepted are those the forwarder works with, and a
  retention the form accepts can stop the pruning of raw logs.
\<close>

section \<open>Secrets stay encrypted\<close>

lemma view_seals_renew: "fernet_encrypt e = cipher \<Longrightarrow> view_seals cipher (renew_secret e k v)"
  unfolding renew_secret_def by (auto intro: view_seals_secret holds_reading)

lemma view_seals_guarded: "view_seals cipher m \<Longrightarrow> view_seals cipher a \<Longrightarrow> view_seals cipher b \<Longrightarrow> view_seals cipher (when_encrypted a m b)"
  unfolding when_encrypted_def by (intro holds_intros)

lemma seals_archive: "seals cipher (write_archive zw n p c)"
  by (rule tables_outside) (simp add: write_archive_def split: option.split)

lemma seals_get: "seals cipher (get_secret e k)"
  by (rule tables_outside) simp

lemma plain_keys: "''modsec_rawlog_last_prune_at'' \<notin> set SECRET_KEYS" "''smtp_host'' \<notin> set SECRET_KEYS" "''smtp_port'' \<notin> set SECRET_KEYS"
  "''smtp_use_tls'' \<notin> set SECRET_KEYS" "''smtp_from'' \<notin> set SECRET_KEYS" "''syslog_enabled'' \<notin> set SECRET_KEYS"
  "''syslog_host'' \<notin> set SECRET_KEYS" "''syslog_port'' \<notin> set SECRET_KEYS" "''syslog_protocol'' \<notin> set SECRET_KEYS"
  "''syslog_facility'' \<notin> set SECRET_KEYS" "''syslog_sources'' \<notin> set SECRET_KEYS" "''modsec_rawlog_retention_days'' \<notin> set SECRET_KEYS"
  "''modsec_rawlog_backup_before_prune'' \<notin> set SECRET_KEYS" "''waf_reset_offer_pending'' \<notin> set SECRET_KEYS"
  "''setup_prompt_shown'' \<notin> set SECRET_KEYS"
  by (simp_all add: SECRET_KEYS_def)

lemma seals_prune: "seals cipher (prune_and_archive e zw t)"
proof -
  have arch: "seals cipher (archive_expired e zw t cutoff)" for cutoff
    unfolding archive_expired_def by (intro tables_intros seals_get seals_log seals_archive)
  have del: "seals cipher (delete_expired e cutoff)" for cutoff
    unfolding delete_expired_def by (intro tables_intros seals_log) (simp add: sealed_def)
  have fin: "seals cipher (finish_prune e t cutoff days n f)" for cutoff days n f
    unfolding finish_prune_def by (intro tables_intros del seals_log seals_set plain_keys)
  show ?thesis unfolding prune_and_archive_def Let_def by (intro tables_intros arch fin)
qed

lemma seals_reset: "seals cipher (reset_encrypted_secrets e)"
  unfolding reset_encrypted_secrets_def by (intro tables_intros sealed_clear)

lemma view_seals_clear: "view_seals cipher (clear_waf_events e)"
  unfolding clear_waf_events_def by (intro holds_bind holds_reading holds_tables_save) (simp add: sealed_def)

lemma view_seals_store_logs:
  "fernet_encrypt e = cipher \<Longrightarrow> (changed \<Longrightarrow> form_get f ''zip_password'' \<noteq> []) \<Longrightarrow> view_seals cipher (store_logs e f days changed)"
  unfolding store_logs_def
  by (intro holds_control holds_reading holds_bind view_seals_guarded view_seals_secret view_seals_text
      view_seals_audit holds_on_db tables_commit plain_keys) simp_all

lemma settings_keep_sealed: "fernet_encrypt e = cipher \<Longrightarrow> view_seals cipher (settings_view_of st e rq)"
proof (induction st e rq rule: settings_view_of.induct)
  case (1 st e f)
  then show ?case unfolding settings_view_of.simps settings_save_def Let_def
    by (intro holds_guards holds_control holds_reading holds_bind view_seals_guarded view_seals_renew)
next
  case (2 st e f)
  then show ?case unfolding settings_view_of.simps settings_save_smtp_def
    by (intro holds_guards holds_reading holds_bind view_seals_guarded view_seals_renew view_seals_text plain_keys)
next
  case (3 st e f)
  then show ?case unfolding settings_view_of.simps settings_save_syslog_def store_syslog_def Let_def
    by (intro holds_guards holds_control holds_reading holds_bind view_seals_text view_seals_audit plain_keys)
next
  case (4 st e f)
  then show ?case unfolding settings_view_of.simps logs_config_save_def Let_def
    by (intro holds_guards holds_control holds_reading holds_bind view_seals_store_logs) simp_all
next
  case (5 st e)
  then show ?case unfolding settings_view_of.simps rawlog_prune_now_def Let_def
    by (intro holds_guards holds_reading holds_bind view_seals_audit holds_on_db seals_prune)
next
  case (6 st e name)
  then show ?case unfolding settings_view_of.simps archive_download_def
    by (intro holds_guards holds_control holds_reading holds_bind view_seals_audit)
next
  case (7 st e)
  then show ?case unfolding settings_view_of.simps settings_reset_secrets_def
    by (intro holds_guards holds_reading holds_bind view_seals_audit holds_on_db seals_reset)
next
  case (8 st e)
  then show ?case unfolding settings_view_of.simps settings_clear_waf_events_def audit_cleared_def
    by (intro holds_guards holds_reading holds_bind view_seals_audit view_seals_clear)
next
  case (9 st e)
  then show ?case unfolding settings_view_of.simps waf_reset_offer_accept_def audit_cleared_def
    by (intro holds_guards holds_reading holds_bind view_seals_audit view_seals_clear view_seals_text plain_keys)
next
  case (10 st e)
  then show ?case unfolding settings_view_of.simps waf_reset_offer_dismiss_def
    by (intro holds_guards holds_reading holds_bind view_seals_text plain_keys)
next
  case (11 st e)
  then show ?case unfolding settings_view_of.simps dismiss_setup_prompt_def
    by (intro holds_guards holds_reading holds_bind view_seals_text plain_keys)
qed

inductive settings_step :: "(string \<Rightarrow> string) \<Rightarrow> web \<Rightarrow> web \<Rightarrow> bool" for cipher where
  asked: "fernet_encrypt e = cipher \<Longrightarrow> serve_settings st e c rq w = (answer, w') \<Longrightarrow> settings_step cipher w w'"

lemma settings_steps_seal:
  "(settings_step cipher)\<^sup>*\<^sup>* w w' \<Longrightarrow> settled (w_session w) \<and> sealed cipher (w_db w)
     \<Longrightarrow> settled (w_session w') \<and> sealed cipher (w_db w')"
proof (induction rule: rtranclp_induct)
  case (step y z)
  from step.hyps(2) obtain e st c rq answer where "fernet_encrypt e = cipher" "serve_settings st e c rq y = (answer, z)"
    by (cases rule: settings_step.cases) blast
  with serve_view_tables [OF settings_keep_sealed] step show ?case unfolding serve_settings_def by blast
qed

section \<open>What the form of the forwarder brings about\<close>

definition stored_syslog :: "string \<Rightarrow> string \<Rightarrow> string \<Rightarrow> string \<Rightarrow> string \<Rightarrow> string \<Rightarrow> db \<Rightarrow> bool" where
  "stored_syslog enabled host port protocol facility sources d \<longleftrightarrow>
     config_get d ''syslog_enabled'' = Some enabled \<and> config_get d ''syslog_host'' = Some host
     \<and> config_get d ''syslog_port'' = Some port \<and> config_get d ''syslog_protocol'' = Some protocol
     \<and> config_get d ''syslog_facility'' = Some facility
     \<and> config_get d ''syslog_sources'' = Some (if sources = [] then ''modsecurity,audit'' else sources)"

lemma store_syslog_stores:
  assumes "store_syslog e enabled host port protocol facility sources u = (Inr y, u')"
  shows "stored_syslog enabled host port protocol facility sources (committed (vi_session u'))"
proof -
  obtain u1 u2 u3 u4 u5 u6 where
    s: "set_text e ''syslog_enabled'' enabled u = (Inr (), u1)" "set_text e ''syslog_host'' host u1 = (Inr (), u2)"
      "set_text e ''syslog_port'' port u2 = (Inr (), u3)" "set_text e ''syslog_protocol'' protocol u3 = (Inr (), u4)"
      "set_text e ''syslog_facility'' facility u4 = (Inr (), u5)"
      "set_text e ''syslog_sources'' (if sources = [] then ''modsecurity,audit'' else sources) u5 = (Inr (), u6)"
    and a: "audit_as e (syslog_entry e enabled host port protocol facility sources) u6 = (Inr (), u')"
    using assms unfolding store_syslog_def bind_eq_Inr by auto
  let ?d = "working (vi_session u6)"
  have "?d = config_put ''syslog_sources'' (Some (if sources = [] then ''modsecurity,audit'' else sources)) False
    (config_put ''syslog_facility'' (Some facility) False (config_put ''syslog_protocol'' (Some protocol) False
    (config_put ''syslog_port'' (Some port) False (config_put ''syslog_host'' (Some host) False
    (config_put ''syslog_enabled'' (Some enabled) False (working (vi_session u)))))))"
    unfolding s [THEN set_text_done(1)] ..
  then have "stored_syslog enabled host port protocol facility sources ?d"
    by (simp add: stored_syslog_def config_get_put)
  moreover obtain a where "committed (vi_session u') \<in> {?d, add_audit a ?d}"
    using audit_as_session(5) [OF a] set_text_done(2) [OF s(6)] by auto
  ultimately show ?thesis by (auto simp: stored_syslog_def config_get_audit)
qed

lemma sources_read_back:
  assumes "config_get d ''syslog_sources'' = Some (if s = [] then ''modsecurity,audit'' else s)" "s = join '','' xs" "set xs \<subseteq> set VALID_SOURCES"
  shows "syslog_sources d = (if xs = [] then [''modsecurity'', ''audit''] else xs)"
proof -
  have words: "list_all (\<lambda>x. x \<noteq> [] \<and> strip x = x \<and> CHR '','' \<notin> set x) VALID_SOURCES"
    by (simp add: VALID_SOURCES_def) code_simp
  have xs: "x \<noteq> []" "strip x = x" "CHR '','' \<notin> set x" if "x \<in> set xs" for x
    using words that assms(3) by (auto simp: list_all_iff)
  show ?thesis
  proof (cases "xs = []")
    case True
    then have "config_or d ''syslog_sources'' ''modsecurity,audit'' = ''modsecurity,audit''"
      using assms(1,2) by (simp add: config_or_def)
    moreover have "filter (\<lambda>s. s \<noteq> []) (map strip (split_on (CHR '','') ''modsecurity,audit'')) = [''modsecurity'', ''audit'']"
      by code_simp
    ultimately show ?thesis using True by (simp add: syslog_sources_def)
  next
    case False
    then have "s \<noteq> []" using xs(1) assms(2) by (cases xs; cases "tl xs") auto
    then have "config_or d ''syslog_sources'' ''modsecurity,audit'' = join '','' xs"
      using assms(1,2) by (simp add: config_or_def)
    moreover have "split_on (CHR '','') (join '','' xs) = xs" using False xs(3) by (intro split_on_join) auto
    moreover have "map strip xs = xs" using xs(2) by (intro map_idI)
    moreover have "filter (\<lambda>s. s \<noteq> []) xs = xs" using xs(1) by (auto simp: filter_id_conv)
    ultimately show ?thesis using False by (simp add: syslog_sources_def)
  qed
qed

text \<open>The sources of a form, as the forwarder lists them.\<close>

definition wanted_sources :: "form \<Rightarrow> string list" where
  "wanted_sources f = filter (\<lambda>s. s \<in> set VALID_SOURCES) (split_on (CHR '','') (join '','' (field_list f ''syslog_sources'')))"

lemma facility_known: "x \<in> set VALID_FACILITIES \<Longrightarrow> x \<noteq> []"
  by (auto simp: VALID_FACILITIES_def)

lemma choose_from_in: "dflt \<in> set options \<Longrightarrow> choose_from options dflt f k \<in> set options"
  by (simp add: choose_from_def split: option.split)

section \<open>Properties\<close>

text \<open>
  C13: However many requests are served to the views on the settings, by whomever they are sent and
  whatever fails in them, the credentials, the mail account and the password of the archives are
  stored encrypted only, every value being one the cipher made.
\<close>

theorem settings_keep_secrets_encrypted:
  assumes "(settings_step cipher)\<^sup>*\<^sup>* w w'" "settled (w_session w)" "sealed cipher (w_db w)"
  shows "settled (w_session w') \<and> sealed cipher (w_db w')"
  using settings_steps_seal [OF assms(1)] assms(2,3) by blast

text \<open>
  C14: When the form of the syslog forwarder is answered as saved, the forwarder works with what the
  form said: a port from 1 to 65535, a known protocol and facility, the chosen sources or both, and,
  when it is enabled, a host whose addresses were allowed at that time.
\<close>

theorem syslog_settings_take_effect:
  assumes "serve_settings st e c (SaveSyslog f) w = (settings_page (Some SyslogSaved), w')"
  shows "config_get (w_db w') ''syslog_enabled'' = Some (flag f ''syslog_enabled'')
    \<and> strip (config_or (w_db w') ''syslog_host'' []) = strip (form_get f ''syslog_host'')
    \<and> (flag f ''syslog_enabled'' \<noteq> ''1'' \<or> host_ok (strip (form_get f ''syslog_host''))
         \<and> is_safe_syslog_target (st_resolve st (strip (form_get f ''syslog_host''))) = TargetOk)
    \<and> py_int (text_or f ''syslog_port'' ''514'') = Some (syslog_port (w_db w'))
    \<and> 1 \<le> syslog_port (w_db w') \<and> syslog_port (w_db w') \<le> 65535
    \<and> syslog_protocol (w_db w') = choose_from [''udp'', ''tcp''] ''udp'' f ''syslog_protocol''
    \<and> map_of FACILITY_CODES (choose_from VALID_FACILITIES ''local7'' f ''syslog_facility'') = Some (syslog_facility (w_db w'))
    \<and> syslog_sources (w_db w') = (if wanted_sources f = [] then [''modsecurity'', ''audit''] else wanted_sources f)"
proof -
  let ?host = "strip (form_get f ''syslog_host'')" and ?port = "text_or f ''syslog_port'' ''514''"
  let ?protocol = "choose_from [''udp'', ''tcp''] ''udp'' f ''syslog_protocol''"
  let ?facility = "choose_from VALID_FACILITIES ''local7'' f ''syslog_facility''"
  obtain u where u: "settings_save_syslog e (st_resolve st) f (visit_of c w) = (Inr (settings_page (Some SyslogSaved)), u)" "w' = leave u w"
    using assms by (auto simp: serve_settings_def serve_view_def reply_of_def settings_page_def split: prod.splits sum.splits)
  obtain p where p: "flag f ''syslog_enabled'' \<noteq> ''1'' \<or> ?host \<noteq> [] \<and> is_safe_syslog_target (st_resolve st ?host) = TargetOk"
    "?host = [] \<or> host_ok ?host" "port_text ?port = Inr True"
    and run: "store_syslog e (flag f ''syslog_enabled'') ?host ?port ?protocol ?facility (chosen_sources f) (visit_of c w)
      = (Inr (settings_page (Some SyslogSaved)), u)"
    using roles_required_Inr [OF u(1) [unfolded settings_save_syslog_def]]
    by (auto simp: settings_page_def Let_def bind_eq_Inr lift_def split: if_splits sum.splits)
  have d: "stored_syslog (flag f ''syslog_enabled'') ?host ?port ?protocol ?facility (chosen_sources f) (w_db w')"
    using store_syslog_stores [OF run] by (simp add: u(2) leave_def rollback_def)
  obtain q where q: "py_int ?port = Some q" "1 \<le> q" "q \<le> 65535" "?port \<noteq> []"
    using p(3) by (auto simp: port_text_def py_isdigit_def split: if_splits option.splits)
  have port: "syslog_port (w_db w') = q" using d q by (simp add: stored_syslog_def syslog_port_def config_or_def)
  have "?protocol \<in> set [''udp'', ''tcp'']" by (rule choose_from_in) simp
  then have protocol: "syslog_protocol (w_db w') = ?protocol"
    using d by (auto simp: stored_syslog_def syslog_protocol_def config_or_def)
  have fac: "?facility \<in> set VALID_FACILITIES" by (rule choose_from_in) (simp add: VALID_FACILITIES_def)
  have "list_all (\<lambda>x. map_of FACILITY_CODES x \<noteq> None) VALID_FACILITIES"
    by (simp add: VALID_FACILITIES_def FACILITY_CODES_def)
  with fac obtain n where n: "map_of FACILITY_CODES ?facility = Some n" by (auto simp: list_all_iff)
  then have facility: "syslog_facility (w_db w') = n"
    using d facility_known [OF fac] by (simp add: stored_syslog_def syslog_facility_def config_or_def code_of_def)
  have sources: "syslog_sources (w_db w') = (if wanted_sources f = [] then [''modsecurity'', ''audit''] else wanted_sources f)"
    using d by (intro sources_read_back [of _ "chosen_sources f"]) (auto simp: stored_syslog_def chosen_sources_def wanted_sources_def)
  have host: "strip (config_or (w_db w') ''syslog_host'' []) = ?host"
    using d by (simp add: stored_syslog_def config_or_def)
  show ?thesis using d p(1,2) q port protocol n facility sources host by (auto simp: stored_syslog_def)
qed

section \<open>A retention that stops the pruning\<close>

lemma when_encrypted_Inr:
  assumes "when_encrypted a m b u = (Inr y, u')"
  shows "(\<exists>u1. m u = (Inr (), u1) \<and> b u1 = (Inr y, u')) \<or> (\<exists>u1. a u1 = (Inr y, u'))"
  using assms by (cases "m u"; cases "fst (m u)") (auto simp: when_encrypted_def bind_def catch_def split: if_splits)

lemma store_logs_stores:
  assumes "store_logs e f n changed u = (Inr (logs_page (Some LogsSaved)), u')"
  shows "config_get (committed (vi_session u')) ''modsec_rawlog_retention_days'' = Some (show_int n)"
proof -
  let ?key = "''modsec_rawlog_retention_days''"
  let ?secret = "if changed then set_secret e ''modsec_rawlog_zip_password'' (form_get f ''zip_password'') else ret ()"
  let ?tail = "bind (on_db (commit e)) (\<lambda>_. bind (audit_as e logs_entry) (\<lambda>_. ret (logs_page (Some LogsSaved))))"
  obtain u1 u2 where s: "set_text e ?key (show_int n) u = (Inr (), u1)"
    "set_text e ''modsec_rawlog_backup_before_prune'' (flag f ''backup_before_prune'') u1 = (Inr (), u2)"
    and w: "when_encrypted (ret (logs_page (Some NoSecretKey))) ?secret ?tail u2 = (Inr (logs_page (Some LogsSaved)), u')"
    using assms unfolding store_logs_def bind_eq_Inr by (elim exE conjE) simp
  obtain u3 where u3: "?secret u2 = (Inr (), u3)" and rest: "?tail u3 = (Inr (logs_page (Some LogsSaved)), u')"
    using when_encrypted_Inr [OF w] by (auto simp: logs_page_def)
  obtain u4 where u4: "on_db (commit e) u3 = (Inr (), u4)" and a: "audit_as e logs_entry u4 = (Inr (), u')"
    using rest unfolding bind_eq_Inr by auto
  have "config_get (working (vi_session u2)) ?key = Some (show_int n)"
    unfolding set_text_done(1) [OF s(2)] set_text_done(1) [OF s(1)] by (simp add: config_get_put)
  then have "config_get (working (vi_session u3)) ?key = Some (show_int n)"
    using u3 set_secret_done [of e "''modsec_rawlog_zip_password''" "form_get f ''zip_password''" u2 u3] by (cases changed) (auto simp: config_get_put)
  moreover have "working (vi_session u4) = working (vi_session u3) \<and> committed (vi_session u4) = working (vi_session u3)"
    using u4 by (auto simp: on_db_def commit_def Let_def split: if_splits)
  moreover obtain x where "committed (vi_session u') \<in> {committed (vi_session u4), add_audit x (committed (vi_session u4)),
      add_audit x (working (vi_session u4))}" using audit_as_session(5) [OF a] by blast
  ultimately show ?thesis by (auto simp: config_get_audit)
qed

lemma logs_config_stores:
  assumes "logs_config_save e f u = (Inr (logs_page (Some LogsSaved)), u')" "retention_days f = Some n"
  shows "config_get (committed (vi_session u')) ''modsec_rawlog_retention_days'' = Some (show_int n)"
proof -
  obtain u1 changed where "store_logs e f n changed u1 = (Inr (logs_page (Some LogsSaved)), u')"
    using roles_required_Inr [OF assms(1) [unfolded logs_config_save_def]] assms(2)
    by (auto simp: logs_page_def Let_def bind_eq_Inr split: if_splits)
  then show ?thesis by (rule store_logs_stores)
qed

text \<open>
  C15: The form for the raw logs accepts a retention of any length; one of more than 999999999 days
  is saved, and from then on every pruning, the daily one and the one on demand, raises before
  anything is archived or deleted.
\<close>

theorem retention_stops_pruning:
  assumes "serve_settings st e c (SaveLogs f) w = (logs_page (Some LogsSaved), w')"
    "retention_days f = Some n" "999999999 < n"
  shows "prune_and_archive e' zw t (w_session w') = (Inl OverflowError, w_session w')"
proof -
  obtain u where u: "logs_config_save e f (visit_of c w) = (Inr (logs_page (Some LogsSaved)), u)" "w' = leave u w"
    using assms(1) by (auto simp: serve_settings_def serve_view_def reply_of_def logs_page_def split: prod.splits sum.splits)
  have "py_int (strip (form_get f ''retention_days'')) = Some n"
    using assms(2) by (auto simp: retention_days_def split: option.splits if_splits)
  from py_int_shown [OF this] have "config_int (working (w_session w')) ''modsec_rawlog_retention_days'' 30 = n"
    using logs_config_stores [OF u(1) assms(2)]
    by (simp add: u(2) leave_def rollback_def config_int_def config_number_def show_int_ne)
  with assms(3) show ?thesis by (simp add: prune_and_archive_def bind_def)
qed

section \<open>Examples\<close>

definition settings_admin :: user where
  "settings_admin = \<lparr>usr_id = 1, usr_email = ''root@example.com'', usr_name = ''Root'', usr_password_hash = ''h'',
     usr_role = ''admin'', usr_is_active = True, usr_last_login_at = None, usr_totp_secret = None, usr_totp_enabled = False,
     usr_session_token = ''0''\<rparr>"

definition settings_web :: web where
  "settings_web = \<lparr>w_session = fresh_session (empty_db\<lparr>users := [settings_admin]\<rparr>), w_issued = [], w_draws = 1\<rparr>"

definition settings_cookie :: cookie where
  "settings_cookie = no_cookie\<lparr>ck_user := Some ''1:0''\<rparr>"

definition settings_outside :: settings_env where
  "settings_outside = \<lparr>st_resolve = (\<lambda>h. Some [''192.0.2.7'']), st_zip = (\<lambda>h n. None), st_archives = (''/archives'', [])\<rparr>"

definition sealing_env :: env where
  "sealing_env = quiet_env\<lparr>fernet_key := True, fernet_encrypt := rev, json_dumps := json_dumps_text\<rparr>"

definition syslog_form :: form where
  "syslog_form = [(''syslog_enabled'', ''on''), (''syslog_host'', '' logs.example ''), (''syslog_port'', ''6514''),
     (''syslog_protocol'', ''tcp''), (''syslog_facility'', ''local3''), (''syslog_sources'', ''audit'')]"

definition password_form :: form where
  "password_form = [(''retention_days'', ''1000000000''), (''zip_password'', ''abc'')]"

lemma syslog_answer:
  "fst (serve_settings settings_outside sealing_env settings_cookie (SaveSyslog syslog_form) settings_web) = settings_page (Some SyslogSaved)"
  by code_simp

lemma logs_answer:
  "fst (serve_settings settings_outside sealing_env settings_cookie (SaveLogs password_form) settings_web) = logs_page (Some LogsSaved)"
  by code_simp

definition password_web :: web where
  "password_web = snd (serve_settings settings_outside sealing_env settings_cookie (SaveLogs password_form) settings_web)"

lemma password_served: "serve_settings settings_outside sealing_env settings_cookie (SaveLogs password_form) settings_web
    = (logs_page (Some LogsSaved), password_web)"
  using logs_answer by (simp add: password_web_def prod_eq_iff)

lemma password_stored: "config_get (w_db password_web) ''modsec_rawlog_zip_password'' = Some ''cba''"
  by code_simp

theorem settings_keep_secrets_encrypted_witness:
  "sealed rev (w_db password_web) \<and> config_get (w_db password_web) ''modsec_rawlog_zip_password'' = Some ''cba''"
proof -
  have "(settings_step rev)\<^sup>*\<^sup>* settings_web password_web"
    by (rule r_into_rtranclp, rule settings_step.asked [OF _ password_served]) (simp add: sealing_env_def)
  moreover have "settled (w_session settings_web)" "sealed rev (w_db settings_web)"
    by (simp_all add: settings_web_def fresh_session_def sealed_def empty_db_def settled_def constraints_def)
  ultimately show ?thesis using settings_keep_secrets_encrypted password_stored by blast
qed

theorem syslog_settings_take_effect_witness:
  "\<exists>w'. syslog_port (w_db w') = 6514 \<and> syslog_protocol (w_db w') = ''tcp'' \<and> syslog_sources (w_db w') = [''audit'']"
proof -
  obtain w' where "serve_settings settings_outside sealing_env settings_cookie (SaveSyslog syslog_form) settings_web
      = (settings_page (Some SyslogSaved), w')"
    using syslog_answer by (metis prod.collapse)
  from syslog_settings_take_effect [OF this]
  have "py_int (text_or syslog_form ''syslog_port'' ''514'') = Some (syslog_port (w_db w'))"
    "syslog_protocol (w_db w') = choose_from [''udp'', ''tcp''] ''udp'' syslog_form ''syslog_protocol''"
    "syslog_sources (w_db w') = (if wanted_sources syslog_form = [] then [''modsecurity'', ''audit''] else wanted_sources syslog_form)"
    by simp_all
  moreover have "py_int (text_or syslog_form ''syslog_port'' ''514'') = Some 6514" "wanted_sources syslog_form = [''audit'']"
    "choose_from [''udp'', ''tcp''] ''udp'' syslog_form ''syslog_protocol'' = ''tcp''"
    by code_simp+
  ultimately show ?thesis by auto
qed

theorem retention_stops_pruning_witness:
  "prune_and_archive quiet_env (\<lambda>h n. None) 0 (w_session password_web) = (Inl OverflowError, w_session password_web)"
proof (rule retention_stops_pruning [OF password_served])
  show "retention_days password_form = Some 1000000000" by code_simp
qed simp

end
