(* ===== verification/BotChallenge.thy ===== *)
theory BotChallenge
  imports PyJson "HOL-Library.Multiset"
begin

text \<open>
  The challenge that tells people from bots: \<^verbatim>\<open>_make_challenge\<close> of \<^verbatim>\<open>app/proxy/services.py\<close>,
  \<^verbatim>\<open>_verify_challenge\<close> and \<^verbatim>\<open>bot_verify\<close> of \<^verbatim>\<open>app/proxy/routes.py\<close>, with the base64 coding of
  Python.  Random numbers are a stream \<open>r\<close>, of which every position is used once: each outcome of
  \<open>random\<close> is that of some stream.  The keyed hash is an argument.
\<close>

section \<open>Base64\<close>

definition b64_char :: "nat \<Rightarrow> char" where
  "b64_char n =
     (if n < 26 then char_of (n + 65) else if n < 52 then char_of (n + 71) else if n < 62 then char_of (n - 4)
      else if n = 62 then CHR ''-'' else CHR ''_'')"

definition pad_char :: char where
  "pad_char = CHR ''=''"

fun b64_encode :: "string \<Rightarrow> string" where
  "b64_encode [] = []"
| "b64_encode [a] = [b64_char (code a div 4), b64_char (code a mod 4 * 16), pad_char, pad_char]"
| "b64_encode [a, b] = [b64_char (code a div 4), b64_char (code a mod 4 * 16 + code b div 16),
     b64_char (code b mod 16 * 4), pad_char]"
| "b64_encode (a # b # c # cs) = b64_char (code a div 4) # b64_char (code a mod 4 * 16 + code b div 16)
     # b64_char (code b mod 16 * 4 + code c div 64) # b64_char (code c mod 64) # b64_encode cs"

text \<open>The two characters of the standard alphabet are read as well as those for addresses.\<close>

definition b64_val :: "char \<Rightarrow> nat option" where
  "b64_val c =
     (let n = code c in
      if 65 \<le> n \<and> n \<le> 90 then Some (n - 65)
      else if 97 \<le> n \<and> n \<le> 122 then Some (n - 71)
      else if 48 \<le> n \<and> n \<le> 57 then Some (n + 4)
      else if c \<in> {CHR ''-'', CHR ''+''} then Some 62
      else if c \<in> {CHR ''_'', CHR ''/''} then Some 63
      else None)"

text \<open>
  \<open>binascii.a2b_base64\<close>: the position in the group of four, the bits left over and the padding
  seen so far.  Other characters are skipped, enough padding ends the reading.
\<close>

fun b64_run :: "nat \<Rightarrow> nat \<Rightarrow> nat \<Rightarrow> string \<Rightarrow> string option" where
  "b64_run q l p [] = (if q = 0 then Some [] else None)"
| "b64_run q l p (c # cs) =
     (if c = pad_char
      then if q < 2 then b64_run q l p cs
           else if 4 \<le> q + Suc p then Some []
           else b64_run q l (Suc p) cs
      else case b64_val c of
          None \<Rightarrow> b64_run q l p cs
        | Some v \<Rightarrow>
            if q = 0 then b64_run 1 v 0 cs
            else if q = 1 then map_option (Cons (char_of (l * 4 + v div 16))) (b64_run 2 (v mod 16) 0 cs)
            else if q = 2 then map_option (Cons (char_of (l * 16 + v div 4))) (b64_run 3 (v mod 4) 0 cs)
            else map_option (Cons (char_of (l * 64 + v))) (b64_run 0 0 0 cs))"

definition b64_decode :: "string \<Rightarrow> string option" where
  "b64_decode s = (if list_all is_ascii s then b64_run 0 0 0 s else None)"

definition drop_padding :: "string \<Rightarrow> string" where
  "drop_padding s = rev (dropWhile (\<lambda>c. c = pad_char) (rev s))"

definition padded :: "string \<Rightarrow> string" where
  "padded s = (let b = drop_padding s in b @ replicate ((4 - length b mod 4) mod 4) pad_char)"

section \<open>The challenge\<close>

definition randint :: "(nat \<Rightarrow> nat) \<Rightarrow> nat \<Rightarrow> int \<Rightarrow> int \<Rightarrow> int" where
  "randint r k a b = a + int (r k mod nat (b - a + 1))"

definition choice :: "(nat \<Rightarrow> nat) \<Rightarrow> nat \<Rightarrow> 'a list \<Rightarrow> 'a" where
  "choice r k xs = xs ! (r k mod length xs)"

definition minus_sign :: string where "minus_sign = [CHR 0xE2, CHR 0x88, CHR 0x92]"
definition times_sign :: string where "times_sign = [CHR 0xC3, CHR 0x97]"

text \<open>The question and its answer.\<close>

definition question :: "(nat \<Rightarrow> nat) \<Rightarrow> nat \<Rightarrow> string \<times> int" where
  "question r k =
     (let operator = choice r k [CHR ''+'', CHR ''-'', CHR ''*''] in
      if operator = CHR ''+'' then
        let a = randint r (k + 1) 5 20; b = randint r (k + 2) 3 15 in (show_int a @ '' + '' @ show_int b, a + b)
      else if operator = CHR ''-'' then
        let a = randint r (k + 1) 12 30; b = randint r (k + 2) 3 (a - 3) in
        (show_int a @ '' '' @ minus_sign @ '' '' @ show_int b, a - b)
      else
        let a = randint r (k + 1) 2 9; b = randint r (k + 2) 2 9 in
        (show_int a @ '' '' @ times_sign @ '' '' @ show_int b, a * b))"

definition DELTAS :: "int list" where
  "DELTAS = [-3, -2, -1, 1, 2, 3]"

text \<open>\<open>while len(choices) < 3\<close>; the set is a list in the order of insertion.\<close>

partial_function (option) add_choices :: "(nat \<Rightarrow> nat) \<Rightarrow> int \<Rightarrow> nat \<Rightarrow> int list \<Rightarrow> (int list \<times> nat) option" where
  "add_choices r answer k choices =
     (if \<not> length choices < 3 then Some (choices, k)
      else let c = answer + choice r k DELTAS in
        add_choices r answer (Suc k) (if c > 0 \<and> c \<notin> set choices then choices @ [c] else choices))"

definition swap :: "nat \<Rightarrow> nat \<Rightarrow> 'a list \<Rightarrow> 'a list" where
  "swap i j xs = xs[i := xs ! j, j := xs ! i]"

text \<open>\<open>random.shuffle\<close>, from the last position down.\<close>

fun shuffle_down :: "(nat \<Rightarrow> nat) \<Rightarrow> nat \<Rightarrow> nat \<Rightarrow> 'a list \<Rightarrow> 'a list" where
  "shuffle_down r k 0 xs = xs"
| "shuffle_down r k (Suc i) xs = shuffle_down r (Suc k) i (swap (Suc i) (r k mod (i + 2)) xs)"

record challenge =
  ch_question :: string
  ch_choices :: "int list"
  ch_token :: string

definition payload :: "int \<Rightarrow> string" where
  "payload answer = b64_encode (json_dumps_text (JObj [(''a'', JInt answer)]))"

definition signature :: "(string \<Rightarrow> string \<Rightarrow> string) \<Rightarrow> string \<Rightarrow> string \<Rightarrow> string" where
  "signature mac secret p = take 32 (mac secret p)"

definition make_challenge :: "(string \<Rightarrow> string \<Rightarrow> string) \<Rightarrow> (nat \<Rightarrow> nat) \<Rightarrow> nat \<Rightarrow> string \<Rightarrow> challenge option" where
  "make_challenge mac r k secret =
     (let (q, answer) = question r k; p = payload answer in
      case add_choices r answer (k + 3) [answer] of
        None \<Rightarrow> None
      | Some (choices, k') \<Rightarrow>
          Some \<lparr>ch_question = q, ch_choices = shuffle_down r k' (length choices - 1) choices,
                ch_token = p @ ''.'' @ signature mac secret p\<rparr>)"

section \<open>The answer\<close>

text \<open>\<open>token.rsplit(\<close>dot\<open>, 1)\<close>.\<close>

definition rsplit_dot :: "string \<Rightarrow> (string \<times> string) option" where
  "rsplit_dot t =
     (let sig = rev (takeWhile (\<lambda>c. c \<noteq> CHR ''.'') (rev t)) in
      if CHR ''.'' \<in> set t then Some (take (length t - length sig - 1) t, sig) else None)"

definition verify_challenge ::
    "(string \<Rightarrow> string \<Rightarrow> string) \<Rightarrow> (string \<Rightarrow> py_exn + json) \<Rightarrow> string \<Rightarrow> string \<Rightarrow> int \<Rightarrow> bool" where
  "verify_challenge mac loads secret token c =
     (case rsplit_dot token of
        None \<Rightarrow> False
      | Some (b64, sig) \<Rightarrow>
          if signature mac secret b64 \<noteq> sig then False
          else (case b64_decode (padded b64) of
              None \<Rightarrow> False
            | Some t \<Rightarrow> (case loads t of
                Inr (JObj d) \<Rightarrow> (case jget ''a'' d of None \<Rightarrow> False | Some v \<Rightarrow> json_int v = Some c)
              | _ \<Rightarrow> False)))"

text \<open>\<open>urllib.parse.quote(ret, safe=\<close>slash\<open>)\<close>.\<close>

definition quote_char_url :: "char \<Rightarrow> string" where
  "quote_char_url c =
     (if is_alnum c \<or> c \<in> {CHR ''_'', CHR ''.'', CHR ''-'', CHR ''~'', CHR ''/''} then [c]
      else concat (map (\<lambda>b. CHR ''%'' # map upper_char (hex2 (code b))) (utf8_char c)))"

definition quote_url :: "string \<Rightarrow> string" where
  "quote_url s = concat (map quote_char_url s)"

text \<open>The answers: a bad request, the challenge once more, or the cookie (for HTTPS only, when the
  visitor came by it) and a redirection.\<close>

datatype bot_reply = BadChoice | Again string | Cleared string bool

definition return_target :: "string \<Rightarrow> string" where
  "return_target t = (if \<not> starts_with ''/'' t \<or> starts_with ''//'' t then ''/'' else t)"

definition bot_verify ::
    "(string \<Rightarrow> string \<Rightarrow> string) \<Rightarrow> (string \<Rightarrow> py_exn + json) \<Rightarrow> string \<Rightarrow> string \<Rightarrow> (string \<times> string) list \<Rightarrow> bot_reply" where
  "bot_verify mac loads secret proto f =
     (let field = (\<lambda>k d. case map_of f k of None \<Rightarrow> d | Some t \<Rightarrow> t);
          target = return_target (field ''ret'' ''/'') in
      case py_int (field ''choice'' []) of
        None \<Rightarrow> BadChoice
      | Some c \<Rightarrow>
          if \<not> verify_challenge mac loads secret (field ''token'' []) c
          then Again (''/_wn_challenge/?ret='' @ quote_url target @ ''&error=1'')
          else Cleared target (proto = ''https''))"

section \<open>Reading base64\<close>

lemma b64_char_facts:
  assumes "n < 64"
  shows "b64_val (b64_char n) = Some n" "b64_char n \<noteq> pad_char" "b64_char n \<noteq> CHR ''.''" "is_ascii (b64_char n)"
proof -
  have "n < 26 \<or> (26 \<le> n \<and> n < 52) \<or> (52 \<le> n \<and> n < 62) \<or> n = 62 \<or> n = 63" using assms by arith
  then have code: "n < 26 \<and> code (b64_char n) = n + 65 \<or> 26 \<le> n \<and> n < 52 \<and> code (b64_char n) = n + 71
      \<or> 52 \<le> n \<and> n < 62 \<and> code (b64_char n) = n - 4 \<or> n = 62 \<and> b64_char n = CHR ''-'' \<or> n = 63 \<and> b64_char n = CHR ''_''"
    by (auto simp: b64_char_def)
  then show "b64_val (b64_char n) = Some n" by (auto simp: b64_val_def Let_def)
  from code show "is_ascii (b64_char n)" by (auto simp: is_ascii_def)
  have "b64_val pad_char = None" "b64_val (CHR ''.'') = None" by (simp_all add: b64_val_def pad_char_def)
  with \<open>b64_val (b64_char n) = Some n\<close> show "b64_char n \<noteq> pad_char" "b64_char n \<noteq> CHR ''.''" by auto
qed

lemma code_bound: "code (c::char) < 256"
  by (metis mod_less_divisor of_char_mod_256 zero_less_numeral)

lemma digits_of_sum: "y < m \<Longrightarrow> (x * m + y) div m = x" "y < m \<Longrightarrow> (x * m + y) mod m = (y::nat)"
  by simp_all

lemma sextets:
  fixes a b c :: nat
  assumes "a < 256" "b < 256" "c < 256"
  shows "a div 4 < 64" "a mod 4 * 16 + b div 16 < 64" "b mod 16 * 4 + c div 64 < 64" "c mod 64 < 64"
    "a mod 4 * 16 < 64" "b mod 16 * 4 < 64"
    "a div 4 * 4 + (a mod 4 * 16 + b div 16) div 16 = a" "(a mod 4 * 16 + b div 16) mod 16 = b div 16"
    "b div 16 * 16 + (b mod 16 * 4 + c div 64) div 4 = b" "(b mod 16 * 4 + c div 64) mod 4 = c div 64"
    "c div 64 * 64 + c mod 64 = c"
proof -
  have d: "a div 4 < 64" "b div 16 < 16" "c div 64 < 4" using assms by (auto simp: less_mult_imp_div_less)
  have m: "a mod 4 < 4" "b mod 16 < 16" "c mod 64 < 64" by simp_all
  show "a div 4 < 64" "c mod 64 < 64" using d m by simp_all
  show "a mod 4 * 16 + b div 16 < 64" "b mod 16 * 4 + c div 64 < 64" "a mod 4 * 16 < 64" "b mod 16 * 4 < 64"
    using d m by linarith+
  show "(a mod 4 * 16 + b div 16) mod 16 = b div 16" "(b mod 16 * 4 + c div 64) mod 4 = c div 64"
    using digits_of_sum(2) d by blast+
  have "(a mod 4 * 16 + b div 16) div 16 = a mod 4" "(b mod 16 * 4 + c div 64) div 4 = b mod 16"
    using digits_of_sum(1) d by blast+
  then show "a div 4 * 4 + (a mod 4 * 16 + b div 16) div 16 = a" "b div 16 * 16 + (b mod 16 * 4 + c div 64) div 4 = b"
    "c div 64 * 64 + c mod 64 = c" by simp_all
qed

text \<open>A group of four characters, and the two shorter ones.\<close>

lemma encode_group:
  obtains v1 v2 v3 v4 where "v1 < 64" "v2 < 64" "v3 < 64" "v4 < 64"
    "b64_encode (a # b # c # cs) = b64_char v1 # b64_char v2 # b64_char v3 # b64_char v4 # b64_encode cs"
    "char_of (v1 * 4 + v2 div 16) = a" "char_of (v2 mod 16 * 16 + v3 div 4) = b" "char_of (v3 mod 4 * 64 + v4) = c"
proof
  note six = sextets [OF code_bound [of a] code_bound [of b] code_bound [of c]]
  show "b64_encode (a # b # c # cs) = b64_char (code a div 4) # b64_char (code a mod 4 * 16 + code b div 16)
     # b64_char (code b mod 16 * 4 + code c div 64) # b64_char (code c mod 64) # b64_encode cs" by simp
  show "char_of (code a div 4 * 4 + (code a mod 4 * 16 + code b div 16) div 16) = a"
    "char_of ((code a mod 4 * 16 + code b div 16) mod 16 * 16 + (code b mod 16 * 4 + code c div 64) div 4) = b"
    "char_of ((code b mod 16 * 4 + code c div 64) mod 4 * 64 + code c mod 64) = c"
    unfolding six by (rule char_of_char)+
  show "code a div 4 < 64" "code a mod 4 * 16 + code b div 16 < 64" "code b mod 16 * 4 + code c div 64 < 64" "code c mod 64 < 64"
    by (rule six)+
qed

lemma encode_two:
  obtains v1 v2 v3 where "v1 < 64" "v2 < 64" "v3 < 64" "b64_encode [a, b] = [b64_char v1, b64_char v2, b64_char v3, pad_char]"
    "char_of (v1 * 4 + v2 div 16) = a" "char_of (v2 mod 16 * 16 + v3 div 4) = b"
proof
  note six = sextets [OF code_bound [of a] code_bound [of b] code_bound [of b]]
  have e: "code b mod 16 * 4 div 4 = code b mod 16" by simp
  have "code b div 16 * 16 + code b mod 16 = code b" by simp
  then show "char_of (code a div 4 * 4 + (code a mod 4 * 16 + code b div 16) div 16) = a"
    "char_of ((code a mod 4 * 16 + code b div 16) mod 16 * 16 + (code b mod 16 * 4) div 4) = b"
    unfolding six e by simp_all
qed (use sextets [OF code_bound [of a] code_bound [of b] code_bound [of b]] in \<open>simp_all only: b64_encode.simps\<close>)

lemma encode_one:
  obtains v1 v2 where "v1 < 64" "v2 < 64" "b64_encode [a] = [b64_char v1, b64_char v2, pad_char, pad_char]"
    "char_of (v1 * 4 + v2 div 16) = a"
proof
  have "code a div 4 * 4 + code a mod 4 * 16 div 16 = code a" by simp
  then show "char_of (code a div 4 * 4 + (code a mod 4 * 16) div 16) = a" by simp
qed (use sextets [OF code_bound [of a] code_bound [of a] code_bound [of a]] in \<open>simp_all only: b64_encode.simps\<close>)

lemma b64_run_encode: "b64_run 0 l p (b64_encode s) = Some s"
proof (induction s arbitrary: l p rule: b64_encode.induct)
  case (2 a)
  obtain v1 v2 where "v1 < 64" "v2 < 64" "b64_encode [a] = [b64_char v1, b64_char v2, pad_char, pad_char]"
    "char_of (v1 * 4 + v2 div 16) = a" by (rule encode_one)
  then show ?case by (simp add: b64_char_facts del: b64_encode.simps)
next
  case (3 a b)
  obtain v1 v2 v3 where "v1 < 64" "v2 < 64" "v3 < 64" "b64_encode [a, b] = [b64_char v1, b64_char v2, b64_char v3, pad_char]"
    "char_of (v1 * 4 + v2 div 16) = a" "char_of (v2 mod 16 * 16 + v3 div 4) = b" by (rule encode_two)
  then show ?case by (simp add: b64_char_facts del: b64_encode.simps)
next
  case (4 a b c cs)
  obtain v1 v2 v3 v4 where "v1 < 64" "v2 < 64" "v3 < 64" "v4 < 64"
    "b64_encode (a # b # c # cs) = b64_char v1 # b64_char v2 # b64_char v3 # b64_char v4 # b64_encode cs"
    "char_of (v1 * 4 + v2 div 16) = a" "char_of (v2 mod 16 * 16 + v3 div 4) = b" "char_of (v3 mod 4 * 64 + v4) = c"
    by (rule encode_group)
  then show ?case by (simp add: b64_char_facts 4 del: b64_encode.simps)
qed simp

text \<open>The code is a body without padding or dot, and the padding.\<close>

definition body_char :: "char \<Rightarrow> bool" where
  "body_char c \<longleftrightarrow> is_ascii c \<and> c \<noteq> pad_char \<and> c \<noteq> CHR ''.''"

lemma b64_body: "n < 64 \<Longrightarrow> body_char (b64_char n)"
  by (simp add: body_char_def b64_char_facts)

lemma b64_encode_shape:
  obtains body k where "b64_encode s = body @ replicate k pad_char" "k < 3" "list_all body_char body" "(length body + k) mod 4 = 0"
proof -
  have "\<exists>body k. b64_encode s = body @ replicate k pad_char \<and> k < 3 \<and> list_all body_char body \<and> (length body + k) mod 4 = 0"
  proof (induction s rule: b64_encode.induct)
    case 1
    show ?case by (intro exI [of _ "[]"] exI [of _ 0]) simp
  next
    case (2 a)
    obtain v1 v2 where "v1 < 64" "v2 < 64" "b64_encode [a] = [b64_char v1, b64_char v2, pad_char, pad_char]"
      by (rule encode_one)
    then show ?case
      by (intro exI [of _ "[b64_char v1, b64_char v2]"] exI [of _ 2]) (simp add: b64_body numeral_2_eq_2 del: b64_encode.simps)
  next
    case (3 a b)
    obtain v1 v2 v3 where "v1 < 64" "v2 < 64" "v3 < 64" "b64_encode [a, b] = [b64_char v1, b64_char v2, b64_char v3, pad_char]"
      by (rule encode_two)
    then show ?case
      by (intro exI [of _ "[b64_char v1, b64_char v2, b64_char v3]"] exI [of _ 1]) (simp add: b64_body del: b64_encode.simps)
  next
    case (4 a b c cs)
    then obtain body k where "b64_encode cs = body @ replicate k pad_char \<and> k < 3 \<and> list_all body_char body \<and> (length body + k) mod 4 = 0"
      by (elim exE)
    then have cs: "b64_encode cs = body @ replicate k pad_char" "k < 3" "list_all body_char body" "(length body + k) mod 4 = 0"
      by simp_all
    obtain v1 v2 v3 v4 where "v1 < 64" "v2 < 64" "v3 < 64" "v4 < 64"
      "b64_encode (a # b # c # cs) = b64_char v1 # b64_char v2 # b64_char v3 # b64_char v4 # b64_encode cs" by (rule encode_group)
    moreover have "(4 + (length body + k)) mod 4 = 0" using cs(4) by simp
    ultimately show ?case using cs(1-3)
      by (intro exI [of _ "b64_char v1 # b64_char v2 # b64_char v3 # b64_char v4 # body"] exI [of _ k])
         (simp add: b64_body add.assoc del: b64_encode.simps)
  qed
  then show ?thesis by (elim exE conjE) (rule that)
qed

lemma b64_decode_encode: "b64_decode (b64_encode s) = Some s"
proof -
  obtain body k where "b64_encode s = body @ replicate k pad_char" "list_all body_char body" by (rule b64_encode_shape)
  moreover have "is_ascii pad_char" by (simp add: pad_char_def is_ascii_def)
  ultimately have "is_ascii c" if "c \<in> set (b64_encode s)" for c
    using that by (auto simp: list_all_iff body_char_def split: if_splits)
  then have "list_all is_ascii (b64_encode s)" by (simp add: list_all_iff)
  then show ?thesis by (simp add: b64_decode_def b64_run_encode)
qed

lemma missing_padding: "m < 4 \<Longrightarrow> k < 3 \<Longrightarrow> (m + k) mod 4 = 0 \<Longrightarrow> (4 - m) mod 4 = (k::nat)"
proof -
  assume "m < 4" "k < 3" and sum: "(m + k) mod 4 = 0"
  then have "m = 0 \<or> m = 1 \<or> m = 2 \<or> m = 3" "k = 0 \<or> k = 1 \<or> k = 2" by arith+
  with sum show ?thesis by (elim disjE) simp_all
qed

lemma padded_encode: "padded (b64_encode s) = b64_encode s"
proof -
  obtain body k where b: "b64_encode s = body @ replicate k pad_char" "k < 3" "list_all body_char body" "(length body + k) mod 4 = 0"
    by (rule b64_encode_shape)
  have "pad_char \<notin> set body" using b(3) by (auto simp: list_all_iff body_char_def)
  have "dropWhile (\<lambda>c. c = pad_char) (replicate k pad_char @ rev body) = dropWhile (\<lambda>c. c = pad_char) (rev body)"
    by (rule dropWhile_append2) simp
  also have "\<dots> = rev body" using \<open>pad_char \<notin> set body\<close> by (auto simp: dropWhile_eq_self_iff hd_rev) (metis last_in_set)
  finally have "drop_padding (b64_encode s) = body" by (simp add: drop_padding_def b(1))
  moreover have "(4 - length body mod 4) mod 4 = k"
    using b(2,4) by (intro missing_padding) (simp_all add: mod_add_left_eq)
  ultimately show ?thesis by (simp add: padded_def b(1))
qed

lemma b64_no_dot: "CHR ''.'' \<notin> set (b64_encode s)"
proof -
  obtain body k where "b64_encode s = body @ replicate k pad_char" "list_all body_char body" by (rule b64_encode_shape)
  then show ?thesis by (auto simp: list_all_iff body_char_def pad_char_def)
qed

lemma rsplit_dot_token: "CHR ''.'' \<notin> set sig \<Longrightarrow> rsplit_dot (p @ CHR ''.'' # sig) = Some (p, sig)"
proof -
  assume "CHR ''.'' \<notin> set sig"
  then have "takeWhile (\<lambda>c. c \<noteq> CHR ''.'') (rev sig @ CHR ''.'' # rev p) = rev sig" by (subst takeWhile_append2) auto
  then show ?thesis by (simp add: rsplit_dot_def)
qed

lemma rsplit_dot_join:
  assumes "rsplit_dot t = Some (p, sig)"
  shows "t = p @ ''.'' @ sig"
proof -
  let ?s = "takeWhile (\<lambda>c. c \<noteq> CHR ''.'') (rev t)"
  have dot: "CHR ''.'' \<in> set t" and ps: "sig = rev ?s" "p = take (length t - length sig - 1) t"
    using assms by (auto simp: rsplit_dot_def Let_def split: if_splits)
  obtain u where u: "dropWhile (\<lambda>c. c \<noteq> CHR ''.'') (rev t) = CHR ''.'' # u"
  proof -
    have ne: "dropWhile (\<lambda>c. c \<noteq> CHR ''.'') (rev t) \<noteq> []" using dot by (simp add: dropWhile_eq_Nil_conv)
    from hd_dropWhile [OF ne] ne show ?thesis using that by (cases "dropWhile (\<lambda>c. c \<noteq> CHR ''.'') (rev t)") auto
  qed
  have "rev t = ?s @ CHR ''.'' # u" using takeWhile_dropWhile_id [of "\<lambda>c. c \<noteq> CHR ''.''" "rev t"] u by simp
  then have "t = rev (?s @ CHR ''.'' # u)" by (metis rev_rev_ident)
  then have t: "t = rev u @ ''.'' @ sig" using ps(1) by simp
  then have "p = rev u" using ps(2) by simp
  with t show ?thesis by simp
qed

section \<open>When the loop ends\<close>

abbreviation delta :: "(nat \<Rightarrow> nat) \<Rightarrow> nat \<Rightarrow> int" where
  "delta r i \<equiv> choice r i DELTAS"

definition reachable :: "(nat \<Rightarrow> nat) \<Rightarrow> int \<Rightarrow> nat \<Rightarrow> int set" where
  "reachable r a k = {a + delta r i | i. k \<le> i \<and> 0 < a + delta r i}"

lemma delta_in: "delta r i \<in> set DELTAS"
  unfolding choice_def by (rule nth_mem) (simp add: DELTAS_def)

lemma reachable_finite: "finite (reachable r a k)"
  by (rule finite_subset [of _ "(+) a ` set DELTAS"]) (use delta_in in \<open>auto simp: reachable_def\<close>)

lemma reachable_step: "reachable r a k = (if 0 < a + delta r k then {a + delta r k} else {}) \<union> reachable r a (Suc k)"
  unfolding reachable_def by (auto simp: le_Suc_eq) (metis Suc_leI le_neq_implies_less)+

text \<open>What the loop has added when it ends.\<close>

definition chosen :: "(nat \<Rightarrow> nat) \<Rightarrow> int \<Rightarrow> nat \<Rightarrow> int list \<Rightarrow> int list \<Rightarrow> bool" where
  "chosen r a k cs xs \<longleftrightarrow> (distinct cs \<and> length cs \<le> 3 \<longrightarrow>
     distinct xs \<and> length xs = 3 \<and> set cs \<subseteq> set xs \<and> set xs \<subseteq> set cs \<union> reachable r a k)"

lemma chosen_step:
  assumes "chosen r a (Suc k) (if a + delta r k > 0 \<and> a + delta r k \<notin> set cs then cs @ [a + delta r k] else cs) xs" "length cs < 3"
  shows "chosen r a k cs xs"
  using assms reachable_step [of r a k] by (auto simp: chosen_def split: if_splits)

lemma add_choices_sound: "add_choices r a k cs = Some y \<Longrightarrow> chosen r a k cs (fst y)"
proof (rule add_choices.raw_induct [where P = "\<lambda>r a k cs y. chosen r a k cs (fst y)"])
  fix add r a k cs y
  assume ih: "\<And>r a k cs y. add r a k cs = Some y \<Longrightarrow> chosen r a k cs (fst y)"
    and run: "(if \<not> length cs < 3 then Some (cs, k)
      else let c = a + delta r k in add r a (Suc k) (if c > 0 \<and> c \<notin> set cs then cs @ [c] else cs)) = Some y"
  show "chosen r a k cs (fst y)"
  proof (cases "length cs < 3")
    case True
    with run have "add r a (Suc k) (if a + delta r k > 0 \<and> a + delta r k \<notin> set cs then cs @ [a + delta r k] else cs) = Some y"
      by (simp add: Let_def)
    from chosen_step [OF ih [OF this] True] show ?thesis .
  next
    case False
    with run show ?thesis by (auto simp: chosen_def)
  qed
qed

text \<open>Two different differences that lead to positive numbers are drawn.\<close>

definition enough :: "(nat \<Rightarrow> nat) \<Rightarrow> int \<Rightarrow> nat \<Rightarrow> bool" where
  "enough r a k \<longleftrightarrow> (\<exists>i j. k \<le> i \<and> k \<le> j \<and> 0 < a + delta r i \<and> 0 < a + delta r j \<and> delta r i \<noteq> delta r j)"

lemma add_choices_returns:
  "distinct cs \<Longrightarrow> 3 \<le> card (set cs \<union> {a + delta r i | i. k \<le> i \<and> i < k + n \<and> 0 < a + delta r i})
     \<Longrightarrow> add_choices r a k cs \<noteq> None"
proof (induction n arbitrary: k cs)
  case 0
  have "{a + delta r i | i. k \<le> i \<and> i < k \<and> 0 < a + delta r i} = {}" by auto
  with 0 have "3 \<le> card (set cs)" by simp
  then have "\<not> length cs < 3" using 0(1) by (simp add: distinct_card)
  then show ?case by (subst add_choices.simps) simp
next
  case (Suc n)
  let ?cs = "if a + delta r k > 0 \<and> a + delta r k \<notin> set cs then cs @ [a + delta r k] else cs"
  have "{a + delta r i | i. k \<le> i \<and> i < k + Suc n \<and> 0 < a + delta r i}
      = (if 0 < a + delta r k then {a + delta r k} else {}) \<union> {a + delta r i | i. Suc k \<le> i \<and> i < Suc k + n \<and> 0 < a + delta r i}"
    by (auto simp: le_Suc_eq) (metis Suc_leI le_neq_implies_less)+
  then have "set ?cs \<union> {a + delta r i | i. Suc k \<le> i \<and> i < Suc k + n \<and> 0 < a + delta r i}
      = set cs \<union> {a + delta r i | i. k \<le> i \<and> i < k + Suc n \<and> 0 < a + delta r i}"
    by auto
  then have "add_choices r a (Suc k) ?cs \<noteq> None" using Suc.prems by (intro Suc.IH) auto
  then show ?case by (subst add_choices.simps) (simp add: Let_def)
qed

lemma delta_nonzero: "delta r i \<noteq> 0"
  using delta_in [of r i] by (auto simp: DELTAS_def)

lemma add_choices_ends: "add_choices r a k [a] \<noteq> None \<longleftrightarrow> enough r a k"
proof
  assume "enough r a k"
  then obtain i j where ij: "k \<le> i" "k \<le> j" "0 < a + delta r i" "0 < a + delta r j" "delta r i \<noteq> delta r j"
    by (auto simp: enough_def)
  let ?n = "Suc (max i j) - k"
  let ?S = "set [a] \<union> {a + delta r i | i. k \<le> i \<and> i < k + ?n \<and> 0 < a + delta r i}"
  have "{a, a + delta r i, a + delta r j} \<subseteq> ?S" using ij by auto
  moreover have "finite ?S" by (auto intro: finite_subset [OF _ reachable_finite [of r a k]] simp: reachable_def)
  moreover have "card {a, a + delta r i, a + delta r j} = 3" using ij(5) delta_nonzero [of r i] delta_nonzero [of r j] by simp
  ultimately have "3 \<le> card ?S" using card_mono [of ?S "{a, a + delta r i, a + delta r j}"] by simp
  then show "add_choices r a k [a] \<noteq> None" by (intro add_choices_returns [of _ _ _ _ ?n]) auto
next
  assume "add_choices r a k [a] \<noteq> None"
  then obtain y where "add_choices r a k [a] = Some y" by blast
  from add_choices_sound [OF this] have y: "distinct (fst y)" "length (fst y) = 3" "set (fst y) \<subseteq> {a} \<union> reachable r a k"
    by (simp_all add: chosen_def)
  show "enough r a k"
  proof (rule ccontr)
    assume "\<not> enough r a k"
    then have same: "x = z" if "x \<in> reachable r a k" "z \<in> reachable r a k" for x z
      using that by (auto simp: enough_def reachable_def)
    obtain z where "set (fst y) \<subseteq> {a, z}" using y(3) same by (cases "reachable r a k = {}") blast+
    then have "card (set (fst y)) \<le> card {a, z}" by (rule card_mono [rotated]) simp
    also have "\<dots> \<le> 2" by (simp add: card_insert_if)
    finally show False using y(1,2) by (simp add: distinct_card)
  qed
qed

text \<open>Three different differences are always enough: the answer is at least 3.\<close>

lemma randint_bounds: "a \<le> b \<Longrightarrow> a \<le> randint r k a b \<and> randint r k a b \<le> b"
proof -
  assume "a \<le> b"
  then have "r k mod nat (b - a + 1) < nat (b - a + 1)" by (intro mod_less_divisor) simp
  then show ?thesis by (simp add: randint_def)
qed

lemma product_bounds:
  fixes x y :: int
  assumes "2 \<le> x" "x \<le> 9" "2 \<le> y" "y \<le> 9"
  shows "4 \<le> x * y" "x * y \<le> 81"
  using mult_mono [of 2 x 2 y] mult_mono [of x 9 y 9] assms by simp_all

lemma answer_bounds: "3 \<le> snd (question r k) \<and> snd (question r k) \<le> 81"
proof -
  note sum = randint_bounds [of 5 20 r "k + 1"] randint_bounds [of 3 15 r "k + 2"]
  note difference = randint_bounds [of 12 30 r "k + 1"] randint_bounds [of 3 "randint r (k + 1) 12 30 - 3" r "k + 2"]
  note product = product_bounds [of "randint r (k + 1) 2 9" "randint r (k + 2) 2 9"]
    randint_bounds [of 2 9 r "k + 1"] randint_bounds [of 2 9 r "k + 2"]
  consider "choice r k ''+-*'' = CHR ''+''" | "choice r k ''+-*'' = CHR ''-''"
    | "choice r k ''+-*'' \<noteq> CHR ''+''" "choice r k ''+-*'' \<noteq> CHR ''-''" by blast
  then show ?thesis
  proof cases
    case 1
    with sum show ?thesis by (simp add: question_def Let_def)
  next
    case 2
    with difference show ?thesis by (simp add: question_def Let_def)
  next
    case 3
    with product show ?thesis by (simp add: question_def Let_def)
  qed
qed

lemma three_are_enough:
  assumes "3 \<le> a" "k \<le> i" "k \<le> j" "k \<le> m" "delta r i \<noteq> delta r j" "delta r i \<noteq> delta r m" "delta r j \<noteq> delta r m"
  shows "enough r a k"
proof -
  have "0 < a + delta r x \<or> delta r x = -3" for x using delta_in [of r x] assms(1) by (auto simp: DELTAS_def)
  note pos = this [of i] this [of j] this [of m]
  show ?thesis
  proof (cases "0 < a + delta r i \<and> 0 < a + delta r j")
    case True
    with assms(2,3,5) show ?thesis unfolding enough_def by blast
  next
    case False
    then have "0 < a + delta r m" using pos assms(5-) by argo
    moreover have "0 < a + delta r i \<or> 0 < a + delta r j" using pos assms(5) by argo
    ultimately show ?thesis using assms(2-4,6,7) unfolding enough_def by blast
  qed
qed

section \<open>Shuffling\<close>

lemma mset_shuffle: "i < length xs \<Longrightarrow> mset (shuffle_down r k i xs) = mset xs"
proof (induction r k i xs rule: shuffle_down.induct)
  case (2 r k i xs)
  have "r k mod (i + 2) < length xs" 
  proof -
    have "r k mod (i + 2) < i + 2" by (intro mod_less_divisor) simp
    with 2(2) show ?thesis by linarith
  qed
  then have "mset (swap (Suc i) (r k mod (i + 2)) xs) = mset xs" using 2(2) by (simp add: swap_def mset_swap)
  moreover have "i < length (swap (Suc i) (r k mod (i + 2)) xs)" using 2(2) by (simp add: swap_def)
  ultimately show ?case using 2(1) by simp
qed simp

lemma make_challenge_cases:
  "make_challenge mac r k secret = (case add_choices r (snd (question r k)) (k + 3) [snd (question r k)] of
      None \<Rightarrow> None
    | Some (choices, k') \<Rightarrow> Some \<lparr>ch_question = fst (question r k), ch_choices = shuffle_down r k' (length choices - 1) choices,
        ch_token = payload (snd (question r k)) @ ''.'' @ signature mac secret (payload (snd (question r k)))\<rparr>)"
  by (cases "question r k") (simp add: make_challenge_def Let_def split: option.split)

section \<open>Properties\<close>

text \<open>
  C10: Making a challenge ends exactly when the random source draws, at any time, two different
  differences that lead to positive numbers (three different ones always do, as the answer is at
  least 3); then the challenge offers three different positive numbers, the answer among them.
\<close>

theorem challenge_terminates:
  "case make_challenge mac r k secret of
     None \<Rightarrow> \<not> enough r (snd (question r k)) (k + 3)
   | Some ch \<Rightarrow> enough r (snd (question r k)) (k + 3) \<and> length (ch_choices ch) = 3 \<and> distinct (ch_choices ch)
       \<and> list_all (\<lambda>c. 0 < c) (ch_choices ch) \<and> snd (question r k) \<in> set (ch_choices ch)"
proof (cases "add_choices r (snd (question r k)) (k + 3) [snd (question r k)]")
  case None
  then show ?thesis using add_choices_ends [of r "snd (question r k)" "k + 3"] by (simp add: make_challenge_cases)
next
  case (Some y)
  let ?a = "snd (question r k)"
  obtain choices k' where y: "y = (choices, k')" by (cases y)
  have c: "distinct choices" "length choices = 3" "?a \<in> set choices" "set choices \<subseteq> {?a} \<union> reachable r ?a (k + 3)"
    using add_choices_sound [OF Some] by (simp_all add: y chosen_def)
  have m: "mset (shuffle_down r k' (length choices - 1) choices) = mset choices" using c(2) by (intro mset_shuffle) simp
  have "enough r ?a (k + 3)" using Some add_choices_ends [of r ?a "k + 3"] by auto
  moreover have "\<forall>x\<in>set choices. 0 < x" using c(4) answer_bounds [of r k] by (auto simp: reachable_def)
  ultimately show ?thesis
    using c m [THEN mset_eq_setD] m [THEN mset_eq_length] mset_eq_imp_distinct_iff [OF m]
    by (simp add: make_challenge_cases Some y list_all_iff)
qed

text \<open>The digest is hexadecimal; \<open>json.loads\<close> reads back what \<open>json.dumps\<close> has written.\<close>

definition hex_mac :: "(string \<Rightarrow> string \<Rightarrow> string) \<Rightarrow> bool" where
  "hex_mac mac \<longleftrightarrow> (\<forall>s p. list_all is_hex (mac s p))"

definition reads_back :: "(string \<Rightarrow> py_exn + json) \<Rightarrow> bool" where
  "reads_back loads \<longleftrightarrow> (\<forall>n. 0 < n \<and> n < 100 \<longrightarrow>
     loads (json_dumps_text (JObj [(''a'', JInt n)])) = Inr (JObj [(''a'', JInt n)]))"

lemma hex_no_dot: "hex_mac mac \<Longrightarrow> CHR ''.'' \<notin> set (signature mac s p)"
proof
  assume "hex_mac mac" "CHR ''.'' \<in> set (signature mac s p)"
  then have "is_hex (CHR ''.'')" unfolding hex_mac_def signature_def list_all_iff by (blast dest: in_set_takeD)
  then show False by (simp add: is_hex_def is_digit_def)
qed

text \<open>
  C11: With the secret it was made with, the token of a challenge is accepted with the answer to its
  question, and with no other number.
\<close>

theorem challenge_accepts_answer:
  assumes "hex_mac mac" "reads_back loads" "make_challenge mac r k secret = Some ch"
  shows "verify_challenge mac loads secret (ch_token ch) c \<longleftrightarrow> c = snd (question r k)"
proof -
  have t: "ch_token ch = payload (snd (question r k)) @ ''.'' @ signature mac secret (payload (snd (question r k)))"
    using assms(3) by (auto simp: make_challenge_cases split: option.splits prod.splits)
  have "b64_decode (padded (payload n)) = Some (json_dumps_text (JObj [(''a'', JInt n)]))" for n
    by (simp add: payload_def padded_encode b64_decode_encode)
  moreover have "loads (json_dumps_text (JObj [(''a'', JInt (snd (question r k)))])) = Inr (JObj [(''a'', JInt (snd (question r k)))])"

  proof -
    have "0 < snd (question r k)" "snd (question r k) < 100" using answer_bounds [of r k] by linarith+
    with assms(2) show ?thesis by (simp add: reads_back_def)
  qed
  ultimately show ?thesis
    by (auto simp: verify_challenge_def t rsplit_dot_token [OF hex_no_dot [OF assms(1)]] jget_def)
qed

definition sample_loads :: "string \<Rightarrow> py_exn + json" where
  "sample_loads t = (case py_int (butlast (drop 6 t)) of None \<Rightarrow> Inl JSONDecodeError | Some n \<Rightarrow> Inr (JObj [(''a'', JInt n)]))"

definition sample_mac :: "string \<Rightarrow> string \<Rightarrow> string" where
  "sample_mac s p = ''00''"

lemma sample_reads: "hex_mac sample_mac" "reads_back sample_loads"
proof -
  show "hex_mac sample_mac" by (simp add: hex_mac_def sample_mac_def is_hex_def is_digit_def)
  have "sample_loads (json_dumps_text (JObj [(''a'', JInt n)])) = Inr (JObj [(''a'', JInt n)])" if "0 < n" "n < 100" for n
  proof -
    have "length (show_nat (nat \<bar>n\<bar>)) \<le> 3" using that by (intro length_show_nat) simp_all
    then have "py_int (show_int n) = Some n" by (intro py_int_show_int) (simp add: int_limit_def)
    moreover have "drop 6 (json_dumps_text (JObj [(''a'', JInt n)])) = show_int n @ ''}''"
      by (simp add: json_dumps_text_def json_string_def json_escape_def)
    ultimately show ?thesis by (simp add: sample_loads_def)
  qed
  then show "reads_back sample_loads" by (simp add: reads_back_def)
qed

lemma sample_choices: "add_choices (\<lambda>i. i) 11 3 [11] = Some ([11, 12, 13], 5)"
  by (simp add: add_choices.simps choice_def DELTAS_def)

lemma sample_question: "question (\<lambda>i. i) 0 = (''6 + 5'', 11)"
  by code_simp

lemma sample_challenge: "make_challenge sample_mac (\<lambda>i. i) 0 ''key'' = Some \<lparr>ch_question = ''6 + 5'', ch_choices = [12, 11, 13],
    ch_token = ''eyJhIjogMTF9.00''\<rparr>"
proof -
  have "payload 11 = ''eyJhIjogMTF9''" "shuffle_down (\<lambda>i. i) 5 (Suc (Suc 0)) [11, 12, 13] = [12, 11, 13 :: int]" by code_simp+
  then show ?thesis by (simp add: make_challenge_def sample_question sample_choices signature_def sample_mac_def del: shuffle_down.simps)
qed

theorem challenge_accepts_answer_witness:
  "verify_challenge sample_mac sample_loads ''key'' ''eyJhIjogMTF9.00'' 11
    \<and> \<not> verify_challenge sample_mac sample_loads ''key'' ''eyJhIjogMTF9.00'' 12"
  using challenge_accepts_answer [OF sample_reads sample_challenge] by (simp add: sample_question)

text \<open>
  C12: The answer can be read from the token itself: what stands before its dot decodes, without
  any secret, to the answer.  The page that asks the question holds this token.
\<close>

theorem token_reveals_answer:
  assumes "make_challenge mac r k secret = Some ch"
  shows "b64_decode (takeWhile (\<lambda>c. c \<noteq> CHR ''.'') (ch_token ch)) = Some (json_dumps_text (JObj [(''a'', JInt (snd (question r k)))]))"
proof -
  have t: "ch_token ch = payload (snd (question r k)) @ CHR ''.'' # signature mac secret (payload (snd (question r k)))"
    using assms by (auto simp: make_challenge_cases split: option.splits prod.splits)
  have "takeWhile (\<lambda>c. c \<noteq> CHR ''.'') (payload n @ CHR ''.'' # s) = payload n" for n s
    using b64_no_dot by (subst takeWhile_append2) (auto simp: payload_def)
  then show ?thesis by (simp add: t payload_def b64_decode_encode)
qed

theorem token_reveals_answer_witness:
  "b64_decode ''eyJhIjogMTF9'' = Some (json_dumps_text (JObj [(''a'', JInt 11)]))"
  using token_reveals_answer [OF sample_challenge] by (simp add: sample_question)

text \<open>
  The cookie that lets a visitor pass is set only for a token signed with the secret and a
  number that belongs to it, and the visitor is sent to a path, not to a location of another host.
\<close>

theorem cleared_only_signed:
  assumes "bot_verify mac loads secret proto f = Cleared target secure"
  shows "\<exists>p c choice_text. map_of f ''token'' = Some (p @ ''.'' @ signature mac secret p)
    \<and> map_of f ''choice'' = Some choice_text \<and> py_int choice_text = Some c
    \<and> verify_challenge mac loads secret (p @ ''.'' @ signature mac secret p) c
    \<and> starts_with ''/'' target \<and> \<not> starts_with ''//'' target \<and> secure = (proto = ''https'')"
proof -
  let ?field = "\<lambda>k d. case map_of f k of None \<Rightarrow> d | Some t \<Rightarrow> t"
  obtain c where c: "py_int (?field ''choice'' []) = Some c" "verify_challenge mac loads secret (?field ''token'' []) c"
    "target = return_target (?field ''ret'' ''/'')" "secure = (proto = ''https'')"
    using assms by (auto simp: bot_verify_def Let_def split: option.splits if_splits)
  obtain p sig where s: "rsplit_dot (?field ''token'' []) = Some (p, sig)" "signature mac secret p = sig"
    using c(2) by (auto simp: verify_challenge_def split: option.splits if_splits)
  have "?field ''token'' [] = p @ ''.'' @ sig" by (rule rsplit_dot_join [OF s(1)])
  moreover have "py_int [] = None" by code_simp
  moreover have "starts_with ''/'' target" "\<not> starts_with ''//'' target"
    by (auto simp: c(3) return_target_def starts_with_def)
  ultimately show ?thesis using c s by (auto split: option.splits)
qed

theorem cleared_only_signed_witness:
  "\<exists>c. verify_challenge sample_mac sample_loads ''key'' ''eyJhIjogMTF9.00'' c"
proof -
  have "bot_verify sample_mac sample_loads ''key'' ''https'' [(''token'', ''eyJhIjogMTF9.00''), (''choice'', ''11''), (''ret'', ''/shop'')]
      = Cleared ''/shop'' True" by code_simp
  from cleared_only_signed [OF this] show ?thesis by auto
qed

end
