(* ===== verification/Spec2Isabelle.thy ===== *)
theory Spec2Isabelle
  imports HostAgentEffects RuleProperties DdosIngest SocCycleProps SyslogProps WafIngestProps RawLog AuthSafety NginxProps SiteSafety SettingsSafety BotChallenge
begin

text \<open>
  A verification library of WARDNODE, a console that puts web sites behind an Nginx reverse proxy
  with ModSecurity, collects what the proxy reports, detects attackers and blocks them.

  \<^bold>\<open>The program and its parts.\<close>  The console is a Flask application (\<^verbatim>\<open>src/app\<close>) over a
  relational database.  Its parts, and how they meet:

  \<^item> The log of the proxy is followed by \<^verbatim>\<open>app/proxy/ingest.py\<close>, which stores an event and a raw record
    of every alert; the detection cycle of \<^verbatim>\<open>app/soc\<close> aggregates the events by source address, opens or
    refreshes incidents, enriches them, has a language model analyse them and lets
    \<^verbatim>\<open>app/soc/soar.py\<close> ban addresses through CrowdSec (\<^verbatim>\<open>app/ddos\<close>) or the agent of the host.
  \<^item> Raw records are archived and deleted by \<^verbatim>\<open>app/proxy/rawlog_service.py\<close>, events and audit
    entries forwarded to a syslog server by \<^verbatim>\<open>app/proxy/syslog_worker.py\<close>.
  \<^item> Operators administer sites through the views of \<^verbatim>\<open>app/proxy/routes.py\<close>; what they store is rendered
    into the configuration of Nginx by \<^verbatim>\<open>app/proxy/services.py\<close>.
  \<^item> The agent \<^verbatim>\<open>host-agent/wardnode-wf-agent.py\<close> runs as root on the host and turns commands from
    a socket into calls of ufw and iptables.
  \<^item> Accounts and logins (\<^verbatim>\<open>app/auth\<close>) guard all views; every action leaves an entry in the audit trail.

  \<^bold>\<open>Python.\<close>  \<^verbatim>\<open>Prelude\<close> (strings, decimal numbers, \<open>py_exn\<close>, the collections of rewrite rules), \<^verbatim>\<open>PyRegex\<close> (a
  backtracking matcher), \<^verbatim>\<open>PyIp\<close> and \<^verbatim>\<open>PyIpText\<close> (\<open>ipaddress\<close>), \<^verbatim>\<open>PyTime\<close> (times as microseconds since
  the epoch, \<open>strptime\<close>), \<^verbatim>\<open>PyFloat\<close> (rounded arithmetic), \<^verbatim>\<open>PyJson\<close> (documents, the printer), \<^verbatim>\<open>PyUrl\<close>
  (\<open>urlsplit\<close>).  A text is a list of the code points 0 to 255.

  \<^bold>\<open>State.\<close>  \<^verbatim>\<open>Models\<close> has one record per table of \<^verbatim>\<open>app/models.py\<close> and the record \<open>db\<close> of all of
  them; \<^verbatim>\<open>Store\<close> has the session (\<open>committed\<close> and \<open>working\<close> tables, the calls made to the outside), the
  operations on it (functions that return a value or an exception together with the new session),
  \<open>AppConfig\<close> and \<open>log_audit\<close>; \<^verbatim>\<open>Atomic\<close> the rules for operations that stay consistent whatever fails;
  \<^verbatim>\<open>Web\<close> cookies, requests, the current user and the role check; \<^verbatim>\<open>Keeping\<close> the rules by which an
  invariant of the tables is carried through a view.  What is outside the program is the record
  \<open>env\<close>: the clock, the failures of commits, the cipher, answers of services.

  \<^bold>\<open>Components.\<close>
  \<^item> \<^verbatim>\<open>HostAgent\<close>: the daemon (\<open>handle\<close>, \<open>serve_conn\<close>, \<open>protect_host_port\<close>) and the client of its protocol
    (\<^verbatim>\<open>app/modules/socket_client.py\<close>).  \<^verbatim>\<open>HostAgentSafety\<close> shows which command lines it can run,
    \<^verbatim>\<open>HostAgentEffects\<close> what they do to the chain and that framing survives any segmentation.
  \<^item> \<^verbatim>\<open>RuleValidation\<close>: the validators of custom rules, exclusions, snippets, headers and domains;
    \<^verbatim>\<open>RuleProperties\<close> says exactly what each accepts.
  \<^item> \<^verbatim>\<open>SiteConfig\<close>, \<^verbatim>\<open>NginxRender\<close>, \<^verbatim>\<open>Countries\<close>: the default rows of a site and every generated file.
    \<^verbatim>\<open>NginxConf\<close> is the lexical grammar of the proxy, \<^verbatim>\<open>NginxProps\<close> the refinement: the rendered text is read
    as exactly the directives of an abstract plan, if the values are words of the grammar.
  \<^item> \<^verbatim>\<open>SiteViews\<close>, \<^verbatim>\<open>SiteForms\<close>: the views on sites; \<^verbatim>\<open>SiteSafety\<close> the invariant over all their
    requests, who may change sites, and when a site counts as closed to the outside.
  \<^item> \<^verbatim>\<open>Settings\<close>: the views on credentials, mail, syslog, retention and resets; \<^verbatim>\<open>SettingsSafety\<close> shows that
    secrets are stored encrypted, that accepted syslog settings are in force, and how a retention stops pruning.
  \<^item> \<^verbatim>\<open>BotChallenge\<close>: the arithmetic challenge, its token and its check, with their properties.
  \<^item> \<^verbatim>\<open>Auth\<close>, \<^verbatim>\<open>AuthRoutes\<close>: accounts, password reset, login with a second factor; \<^verbatim>\<open>AuthProps\<close> has the laws
    of the account table as locales and their interpretations, \<^verbatim>\<open>AuthSafety\<close> the properties of runs.
  \<^item> \<^verbatim>\<open>Encryption\<close>: secrets at rest (\<^verbatim>\<open>app/encryption.py\<close>).
  \<^item> \<^verbatim>\<open>WafIngest\<close>, \<^verbatim>\<open>WafIngestProps\<close>: the reader of the proxy's log; only well-formed rows are appended, once each.
  \<^item> \<^verbatim>\<open>RawLog\<close>: retention and archives; nothing is deleted before it is archived.
  \<^item> \<^verbatim>\<open>Syslog\<close>, \<^verbatim>\<open>SyslogProps\<close>: frames, redaction, cursors; the backlog is drained and no cursor passes a row that
    was not handed to the network.
  \<^item> \<^verbatim>\<open>BanSafety\<close>, \<^verbatim>\<open>DdosIngest\<close>: the guards of a ban against a specification on addresses, the control of
    CrowdSec, the poller of its alerts.
  \<^item> \<^verbatim>\<open>SocDetect\<close>, \<^verbatim>\<open>SocEnrich\<close>, \<^verbatim>\<open>SocSchema\<close>, \<^verbatim>\<open>SocAnalysis\<close>, \<^verbatim>\<open>Soar\<close>, \<^verbatim>\<open>SocCycle\<close>: the detection cycle and its
    parts; \<^verbatim>\<open>SocEnrichProps\<close> refines the synchronisation of techniques to an update of a map, \<^verbatim>\<open>SoarSafety\<close> and
    \<^verbatim>\<open>SocCycleProps\<close> state what a run and a cycle guarantee whatever fails in them.
  \<^bold>\<open>Loops and bounds.\<close>  Loops over finite data are structural recursions or have a termination proof.  The
  loop of the challenge draws random numbers until it has found two that differ; it is a
  \<open>partial_function\<close>, and \<open>challenge_terminates\<close> says for which random streams it ends.  No definition runs on
  fuel.  \<open>int_limit\<close> is the 4300 digits at which the interpreter refuses to read an integer; the other bounds are
  constants of the code under their own names.

  \<^bold>\<open>Arguments of the model.\<close>  Not part of the repository, and therefore parameters: the answers of iptables, ufw,
  CrowdSec, Docker, certbot, the language models and the reputation service; the Fernet cipher, the hash of
  passwords and of challenges, the one-time codes; the reader of JSON, the resolver of names, country lookups.
  Hypotheses on them are named in the theorems that need them and instantiated in their witnesses.

  \<^bold>\<open>Not modelled.\<close>  Pages that only read tables into templates and their exports; the texts of mails and of
  the HTML pages; threads that sleep and repeat (one round of each is modelled); backups through \<^verbatim>\<open>pg_dump\<close> and
  \<^verbatim>\<open>tar\<close>; training and scoring with scikit-learn; downloads of GeoIP files; the pages that start and stop containers
  through the Docker engine; the set-up of Flask, its CSRF check and rate limits; the migrations.  They are input
  and output, or calls of third-party packages, around the logic above.
\<close>

end
